(* ===== verification/Prelude.thy ===== *)
theory Prelude
  imports Main "HOL-Library.Char_ord" "HOL-Library.List_Lexorder" "HOL-Library.Multiset"
begin

text \<open>
  Shared vocabulary of the development.

  \<^item> Python exceptions: every fallible function of the model returns a sum, \<open>Inl\<close> the
    exception and \<open>Inr\<close> the value; \<open>andthen\<close> is sequencing (a raise skips the rest),
    \<open>require\<close> is an \<open>if not cond: raise\<close> guard, \<open>traverse\<close> is a comprehension whose body
    may raise, \<open>fold_result\<close> a loop whose body may raise.
  \<^item> Python strings: \<open>string\<close>, one \<open>char\<close> per code point, so the code points U+0000 to
    U+00FF. \<open>strip\<close>, \<open>lower\<close>, \<open>replace_char\<close> and \<open>str_of_int\<close> are \<open>str.strip\<close>,
    \<open>str.lower\<close>, a one-character \<open>str.replace\<close> and \<open>str(int)\<close> on that range. On these code
    points NFC normalisation is the identity (no combining mark is below U+0300).
  \<^item> Python dictionaries: association lists in insertion order (\<open>dict_put\<close> overwrites in
    place or appends, as \<open>d[k] = v\<close> does); \<open>map_of\<close> is the lookup.

  The collection \<open>result_simps\<close> holds the equations that take a sequence of guarded steps
  apart; proofs about an operation use it with the operation's definition.
\<close>

named_theorems result_simps \<open>elimination of sequenced fallible steps\<close>

section \<open>Fallible computations\<close>

definition andthen :: "'e + 'a \<Rightarrow> ('a \<Rightarrow> 'e + 'b) \<Rightarrow> 'e + 'b" where
  "andthen r f = (case r of Inl e \<Rightarrow> Inl e | Inr x \<Rightarrow> f x)"

definition require :: "bool \<Rightarrow> 'e \<Rightarrow> 'e + unit" where
  "require b e = (if b then Inr () else Inl e)"

definition from_option :: "'e \<Rightarrow> 'a option \<Rightarrow> 'e + 'a" where
  "from_option e m = (case m of None \<Rightarrow> Inl e | Some x \<Rightarrow> Inr x)"

fun traverse :: "('a \<Rightarrow> 'e + 'b) \<Rightarrow> 'a list \<Rightarrow> 'e + 'b list" where
  "traverse f [] = Inr []"
| "traverse f (x # xs) =
     andthen (f x) (\<lambda>y. andthen (traverse f xs) (\<lambda>ys. Inr (y # ys)))"

fun fold_result :: "('a \<Rightarrow> 's \<Rightarrow> 'e + 's) \<Rightarrow> 'a list \<Rightarrow> 's \<Rightarrow> 'e + 's" where
  "fold_result f [] s = Inr s"
| "fold_result f (x # xs) s = andthen (f x s) (fold_result f xs)"

lemma andthen_simps [simp]:
  "andthen (Inl e) f = Inl e"
  "andthen (Inr x) f = f x"
  by (simp_all add: andthen_def)

lemma andthen_eq_Inr [result_simps]:
  "andthen r f = Inr y \<longleftrightarrow> (\<exists>x. r = Inr x \<and> f x = Inr y)"
  by (cases r) auto

lemma andthen_eq_Inl [result_simps]:
  "andthen r f = Inl e \<longleftrightarrow> r = Inl e \<or> (\<exists>x. r = Inr x \<and> f x = Inl e)"
  by (cases r) auto

lemma andthen_assoc: "andthen (andthen r f) g = andthen r (\<lambda>x. andthen (f x) g)"
  by (cases r) auto

lemma require_True [simp]: "require True e = Inr ()"
  by (simp add: require_def)

lemma require_False [simp]: "require False e = Inl e"
  by (simp add: require_def)

lemma require_eq_Inr [result_simps]: "require b e = Inr u \<longleftrightarrow> b"
  by (cases u) (simp add: require_def)

lemma require_eq_Inl [result_simps]: "require b e = Inl e' \<longleftrightarrow> \<not> b \<and> e' = e"
  by (auto simp: require_def)

lemma from_option_eq_Inr [result_simps]: "from_option e m = Inr x \<longleftrightarrow> m = Some x"
  by (cases m) (auto simp: from_option_def)

lemma from_option_eq_Inl [result_simps]: "from_option e m = Inl e' \<longleftrightarrow> m = None \<and> e' = e"
  by (cases m) (auto simp: from_option_def)

lemma from_option_simps [simp]:
  "from_option e None = Inl e"
  "from_option e (Some x) = Inr x"
  by (simp_all add: from_option_def)

lemma traverse_cong [fundef_cong]:
  "xs = ys \<Longrightarrow> (\<And>x. x \<in> set ys \<Longrightarrow> f x = g x) \<Longrightarrow> traverse f xs = traverse g ys"
proof (induction xs arbitrary: ys)
  case (Cons x xs)
  then show ?case by (cases ys) (auto simp: andthen_def split: sum.splits)
qed simp

lemma fold_result_cong [fundef_cong]:
  "xs = ys \<Longrightarrow> s = t \<Longrightarrow> (\<And>x u. x \<in> set ys \<Longrightarrow> f x u = g x u)
     \<Longrightarrow> fold_result f xs s = fold_result g ys t"
proof (induction xs arbitrary: ys s t)
  case (Cons x xs)
  then show ?case by (cases ys) (auto simp: andthen_def split: sum.splits)
qed simp

lemma traverse_eq_Inr: "traverse f xs = Inr ys \<longleftrightarrow> list_all2 (\<lambda>x y. f x = Inr y) xs ys"
proof (induction xs arbitrary: ys)
  case Nil
  then show ?case by auto
next
  case (Cons x xs)
  then show ?case by (cases ys) (auto simp: result_simps)
qed

lemma traverse_total: "(\<And>x. x \<in> set xs \<Longrightarrow> f x = Inr (g x)) \<Longrightarrow> traverse f xs = Inr (map g xs)"
  by (induction xs) auto

lemma fold_result_append:
  "fold_result f (xs @ ys) s = andthen (fold_result f xs s) (fold_result f ys)"
proof (induction xs arbitrary: s)
  case (Cons x xs)
  then show ?case by (cases "f x s") auto
qed simp

text \<open>An invariant kept by every successful step holds after a successful loop.\<close>

lemma fold_result_invariant:
  assumes "fold_result f xs s = Inr t" and "I s"
    and "\<And>x u v. x \<in> set xs \<Longrightarrow> I u \<Longrightarrow> f x u = Inr v \<Longrightarrow> I v"
  shows "I t"
  using assms
proof (induction xs arbitrary: s)
  case (Cons x xs)
  from Cons.prems(1) obtain u where u: "f x s = Inr u" "fold_result f xs u = Inr t"
    by (auto simp: result_simps)
  have "I u" using Cons.prems(2,3) u(1) by auto
  with u(2) show ?case using Cons.IH Cons.prems(3) by (metis list.set_intros(2))
qed simp

text \<open>A loop that carries no state succeeds exactly when every step does.\<close>

lemma fold_result_unit: "fold_result f xs () = Inr u \<longleftrightarrow> (\<forall>x\<in>set xs. f x () = Inr ())"
  by (induction xs) (auto simp: result_simps)

section \<open>Strings\<close>

abbreviation code_of :: "char \<Rightarrow> nat" where
  "code_of c \<equiv> of_char c"

text \<open>\<open>str.isspace\<close> on U+0000 to U+00FF.\<close>

definition is_py_space :: "char \<Rightarrow> bool" where
  "is_py_space c \<longleftrightarrow>
     (let n = code_of c in (9 \<le> n \<and> n \<le> 13) \<or> (28 \<le> n \<and> n \<le> 32) \<or> n = 133 \<or> n = 160)"

definition strip :: "string \<Rightarrow> string" where
  "strip s = rev (dropWhile is_py_space (rev (dropWhile is_py_space s)))"

text \<open>\<open>_text\<close> of the validators and \<open>_s\<close> of the audit: a string with a visible character.\<close>

definition nonblank :: "string \<Rightarrow> bool" where
  "nonblank s \<longleftrightarrow> strip s \<noteq> []"

definition is_lower :: "char \<Rightarrow> bool" where
  "is_lower c \<longleftrightarrow> 97 \<le> code_of c \<and> code_of c \<le> 122"

definition is_upper :: "char \<Rightarrow> bool" where
  "is_upper c \<longleftrightarrow> 65 \<le> code_of c \<and> code_of c \<le> 90"

definition is_digit :: "char \<Rightarrow> bool" where
  "is_digit c \<longleftrightarrow> 48 \<le> code_of c \<and> code_of c \<le> 57"

definition is_alnum :: "char \<Rightarrow> bool" where
  "is_alnum c \<longleftrightarrow> is_lower c \<or> is_upper c \<or> is_digit c"

text \<open>\<open>str.lower\<close>: A-Z and the Latin-1 capitals (U+00C0 to U+00DE without U+00D7) move by 32.\<close>

definition lower_char :: "char \<Rightarrow> char" where
  "lower_char c =
     (let n = code_of c in
      if (65 \<le> n \<and> n \<le> 90) \<or> (192 \<le> n \<and> n \<le> 222 \<and> n \<noteq> 215) then char_of (n + 32) else c)"

text \<open>\<open>str.casefold\<close>: below U+0100, \<open>lower\<close> but for the sharp s.\<close>

definition casefold :: "string \<Rightarrow> string" where
  "casefold s = concat (map (\<lambda>c. if code_of c = (223 :: nat) then ''ss'' else [lower_char c]) s)"

definition lower :: "string \<Rightarrow> string" where
  "lower s = List.map lower_char s"

definition replace_char :: "char \<Rightarrow> char \<Rightarrow> string \<Rightarrow> string" where
  "replace_char a b s = List.map (\<lambda>c. if c = a then b else c) s"

definition is_hex_char :: "char \<Rightarrow> bool" where
  "is_hex_char c \<longleftrightarrow> is_digit c \<or> (97 \<le> code_of c \<and> code_of c \<le> 102)"

fun has_prefix :: "string \<Rightarrow> string \<Rightarrow> bool" where
  "has_prefix [] s = True"
| "has_prefix (p # ps) [] = False"
| "has_prefix (p # ps) (c # cs) = (p = c \<and> has_prefix ps cs)"

text \<open>\<open>needle in haystack\<close>, and a pattern tried at every position (\<open>re.search\<close>).\<close>

fun search_at :: "(string \<Rightarrow> bool) \<Rightarrow> string \<Rightarrow> bool" where
  "search_at p [] = p []"
| "search_at p (c # cs) = (p (c # cs) \<or> search_at p cs)"

definition contains :: "string \<Rightarrow> string \<Rightarrow> bool" where
  "contains needle s = search_at (has_prefix needle) s"

fun str_of_nat :: "nat \<Rightarrow> string" where
  "str_of_nat n =
     (if n < 10 then [char_of (48 + n)] else str_of_nat (n div 10) @ [char_of (48 + n mod 10)])"

declare str_of_nat.simps [simp del]

definition str_of_int :: "int \<Rightarrow> string" where
  "str_of_int i = (if i < 0 then CHR ''-'' # str_of_nat (nat (- i)) else str_of_nat (nat i))"

lemma str_of_nat_nonempty [simp]: "str_of_nat n \<noteq> []"
  by (subst str_of_nat.simps) simp

lemma str_of_nat_digits: "c \<in> set (str_of_nat n) \<Longrightarrow> is_digit c"
proof (induction n rule: str_of_nat.induct)
  case (1 n)
  have last: "is_digit (char_of (48 + k) :: char)" if "k < 10" for k :: nat
    using that by (simp add: is_digit_def take_bit_eq_mod)
  show ?case
  proof (cases "n < 10")
    case True
    with "1.prems" have "c = char_of (48 + n)"
      by (simp add: str_of_nat.simps [of n])
    then show ?thesis using True last by simp
  next
    case False
    with "1.prems" have "c \<in> set (str_of_nat (n div 10)) \<or> c = char_of (48 + n mod 10)"
      by (auto simp: str_of_nat.simps [of n])
    then show ?thesis using "1.IH" False last by auto
  qed
qed

lemma strip_nil [simp]: "strip [] = []"
  by (simp add: strip_def)

lemma strip_id:
  "s = [] \<or> \<not> is_py_space (hd s) \<and> \<not> is_py_space (last s) \<Longrightarrow> strip s = s"
proof (cases s rule: rev_cases)
  case (snoc t c)
  assume h: "s = [] \<or> \<not> is_py_space (hd s) \<and> \<not> is_py_space (last s)"
  with snoc have "\<not> is_py_space (hd s)" "\<not> is_py_space c" by auto
  then have "dropWhile is_py_space s = s" by (cases s) auto
  then show ?thesis using snoc \<open>\<not> is_py_space c\<close> by (simp add: strip_def)
qed (simp add: strip_def)

lemma lower_nil [simp]: "lower [] = []"
  by (simp add: lower_def)

lemma lower_id: "(\<And>c. c \<in> set s \<Longrightarrow> is_lower c \<or> is_digit c \<or> c = CHR ''_'' \<or> c = CHR ''-'') \<Longrightarrow> lower s = s"
  unfolding lower_def
  by (rule map_idI) (force simp: lower_char_def is_lower_def is_digit_def Let_def)

lemma alnum_not_space: "is_alnum c \<Longrightarrow> \<not> is_py_space c"
  by (auto simp: is_alnum_def is_lower_def is_upper_def is_digit_def is_py_space_def Let_def)

section \<open>Dictionaries\<close>

fun dict_put :: "'k \<Rightarrow> 'v \<Rightarrow> ('k \<times> 'v) list \<Rightarrow> ('k \<times> 'v) list" where
  "dict_put k v [] = [(k, v)]"
| "dict_put k v ((k', v') # kvs) = (if k = k' then (k', v) # kvs else (k', v') # dict_put k v kvs)"

definition dict_of :: "('k \<times> 'v) list \<Rightarrow> ('k \<times> 'v) list" where
  "dict_of kvs = fold (\<lambda>(k, v) d. dict_put k v d) kvs []"

definition dict_has :: "'k \<Rightarrow> ('k \<times> 'v) list \<Rightarrow> bool" where
  "dict_has k kvs \<longleftrightarrow> k \<in> set (List.map fst kvs)"

definition dict_get :: "'k \<Rightarrow> 'v \<Rightarrow> ('k \<times> 'v) list \<Rightarrow> 'v" where
  "dict_get k d kvs = (case map_of kvs k of None \<Rightarrow> d | Some v \<Rightarrow> v)"

lemma map_of_dict_put [simp]: "map_of (dict_put k v kvs) = (map_of kvs)(k \<mapsto> v)"
  by (induction kvs) auto

lemma keys_dict_put: "set (List.map fst (dict_put k v kvs)) = insert k (set (List.map fst kvs))"
  by (induction k v kvs rule: dict_put.induct) (auto simp: insert_commute)

lemma distinct_dict_put: "distinct (List.map fst kvs) \<Longrightarrow> distinct (List.map fst (dict_put k v kvs))"
proof (induction kvs)
  case (Cons p kvs)
  then show ?case using keys_dict_put [of k v kvs] by (cases p) auto
qed simp

lemma dict_put_fresh: "k \<notin> set (List.map fst kvs) \<Longrightarrow> dict_put k v kvs = kvs @ [(k, v)]"
  by (induction kvs) auto

lemma dict_put_nonempty [simp]: "dict_put k v kvs \<noteq> []"
  by (induction k v kvs rule: dict_put.induct) auto

lemma fold_dict_put_distinct:
  "distinct (List.map fst (acc @ kvs)) \<Longrightarrow> fold (\<lambda>(k, v) d. dict_put k v d) kvs acc = acc @ kvs"
proof (induction kvs arbitrary: acc)
  case (Cons p kvs)
  obtain k v where p: "p = (k, v)" by (cases p)
  have "dict_put k v acc = acc @ [(k, v)]"
    using Cons.prems p by (intro dict_put_fresh) auto
  then show ?case using Cons.IH [of "acc @ [(k, v)]"] Cons.prems p by simp
qed simp

text \<open>A literal with distinct keys is stored as written.\<close>

lemma dict_of_distinct: "distinct (List.map fst kvs) \<Longrightarrow> dict_of kvs = kvs"
  using fold_dict_put_distinct [of "[]" kvs] by (simp add: dict_of_def)

section \<open>Sorting by a key\<close>

lemma sort_key_mset_eq:
  fixes f :: "'a \<Rightarrow> 'k :: linorder"
  assumes "mset xs = mset ys" and "inj_on f (set xs)"
  shows "sort_key f xs = sort_key f ys"
proof (rule sort_key_inj_key_eq)
  show "mset xs = mset (sort_key f ys)" using assms(1) by simp
  show "inj_on f (set xs)" by (rule assms(2))
  show "sorted (List.map f (sort_key f ys))" by simp
qed

end
