(* ===== verification/Json.thy ===== *)
theory Json
  imports Prelude Complex_Main
begin

text \<open>
  \<open>max_research/contract/base.py\<close>: the value model of the contracts, its JSON projection
  (\<open>model_to_dict\<close>), the canonical text every hash of the control plane is taken of
  (\<open>canonical_json\<close>, \<open>canonical_sha256\<close>), \<open>deep_freeze\<close>, the strict mapping boundary
  (\<open>require_mapping_fields\<close>) and the validation issues.

  \<^item> \<open>json\<close> is a JSON value as \<open>json.loads\<close> returns it: objects are association lists in
    insertion order, a finite float is its exact value (-0.0 is identified with 0.0) and
    a non-finite one its literal. \<open>pyval\<close> is a Python value a contract may be given: the
    JSON scalars, enums, dataclasses, both sequence and both set types, the two mapping
    types, and the values \<open>model_to_dict\<close> formats (a Decimal, a date or a Path carries the
    text of its \<open>format(v, "f")\<close>, \<open>isoformat()\<close> or \<open>str(v)\<close>) or refuses (\<open>VBytes\<close>,
    \<open>VOther\<close>). Keys of a Python mapping are strings, integers, booleans or None.
  \<^item> \<open>prims\<close> collects the library functions the model does not define: SHA-256 of the
    UTF-8 text, \<open>float.__repr__\<close>, the two renderings of an instant and \<open>str\<close> of a value
    that is not a string. Theorems that rely
    on one name what they rely on (\<open>digest_ok\<close>: a digest is 64 lower-case hex digits).
\<close>

section \<open>Values\<close>

datatype json =
    JNull
  | JBool bool
  | JInt int
  | JFloat rat
  | JNonFinite string
  | JStr string
  | JList "json list"
  | JObj "(string \<times> json) list"

datatype pykey = KStr string | KInt int | KBool bool | KNone

datatype pyval =
    VNone
  | VBool bool
  | VInt int
  | VFloat rat
  | VNonFinite string
  | VStr string
  | VBytes string
  | VDecimal string
  | VTime string
  | VPath string
  | VEnum pyval
  | VList "pyval list"
  | VTuple "pyval list"
  | VSet "pyval list"
  | VFrozenSet "pyval list"
  | VDict "(pykey \<times> pyval) list"
  | VProxy "(pykey \<times> pyval) list"
  | VModel "(string \<times> pyval) list"
  | VOther string

record prims =
  sha256 :: "string \<Rightarrow> string"
  float_repr :: "rat \<Rightarrow> string"
  iso_stamp :: "int \<Rightarrow> string"
  isoformat :: "int \<Rightarrow> string"
  py_repr :: "json \<Rightarrow> string"

definition is_hex64 :: "string \<Rightarrow> bool" where
  "is_hex64 s \<longleftrightarrow> length s = 64 \<and> list_all is_hex_char s"

definition digest_ok :: "prims \<Rightarrow> bool" where
  "digest_ok P \<longleftrightarrow> (\<forall>s. is_hex64 (sha256 P s))"

section \<open>Issues and exceptions\<close>

record validation_issue =
  issue_code :: string
  issue_path :: string
  issue_message :: string
  issue_severity :: string

definition issue :: "string \<Rightarrow> string \<Rightarrow> string \<Rightarrow> validation_issue" where
  "issue c p m =
     \<lparr>issue_code = c, issue_path = p, issue_message = m, issue_severity = ''ERROR''\<rparr>"

definition issue_as_dict :: "validation_issue \<Rightarrow> json" where
  "issue_as_dict i = JObj
     [(''code'', JStr (issue_code i)), (''path'', JStr (issue_path i)),
      (''message'', JStr (issue_message i)), (''severity'', JStr (issue_severity i))]"

datatype py_exc =
    ValueError string
  | TypeError string
  | AttributeError string
  | KeyError string
  | OverflowError string
  | ContractValidationError "validation_issue list"

text \<open>
  \<open>ValidationResult\<close>: the tuple of issues; it is true exactly when there is none.
  \<open>contract_error\<close> is the string form of the exception's constructor.
\<close>

type_synonym validation_result = "validation_issue list"

definition result_ok :: "validation_result \<Rightarrow> bool" where
  "result_ok r \<longleftrightarrow> r = []"

definition raise_if_invalid :: "validation_result \<Rightarrow> py_exc + validation_result" where
  "raise_if_invalid r = (if result_ok r then Inr r else Inl (ContractValidationError r))"

definition result_as_dict :: "validation_result \<Rightarrow> json" where
  "result_as_dict r =
     JObj [(''ok'', JBool (result_ok r)), (''issues'', JList (map issue_as_dict r))]"

definition contract_error :: "string \<Rightarrow> py_exc" where
  "contract_error m = ContractValidationError [issue ''contract.invalid'' ''$'' m]"

text \<open>\<open>_IssueCollector.add\<close> under a condition: one issue when the check fails.\<close>

definition check :: "bool \<Rightarrow> string \<Rightarrow> string \<Rightarrow> string \<Rightarrow> validation_issue list" where
  "check b c p m = (if b then [] else [issue c p m])"

lemma check_eq_Nil [simp]: "check b c p m = [] \<longleftrightarrow> b"
  by (simp add: check_def)

lemma raise_if_invalid_eq_Inr [result_simps]: "raise_if_invalid r = Inr r' \<longleftrightarrow> r = [] \<and> r' = []"
  by (auto simp: raise_if_invalid_def result_ok_def)

section \<open>Rendering JSON\<close>

fun join :: "string \<Rightarrow> string list \<Rightarrow> string" where
  "join sep [] = []"
| "join sep [s] = s"
| "join sep (s # t # ss) = s @ sep @ join sep (t # ss)"

definition hex_digit :: "nat \<Rightarrow> char" where
  "hex_digit n = (if n < 10 then char_of (48 + n) else char_of (87 + n))"

definition escape_char :: "char \<Rightarrow> string" where
  "escape_char c =
     (let n = code_of c in
      if n = 34 then [CHR 0x5C, CHR 0x22]
      else if n = 92 then [CHR 0x5C, CHR 0x5C]
      else if n = 10 then [CHR 0x5C, CHR ''n'']
      else if n = 13 then [CHR 0x5C, CHR ''r'']
      else if n = 9 then [CHR 0x5C, CHR ''t'']
      else if n = 12 then [CHR 0x5C, CHR ''f'']
      else if n = 8 then [CHR 0x5C, CHR ''b'']
      else if n < 32 then CHR 0x5C # ''u00'' @ [hex_digit (n div 16), hex_digit (n mod 16)]
      else [c])"

definition quote :: "string \<Rightarrow> string" where
  "quote s = CHR 0x22 # concat (map escape_char s) @ [CHR 0x22]"

fun dumps :: "prims \<Rightarrow> string \<Rightarrow> string \<Rightarrow> json \<Rightarrow> string" where
  "dumps P isep ksep JNull = ''null''"
| "dumps P isep ksep (JBool b) = (if b then ''true'' else ''false'')"
| "dumps P isep ksep (JInt i) = str_of_int i"
| "dumps P isep ksep (JFloat r) = float_repr P r"
| "dumps P isep ksep (JNonFinite s) = s"
| "dumps P isep ksep (JStr s) = quote s"
| "dumps P isep ksep (JList js) = ''['' @ join isep (map (dumps P isep ksep) js) @ '']''"
| "dumps P isep ksep (JObj kvs) =
     ''{'' @ join isep (map (\<lambda>p. quote (fst p) @ ksep @ dumps P isep ksep (snd p)) kvs) @ ''}''"

text \<open>\<open>sort_keys=True\<close>: every object's items in the order of their keys' code points.\<close>

fun sort_keys :: "json \<Rightarrow> json" where
  "sort_keys (JList js) = JList (map sort_keys js)"
| "sort_keys (JObj kvs) = JObj (sort_key fst (map (\<lambda>p. (fst p, sort_keys (snd p))) kvs))"
| "sort_keys j = j"

definition json_text :: "prims \<Rightarrow> json \<Rightarrow> string" where
  "json_text P j = dumps P '','' '':'' (sort_keys j)"

section \<open>model_to_dict, _normalise, canonical_json\<close>

definition str_key :: "pykey \<Rightarrow> string" where
  "str_key k = (case k of KStr s \<Rightarrow> s | KInt i \<Rightarrow> str_of_int i
     | KBool b \<Rightarrow> (if b then ''True'' else ''False'') | KNone \<Rightarrow> ''None'')"

fun model_to_dict :: "prims \<Rightarrow> pyval \<Rightarrow> py_exc + json" where
  "model_to_dict P (VModel fs) =
     andthen (traverse (\<lambda>p. andthen (model_to_dict P (snd p)) (\<lambda>j. Inr (fst p, j))) fs)
       (\<lambda>kvs. Inr (JObj (dict_of kvs)))"
| "model_to_dict P (VEnum v) = model_to_dict P v"
| "model_to_dict P (VDict kvs) =
     andthen (traverse (\<lambda>p. andthen (model_to_dict P (snd p)) (\<lambda>j. Inr (str_key (fst p), j))) kvs)
       (\<lambda>js. Inr (JObj (dict_of js)))"
| "model_to_dict P (VProxy kvs) =
     andthen (traverse (\<lambda>p. andthen (model_to_dict P (snd p)) (\<lambda>j. Inr (str_key (fst p), j))) kvs)
       (\<lambda>js. Inr (JObj (dict_of js)))"
| "model_to_dict P (VStr s) = Inr (JStr s)"
| "model_to_dict P (VInt i) = Inr (JInt i)"
| "model_to_dict P (VBool b) = Inr (JBool b)"
| "model_to_dict P VNone = Inr JNull"
| "model_to_dict P (VNonFinite s) = Inl (ValueError ''non-finite floats are not contract values'')"
| "model_to_dict P (VFloat r) = Inr (JFloat r)"
| "model_to_dict P (VDecimal s) = Inr (JStr s)"
| "model_to_dict P (VTime s) = Inr (JStr s)"
| "model_to_dict P (VPath s) = Inr (JStr s)"
| "model_to_dict P (VBytes s) = Inl (TypeError ''raw bytes are not JSON contract values'')"
| "model_to_dict P (VSet vs) =
     andthen (traverse (model_to_dict P) vs) (\<lambda>js. Inr (JList (sort_key (json_text P) js)))"
| "model_to_dict P (VFrozenSet vs) =
     andthen (traverse (model_to_dict P) vs) (\<lambda>js. Inr (JList (sort_key (json_text P) js)))"
| "model_to_dict P (VList vs) = andthen (traverse (model_to_dict P) vs) (\<lambda>js. Inr (JList js))"
| "model_to_dict P (VTuple vs) = andthen (traverse (model_to_dict P) vs) (\<lambda>js. Inr (JList js))"
| "model_to_dict P (VOther t) = Inl (TypeError (''unsupported contract value: '' @ t))"

text \<open>
  \<open>_normalise\<close>: every string and key in NFC and the keys sorted; keys that become equal are an error.
  \<open>nfc\<close> is \<open>unicodedata.normalize("NFC", s)\<close>. \<open>canonical_json_nfc\<close> is the function of the source for
  any such \<open>nfc\<close>; \<open>canonical_json\<close> is its instance on the strings of the other theories, whose
  characters are the code points below U+0100, where NFC is the identity.
\<close>

fun normalise :: "(string \<Rightarrow> string) \<Rightarrow> json \<Rightarrow> py_exc + json" where
  "normalise nfc (JObj kvs) =
     (if distinct (map (\<lambda>p. nfc (fst p)) kvs)
      then andthen (traverse (\<lambda>p. andthen (normalise nfc (snd p)) (\<lambda>j. Inr (nfc (fst p), j))) kvs)
             (\<lambda>js. Inr (JObj (sort_key fst js)))
      else Inl (ValueError ''contract mapping has colliding normalized keys''))"
| "normalise nfc (JList js) = andthen (traverse (normalise nfc) js) (\<lambda>ks. Inr (JList ks))"
| "normalise nfc (JStr s) = Inr (JStr (nfc s))"
| "normalise nfc j = Inr j"

definition canonical_json_nfc :: "(string \<Rightarrow> string) \<Rightarrow> prims \<Rightarrow> pyval \<Rightarrow> py_exc + string" where
  "canonical_json_nfc nfc P v =
     andthen (model_to_dict P v) (\<lambda>j. andthen (normalise nfc j) (\<lambda>n. Inr (json_text P n)))"

definition canonical_json :: "prims \<Rightarrow> pyval \<Rightarrow> py_exc + string" where
  "canonical_json P v = canonical_json_nfc (\<lambda>s. s) P v"

definition canonical_sha256 :: "prims \<Rightarrow> pyval \<Rightarrow> py_exc + string" where
  "canonical_sha256 P v = andthen (canonical_json P v) (\<lambda>t. Inr (sha256 P t))"

text \<open>The hash of a value that is already plain JSON, as the control plane takes it.\<close>

definition hash_json :: "prims \<Rightarrow> json \<Rightarrow> string" where
  "hash_json P j = sha256 P (json_text P j)"

fun of_json :: "json \<Rightarrow> pyval" where
  "of_json JNull = VNone"
| "of_json (JBool b) = VBool b"
| "of_json (JInt i) = VInt i"
| "of_json (JFloat r) = VFloat r"
| "of_json (JNonFinite s) = VNonFinite s"
| "of_json (JStr s) = VStr s"
| "of_json (JList js) = VList (map of_json js)"
| "of_json (JObj kvs) = VDict (map (\<lambda>p. (KStr (fst p), of_json (snd p))) kvs)"

text \<open>The truth value of a JSON value, or of a missing key.\<close>

definition json_truthy :: "json option \<Rightarrow> bool" where
  "json_truthy v = (case v of
       None \<Rightarrow> False | Some JNull \<Rightarrow> False | Some (JBool b) \<Rightarrow> b | Some (JInt i) \<Rightarrow> i \<noteq> 0
     | Some (JFloat x) \<Rightarrow> x \<noteq> 0 | Some (JNonFinite t) \<Rightarrow> True | Some (JStr t) \<Rightarrow> t \<noteq> []
     | Some (JList js) \<Rightarrow> js \<noteq> [] | Some (JObj kvs) \<Rightarrow> kvs \<noteq> [])"

section \<open>deep_freeze\<close>

fun deep_freeze :: "pyval \<Rightarrow> pyval" where
  "deep_freeze (VDict kvs) = VProxy (map (\<lambda>p. (fst p, deep_freeze (snd p))) kvs)"
| "deep_freeze (VProxy kvs) = VProxy (map (\<lambda>p. (fst p, deep_freeze (snd p))) kvs)"
| "deep_freeze (VList vs) = VTuple (map deep_freeze vs)"
| "deep_freeze (VTuple vs) = VTuple (map deep_freeze vs)"
| "deep_freeze (VSet vs) = VFrozenSet (map deep_freeze vs)"
| "deep_freeze (VFrozenSet vs) = VFrozenSet (map deep_freeze vs)"
| "deep_freeze v = v"

fun frozen :: "pyval \<Rightarrow> bool" where
  "frozen (VDict kvs) = False"
| "frozen (VProxy kvs) = list_all (\<lambda>p. frozen (snd p)) kvs"
| "frozen (VList vs) = False"
| "frozen (VTuple vs) = list_all frozen vs"
| "frozen (VSet vs) = False"
| "frozen (VFrozenSet vs) = list_all frozen vs"
| "frozen v = True"

section \<open>require_mapping_fields\<close>

definition mapping_issues ::
    "string list \<Rightarrow> string list \<Rightarrow> string \<Rightarrow> (string \<times> 'v) list \<Rightarrow> validation_issue list" where
  "mapping_issues allowed required path kvs =
     (let keys = map fst kvs;
          unknown = sort (filter (\<lambda>k. k \<notin> set allowed) keys);
          missing = sort (filter (\<lambda>k. k \<notin> set keys) required)
      in map (\<lambda>k. issue ''mapping.unknown_field'' (path @ ''.'' @ k) (''unknown contract field: '' @ k)) unknown
         @ map (\<lambda>k. issue ''mapping.required_field'' (path @ ''.'' @ k)
                  (''required contract field is missing: '' @ k)) missing)"

definition require_mapping_fields ::
    "string list \<Rightarrow> string list \<Rightarrow> string \<Rightarrow> json \<Rightarrow> py_exc + (string \<times> json) list" where
  "require_mapping_fields allowed required path v =
     (case v of
        JObj kvs \<Rightarrow>
          (let issues = mapping_issues allowed required path kvs
           in if issues = [] then Inr kvs else Inl (ContractValidationError issues))
      | _ \<Rightarrow> Inl (ContractValidationError
               [issue ''mapping.type'' path ''contract input must be a mapping'']))"

end
