(* ===== verification/Payload_Guard.thy ===== *)
theory Payload_Guard
  imports Json
begin

text \<open>
  \<open>max_research/persistence/repository.py\<close>: the guard every payload passes before it becomes part
  of the permanent record (\<open>_reject_untrusted_payload\<close>), with \<open>_walk_values\<close> and \<open>_round_type\<close>.

  A payload is a JSON value. The two regular expressions of the source are written as matchers
  on the text; \<open>re.IGNORECASE\<close> compares lower-cased characters, which on U+0000 to U+00FF is what
  it does. \<open>casefold\<close> differs there from \<open>lower\<close> for the sharp s only (the micro sign folds to a
  letter outside of the range and no forbidden word contains either).
\<close>

text \<open>
  A failure inside an operation of the control plane: its own \<open>MaxControlError\<close>, an exception of
  the contract layer or of Python, or one of the two SQLite errors the source tells apart.
\<close>

datatype failure = Max_control string | Raised py_exc | Integrity_error | Operational_error

fun safe_error :: "failure \<Rightarrow> string" where
  "safe_error (Max_control m) = m"
| "safe_error (Raised (ContractValidationError is)) = ''Max control contract validation failed''"
| "safe_error (Raised e) = ''Max control operation failed''"
| "safe_error Integrity_error = ''Max control write conflicts with an existing immutable record''"
| "safe_error Operational_error = ''Max control database is busy or unavailable''"

definition raising :: "py_exc + 'a \<Rightarrow> failure + 'a" where
  "raising r = (case r of Inl e \<Rightarrow> Inl (Raised e) | Inr x \<Rightarrow> Inr x)"

lemma raising_eq_Inr [result_simps]: "raising r = Inr x \<longleftrightarrow> r = Inr x"
  by (cases r) (simp_all add: raising_def)

lemma raising_simps [simp]: "raising (Inr x) = Inr x" "raising (Inl e) = Inl (Raised e)"
  by (simp_all add: raising_def)

section \<open>Forbidden words\<close>

definition forbidden_payload_keys :: "string list" where
  "forbidden_payload_keys =
    [''full_text'', ''source_text'', ''passage_text'', ''pdf_text'', ''raw_document'', ''api_key'',
     ''secret'', ''password'', ''access_token'', ''refresh_token'']"

definition forbidden_payload_fragments :: "string list" where
  "forbidden_payload_fragments =
    [''prompt'', ''raw_response'', ''source_text'', ''full_text'', ''passage_text'',
     ''pdf_text'', ''raw_document'', ''api_key'', ''secret'', ''password'',
     ''access_token'', ''refresh_token'', ''private_key'', ''model_key'']"

definition forbidden_key :: "string \<Rightarrow> bool" where
  "forbidden_key key \<longleftrightarrow>
     (let lowered = casefold key
      in lowered \<in> set forbidden_payload_keys
         \<or> list_ex (\<lambda>fragment. contains fragment lowered) forbidden_payload_fragments)"

section \<open>The two patterns\<close>

text \<open>\<open>^(?:[A-Za-z]:[\\/]|\\\\|/)\<close>\<close>

definition absolute_path :: "string \<Rightarrow> bool" where
  "absolute_path s \<longleftrightarrow>
     (case s of
        [] \<Rightarrow> False
      | c # cs \<Rightarrow>
          c = CHR ''/''
          \<or> (c = CHR 0x5C \<and> (case cs of d # ds \<Rightarrow> d = CHR 0x5C | [] \<Rightarrow> False))
          \<or> ((is_lower c \<or> is_upper c)
             \<and> (case cs of d # e # es \<Rightarrow> d = CHR '':'' \<and> (e = CHR 0x5C \<or> e = CHR ''/'') | _ \<Rightarrow> False)))"

definition at_least :: "nat \<Rightarrow> (char \<Rightarrow> bool) \<Rightarrow> string \<Rightarrow> bool" where
  "at_least n p s \<longleftrightarrow> n \<le> length (takeWhile p s)"

definition bearer_char :: "char \<Rightarrow> bool" where
  "bearer_char c \<longleftrightarrow> is_alnum c \<or> c \<in> {CHR ''.'', CHR ''_'', CHR ''~'', CHR ''+'', CHR ''/'', CHR ''='', CHR ''-''}"

definition key_char :: "char \<Rightarrow> bool" where
  "key_char c \<longleftrightarrow> is_alnum c \<or> c = CHR ''_'' \<or> c = CHR ''-''"

definition assigned :: "string \<Rightarrow> bool" where
  "assigned s \<longleftrightarrow> (case dropWhile is_py_space s of [] \<Rightarrow> False | c # cs \<Rightarrow> c = CHR '':'' \<or> c = CHR ''='')"

definition secret_here :: "string \<Rightarrow> bool" where
  "secret_here s \<longleftrightarrow>
     (has_prefix ''bearer'' s
        \<and> (let rest = drop 6 s in at_least 1 is_py_space rest
             \<and> at_least 12 bearer_char (dropWhile is_py_space rest)))
   \<or> (has_prefix ''sk-'' s \<and> at_least 12 key_char (drop 3 s))
   \<or> (has_prefix ''api'' s
        \<and> (let rest = drop 3 s in
             (has_prefix ''key'' rest \<and> assigned (drop 3 rest))
           \<or> (case rest of
                c # cs \<Rightarrow> c \<in> {CHR ''-'', CHR ''_'', CHR '' ''} \<and> has_prefix ''key'' cs \<and> assigned (drop 3 cs)
              | [] \<Rightarrow> False)))
   \<or> (has_prefix ''secret'' s \<and> assigned (drop 6 s))"

definition secret_value :: "string \<Rightarrow> bool" where
  "secret_value s = search_at secret_here (lower s)"

section \<open>The walk\<close>

definition check_text :: "string \<Rightarrow> failure + unit" where
  "check_text s =
     andthen (require (\<not> absolute_path s) (Max_control ''control payload contains a prohibited absolute path'')) (\<lambda>_.
     andthen (require (\<not> secret_value s) (Max_control ''control payload contains a prohibited secret value'')) (\<lambda>_.
     require (length s \<le> 1000000)
       (Max_control ''canonical payload exceeds the bounded control-plane size'')))"

fun reject_walk :: "json \<Rightarrow> nat \<Rightarrow> failure + unit" where
  "reject_walk item depth =
     (if 32 < depth then Inl (Max_control ''control payload nesting is too deep'')
      else case item of
        JObj kvs \<Rightarrow>
          andthen (require (length kvs \<le> 10000) (Max_control ''control payload has too many fields'')) (\<lambda>_.
          fold_result (\<lambda>p u.
            andthen (require (\<not> forbidden_key (fst p))
              (Max_control ''canonical payload contains prohibited source or secret material''))
              (\<lambda>_. reject_walk (snd p) (depth + 1))) kvs ())
      | JList js \<Rightarrow>
          andthen (require (length js \<le> 10000) (Max_control ''control payload has too many items'')) (\<lambda>_.
          fold_result (\<lambda>j u. reject_walk j (depth + 1)) js ())
      | JStr s \<Rightarrow> check_text s
      | _ \<Rightarrow> Inr ())"

declare reject_walk.simps [simp del, code del]

text \<open>For evaluation: the walk by the form of the value, the large bounds as integers.\<close>

lemma check_text_code [code]:
  "check_text s =
     andthen (require (\<not> absolute_path s) (Max_control ''control payload contains a prohibited absolute path'')) (\<lambda>_.
     andthen (require (\<not> secret_value s) (Max_control ''control payload contains a prohibited secret value'')) (\<lambda>_.
     require (int (length s) \<le> 1000000)
       (Max_control ''canonical payload exceeds the bounded control-plane size'')))"
  by (simp add: check_text_def)

lemma reject_walk_code [code]:
  "reject_walk (JObj kvs) d = andthen (require (d \<le> 32) (Max_control ''control payload nesting is too deep'')) (\<lambda>_.
     andthen (require (int (length kvs) \<le> 10000) (Max_control ''control payload has too many fields'')) (\<lambda>_.
     fold_result (\<lambda>p u. andthen (require (\<not> forbidden_key (fst p))
       (Max_control ''canonical payload contains prohibited source or secret material''))
       (\<lambda>_. reject_walk (snd p) (d + 1))) kvs ()))"
  "reject_walk (JList js) d = andthen (require (d \<le> 32) (Max_control ''control payload nesting is too deep'')) (\<lambda>_.
     andthen (require (int (length js) \<le> 10000) (Max_control ''control payload has too many items'')) (\<lambda>_.
     fold_result (\<lambda>j u. reject_walk j (d + 1)) js ()))"
  "reject_walk (JStr s) d = andthen (require (d \<le> 32) (Max_control ''control payload nesting is too deep'')) (\<lambda>_. check_text s)"
  "reject_walk JNull d = require (d \<le> 32) (Max_control ''control payload nesting is too deep'')"
  "reject_walk (JBool b) d = require (d \<le> 32) (Max_control ''control payload nesting is too deep'')"
  "reject_walk (JInt i) d = require (d \<le> 32) (Max_control ''control payload nesting is too deep'')"
  "reject_walk (JFloat x) d = require (d \<le> 32) (Max_control ''control payload nesting is too deep'')"
  "reject_walk (JNonFinite t) d = require (d \<le> 32) (Max_control ''control payload nesting is too deep'')"
  by (simp_all add: reject_walk.simps require_def)

definition reject_untrusted_payload :: "json \<Rightarrow> failure + unit" where
  "reject_untrusted_payload v = reject_walk v 0"

section \<open>_walk_values, _round_type\<close>

fun walk_values :: "json \<Rightarrow> (string \<times> json) list" where
  "walk_values (JObj kvs) = concat (map (\<lambda>p. p # walk_values (snd p)) kvs)"
| "walk_values (JList js) = concat (map walk_values js)"
| "walk_values j = []"

definition round_types :: "string list" where
  "round_types = [''exploration'', ''adjudication'', ''attack'', ''rehydration'', ''acquisition_review'', ''cold_review'']"

definition round_type :: "string \<Rightarrow> failure + string" where
  "round_type value =
     (if value \<in> set round_types then Inr value
      else if value \<in> {''socratic_exploration'', ''targeted_retrieval'', ''state_update'', ''synthesis''}
      then Inr ''exploration''
      else if value = ''adversarial_attack'' then Inr ''attack''
      else if value = ''habermasian_adjudication'' then Inr ''adjudication''
      else if value = ''rehydration_review'' then Inr ''rehydration''
      else if value = ''acquisition_request'' then Inr ''acquisition_review''
      else if value = ''cold_review'' then Inr ''cold_review''
      else Inl (Max_control ''unsupported iteration round type''))"

section \<open>What an accepted payload is\<close>

fun json_depth :: "json \<Rightarrow> nat" where
  "json_depth (JObj kvs) = (if kvs = [] then 0 else Suc (Max (set (map (\<lambda>p. json_depth (snd p)) kvs))))"
| "json_depth (JList js) = (if js = [] then 0 else Suc (Max (set (map json_depth js))))"
| "json_depth j = 0"

text \<open>Every value inside a payload, itself included.\<close>

fun subvalues :: "json \<Rightarrow> json list" where
  "subvalues (JObj kvs) = JObj kvs # concat (map (\<lambda>p. subvalues (snd p)) kvs)"
| "subvalues (JList js) = JList js # concat (map subvalues js)"
| "subvalues j = [j]"

fun harmless :: "json \<Rightarrow> bool" where
  "harmless (JObj kvs) = (length kvs \<le> 10000 \<and> list_all (\<lambda>p. \<not> forbidden_key (fst p)) kvs)"
| "harmless (JList js) = (length js \<le> 10000)"
| "harmless (JStr s) = (\<not> absolute_path s \<and> \<not> secret_value s \<and> length s \<le> 1000000)"
| "harmless j = True"

lemma depth_below:
  assumes "xs \<noteq> []"
  shows "Suc (Max (set (map f xs))) + d \<le> 32 \<longleftrightarrow> (\<forall>x\<in>set xs. f x + (d + 1) \<le> (32::nat))"
proof (cases "d \<le> 31")
  case True
  have "Max (set (map f xs)) \<le> 31 - d \<longleftrightarrow> (\<forall>x\<in>set xs. f x \<le> 31 - d)"
    using assms by (subst Max_le_iff) auto
  moreover have "f x + (d + 1) \<le> 32 \<longleftrightarrow> f x \<le> 31 - d" for x using True by linarith
  ultimately show ?thesis using True by (simp add: le_diff_conv2)
next
  case False
  then show ?thesis using assms by (cases xs) auto
qed

lemma check_text_accepts: "check_text s = Inr u \<longleftrightarrow> harmless (JStr s)"
  by (auto simp: check_text_def result_simps)

lemma reject_walk_accepts:
  "reject_walk j d = Inr u \<longleftrightarrow> json_depth j + d \<le> 32 \<and> list_all harmless (subvalues j)"
proof (induction j d arbitrary: u rule: reject_walk.induct)
  case (1 item depth)
  show ?case
  proof (cases "32 < depth")
    case False
    note IHL = "1.IH"(1) [OF False] and IHO = "1.IH"(2) [OF False]
    show ?thesis
    proof (cases item)
      case (JList js)
      have step: "reject_walk x (depth + 1) = Inr () \<longleftrightarrow>
          json_depth x + (depth + 1) \<le> 32 \<and> list_all harmless (subvalues x)" if "x \<in> set js" for x
        using IHL [OF JList that, of "()"] by simp
      show ?thesis using False depth_below [of js json_depth depth] step
        by (cases "js = []") (auto simp: JList reject_walk.simps [of "JList xs" for xs] result_simps fold_result_unit list_all_iff)
    next
      case (JObj kvs)
      have step: "reject_walk (snd p) (depth + 1) = Inr () \<longleftrightarrow>
          json_depth (snd p) + (depth + 1) \<le> 32 \<and> list_all harmless (subvalues (snd p))" if "p \<in> set kvs" for p
        using IHO [OF JObj that, of "()"] by simp
      show ?thesis using False depth_below [of kvs "\<lambda>p. json_depth (snd p)" depth] step
        by (cases "kvs = []") (auto simp: JObj reject_walk.simps [of "JObj xs" for xs] result_simps fold_result_unit list_all_iff)
    next
      case (JStr s)
      then show ?thesis using False by (simp add: reject_walk.simps [of "JStr t" for t] check_text_accepts)
    qed (use False in \<open>simp_all add: reject_walk.simps\<close>)
  qed (simp add: reject_walk.simps)
qed

text \<open>
  The guard accepts a payload exactly when it is nested at most 32 levels deep and no value
  inside it, at whatever depth, is an object with a forbidden key or too many fields, a list with
  too many items, or a text that is an absolute path, carries a secret or is too long.
\<close>

theorem payload_guard_accepts:
  "reject_untrusted_payload v = Inr () \<longleftrightarrow> json_depth v \<le> 32 \<and> list_all harmless (subvalues v)"
  by (simp add: reject_untrusted_payload_def reject_walk_accepts)

lemma reject_payload_accepts:
  "reject_untrusted_payload v = Inr u \<longleftrightarrow> json_depth v \<le> 32 \<and> list_all harmless (subvalues v)"
  by (simp add: reject_untrusted_payload_def reject_walk_accepts)

end
