(* ===== verification/Json_Laws.thy ===== *)
theory Json_Laws
  imports Json
begin

text \<open>
  Laws of the canonical projection (\<open>Json\<close>): freezing a value does not change what it
  projects to; every projected value is well formed (finite numbers, distinct keys), so
  normalisation never raises on it and is the sorting of its keys; the canonical text does
  not depend on the order in which a dictionary was filled; and the text determines the
  value. The last one is what makes a digest of the text a binding of the value.
\<close>

section \<open>Freezing\<close>

lemma traverse_map: "traverse f (map g xs) = traverse (\<lambda>x. f (g x)) xs"
  by (induction xs) auto

lemma model_to_dict_deep_freeze [simp]: "model_to_dict P (deep_freeze v) = model_to_dict P v"
proof (induction v rule: deep_freeze.induct)
  case (1 kvs)
  then show ?case by (auto simp: traverse_map intro!: arg_cong2 [where f = andthen] traverse_cong)
next
  case (2 kvs)
  then show ?case by (auto simp: traverse_map intro!: arg_cong2 [where f = andthen] traverse_cong)
next
  case (3 vs)
  then show ?case by (auto simp: traverse_map intro!: arg_cong2 [where f = andthen] traverse_cong)
next
  case (4 vs)
  then show ?case by (auto simp: traverse_map intro!: arg_cong2 [where f = andthen] traverse_cong)
next
  case (5 vs)
  then show ?case by (auto simp: traverse_map intro!: arg_cong2 [where f = andthen] traverse_cong)
next
  case (6 vs)
  then show ?case by (auto simp: traverse_map intro!: arg_cong2 [where f = andthen] traverse_cong)
qed simp_all

lemma frozen_deep_freeze: "frozen (deep_freeze v)"
  by (induction v rule: deep_freeze.induct) (auto simp: list_all_iff)

lemma deep_freeze_idem: "deep_freeze (deep_freeze v) = deep_freeze v"
  by (induction v rule: deep_freeze.induct) auto

section \<open>Well-formed JSON\<close>

fun wf_json :: "json \<Rightarrow> bool" where
  "wf_json (JNonFinite s) = False"
| "wf_json (JList js) = list_all wf_json js"
| "wf_json (JObj kvs) = (distinct (map fst kvs) \<and> list_all (\<lambda>p. wf_json (snd p)) kvs)"
| "wf_json j = True"

lemma set_dict_put: "set (dict_put k v kvs) \<subseteq> insert (k, v) (set kvs)"
  by (induction k v kvs rule: dict_put.induct) auto

lemma dict_of_wf:
  assumes "list_all (\<lambda>p. wf_json (snd p)) kvs"
  shows "wf_json (JObj (dict_of kvs))"
proof -
  have "distinct (map fst (fold (\<lambda>(k, v) d. dict_put k v d) kvs acc))
      \<and> list_all (\<lambda>p. wf_json (snd p)) (fold (\<lambda>(k, v) d. dict_put k v d) kvs acc)"
    if "distinct (map fst acc)" "list_all (\<lambda>p. wf_json (snd p)) acc" for acc
    using assms that
  proof (induction kvs arbitrary: acc)
    case (Cons p kvs)
    obtain k v where p: "p = (k, v)" by (cases p)
    have "distinct (map fst (dict_put k v acc))"
      using Cons.prems(2) by (rule distinct_dict_put)
    moreover have "list_all (\<lambda>p. wf_json (snd p)) (dict_put k v acc)"
      using Cons.prems(1,3) p set_dict_put [of k v acc] by (fastforce simp: list_all_iff)
    ultimately show ?case using Cons p by simp
  qed simp
  from this [of "[]"] show ?thesis by (simp add: dict_of_def)
qed

lemma traverse_wf_items:
  assumes "traverse (\<lambda>p. andthen (f (snd p)) (\<lambda>j. Inr (g (fst p), j))) kvs = Inr js"
    and "\<And>p j. p \<in> set kvs \<Longrightarrow> f (snd p) = Inr j \<Longrightarrow> wf_json j"
  shows "list_all (\<lambda>p. wf_json (snd p)) js"
  using assms
proof (induction kvs arbitrary: js)
  case (Cons p kvs)
  then obtain j js' where "f (snd p) = Inr j" "js = (g (fst p), j) # js'"
    "traverse (\<lambda>p. andthen (f (snd p)) (\<lambda>j. Inr (g (fst p), j))) kvs = Inr js'"
    by (auto simp: result_simps)
  moreover from this have "list_all (\<lambda>p. wf_json (snd p)) js'"
    using Cons.IH Cons.prems(2) by (meson list.set_intros(2))
  ultimately show ?case using Cons.prems(2) [of p] by simp
qed simp

lemma traverse_wf_list:
  assumes "traverse f vs = Inr js" and "\<And>v j. v \<in> set vs \<Longrightarrow> f v = Inr j \<Longrightarrow> wf_json j"
  shows "list_all wf_json js"
  unfolding list_all_length
proof (intro allI impI)
  fix n assume "n < length js"
  moreover from assms(1) have "length vs = length js" "\<forall>i<length js. f (vs ! i) = Inr (js ! i)"
    by (auto simp: traverse_eq_Inr list_all2_conv_all_nth)
  ultimately show "wf_json (js ! n)" using assms(2) by (metis nth_mem)
qed

lemma model_to_dict_wf: "model_to_dict P v = Inr j \<Longrightarrow> wf_json j"
proof (induction P v arbitrary: j rule: model_to_dict.induct)
  case (1 P fs)
  then show ?case by (auto simp: result_simps intro!: dict_of_wf elim!: traverse_wf_items)
next
  case (3 P kvs)
  then show ?case by (auto simp: result_simps intro!: dict_of_wf elim!: traverse_wf_items)
next
  case (4 P kvs)
  then show ?case by (auto simp: result_simps intro!: dict_of_wf elim!: traverse_wf_items)
next
  case (15 P vs)
  then obtain js where "traverse (model_to_dict P) vs = Inr js" "j = JList (sort_key (json_text P) js)"
    by (auto simp: result_simps)
  with 15 show ?case using traverse_wf_list [of "model_to_dict P" vs js]
    by (auto simp: list_all_iff)
next
  case (16 P vs)
  then obtain js where "traverse (model_to_dict P) vs = Inr js" "j = JList (sort_key (json_text P) js)"
    by (auto simp: result_simps)
  with 16 show ?case using traverse_wf_list [of "model_to_dict P" vs js]
    by (auto simp: list_all_iff)
next
  case (17 P vs)
  then show ?case by (auto simp: result_simps elim!: traverse_wf_list)
next
  case (18 P vs)
  then show ?case by (auto simp: result_simps elim!: traverse_wf_list)
qed auto

lemma traverse_keep_fst:
  "(\<And>p. p \<in> set kvs \<Longrightarrow> f (snd p) = Inr (g (snd p))) \<Longrightarrow>
   traverse (\<lambda>p. andthen (f (snd p)) (\<lambda>j. Inr (fst p, j))) kvs = Inr (map (\<lambda>p. (fst p, g (snd p))) kvs)"
  by (rule traverse_total) simp

lemma normalise_wf: "wf_json j \<Longrightarrow> normalise (\<lambda>s. s) j = Inr (sort_keys j)"
proof (induction "\<lambda>s :: string. s" j rule: normalise.induct)
  case (1 kvs)
  then have "traverse (\<lambda>p. andthen (normalise (\<lambda>s. s) (snd p)) (\<lambda>j. Inr (fst p, j))) kvs
      = Inr (map (\<lambda>p. (fst p, sort_keys (snd p))) kvs)"
    by (intro traverse_keep_fst) (auto simp: list_all_iff)
  with 1 show ?case by simp
next
  case (2 js)
  then have "traverse (normalise (\<lambda>s. s)) js = Inr (map sort_keys js)"
    by (intro traverse_total) (auto simp: list_all_iff)
  then show ?case by simp
qed simp_all

lemma sort_key_fst_sorted:
  "sort_key fst (map (\<lambda>p. (fst p, f (snd p))) (sort_key fst kvs))
     = map (\<lambda>p. (fst p, f (snd p))) (sort_key fst kvs)" for kvs :: "(string \<times> 'v) list"
proof (rule sort_key_id_if_sorted)
  show "sorted (map fst (map (\<lambda>p. (fst p, f (snd p))) (sort_key fst kvs)))"
    using sorted_sort_key [of fst kvs] by (simp add: comp_def)
qed

lemma map_sort_key_fst:
  fixes kvs :: "(string \<times> 'v) list"
  assumes "distinct (map fst kvs)"
  shows "map (\<lambda>p. (fst p, f (snd p))) (sort_key fst kvs)
       = sort_key fst (map (\<lambda>p. (fst p, f (snd p))) kvs)"
proof -
  have "sort_key fst (map (\<lambda>p. (fst p, f (snd p))) kvs)
      = sort_key fst (map (\<lambda>p. (fst p, f (snd p))) (sort_key fst kvs))"
    using assms
    by (intro sort_key_mset_eq)
      (auto simp: distinct_map inj_on_def image_mset.compositionality intro!: image_mset_cong)
  then show ?thesis by (simp add: sort_key_fst_sorted)
qed

section \<open>Sorting keys\<close>

lemma wf_sort_keys: "wf_json j \<Longrightarrow> wf_json (sort_keys j)"
proof (induction j rule: sort_keys.induct)
  case (2 kvs)
  then show ?case by (auto simp: list_all_iff distinct_map inj_on_def)
qed (auto simp: list_all_iff)

lemma sort_keys_idem: "wf_json j \<Longrightarrow> sort_keys (sort_keys j) = sort_keys j"
proof (induction j rule: sort_keys.induct)
  case (2 kvs)
  let ?s = "\<lambda>kvs :: (string \<times> json) list. map (\<lambda>p. (fst p, sort_keys (snd p))) kvs"
  have d: "distinct (map fst (?s kvs))" using "2.prems" by (simp add: comp_def)
  have "?s (sort_key fst (?s kvs)) = sort_key fst (?s (?s kvs))"
    using d by (rule map_sort_key_fst)
  also have "?s (?s kvs) = ?s kvs"
    using 2 by (auto simp: list_all_iff)
  finally show ?case by (simp add: sort_key_id_if_sorted)
qed (auto simp: list_all_iff)

lemma json_text_sort_keys: "wf_json j \<Longrightarrow> json_text P (sort_keys j) = json_text P j"
  by (simp add: json_text_def sort_keys_idem)

text \<open>Normalisation never raises on a projected value: it is the sorting of its keys.\<close>

lemma canonical_json_projection:
  "canonical_json P v = andthen (model_to_dict P v) (\<lambda>j. Inr (json_text P j))"
proof (cases "model_to_dict P v")
  case (Inr j)
  then have "wf_json j" by (rule model_to_dict_wf)
  then show ?thesis using Inr by (simp add: canonical_json_def canonical_json_nfc_def normalise_wf json_text_sort_keys)
qed (simp add: canonical_json_def canonical_json_nfc_def)

lemma model_to_dict_of_json: "wf_json j \<Longrightarrow> model_to_dict P (of_json j) = Inr j"
proof (induction j rule: of_json.induct)
  case (7 js)
  then have "traverse (\<lambda>x. model_to_dict P (of_json x)) js = Inr (map id js)"
    by (intro traverse_total) (auto simp: list_all_iff)
  then show ?case by (simp add: traverse_map)
next
  case (8 kvs)
  then have "traverse (\<lambda>p. andthen (model_to_dict P (of_json (snd p))) (\<lambda>j. Inr (fst p, j))) kvs
      = Inr (map (\<lambda>p. (fst p, snd p)) kvs)"
    by (intro traverse_total) (auto simp: list_all_iff)
  then show ?case using 8 by (simp add: traverse_map str_key_def dict_of_distinct)
qed simp_all

lemma canonical_sha256_of_json: "wf_json j \<Longrightarrow> canonical_sha256 P (of_json j) = Inr (hash_json P j)"
  by (simp add: canonical_sha256_def canonical_json_projection model_to_dict_of_json hash_json_def)

text \<open>The order in which an object was filled does not matter.\<close>

lemma sort_keys_perm:
  assumes "mset kvs = mset kvs'" and "distinct (map fst kvs)"
  shows "sort_keys (JObj kvs) = sort_keys (JObj kvs')"
proof -
  let ?s = "map (\<lambda>p. (fst p, sort_keys (snd p)))"
  have "mset (?s kvs) = mset (?s kvs')" using assms(1) by simp
  moreover have "inj_on fst (set (?s kvs))"
    using assms(2) by (auto simp: distinct_map inj_on_def)
  ultimately show ?thesis by (simp add: sort_key_mset_eq)
qed

end
