(* ===== verification/Budget_Amounts.thy ===== *)
theory Budget_Amounts
  imports Payload_Guard Json_Laws
begin

text \<open>
  Budget quantities of \<open>max_research/persistence/repository.py\<close>: \<open>normalize_budget_limits\<close> and
  \<open>normalize_budget_amount\<close>, which read a JSON object into canonical units.

  \<^item> A quantity is a Python \<open>int\<close> or \<open>float\<close> (its exact value). Sums and differences of ints are
    exact; as soon as a float is involved both sides are converted and the result is rounded by
    the parameter \<open>R\<close>, rounding to the nearest double (a sum beyond the largest double is not
    modelled). Comparisons are exact, as Python compares ints with floats.
  \<^item> An amount is a dictionary from units to quantities, as an association list.
\<close>

section \<open>Quantities\<close>

datatype quantity = Whole int | Double rat

type_synonym rounding = "rat \<Rightarrow> rat"
type_synonym amount = "(string \<times> quantity) list"

fun worth :: "quantity \<Rightarrow> rat" where
  "worth (Whole i) = of_int i"
| "worth (Double r) = r"

text \<open>Quantities are compared by their value; \<open>1\<close> and \<open>1.0\<close> are equivalent but not equal.\<close>

instantiation quantity :: preorder
begin

definition less_eq_quantity :: "quantity \<Rightarrow> quantity \<Rightarrow> bool" where
  "less_eq_quantity x y \<longleftrightarrow> worth x \<le> worth y"

definition less_quantity :: "quantity \<Rightarrow> quantity \<Rightarrow> bool" where
  "less_quantity x y \<longleftrightarrow> worth x < worth y"

instance
  by standard (auto simp: less_eq_quantity_def less_quantity_def)

end

lemma whole_less_eq [simp]: "Whole a \<le> Whole b \<longleftrightarrow> a \<le> b"
  by (simp add: less_eq_quantity_def)

fun add_q :: "rounding \<Rightarrow> quantity \<Rightarrow> quantity \<Rightarrow> quantity" where
  "add_q R (Whole a) (Whole b) = Whole (a + b)"
| "add_q R x y = Double (R (R (worth x) + R (worth y)))"

fun sub_q :: "rounding \<Rightarrow> quantity \<Rightarrow> quantity \<Rightarrow> quantity" where
  "sub_q R (Whole a) (Whole b) = Whole (a - b)"
| "sub_q R x y = Double (R (R (worth x) - R (worth y)))"

fun quantity_json :: "quantity \<Rightarrow> json" where
  "quantity_json (Whole i) = JInt i"
| "quantity_json (Double r) = JFloat r"

definition amount_json :: "amount \<Rightarrow> json" where
  "amount_json a = JObj (map (\<lambda>p. (fst p, quantity_json (snd p))) a)"

text \<open>\<open>float(i)\<close> overflows from half a unit in the last place above the largest double.\<close>

definition int_to_float_overflows :: "int \<Rightarrow> bool" where
  "int_to_float_overflows i \<longleftrightarrow> 2 ^ 1024 - 2 ^ 970 \<le> \<bar>i\<bar>"

definition read_quantity :: "string \<Rightarrow> json \<Rightarrow> failure + quantity" where
  "read_quantity message raw =
     (case raw of
        JInt i \<Rightarrow>
          if int_to_float_overflows i then Inl (Raised (OverflowError ''int too large to convert to float''))
          else if i < 0 then Inl (Max_control message) else Inr (Whole i)
      | JFloat x \<Rightarrow> if x < 0 then Inl (Max_control message) else Inr (Double x)
      | _ \<Rightarrow> Inl (Max_control message))"

section \<open>Units\<close>

definition budget_aliases :: "(string \<times> string) list" where
  "budget_aliases =
    [(''iterations'', ''iteration_count''), (''iteration_count'', ''iteration_count''),
     (''max_iterations'', ''iteration_count''), (''wall_clock'', ''wall_clock_seconds''),
     (''wall_clock_seconds'', ''wall_clock_seconds''), (''max_wall_clock_seconds'', ''wall_clock_seconds''),
     (''input_tokens'', ''input_tokens''), (''max_input_tokens'', ''input_tokens''),
     (''output_tokens'', ''output_tokens''), (''max_output_tokens'', ''output_tokens''),
     (''cost_units'', ''cost_units''), (''monetary_cost_units'', ''cost_units''),
     (''max_cost_units'', ''cost_units''), (''acquisition_requests'', ''acquisition_requests''),
     (''max_acquisition_requests'', ''acquisition_requests''), (''acquisition_bytes'', ''acquisition_bytes''),
     (''max_acquisition_bytes'', ''acquisition_bytes'')]"

definition budget_unit :: "string \<Rightarrow> string option" where
  "budget_unit key =
     (case map_of budget_aliases key of
        Some u \<Rightarrow> Some u
      | None \<Rightarrow> if key \<in> set (map snd budget_aliases) then Some key else None)"

definition add_limit :: "string \<times> json \<Rightarrow> amount \<Rightarrow> failure + amount" where
  "add_limit kv limits =
     andthen (from_option (Max_control ''budget policy contains an unsupported unit'')
       (map_of budget_aliases (fst kv))) (\<lambda>unit.
     andthen (read_quantity ''budget limits must be finite non-negative numbers'' (snd kv)) (\<lambda>q.
     andthen (require (case map_of limits unit of None \<Rightarrow> True | Some q' \<Rightarrow> worth q' = worth q)
       (Max_control ''budget policy contains conflicting unit aliases'')) (\<lambda>_.
     Inr (dict_put unit q limits))))"

definition normalize_budget_limits :: "json \<Rightarrow> failure + amount" where
  "normalize_budget_limits v =
     (case v of
        JObj (kv # kvs) \<Rightarrow>
          andthen (fold_result add_limit (kv # kvs) []) (\<lambda>limits. Inr (sort_key fst limits))
      | _ \<Rightarrow> Inl (Max_control ''budget policy must be a non-empty object''))"

definition add_amount :: "rounding \<Rightarrow> string \<times> json \<Rightarrow> amount \<Rightarrow> failure + amount" where
  "add_amount R kv amounts =
     andthen (from_option (Max_control ''budget amount contains an unsupported unit'') (budget_unit (fst kv))) (\<lambda>unit.
     andthen (read_quantity ''budget amounts must be finite non-negative numbers'' (snd kv)) (\<lambda>q.
     Inr (if worth q = 0 then amounts
          else dict_put unit (case map_of amounts unit of None \<Rightarrow> q | Some q' \<Rightarrow> add_q R q' q) amounts)))"

definition normalize_budget_amount :: "rounding \<Rightarrow> json \<Rightarrow> bool \<Rightarrow> failure + amount" where
  "normalize_budget_amount R v allow_empty =
     (case v of
        JObj kvs \<Rightarrow>
          andthen (require (kvs \<noteq> [] \<or> allow_empty) (Max_control ''budget amount must be a non-empty object'')) (\<lambda>_.
          andthen (fold_result (add_amount R) kvs []) (\<lambda>amounts.
          andthen (require (amounts \<noteq> [] \<or> allow_empty)
            (Max_control ''budget amount must contain a positive unit'')) (\<lambda>_.
          Inr (sort_key fst amounts))))
      | _ \<Rightarrow> Inl (Max_control ''budget amount must be a non-empty object''))"

section \<open>Normal forms\<close>

text \<open>A canonical amount: known units in strictly increasing order, each with a positive quantity.\<close>

fun positive_q :: "quantity \<Rightarrow> bool" where
  "positive_q (Whole i) = (0 < i \<and> \<not> int_to_float_overflows i)"
| "positive_q (Double r) = (0 < r)"

definition canonical_amount :: "amount \<Rightarrow> bool" where
  "canonical_amount a \<longleftrightarrow> sorted (map fst a) \<and> distinct (map fst a)
     \<and> list_all (\<lambda>p. budget_unit (fst p) = Some (fst p) \<and> positive_q (snd p)) a"

lemma positive_read: "positive_q q \<Longrightarrow> read_quantity m (quantity_json q) = Inr q"
  by (cases q) (auto simp: read_quantity_def)

lemma positive_worth: "positive_q q \<Longrightarrow> 0 < worth q"
  by (cases q) auto

lemma fold_canonical:
  assumes "list_all (\<lambda>p. budget_unit (fst p) = Some (fst p) \<and> positive_q (snd p)) a"
    and "distinct (map fst (acc @ a))"
  shows "fold_result (add_amount R) (map (\<lambda>p. (fst p, quantity_json (snd p))) a) acc = Inr (acc @ a)"
  using assms
proof (induction a arbitrary: acc)
  case (Cons p a)
  obtain u q where p: "p = (u, q)" by (cases p)
  have q: "positive_q q" "budget_unit u = Some u" and new: "u \<notin> set (map fst acc)"
    using Cons.prems p by auto
  have "map_of acc u = None" using new by (simp add: map_of_eq_None_iff)
  then have step: "add_amount R (u, quantity_json q) acc = Inr (acc @ [(u, q)])"
    using q positive_worth [OF q(1)] dict_put_fresh [OF new, of q]
    by (simp add: add_amount_def positive_read)
  show ?case using Cons.IH [of "acc @ [(u, q)]"] Cons.prems p step by simp
qed simp

text \<open>Reading a stored canonical amount gives it back.\<close>

lemma stored_amount_reads:
  assumes "canonical_amount a"
  shows "normalize_budget_amount R (amount_json a) True = Inr a"
proof -
  have "fold_result (add_amount R) (map (\<lambda>p. (fst p, quantity_json (snd p))) a) [] = Inr a"
    using fold_canonical [of a "[]" R] assms by (simp add: canonical_amount_def)
  moreover have "sort_key fst a = a"
    using assms by (simp add: canonical_amount_def sort_key_id_if_sorted)
  ultimately show ?thesis by (simp add: normalize_budget_amount_def amount_json_def)
qed

text \<open>Limits are kept in normal form too: known units, in increasing order, each readable.\<close>

definition canonical_limits :: "amount \<Rightarrow> bool" where
  "canonical_limits a \<longleftrightarrow> a \<noteq> [] \<and> sorted (map fst a) \<and> distinct (map fst a)
     \<and> list_all (\<lambda>p. map_of budget_aliases (fst p) = Some (fst p)
          \<and> (\<forall>m. read_quantity m (quantity_json (snd p)) = Inr (snd p))) a"

lemma fold_limits:
  assumes "list_all (\<lambda>p. map_of budget_aliases (fst p) = Some (fst p)
          \<and> (\<forall>m. read_quantity m (quantity_json (snd p)) = Inr (snd p))) a"
    and "distinct (map fst (acc @ a))"
  shows "fold_result add_limit (map (\<lambda>p. (fst p, quantity_json (snd p))) a) acc = Inr (acc @ a)"
  using assms
proof (induction a arbitrary: acc)
  case (Cons p a)
  obtain u q where p: "p = (u, q)" by (cases p)
  have new: "u \<notin> set (map fst acc)" using Cons.prems p by auto
  then have "map_of acc u = None" by (simp add: map_of_eq_None_iff)
  then have step: "add_limit (u, quantity_json q) acc = Inr (acc @ [(u, q)])"
    using Cons.prems p dict_put_fresh [OF new, of q] by (simp add: add_limit_def)
  show ?case using Cons.IH [of "acc @ [(u, q)]"] Cons.prems p step by simp
qed simp

lemma stored_limits_read:
  assumes "canonical_limits a"
  shows "normalize_budget_limits (amount_json a) = Inr a"
proof -
  have "fold_result add_limit (map (\<lambda>p. (fst p, quantity_json (snd p))) a) [] = Inr a"
    using fold_limits [of a "[]"] assms by (simp add: canonical_limits_def)
  moreover have "sort_key fst a = a" "a \<noteq> []"
    using assms by (simp_all add: canonical_limits_def sort_key_id_if_sorted)
  ultimately show ?thesis
    by (cases a) (simp_all add: normalize_budget_limits_def amount_json_def)
qed

lemma aliases_closed:
  "list_all (\<lambda>p. map_of budget_aliases (snd p) = Some (snd p)) budget_aliases"
  by code_simp

lemma alias_unit: "map_of budget_aliases k = Some u \<Longrightarrow> map_of budget_aliases u = Some u"
  using aliases_closed map_of_SomeD by (fastforce simp: list_all_iff)

lemma read_quantity_stored:
  "read_quantity m j = Inr q \<Longrightarrow> read_quantity m' (quantity_json q) = Inr q"
  by (auto simp: read_quantity_def split: json.splits if_splits)

lemma normalized_limits_canonical:
  assumes "normalize_budget_limits v = Inr a"
  shows "canonical_limits a"
proof -
  let ?ok = "\<lambda>a :: amount. distinct (map fst a) \<and> list_all (\<lambda>p. map_of budget_aliases (fst p) = Some (fst p)
          \<and> (\<forall>m. read_quantity m (quantity_json (snd p)) = Inr (snd p))) a"
  from assms obtain kv kvs where "v = JObj (kv # kvs)"
    by (cases v) (auto simp: normalize_budget_limits_def split: list.splits)
  with assms obtain acc where v: "fold_result add_limit (kv # kvs) [] = Inr acc" "a = sort_key fst acc"
    by (auto simp: normalize_budget_limits_def andthen_eq_Inr simp del: fold_result.simps)
  have put: "list_all Q (dict_put k x d)" if "list_all Q d" "Q (k, x)" for Q k and x :: quantity and d
    using that set_dict_put by (induction k x d rule: dict_put.induct) auto
  have step: "?ok a'" if "?ok u" "add_limit x u = Inr a'" for x u a'
  proof -
    from that(2) obtain unit q m where "map_of budget_aliases (fst x) = Some unit" "read_quantity m (snd x) = Inr q"
        "a' = dict_put unit q u"
      by (auto simp: add_limit_def result_simps)
    then show ?thesis
      using that(1) alias_unit read_quantity_stored distinct_dict_put [of u unit q]
        put [of "\<lambda>p. map_of budget_aliases (fst p) = Some (fst p)
          \<and> (\<forall>m. read_quantity m (quantity_json (snd p)) = Inr (snd p))" u unit q] by auto
  qed
  from v(1) obtain acc1 where f: "add_limit kv [] = Inr acc1" "fold_result add_limit kvs acc1 = Inr acc"
    by (auto simp: result_simps)
  have one: "?ok acc1 \<and> acc1 \<noteq> []"
    using step [of "[]" kv acc1] f(1) by (auto simp: add_limit_def result_simps)
  have "?ok acc \<and> acc \<noteq> []"
    using f(2) one
  proof (rule fold_result_invariant [where I = "\<lambda>a. ?ok a \<and> a \<noteq> []"])
    fix x u v' assume "?ok u \<and> u \<noteq> []" "add_limit x u = Inr v'"
    then show "?ok v' \<and> v' \<noteq> []" using step [of u x v']
      by (auto simp: add_limit_def result_simps dict_put_nonempty)
  qed
  moreover have "sort_key fst acc \<noteq> [] \<longleftrightarrow> acc \<noteq> []"
    by (metis length_0_conv length_sort)
  moreover have "distinct (map fst (sort_key fst acc)) \<longleftrightarrow> distinct (map fst acc)"
    by (metis mset_map mset_sort mset_eq_imp_distinct_iff)
  ultimately show ?thesis unfolding v(2) canonical_limits_def by (auto simp: list_all_iff)
qed

end
