(* ===== verification/Json_Unique.thy ===== *)
theory Json_Unique
  imports Json_Laws
begin

text \<open>
  The canonical text determines the value. \<open>plain\<close> is the fragment without floats, whose
  rendering is a library function. The proof is unique readability: a rendered value
  followed by text that does not continue it (\<open>stops\<close>) can be read back in one way only.
\<close>

fun plain :: "json \<Rightarrow> bool" where
  "plain (JFloat r) = False"
| "plain (JNonFinite s) = False"
| "plain (JList js) = list_all plain js"
| "plain (JObj kvs) = list_all (\<lambda>p. plain (snd p)) kvs"
| "plain j = True"

section \<open>Strings\<close>

lemma hex_digit_inj: "a < 16 \<Longrightarrow> b < 16 \<Longrightarrow> hex_digit a = hex_digit b \<longleftrightarrow> a = b"
proof -
  assume ab: "a < 16" "b < 16"
  have v: "code_of (hex_digit k) = (if k < 10 then 48 + k else 87 + k)" if "k < 16" for k
    using that by (simp add: hex_digit_def take_bit_eq_mod)
  show ?thesis
  proof
    assume "hex_digit a = hex_digit b"
    then have "code_of (hex_digit a) = code_of (hex_digit b)" by simp
    then show "a = b" using v [OF ab(1)] v [OF ab(2)] ab by (auto split: if_splits)
  qed simp
qed

lemma code_of_char_of: "n < 256 \<Longrightarrow> code_of (char_of n) = (n :: nat)"
  by (simp add: take_bit_eq_mod)

lemma escape_char_plain:
  "32 \<le> code_of c \<Longrightarrow> code_of c \<noteq> 34 \<Longrightarrow> code_of c \<noteq> 92 \<Longrightarrow> escape_char c = [c]"
  by (simp add: escape_char_def Let_def)

lemma escape_char_hd:
  "\<exists>rest. escape_char c = (if 32 \<le> code_of c \<and> code_of c \<noteq> 34 \<and> code_of c \<noteq> 92
       then c else CHR 0x5C) # rest"
  by (auto simp: escape_char_def Let_def)

text \<open>The character after the backslash, with the two hex digits of a \<open>\u00xx\<close> escape.\<close>

definition hex_val :: "char \<Rightarrow> nat" where
  "hex_val d = (if code_of d < 58 then code_of d - 48 else code_of d - 87)"

definition escape_code :: "string \<Rightarrow> nat" where
  "escape_code s =
     (if s = [] then 0 else if hd s = CHR 0x22 then 34 else if hd s = CHR 0x5C then 92
      else if hd s = CHR ''n'' then 10 else if hd s = CHR ''r'' then 13
      else if hd s = CHR ''t'' then 9 else if hd s = CHR ''f'' then 12
      else if hd s = CHR ''b'' then 8
      else 16 * hex_val (s ! 3) + hex_val (s ! 4))"

lemma hex_val_hex_digit: "k < 16 \<Longrightarrow> hex_val (hex_digit k) = k"
  by (simp add: hex_val_def hex_digit_def take_bit_eq_mod)

lemma escape_char_escaped:
  assumes "code_of c < 32 \<or> code_of c = 34 \<or> code_of c = 92"
  obtains body where "escape_char c = CHR 0x5C # body"
    "\<forall>x. escape_code (body @ x) = code_of c"
    "length body = (if hd body = CHR ''u'' then 5 else 1)" "body \<noteq> []"
proof -
  have d: "code_of c < 32 \<Longrightarrow> code_of c div 16 < 16" "code_of c mod 16 < 16" by auto
  have m: "16 * (code_of c div 16) + code_of c mod 16 = code_of c" by simp
  show thesis
    using assms
    by (intro that [of "tl (escape_char c)"])
      (auto simp: escape_char_def Let_def escape_code_def hex_val_hex_digit d m)
qed

abbreviation escaped :: "char \<Rightarrow> bool" where
  "escaped c \<equiv> code_of c < 32 \<or> code_of c = 34 \<or> code_of c = 92"

lemma escaped_hd: "escape_char c = a # as \<Longrightarrow> escaped c \<longleftrightarrow> a = CHR 0x5C"
proof (cases "escaped c")
  case True
  assume h: "escape_char c = a # as"
  from True obtain body where "escape_char c = CHR 0x5C # body" by (rule escape_char_escaped)
  with h True show ?thesis by simp
next
  case False
  assume h: "escape_char c = a # as"
  from False have "escape_char c = [c]" by (auto intro!: escape_char_plain)
  with h False show ?thesis by auto
qed

lemma escape_char_nonempty: "escape_char c \<noteq> []"
  using escape_char_hd [of c] by auto

lemma escape_char_prefix:
  assumes "escape_char c @ x = escape_char d @ y"
  shows "c = d \<and> x = y"
proof -
  obtain a as b bs where hds: "escape_char c = a # as" "escape_char d = b # bs"
    using escape_char_nonempty by (meson neq_Nil_conv)
  then have "a = b" using assms by simp
  then have same: "escaped c \<longleftrightarrow> escaped d" using escaped_hd [OF hds(1)] escaped_hd [OF hds(2)] by simp
  show ?thesis
  proof (cases "escaped c")
    case True
    then have "escaped d" using same by simp
    obtain bc where bc: "escape_char c = CHR 0x5C # bc" "\<forall>x. escape_code (bc @ x) = code_of c"
        "length bc = (if hd bc = CHR ''u'' then 5 else 1)" "bc \<noteq> []"
      using True by (rule escape_char_escaped)
    obtain bd where bd: "escape_char d = CHR 0x5C # bd" "\<forall>x. escape_code (bd @ x) = code_of d"
        "length bd = (if hd bd = CHR ''u'' then 5 else 1)" "bd \<noteq> []"
      using \<open>escaped d\<close> by (rule escape_char_escaped)
    have eq: "bc @ x = bd @ y" using assms bc(1) bd(1) by simp
    have "code_of c = escape_code (bc @ x)" using bc(2) by simp
    also have "\<dots> = code_of d" unfolding eq using bd(2) by simp
    finally have "c = d" by simp
    moreover have "hd bc = hd bd" using eq bc(4) bd(4) by (metis hd_append2)
    then have "length bc = length bd" using bc(3) bd(3) by presburger
    ultimately show ?thesis using eq by simp
  next
    case False
    then have "escape_char c = [c]" "escape_char d = [d]"
      using same by (auto intro!: escape_char_plain)
    then show ?thesis using assms by simp
  qed
qed

lemma escape_char_not_quote: "escape_char c @ x \<noteq> CHR 0x22 # y"
proof
  assume h: "escape_char c @ x = CHR 0x22 # y"
  then obtain as where a: "escape_char c = CHR 0x22 # as"
    using escape_char_nonempty by (cases "escape_char c") auto
  then have "\<not> escaped c" using escaped_hd by fastforce
  then have "escape_char c = [c]" by (auto intro!: escape_char_plain)
  with a \<open>\<not> escaped c\<close> show False by simp
qed

lemma quoted_body_prefix:
  "concat (map escape_char s) @ CHR 0x22 # x = concat (map escape_char t) @ CHR 0x22 # y
     \<Longrightarrow> s = t \<and> x = y"
proof (induction s arbitrary: t)
  case Nil
  show ?case
  proof (cases t)
    case (Cons d u)
    with Nil have "CHR 0x22 # x = escape_char d @ concat (map escape_char u) @ CHR 0x22 # y"
      by simp
    then have False using escape_char_not_quote [of d] by metis
    then show ?thesis ..
  qed (use Nil in simp)
next
  case (Cons c s)
  show ?case
  proof (cases t)
    case Nil
    with Cons.prems show ?thesis using escape_char_not_quote [of c] by simp
  next
    case (Cons d u)
    then have "escape_char c @ concat (map escape_char s) @ CHR 0x22 # x
        = escape_char d @ concat (map escape_char u) @ CHR 0x22 # y"
      using Cons.prems by simp
    then have "c = d \<and> concat (map escape_char s) @ CHR 0x22 # x
        = concat (map escape_char u) @ CHR 0x22 # y"
      by (rule escape_char_prefix)
    with Cons.IH [of u] Cons show ?thesis by simp
  qed
qed

lemma quote_prefix: "quote s @ x = quote t @ y \<longleftrightarrow> s = t \<and> x = y"
proof
  assume "quote s @ x = quote t @ y"
  then have "concat (map escape_char s) @ CHR 0x22 # x = concat (map escape_char t) @ CHR 0x22 # y"
    by (simp add: quote_def)
  then show "s = t \<and> x = y" by (rule quoted_body_prefix)
qed simp

section \<open>Integers\<close>

definition digits_value :: "string \<Rightarrow> nat" where
  "digits_value s = foldl (\<lambda>a c. 10 * a + (code_of c - 48)) 0 s"

lemma digits_value_str_of_nat: "digits_value (str_of_nat n) = n"
proof (induction n rule: str_of_nat.induct)
  case (1 n)
  show ?case
  proof (cases "n < 10")
    case True
    then show ?thesis by (simp add: str_of_nat.simps [of n] digits_value_def take_bit_eq_mod)
  next
    case False
    then show ?thesis using "1.IH"
      by (simp add: str_of_nat.simps [of n] digits_value_def take_bit_eq_mod)
  qed
qed

definition stops :: "string \<Rightarrow> bool" where
  "stops s \<longleftrightarrow> (case s of [] \<Rightarrow> True | c # _ \<Rightarrow> \<not> is_digit c)"

lemma takeWhile_digits:
  "list_all is_digit s \<Longrightarrow> stops x \<Longrightarrow> takeWhile is_digit (s @ x) = s \<and> dropWhile is_digit (s @ x) = x"
  by (induction s) (auto simp: stops_def split: list.splits)

lemma str_of_nat_prefix:
  assumes "str_of_nat n @ x = str_of_nat m @ y" "stops x" "stops y"
  shows "n = m \<and> x = y"
proof -
  have "list_all is_digit (str_of_nat n)" "list_all is_digit (str_of_nat m)"
    using str_of_nat_digits by (auto simp: list_all_iff)
  then have "str_of_nat n = str_of_nat m \<and> x = y" using assms takeWhile_digits by metis
  then show ?thesis using digits_value_str_of_nat by metis
qed

lemma str_of_nat_hd: "is_digit (hd (str_of_nat n))"
  by (rule str_of_nat_digits [of _ n]) (simp add: hd_in_set)

lemma minus_not_nat: "CHR ''-'' # s \<noteq> str_of_nat n @ z"
proof
  assume h: "CHR ''-'' # s = str_of_nat n @ z"
  then have "hd (str_of_nat n) = CHR ''-''" by (metis hd_append2 list.sel(1) str_of_nat_nonempty)
  then show False using str_of_nat_hd [of n] by (simp add: is_digit_def)
qed

lemma str_of_int_prefix:
  assumes "str_of_int i @ x = str_of_int j @ y" "stops x" "stops y"
  shows "i = j \<and> x = y"
proof (cases "i < 0"; cases "j < 0")
  assume "i < 0" "j < 0"
  moreover from this assms have "nat (- i) = nat (- j) \<and> x = y"
    by (intro str_of_nat_prefix) (simp_all add: str_of_int_def)
  ultimately show ?thesis by linarith
next
  assume "i < 0" "\<not> j < 0"
  with assms(1) show ?thesis using minus_not_nat by (simp add: str_of_int_def)
next
  assume "\<not> i < 0" "j < 0"
  with assms(1) show ?thesis using minus_not_nat by (simp add: str_of_int_def) metis
next
  assume "\<not> i < 0" "\<not> j < 0"
  moreover from this assms have "nat i = nat j \<and> x = y"
    by (intro str_of_nat_prefix) (simp_all add: str_of_int_def)
  ultimately show ?thesis by linarith
qed

section \<open>Values\<close>

text \<open>The constructor of a value can be read off the first character of its text.\<close>

definition shape_of_char :: "char \<Rightarrow> nat" where
  "shape_of_char c =
     (if c = CHR ''n'' then 0 else if c = CHR ''t'' then 1 else if c = CHR ''f'' then 2
      else if c = CHR 0x22 then 3 else if c = CHR ''['' then 4 else if c = CHR ''{'' then 5
      else if is_digit c \<or> c = CHR ''-'' then 6 else 7)"

fun shape :: "json \<Rightarrow> nat" where
  "shape JNull = 0"
| "shape (JBool b) = (if b then 1 else 2)"
| "shape (JStr s) = 3"
| "shape (JList js) = 4"
| "shape (JObj kvs) = 5"
| "shape j = 6"

lemma shape_dumps:
  assumes "plain j"
  obtains c cs where "dumps P isep ksep j = c # cs" "shape_of_char c = shape j"
    "c \<noteq> CHR '']''" "c \<noteq> CHR ''}''"
proof (cases j)
  case (JInt i)
  have "shape_of_char c = 6" if "is_digit c" for c
    using that by (auto simp: shape_of_char_def is_digit_def)
  moreover obtain d ds where "str_of_nat (nat i) = d # ds" by (cases "str_of_nat (nat i)") auto
  moreover from this have d: "is_digit d" using str_of_nat_hd [of "nat i"] by simp
  moreover have "d \<noteq> CHR '']''" "d \<noteq> CHR ''}''" using d by (auto simp: is_digit_def)
  moreover have "shape_of_char (CHR ''-'') = 6" by (simp add: shape_of_char_def is_digit_def)
  ultimately show ?thesis using that [of d ds] that [of "CHR ''-''" "str_of_nat (nat (- i))"] JInt
    by (cases "i < 0") (simp_all add: str_of_int_def)
next
  case (JBool b)
  then show ?thesis using that by (cases b) (simp_all add: shape_of_char_def)
qed (use assms that in \<open>auto simp: shape_of_char_def quote_def split: if_splits\<close>)

lemma dumps_not_close:
  assumes "plain j"
  shows "dumps P isep ksep j @ x \<noteq> CHR '']'' # y"
  by (rule shape_dumps [OF assms, of P isep ksep]) auto

text \<open>Unique readability of the separated items of a list or an object, given it for each item.\<close>

lemma join_prefix:
  assumes eq: "join (CHR '','' # sep) (map f xs) @ e # x = join (CHR '','' # sep) (map f ys) @ e # y"
    and e: "e \<noteq> CHR '',''"
    and item: "\<And>a b u v. a \<in> set xs \<Longrightarrow> b \<in> set ys \<Longrightarrow> f a @ u = f b @ v \<Longrightarrow>
       hd u \<in> {CHR '','', e} \<Longrightarrow> hd v \<in> {CHR '','', e} \<Longrightarrow> u \<noteq> [] \<Longrightarrow> v \<noteq> [] \<Longrightarrow> a = b \<and> u = v"
    and start: "\<And>a u v. a \<in> set xs \<union> set ys \<Longrightarrow> f a @ u \<noteq> e # v"
  shows "xs = ys \<and> x = y"
  using eq item start
proof (induction xs arbitrary: ys)
  case Nil
  show ?case
  proof (cases ys)
    case (Cons b bs)
    then obtain t where "join (CHR '','' # sep) (map f ys) @ e # y = f b @ t" by (cases bs) auto
    then have False using Nil.prems(1) Nil.prems(3) [of b t x] Cons by simp
    then show ?thesis ..
  qed (use Nil.prems(1) in simp)
next
  case (Cons a xs)
  let ?tail = "\<lambda>zs z. if zs = [] then e # z else CHR '','' # sep @ join (CHR '','' # sep) (map f zs) @ e # z"
  have step: "join (CHR '','' # sep) (map f (c # zs)) @ e # z = f c @ ?tail zs z" for c zs z
    by (cases zs) auto
  show ?case
  proof (cases ys)
    case Nil
    then have "f a @ ?tail xs x = e # y" using Cons.prems(1) step [of a xs x] by simp
    then show ?thesis using Cons.prems(3) by auto
  next
    case ys: (Cons b bs)
    have "f a @ ?tail xs x = f b @ ?tail bs y" using Cons.prems(1) step ys by metis
    then have ab: "a = b \<and> ?tail xs x = ?tail bs y"
      using ys by (intro Cons.prems(2)) auto
    show ?thesis
    proof (cases "xs = [] \<or> bs = []")
      case True
      then show ?thesis using ab e ys by (auto split: if_splits)
    next
      case False
      then have "join (CHR '','' # sep) (map f xs) @ e # x = join (CHR '','' # sep) (map f bs) @ e # y" using ab by simp
      then have "xs = bs \<and> x = y"
        by (rule Cons.IH) (use Cons.prems(2,3) ys in \<open>auto simp del: append_eq_append_conv\<close>)
      then show ?thesis using ab ys by simp
    qed
  qed
qed

definition ends :: "string \<Rightarrow> bool" where
  "ends s \<longleftrightarrow> s = [] \<or> hd s \<in> {CHR '','', CHR '']'', CHR ''}''}"

lemma ends_stops: "ends s \<Longrightarrow> stops s"
  by (cases s) (auto simp: ends_def stops_def is_digit_def)

lemma same_shape:
  assumes "plain j" "plain j'"
    and eq: "dumps P (CHR '','' # sep) ksep j @ x = dumps P (CHR '','' # sep) ksep j' @ y"
  shows "shape j' = shape j"
proof -
  obtain c cs where c: "dumps P (CHR '','' # sep) ksep j = c # cs" "shape_of_char c = shape j"
    using shape_dumps [OF assms(1), of P "CHR '','' # sep" ksep] by blast
  obtain d ds where d: "dumps P (CHR '','' # sep) ksep j' = d # ds" "shape_of_char d = shape j'"
    using shape_dumps [OF assms(2), of P "CHR '','' # sep" ksep] by blast
  from eq c(1) d(1) have "c = d" by simp
  then show ?thesis using c(2) d(2) by simp
qed

lemma dumps_prefix:
  assumes "plain j" "plain j'" "ends x" "ends y"
    and "dumps P (CHR '','' # sep) ksep j @ x = dumps P (CHR '','' # sep) ksep j' @ y"
  shows "j = j' \<and> x = y"
  using assms
proof (induction j arbitrary: j' x y)
  case JNull
  have "shape j' = 0" using same_shape [OF JNull.prems(1,2,5)] by simp
  then have "j' = JNull" using JNull.prems(2) by (cases j') (auto split: if_splits)
  then show ?case using JNull.prems(5) by simp
next
  case (JBool b)
  have "shape j' = (if b then 1 else 2)" using same_shape [OF JBool.prems(1,2,5)] by simp
  then have "j' = JBool b" using JBool.prems(2) by (cases j') (auto split: if_splits)
  then show ?case using JBool.prems(5) by simp
next
  case (JInt i)
  have "shape j' = 6" using same_shape [OF JInt.prems(1,2,5)] by simp
  then obtain i' where j': "j' = JInt i'" using JInt.prems(2) by (cases j') (auto split: if_splits)
  have "i = i' \<and> x = y"
    using JInt.prems(5) JInt.prems(3,4) [THEN ends_stops] unfolding j' dumps.simps
    by (rule str_of_int_prefix)
  then show ?case using j' by simp
next
  case (JStr s)
  have "shape j' = 3" using same_shape [OF JStr.prems(1,2,5)] by simp
  then obtain s' where j': "j' = JStr s'" using JStr.prems(2) by (cases j') (auto split: if_splits)
  then show ?case using JStr.prems(5) by (simp add: quote_prefix)
next
  case (JList js)
  have "shape j' = 4" using same_shape [OF JList.prems(1,2,5)] by simp
  then obtain js' where j': "j' = JList js'" using JList.prems(2) by (cases j') (auto split: if_splits)
  have "js = js' \<and> x = y"
  proof (rule join_prefix)
    show "join (CHR '','' # sep) (map (dumps P (CHR '','' # sep) ksep) js) @ CHR '']'' # x
        = join (CHR '','' # sep) (map (dumps P (CHR '','' # sep) ksep) js') @ CHR '']'' # y"
      using JList.prems(5) j' by simp
    show "a = b \<and> u = v" if "a \<in> set js" "b \<in> set js'"
      "dumps P (CHR '','' # sep) ksep a @ u = dumps P (CHR '','' # sep) ksep b @ v"
      "hd u \<in> {CHR '','', CHR '']''}" "hd v \<in> {CHR '','', CHR '']''}" for a b u v
      using that JList.prems(1,2) j' by (intro JList.IH) (auto simp: ends_def list_all_iff)
    show "dumps P (CHR '','' # sep) ksep a @ u \<noteq> CHR '']'' # v" if "a \<in> set js \<union> set js'" for a u v
      using that JList.prems(1,2) j' by (intro dumps_not_close) (auto simp: list_all_iff)
  qed simp
  then show ?case using j' by simp
next
  case (JObj kvs)
  have "shape j' = 5" using same_shape [OF JObj.prems(1,2,5)] by simp
  then obtain kvs' where j': "j' = JObj kvs'" using JObj.prems(2) by (cases j') (auto split: if_splits)
  let ?f = "\<lambda>p. quote (fst p) @ ksep @ dumps P (CHR '','' # sep) ksep (snd p)"
  have "kvs = kvs' \<and> x = y"
  proof (rule join_prefix)
    show "join (CHR '','' # sep) (map ?f kvs) @ CHR ''}'' # x = join (CHR '','' # sep) (map ?f kvs') @ CHR ''}'' # y"
      using JObj.prems(5) j' by simp
    show "a = b \<and> u = v" if ab: "a \<in> set kvs" "b \<in> set kvs'" "?f a @ u = ?f b @ v"
      "hd u \<in> {CHR '','', CHR ''}''}" "hd v \<in> {CHR '','', CHR ''}''}" for a b u v
    proof -
      have "fst a = fst b" "dumps P (CHR '','' # sep) ksep (snd a) @ u = dumps P (CHR '','' # sep) ksep (snd b) @ v"
        using ab(3) by (simp_all add: quote_prefix)
      moreover have "snd a = snd b \<and> u = v"
      proof (rule JObj.IH [of a "snd a"])
        show "plain (snd a)" "plain (snd b)" using ab(1,2) JObj.prems(1,2) j' by (auto simp: list_all_iff)
        show "ends u" "ends v" using ab(4,5) by (auto simp: ends_def)
      qed (use ab(1) calculation(2) in \<open>auto intro: snds.intros\<close>)
      ultimately show ?thesis by (simp add: prod_eq_iff)
    qed
    show "?f a @ u \<noteq> CHR ''}'' # v" for a u v by (simp add: quote_def)
  qed simp
  then show ?case using j' by simp
qed auto

lemma plain_sort_keys: "plain (sort_keys j) = plain j"
  by (induction j rule: sort_keys.induct) (auto simp: list_all_iff)

lemma json_text_inject:
  assumes "plain j" "plain j'" and "json_text P j = json_text P j'"
  shows "sort_keys j = sort_keys j'"
  using dumps_prefix [of "sort_keys j" "sort_keys j'" "[]" "[]" P "[]" "'':''"] assms
  by (simp add: plain_sort_keys json_text_def ends_def)

text \<open>Under any NFC: what normalisation leaves is the value with its strings and keys replaced.\<close>

fun nfc_json :: "(string \<Rightarrow> string) \<Rightarrow> json \<Rightarrow> json" where
  "nfc_json nfc (JStr s) = JStr (nfc s)"
| "nfc_json nfc (JList js) = JList (map (nfc_json nfc) js)"
| "nfc_json nfc (JObj kvs) = JObj (map (\<lambda>p. (nfc (fst p), nfc_json nfc (snd p))) kvs)"
| "nfc_json nfc j = j"

lemma plain_nfc_json: "plain (nfc_json nfc j) = plain j"
  by (induction nfc j rule: nfc_json.induct) (auto simp: list_all_iff)

lemma traverse_each:
  assumes "traverse f xs = Inr ys" "\<And>x y. x \<in> set xs \<Longrightarrow> f x = Inr y \<Longrightarrow> Q x \<and> y = g x"
  shows "(\<forall>x\<in>set xs. Q x) \<and> ys = map g xs"
  using assms by (induction xs arbitrary: ys) (auto simp: result_simps)

lemma normalise_nfc:
  "normalise nfc j = Inr n \<Longrightarrow> wf_json j \<Longrightarrow> wf_json (nfc_json nfc j) \<and> n = sort_keys (nfc_json nfc j)"
proof (induction nfc j arbitrary: n rule: normalise.induct)
  case (1 nfc kvs)
  then obtain js where d: "distinct (map (\<lambda>p. nfc (fst p)) kvs)" "n = JObj (sort_key fst js)"
      and js: "traverse (\<lambda>p. andthen (normalise nfc (snd p)) (\<lambda>j. Inr (nfc (fst p), j))) kvs = Inr js"
    by (auto simp: result_simps split: if_splits)
  have "(\<forall>p\<in>set kvs. wf_json (nfc_json nfc (snd p))) \<and> js = map (\<lambda>p. (nfc (fst p), sort_keys (nfc_json nfc (snd p)))) kvs"
    using d(1) 1 by (intro traverse_each [OF js]) (auto simp: result_simps list_all_iff)
  then show ?case using d by (auto simp: list_all_iff comp_def)
next
  case (2 nfc js)
  then obtain ks where ks: "traverse (normalise nfc) js = Inr ks" "n = JList ks" by (auto simp: result_simps)
  have "(\<forall>j\<in>set js. wf_json (nfc_json nfc j)) \<and> ks = map (\<lambda>j. sort_keys (nfc_json nfc j)) js"
    using 2 by (intro traverse_each [OF ks(1)]) (auto simp: list_all_iff)
  then show ?case using ks(2) by (auto simp: list_all_iff)
qed auto

lemma canonical_text_nfc:
  assumes "wf_json j" "canonical_json_nfc nfc P (of_json j) = Inr t"
  shows "t = json_text P (nfc_json nfc j)"
proof -
  from assms obtain n where "normalise nfc j = Inr n" "t = json_text P n"
    by (auto simp: canonical_json_nfc_def model_to_dict_of_json result_simps)
  then show ?thesis using normalise_nfc [of nfc j n] assms(1) by (simp add: json_text_sort_keys)
qed

text \<open>The same for a text rendered with other separators, and without sorting.\<close>

lemma dumps_inject:
  assumes "plain j" "plain j'"
    and "dumps P (CHR '','' # sep) ksep j = dumps P (CHR '','' # sep) ksep j'"
  shows "j = j'"
  using dumps_prefix [of j j' "[]" "[]" P sep ksep] assms by (simp add: ends_def)

section \<open>No control character\<close>

definition printable :: "string \<Rightarrow> bool" where
  "printable s \<longleftrightarrow> list_all (\<lambda>c. 32 \<le> code_of c) s"

lemma printable_simps [simp]:
  "printable []"
  "printable (c # s) \<longleftrightarrow> 32 \<le> code_of c \<and> printable s"
  "printable (s @ t) \<longleftrightarrow> printable s \<and> printable t"
  by (simp_all add: printable_def)

lemma printable_join: "printable sep \<Longrightarrow> (\<And>s. s \<in> set ss \<Longrightarrow> printable s) \<Longrightarrow> printable (join sep ss)"
  by (induction sep ss rule: join.induct) auto

lemma printable_hex_digit: "n < 16 \<Longrightarrow> 32 \<le> code_of (hex_digit n)"
  by (simp add: hex_digit_def take_bit_eq_mod)

lemma printable_escape_char: "printable (escape_char c)"
proof -
  have "n div 16 < 16" "n mod 16 < 16" if "n < 32" for n :: nat using that by auto
  then show ?thesis
    by (auto simp: escape_char_def Let_def printable_hex_digit)
qed

lemma printable_quote: "printable (quote s)"
proof -
  have "printable (concat (map escape_char s))"
    by (induction s) (auto simp: printable_escape_char)
  then show ?thesis by (simp add: quote_def)
qed

lemma printable_str_of_int: "printable (str_of_int i)"
proof -
  have "printable (str_of_nat n)" for n
    using str_of_nat_digits [of _ n] by (fastforce simp: printable_def list_all_iff is_digit_def)
  then show ?thesis by (simp add: str_of_int_def)
qed

lemma printable_dumps:
  "plain j \<Longrightarrow> printable isep \<Longrightarrow> printable ksep \<Longrightarrow> printable (dumps P isep ksep j)"
proof (induction j)
  case (JList js)
  then have "printable (join isep (map (dumps P isep ksep) js))"
    by (intro printable_join) (auto simp: list_all_iff)
  then show ?case by simp
next
  case (JObj kvs)
  then have "printable (join isep (map (\<lambda>p. quote (fst p) @ ksep @ dumps P isep ksep (snd p)) kvs))"
    by (intro printable_join) (auto simp: list_all_iff printable_quote intro: snds.intros)
  then show ?case by simp
qed (auto simp: printable_quote printable_str_of_int)

end
