(* ===== verification/Ids.thy ===== *)
theory Ids
  imports Json_Unique
begin

text \<open>
  \<open>max_research/contract/ids.py\<close>: the grammar of stable identifiers
  \<open>mr1:<kind>:<opaque>\<close>, the alias table of kinds, and the semantic identifiers (version,
  relation, event), whose opaque part is the first 48 digits of the canonical hash of the
  namespace, the kind and the whole identity.

  A kind argument is a \<open>pyval\<close> (a string, or an enum member carrying one). Messages that
  embed a \<open>repr\<close> keep their constant part.
\<close>

section \<open>Grammar\<close>

definition kind_aliases :: "(string \<times> string) list" where
  "kind_aliases =
    [(''source'', ''source''),
     (''document'', ''document''),
     (''document_version'', ''document_version''),
     (''document-version'', ''document_version''),
     (''passage'', ''passage''),
     (''quote'', ''quote''),
     (''evidence'', ''evidence''),
     (''evidence_link'', ''evidence_link''),
     (''evidence-link'', ''evidence_link''),
     (''claim'', ''claim''),
     (''hypothesis'', ''hypothesis''),
     (''objection'', ''objection''),
     (''research_question'', ''research_question''),
     (''research-question'', ''research_question''),
     (''decision'', ''decision''),
     (''citation'', ''citation''),
     (''source_role'', ''source_role''),
     (''source-role'', ''source_role''),
     (''report'', ''report''),
     (''iteration'', ''iteration''),
     (''discussion_session'', ''discussion_session''),
     (''discussion-session'', ''discussion_session''),
     (''acquisition_request'', ''acquisition_request''),
     (''acquisition-request'', ''acquisition_request''),
     (''speculative_idea'', ''speculative_idea''),
     (''speculative-idea'', ''speculative_idea''),
     (''checkpoint'', ''checkpoint''),
     (''working_state'', ''working_state''),
     (''working-state'', ''working_state''),
     (''research_state'', ''research_state''),
     (''research-state'', ''research_state''),
     (''completion_gate'', ''completion_gate''),
     (''completion-gate'', ''completion_gate''),
     (''start_approval'', ''start_approval''),
     (''start-approval'', ''start_approval''),
     (''relation'', ''relation''),
     (''completion_result'', ''completion_result''),
     (''completion-result'', ''completion_result''),
     (''cold_review'', ''cold_review''),
     (''cold-review'', ''cold_review''),
     (''role_packet'', ''role_packet''),
     (''role-packet'', ''role_packet''),
     (''attack'', ''attack''),
     (''approval_consumption'', ''approval_consumption''),
     (''approval-consumption'', ''approval_consumption''),
     (''verification_record'', ''verification_record''),
     (''verification-record'', ''verification_record''),
     (''cold_review_result'', ''cold_review_result''),
     (''cold-review-result'', ''cold_review_result''),
     (''formal_completion_evidence'', ''formal_completion_evidence''),
     (''formal-completion-evidence'', ''formal_completion_evidence'')]"

definition global_kinds :: "string list" where
  "global_kinds = [''source'', ''document'']"

definition is_kind_char :: "char \<Rightarrow> bool" where
  "is_kind_char c \<longleftrightarrow> is_lower c \<or> is_digit c \<or> c = CHR ''_'' \<or> c = CHR ''-''"

definition is_kind :: "string \<Rightarrow> bool" where
  "is_kind s \<longleftrightarrow>
     (case s of [] \<Rightarrow> False | c # cs \<Rightarrow> is_lower c \<and> list_all is_kind_char cs \<and> length cs \<le> 63)"

definition is_opaque_char :: "char \<Rightarrow> bool" where
  "is_opaque_char c \<longleftrightarrow> is_alnum c \<or> c \<in> {CHR ''.'', CHR ''_'', CHR ''~'', CHR ''!'', CHR ''-''}"

definition is_opaque :: "string \<Rightarrow> bool" where
  "is_opaque s \<longleftrightarrow>
     (case s of [] \<Rightarrow> False | c # cs \<Rightarrow> is_alnum c \<and> list_all is_opaque_char cs \<and> length cs \<le> 127)"

definition is_project_char :: "char \<Rightarrow> bool" where
  "is_project_char c \<longleftrightarrow> is_alnum c \<or> c \<in> {CHR ''.'', CHR ''_'', CHR ''-''}"

definition is_project_id :: "json \<Rightarrow> bool" where
  "is_project_id v \<longleftrightarrow>
     (case v of JStr (c # cs) \<Rightarrow> is_alnum c \<and> list_all is_project_char cs \<and> length cs \<le> 63
      | _ \<Rightarrow> False)"

section \<open>Constructors and parser\<close>

definition kind_key :: "string \<Rightarrow> string" where
  "kind_key s =
     (let normalized = replace_char (CHR '' '') (CHR ''_'') (lower (strip s))
      in dict_get normalized normalized kind_aliases)"

definition normalize_kind :: "pyval \<Rightarrow> py_exc + string" where
  "normalize_kind kind =
     (let value = (case kind of VEnum v \<Rightarrow> v | _ \<Rightarrow> kind)
      in case value of VStr s \<Rightarrow> Inr (kind_key s)
         | _ \<Rightarrow> Inl (ValueError ''canonical kind must be a string''))"

definition make_stable_id :: "pyval \<Rightarrow> pyval \<Rightarrow> py_exc + string" where
  "make_stable_id kind object_id =
     andthen (normalize_kind kind) (\<lambda>k.
     andthen (require (is_kind k) (ValueError ''invalid canonical kind'')) (\<lambda>_.
       case object_id of
         VStr s \<Rightarrow>
           if is_opaque s then Inr (''mr1:'' @ k @ '':'' @ s)
           else Inl (ValueError ''object_id does not satisfy the stable ID grammar'')
       | _ \<Rightarrow> Inl (ValueError ''object_id does not satisfy the stable ID grammar'')))"

definition id_namespace :: "pyval \<Rightarrow> py_exc + string" where
  "id_namespace kind =
     andthen (normalize_kind kind) (\<lambda>k.
       Inr (if k \<in> set global_kinds then ''global'' else ''project_local''))"

definition semantic_opaque :: "prims \<Rightarrow> pyval \<Rightarrow> pyval \<Rightarrow> py_exc + string" where
  "semantic_opaque P kind payload =
     andthen (id_namespace kind) (\<lambda>ns.
     andthen (normalize_kind kind) (\<lambda>k.
     andthen (canonical_sha256 P (VDict
         [(KStr ''namespace'', VStr ns), (KStr ''kind'', VStr k), (KStr ''identity'', payload)]))
       (\<lambda>h. Inr (take 48 h))))"

definition make_version_id :: "prims \<Rightarrow> pyval \<Rightarrow> pyval \<Rightarrow> pyval \<Rightarrow> pyval \<Rightarrow> py_exc + string" where
  "make_version_id P kind project_id stable_id version =
     andthen (normalize_kind kind) (\<lambda>k.
     andthen
       (if stable_id = VNone \<and> version = VNone
        then semantic_opaque P (VStr k) (VDict [(KStr ''legacy'', project_id)])
        else if stable_id = VNone \<or> version = VNone
        then Inl (ValueError ''make_version_id requires stable_id and version together'')
        else case project_id of
          VStr p \<Rightarrow>
            if p = [] then Inl (ValueError ''project_id is required for a semantic version ID'')
            else (case version of
              VInt n \<Rightarrow>
                if n < 1 then Inl (ValueError ''version must be a positive integer'')
                else semantic_opaque P (VStr k) (VDict
                  [(KStr ''project_id'', project_id), (KStr ''stable_id'', stable_id),
                   (KStr ''version'', version)])
            | _ \<Rightarrow> Inl (ValueError ''version must be a positive integer''))
        | _ \<Rightarrow> Inl (ValueError ''project_id is required for a semantic version ID''))
       (\<lambda>opaque. make_stable_id (VStr (k @ ''-version'')) (VStr opaque)))"

definition expected_version_id :: "prims \<Rightarrow> pyval \<Rightarrow> pyval \<Rightarrow> pyval \<Rightarrow> pyval \<Rightarrow> py_exc + string" where
  "expected_version_id P kind project_id stable_id version =
     make_version_id P kind project_id stable_id version"

definition make_relation_id ::
    "prims \<Rightarrow> pyval \<Rightarrow> pyval \<Rightarrow> pyval \<Rightarrow> pyval \<Rightarrow> pyval \<Rightarrow> pyval \<Rightarrow> py_exc + string" where
  "make_relation_id P project_id source_id target_id relation source_version_id target_version_id =
     (let relation_value = (case relation of VEnum v \<Rightarrow> v | _ \<Rightarrow> relation)
      in andthen
          (semantic_opaque P (VStr ''relation'') (VDict
             [(KStr ''project_id'', project_id), (KStr ''source_id'', source_id),
              (KStr ''target_id'', target_id), (KStr ''relation'', relation_value),
              (KStr ''source_version_id'', source_version_id),
              (KStr ''target_version_id'', target_version_id)]))
          (\<lambda>opaque. make_stable_id (VStr ''relation'') (VStr opaque)))"

definition make_event_id :: "prims \<Rightarrow> pyval \<Rightarrow> pyval \<Rightarrow> pyval \<Rightarrow> py_exc + string" where
  "make_event_id P kind project_id identity =
     andthen
       (semantic_opaque P kind (VDict [(KStr ''project_id'', project_id), (KStr ''identity'', identity)]))
       (\<lambda>opaque. make_stable_id kind (VStr opaque))"

record stable_id =
  id_kind :: string
  id_opaque :: string

definition stable_id_value :: "stable_id \<Rightarrow> py_exc + string" where
  "stable_id_value i = make_stable_id (VStr (id_kind i)) (VStr (id_opaque i))"

definition parse_stable_id :: "json \<Rightarrow> stable_id option" where
  "parse_stable_id v =
     (case v of
        JStr s \<Rightarrow>
          if has_prefix ''mr1:'' s then
            (let rest = drop 4 s;
                 k = takeWhile (\<lambda>c. c \<noteq> CHR '':'') rest;
                 tail = dropWhile (\<lambda>c. c \<noteq> CHR '':'') rest
             in if is_kind k \<and> tail \<noteq> [] \<and> is_opaque (tl tail)
                then Some \<lparr>id_kind = kind_key k, id_opaque = tl tail\<rparr> else None)
          else None
      | _ \<Rightarrow> None)"

definition is_stable_id :: "json \<Rightarrow> string option \<Rightarrow> bool" where
  "is_stable_id v expected_kind =
     (case parse_stable_id v of
        None \<Rightarrow> False
      | Some i \<Rightarrow> (case expected_kind of None \<Rightarrow> True | Some k \<Rightarrow> id_kind i = kind_key k))"

definition require_stable_id :: "json \<Rightarrow> string option \<Rightarrow> py_exc + stable_id" where
  "require_stable_id v expected_kind =
     (case parse_stable_id v of
        None \<Rightarrow> Inl (ValueError ''value is not an MR-1 stable ID'')
      | Some i \<Rightarrow>
          (case expected_kind of
             None \<Rightarrow> Inr i
           | Some k \<Rightarrow>
               if id_kind i = kind_key k then Inr i
               else Inl (ValueError ''stable ID kind does not match'')))"

section \<open>Kinds\<close>

lemma is_kind_char_plain: "is_kind_char c \<Longrightarrow> \<not> is_py_space c \<and> c \<noteq> CHR '' '' \<and> c \<noteq> CHR '':''"
  by (auto simp: is_kind_char_def is_lower_def is_digit_def is_py_space_def Let_def)

lemma is_kind_chars: "is_kind s \<Longrightarrow> c \<in> set s \<Longrightarrow> is_kind_char c"
  by (auto simp: is_kind_def is_kind_char_def list_all_iff split: list.splits)

lemma is_kind_no_colon: "is_kind s \<Longrightarrow> CHR '':'' \<notin> set s"
  using is_kind_chars is_kind_char_plain by blast

lemma kind_normal_form:
  assumes "is_kind s"
  shows "replace_char (CHR '' '') (CHR ''_'') (lower (strip s)) = s"
proof -
  have c: "is_kind_char c" if "c \<in> set s" for c using assms that by (rule is_kind_chars)
  have "strip s = s"
    using c is_kind_char_plain by (intro strip_id) auto
  moreover have "lower s = s" using c by (intro lower_id) (auto simp: is_kind_char_def)
  moreover have "replace_char (CHR '' '') (CHR ''_'') s = s"
    unfolding replace_char_def using c is_kind_char_plain by (intro map_idI) auto
  ultimately show ?thesis by simp
qed

lemma kind_aliases_closed:
  "list_all (\<lambda>p. is_kind (snd p) \<and> map_of kind_aliases (snd p) = Some (snd p)) kind_aliases"
  by code_simp

lemma kind_key_fixed: "is_kind s \<Longrightarrow> kind_key s = dict_get s s kind_aliases"
  by (simp add: kind_key_def kind_normal_form)

lemma kind_key_idem:
  assumes "is_kind (kind_key s)"
  shows "kind_key (kind_key s) = kind_key s"
proof -
  let ?n = "replace_char (CHR '' '') (CHR ''_'') (lower (strip s))"
  show ?thesis
  proof (cases "map_of kind_aliases ?n")
    case None
    then have "kind_key s = ?n" by (simp add: kind_key_def dict_get_def)
    then show ?thesis using assms None kind_key_fixed [of ?n] by (simp add: dict_get_def)
  next
    case (Some v)
    then have k: "kind_key s = v" by (simp add: kind_key_def dict_get_def)
    have "map_of kind_aliases v = Some v"
      using kind_aliases_closed map_of_SomeD [OF Some] by (auto simp: list_all_iff)
    then show ?thesis using assms k kind_key_fixed [of v] by (simp add: dict_get_def)
  qed
qed

section \<open>Round trip\<close>

lemma normalize_kind_VStr [simp]: "normalize_kind (VStr s) = Inr (kind_key s)"
  by (simp add: normalize_kind_def)

lemma normalize_kind_image: "normalize_kind kind = Inr k \<Longrightarrow> \<exists>s. k = kind_key s"
  by (auto simp: normalize_kind_def Let_def split: pyval.splits)

lemma make_stable_id_eq_Inr [result_simps]:
  "make_stable_id kind obj = Inr s \<longleftrightarrow>
     (\<exists>k u. normalize_kind kind = Inr k \<and> is_kind k \<and> obj = VStr u \<and> is_opaque u
        \<and> s = ''mr1:'' @ k @ '':'' @ u)"
  by (cases obj) (auto simp: make_stable_id_def result_simps split: if_splits)

lemma takeWhile_colon:
  "CHR '':'' \<notin> set k \<Longrightarrow> takeWhile (\<lambda>c. c \<noteq> CHR '':'') (k @ CHR '':'' # u) = k"
  "CHR '':'' \<notin> set k \<Longrightarrow> dropWhile (\<lambda>c. c \<noteq> CHR '':'') (k @ CHR '':'' # u) = CHR '':'' # u"
  by (induction k) auto

lemma parse_rendered:
  assumes "is_kind k" "is_opaque u"
  shows "parse_stable_id (JStr (''mr1:'' @ k @ '':'' @ u)) = Some \<lparr>id_kind = kind_key k, id_opaque = u\<rparr>"
  using assms takeWhile_colon [OF is_kind_no_colon [OF assms(1)]]
  by (simp add: parse_stable_id_def)

lemma has_prefix_append: "has_prefix p s \<Longrightarrow> s = p @ drop (length p) s"
  by (induction p s rule: has_prefix.induct) auto

lemma parse_stable_id_Some:
  assumes "parse_stable_id v = Some i"
  obtains k where "v = JStr (''mr1:'' @ k @ '':'' @ id_opaque i)" "is_kind k"
    "id_kind i = kind_key k" "is_opaque (id_opaque i)"
proof -
  obtain s where v: "v = JStr s" using assms by (auto simp: parse_stable_id_def split: json.splits)
  let ?k = "takeWhile (\<lambda>c. c \<noteq> CHR '':'') (drop 4 s)"
  let ?t = "dropWhile (\<lambda>c. c \<noteq> CHR '':'') (drop 4 s)"
  have h: "has_prefix ''mr1:'' s" "is_kind ?k" "?t \<noteq> []" "is_opaque (tl ?t)"
      "i = \<lparr>id_kind = kind_key ?k, id_opaque = tl ?t\<rparr>"
    using assms v by (auto simp: parse_stable_id_def Let_def split: if_splits)
  have "hd ?t = CHR '':''" using h(3) hd_dropWhile [of "\<lambda>c. c \<noteq> CHR '':''" "drop 4 s"] by auto
  then have "?t = CHR '':'' # tl ?t" using h(3) by (cases ?t) auto
  then have "drop 4 s = ?k @ '':'' @ tl ?t" by (metis append_Cons append_Nil takeWhile_dropWhile_id)
  moreover have "s = ''mr1:'' @ drop 4 s"
    using has_prefix_append [OF h(1)] by (simp add: eval_nat_numeral)
  ultimately have "s = ''mr1:'' @ ?k @ '':'' @ tl ?t" by simp
  then show ?thesis using that [of ?k] v h by simp
qed

lemma make_then_parse:
  assumes "make_stable_id kind obj = Inr s"
  shows "\<exists>k u. normalize_kind kind = Inr k \<and> obj = VStr u
    \<and> parse_stable_id (JStr s) = Some \<lparr>id_kind = k, id_opaque = u\<rparr>"
proof -
  obtain k u where h: "normalize_kind kind = Inr k" "is_kind k" "obj = VStr u" "is_opaque u"
      "s = ''mr1:'' @ k @ '':'' @ u"
    using assms by (auto simp: result_simps)
  have "kind_key k = k" using h(1,2) normalize_kind_image kind_key_idem by blast
  then show ?thesis using h parse_rendered [OF h(2,4)] by simp
qed

lemma parse_then_make:
  assumes "parse_stable_id v = Some i" and "is_kind (id_kind i)"
  shows "\<exists>s. stable_id_value i = Inr s \<and> parse_stable_id (JStr s) = Some i"
proof -
  obtain k where k: "is_kind k" "id_kind i = kind_key k" "is_opaque (id_opaque i)"
    using assms(1) by (rule parse_stable_id_Some)
  have "kind_key (id_kind i) = id_kind i" using k(2) assms(2) kind_key_idem by simp
  then show ?thesis
    using assms(2) k(3) parse_rendered [OF assms(2) k(3)]
    by (auto simp: stable_id_value_def result_simps)
qed

lemma kind_key_is_kind: "is_kind k \<Longrightarrow> is_kind (kind_key k)"
proof -
  assume k: "is_kind k"
  show "is_kind (kind_key k)"
  proof (cases "map_of kind_aliases k")
    case (Some v)
    then show ?thesis
      using kind_aliases_closed map_of_SomeD [OF Some] kind_key_fixed [OF k]
      by (auto simp: list_all_iff dict_get_def)
  qed (use k kind_key_fixed [OF k] in \<open>simp add: dict_get_def\<close>)
qed

end
