(* ===== verification/Run_State.thy ===== *)
theory Run_State
  imports Ids
begin

text \<open>
  \<open>max_research/contract/models.py\<close> and \<open>max_research/contract/validator.py\<close>, the run lifecycle:
  the run state, the start approval and its consumption, their validators, and
  \<open>transition_run_state\<close>, the pure transition every status change goes through.

  \<^item> A time field is a \<open>stamp\<close>: \<open>Stamp t\<close> is the text the repository's \<open>_timestamp\<close> writes for
    the instant \<open>t\<close> (microseconds), \<open>Iso t\<close> the text \<open>datetime.isoformat()\<close> writes, and
    \<open>Text s\<close> any text that is not an ISO-8601 time.
  \<^item> The status is a \<open>RunStatus\<close> or, as the dataclass allows, an unknown string.
  \<^item> The objects are typed, so the checks of the source that test a field's Python type hold by
    typing; a budget is the JSON object it is stored as.
  \<^item> The verdict of the completion evaluator enters as a \<open>completion_view\<close>: the bindings of the
    input, the recomputed result and the issues \<open>validate_completion_result\<close> finds. The evaluator is
    modelled in \<open>Completion_Result\<close>, whose \<open>view_of\<close> computes the view.
\<close>

section \<open>Model types\<close>

datatype stamp = Stamp int | Iso int | Text string

fun parse_time :: "stamp \<Rightarrow> int option" where
  "parse_time (Stamp t) = Some t"
| "parse_time (Iso t) = Some t"
| "parse_time (Text s) = None"

fun stamp_text :: "prims \<Rightarrow> stamp \<Rightarrow> string" where
  "stamp_text P (Stamp t) = iso_stamp P t"
| "stamp_text P (Iso t) = isoformat P t"
| "stamp_text P (Text s) = s"

fun stamp_nonblank :: "stamp \<Rightarrow> bool" where
  "stamp_nonblank (Text s) = nonblank s"
| "stamp_nonblank _ = True"

datatype run_status =
  Awaiting_start_approval | Approved | Running | Paused | Completed | Failed | Cancelled
  | Unknown_status string

fun status_value :: "run_status \<Rightarrow> string" where
  "status_value Awaiting_start_approval = ''AWAITING_START_APPROVAL''"
| "status_value Approved = ''APPROVED''"
| "status_value Running = ''RUNNING''"
| "status_value Paused = ''PAUSED''"
| "status_value Completed = ''COMPLETED''"
| "status_value Failed = ''FAILED''"
| "status_value Cancelled = ''CANCELLED''"
| "status_value (Unknown_status s) = s"

record start_approval =
  ap_run_id :: string
  ap_project_id :: string
  ap_charter_hash :: string
  ap_model_identity :: string
  ap_budget :: "(string \<times> json) list"
  ap_source_policy_hash :: string
  ap_approval_id :: string
  ap_decision :: string
  ap_approved_by :: string
  ap_approved_at :: stamp
  ap_decision_authority :: string
  ap_expires_at :: "stamp option"
  ap_consumed_at :: "stamp option"
  ap_schema :: string

record max_run_state =
  run_id :: string
  project_id :: string
  status :: run_status
  charter_hash :: string
  model_identity :: string
  budget :: "(string \<times> json) list"
  source_policy_hash :: string
  approval_id :: "string option"
  iteration_index :: int
  state_version :: int
  approval_consumed_at :: "stamp option"
  completion_result_id :: "string option"
  completion_state_hash :: "string option"
  run_schema :: string
  current_state_hash :: "string option"
  current_checkpoint_id :: "string option"
  approval_consumption_id :: "string option"
  budget_snapshot_hash :: "string option"

record approval_consumption =
  ac_approval_id :: string
  ac_project_id :: string
  ac_run_id :: string
  ac_charter_hash :: string
  ac_prior_state_version :: int
  ac_consumed_at :: stamp
  ac_resulting_state_version :: int
  ac_consumption_id :: string
  ac_schema :: string

record run_transition =
  new_state :: max_run_state
  new_consumption :: "approval_consumption option"

section \<open>JSON projections\<close>

definition opt_json :: "string option \<Rightarrow> json" where
  "opt_json m = (case m of None \<Rightarrow> JNull | Some s \<Rightarrow> JStr s)"

definition opt_stamp :: "prims \<Rightarrow> stamp option \<Rightarrow> json" where
  "opt_stamp P m = (case m of None \<Rightarrow> JNull | Some s \<Rightarrow> JStr (stamp_text P s))"

definition run_state_json :: "prims \<Rightarrow> max_run_state \<Rightarrow> json" where
  "run_state_json P s = JObj
    [(''run_id'', JStr (run_id s)), (''project_id'', JStr (project_id s)),
     (''status'', JStr (status_value (status s))), (''charter_hash'', JStr (charter_hash s)),
     (''model_identity'', JStr (model_identity s)), (''budget'', JObj (budget s)),
     (''source_policy_hash'', JStr (source_policy_hash s)), (''approval_id'', opt_json (approval_id s)),
     (''iteration_index'', JInt (iteration_index s)), (''state_version'', JInt (state_version s)),
     (''approval_consumed_at'', opt_stamp P (approval_consumed_at s)),
     (''completion_result_id'', opt_json (completion_result_id s)),
     (''completion_state_hash'', opt_json (completion_state_hash s)), (''schema'', JStr (run_schema s)),
     (''current_state_hash'', opt_json (current_state_hash s)),
     (''current_checkpoint_id'', opt_json (current_checkpoint_id s)),
     (''approval_consumption_id'', opt_json (approval_consumption_id s)),
     (''budget_snapshot_hash'', opt_json (budget_snapshot_hash s))]"

definition consumption_json :: "prims \<Rightarrow> approval_consumption \<Rightarrow> json" where
  "consumption_json P c = JObj
    [(''approval_id'', JStr (ac_approval_id c)), (''project_id'', JStr (ac_project_id c)),
     (''run_id'', JStr (ac_run_id c)), (''charter_hash'', JStr (ac_charter_hash c)),
     (''prior_state_version'', JInt (ac_prior_state_version c)),
     (''consumed_at'', JStr (stamp_text P (ac_consumed_at c))),
     (''resulting_state_version'', JInt (ac_resulting_state_version c)),
     (''consumption_id'', JStr (ac_consumption_id c)), (''schema'', JStr (ac_schema c))]"

definition transition_json :: "prims \<Rightarrow> run_transition \<Rightarrow> json" where
  "transition_json P t = JObj
    [(''new_state'', run_state_json P (new_state t)),
     (''approval_consumption'',
        (case new_consumption t of None \<Rightarrow> JNull | Some c \<Rightarrow> consumption_json P c))]"

section \<open>Validators\<close>

definition required_text :: "bool \<Rightarrow> string \<Rightarrow> string \<Rightarrow> validation_issue list" where
  "required_text nonempty path code = check nonempty code path (path @ '' must be a non-empty string'')"

definition required_mapping :: "(string \<times> json) list \<Rightarrow> string \<Rightarrow> validation_issue list" where
  "required_mapping kvs path =
     check (kvs \<noteq> []) ''contract.mapping_required'' path (path @ '' must be a non-empty mapping'')"

text \<open>\<open>_id_sequence\<close>: valid identifiers, of one kind if asked, none twice.\<close>

definition index_path :: "string \<Rightarrow> nat \<Rightarrow> string" where
  "index_path path n = path @ ''['' @ str_of_nat n @ '']''"

fun id_issues :: "string \<Rightarrow> string option \<Rightarrow> nat \<Rightarrow> json list \<Rightarrow> json list \<Rightarrow> validation_issue list" where
  "id_issues path kind n seen [] = []"
| "id_issues path kind n seen (v # vs) =
     (if \<not> is_stable_id v kind
      then [issue ''id.invalid_stable_id'' (index_path path n)
              (index_path path n @ '' is not a valid MR-1 stable ID'')]
      else check (v \<notin> set seen) ''id.duplicate'' (index_path path n)
              (index_path path n @ '' duplicates another stable ID''))
     @ id_issues path kind (n + 1) (v # seen) vs"

definition id_sequence :: "json list \<Rightarrow> string \<Rightarrow> string option \<Rightarrow> bool \<Rightarrow> validation_issue list" where
  "id_sequence values path kind required =
     check (\<not> required \<or> values \<noteq> []) ''id.list_empty'' path (path @ '' must not be empty'')
     @ id_issues path kind 0 [] values"

definition stable_of_kind :: "string \<Rightarrow> string option \<Rightarrow> bool" where
  "stable_of_kind kind m \<longleftrightarrow> (case m of None \<Rightarrow> False | Some s \<Rightarrow> is_stable_id (JStr s) (Some kind))"

record approval_expectation =
  ex_run_id :: "string option"
  ex_project_id :: "string option"
  ex_charter_hash :: "string option"
  ex_model_identity :: "string option"
  ex_source_policy_hash :: "string option"
  ex_budget :: "(string \<times> json) list option"

definition binds :: "'a option \<Rightarrow> 'a \<Rightarrow> bool" where
  "binds expected v \<longleftrightarrow> (case expected of None \<Rightarrow> True | Some e \<Rightarrow> v = e)"

text \<open>\<open>now\<close> is the instant given, or the system clock when none is given.\<close>

definition validate_start_approval ::
    "prims \<Rightarrow> start_approval \<Rightarrow> approval_expectation \<Rightarrow> int \<Rightarrow> bool \<Rightarrow> validation_result" where
  "validate_start_approval P a ex now reject_consumed =
     check (ap_schema a = ''max-research-start-approval/v1'') ''approval.schema'' ''$.schema''
       ''unsupported start approval schema''
   @ concat (map (\<lambda>(name, ok). required_text ok (''$.'' @ name) ''approval.field_required'')
       [(''run_id'', nonblank (ap_run_id a)), (''project_id'', nonblank (ap_project_id a)),
        (''charter_hash'', nonblank (ap_charter_hash a)), (''model_identity'', nonblank (ap_model_identity a)),
        (''source_policy_hash'', nonblank (ap_source_policy_hash a)),
        (''approval_id'', nonblank (ap_approval_id a)), (''decision'', nonblank (ap_decision a)),
        (''approved_by'', nonblank (ap_approved_by a)), (''approved_at'', stamp_nonblank (ap_approved_at a)),
        (''decision_authority'', nonblank (ap_decision_authority a))])
   @ check (is_project_id (JStr (ap_project_id a))) ''approval.project_id'' ''$.project_id''
       ''project_id is not valid''
   @ check (is_stable_id (JStr (ap_approval_id a)) (Some ''start_approval'')) ''approval.id''
       ''$.approval_id'' ''approval_id must be a start_approval stable ID''
   @ check (ap_decision a = ''approved'') ''approval.not_approved'' ''$.decision''
       ''start approval must be explicitly approved''
   @ check (ap_decision_authority a = ''human'') ''approval.authority'' ''$.decision_authority''
       ''start approval authority must be human''
   @ required_mapping (ap_budget a) ''$.budget''
   @ check (parse_time (ap_approved_at a) \<noteq> None) ''approval.timestamp'' ''$.approved_at''
       ''approved_at must be ISO-8601''
   @ (case ap_expires_at a of None \<Rightarrow> []
      | Some e \<Rightarrow> (case parse_time e of
          None \<Rightarrow> [issue ''approval.expiry_timestamp'' ''$.expires_at'' ''expires_at must be ISO-8601'']
        | Some t \<Rightarrow> check (now < t) ''approval.expired'' ''$.expires_at'' ''start approval has expired''))
   @ check (\<not> (reject_consumed \<and> ap_consumed_at a \<noteq> None)) ''approval.replayed'' ''$.consumed_at''
       ''start approval has already been consumed''
   @ concat (map (\<lambda>(name, ok). check ok (''approval.binding_'' @ name) (''$.'' @ name)
       (''approval does not bind expected '' @ name))
       [(''run_id'', binds (ex_run_id ex) (ap_run_id a)),
        (''project_id'', binds (ex_project_id ex) (ap_project_id a)),
        (''charter_hash'', binds (ex_charter_hash ex) (ap_charter_hash a)),
        (''model_identity'', binds (ex_model_identity ex) (ap_model_identity a)),
        (''source_policy_hash'', binds (ex_source_policy_hash ex) (ap_source_policy_hash a))])
   @ check (case ex_budget ex of None \<Rightarrow> True | Some b \<Rightarrow> hash_json P (JObj (ap_budget a)) = hash_json P (JObj b))
       ''approval.binding_budget'' ''$.budget'' ''approval budget differs from current budget''"

fun allowed_run_transitions :: "run_status \<Rightarrow> run_status list" where
  "allowed_run_transitions Awaiting_start_approval = [Approved, Cancelled]"
| "allowed_run_transitions Approved = [Running, Cancelled]"
| "allowed_run_transitions Running = [Paused, Completed, Failed, Cancelled]"
| "allowed_run_transitions Paused = [Running, Failed, Cancelled]"
| "allowed_run_transitions Completed = []"
| "allowed_run_transitions Failed = []"
| "allowed_run_transitions Cancelled = []"
| "allowed_run_transitions (Unknown_status s) = []"

fun known_status :: "run_status \<Rightarrow> bool" where
  "known_status (Unknown_status s) = False"
| "known_status _ = True"

definition validate_run_state :: "prims \<Rightarrow> max_run_state \<Rightarrow> validation_result" where
  "validate_run_state P s =
     check (run_schema s = ''max-research-run-state/v1'') ''run_state.schema'' ''$.schema''
       ''unsupported run state schema''
   @ required_text (nonblank (run_id s)) ''$.run_id'' ''run_state.run_id_required''
   @ check (is_project_id (JStr (project_id s))) ''run_state.project_id'' ''$.project_id''
       ''project_id is not valid''
   @ check (known_status (status s)) ''run_state.status'' ''$.status'' ''unknown Max Run status''
   @ required_text (nonblank (charter_hash s)) ''$.charter_hash'' ''run_state.binding_required''
   @ required_text (nonblank (model_identity s)) ''$.model_identity'' ''run_state.binding_required''
   @ required_text (nonblank (source_policy_hash s)) ''$.source_policy_hash'' ''run_state.binding_required''
   @ required_mapping (budget s) ''$.budget''
   @ check (0 \<le> iteration_index s) ''run_state.iteration_index'' ''$.iteration_index''
       ''iteration_index must be non-negative''
   @ check (1 \<le> state_version s) ''run_state.version'' ''$.state_version''
       ''state_version must be positive''
   @ (if status s \<in> {Approved, Running, Paused}
      then check (stable_of_kind ''start_approval'' (approval_id s)) ''run_state.approval_required''
             ''$.approval_id'' ''approved/running/paused state requires a start approval ID''
         @ check (case approval_consumed_at s of None \<Rightarrow> False | Some t \<Rightarrow> parse_time t \<noteq> None)
             ''run_state.approval_consumed'' ''$.approval_consumed_at''
             ''resumable state requires an approval consumption timestamp''
         @ check (stable_of_kind ''approval_consumption'' (approval_consumption_id s))
             ''run_state.approval_consumption'' ''$.approval_consumption_id''
             ''resumable state requires an immutable approval consumption ID''
         @ check (case budget_snapshot_hash s of None \<Rightarrow> True | Some h \<Rightarrow> h = hash_json P (JObj (budget s)))
             ''run_state.budget_snapshot'' ''$.budget_snapshot_hash''
             ''budget snapshot hash does not bind the run budget''
      else [])
   @ (if status s \<in> {Running, Paused, Completed}
      then check (case current_state_hash s of None \<Rightarrow> False | Some h \<Rightarrow> nonblank h)
             ''run_state.current_state'' ''$.current_state_hash''
             ''active and terminal states require the current Research State hash''
         @ check (case current_checkpoint_id s of None \<Rightarrow> True
                  | Some c \<Rightarrow> is_stable_id (JStr c) (Some ''checkpoint''))
             ''run_state.current_checkpoint'' ''$.current_checkpoint_id'' ''current checkpoint ID is invalid''
      else [])
   @ check (\<not> (status s = Awaiting_start_approval
              \<and> (approval_consumed_at s \<noteq> None \<or> completion_result_id s \<noteq> None)))
       ''run_state.awaiting_binding'' ''$.approval_consumed_at''
       ''awaiting state cannot carry consumed approval or completion''
   @ (if status s = Completed
      then check (stable_of_kind ''completion_result'' (completion_result_id s))
             ''run_state.completion_result'' ''$.completion_result_id''
             ''completed state requires a completion result ID''
         @ required_text (case completion_state_hash s of None \<Rightarrow> False | Some h \<Rightarrow> nonblank h)
             ''$.completion_state_hash'' ''run_state.completion_hash''
         @ check (current_state_hash s = completion_state_hash s) ''run_state.completion_state_binding''
             ''$.completion_state_hash'' ''completed state must bind the exact current Research State''
      else [])"

definition validate_approval_consumption ::
    "approval_consumption \<Rightarrow> string option \<Rightarrow> string option \<Rightarrow> string option \<Rightarrow> string option
     \<Rightarrow> validation_result" where
  "validate_approval_consumption c exp_project exp_run exp_charter exp_approval =
     check (is_stable_id (JStr (ac_approval_id c)) (Some ''start_approval''))
       ''approval_consumption.approval_id'' ''$.approval_id'' ''approval ID is invalid''
   @ check (is_stable_id (JStr (ac_consumption_id c)) (Some ''approval_consumption''))
       ''approval_consumption.id'' ''$.consumption_id'' ''consumption ID is invalid''
   @ check (is_project_id (JStr (ac_project_id c))) ''approval_consumption.project_id'' ''$.project_id''
       ''project ID is invalid''
   @ concat (map (\<lambda>(name, ok). check ok ''approval_consumption.binding'' (''$.'' @ name)
       (''consumption does not bind expected '' @ name))
       [(''project_id'', binds exp_project (ac_project_id c)), (''run_id'', binds exp_run (ac_run_id c)),
        (''charter_hash'', binds exp_charter (ac_charter_hash c)),
        (''approval_id'', binds exp_approval (ac_approval_id c))])
   @ check (1 \<le> ac_prior_state_version c) ''approval_consumption.prior_version'' ''$.prior_state_version''
       ''prior state version must be positive''
   @ check (ac_resulting_state_version c = ac_prior_state_version c + 1)
       ''approval_consumption.resulting_version'' ''$.resulting_state_version''
       ''resulting state version must immediately follow prior state version''
   @ check (parse_time (ac_consumed_at c) \<noteq> None) ''approval_consumption.timestamp'' ''$.consumed_at''
       ''consumed_at must be ISO-8601''"

section \<open>The transition\<close>

record completion_view =
  cv_input_run_state_hash :: "string option"
  cv_input_research_hash :: "string option"
  cv_input_checkpoint_id :: "string option"
  cv_submitted_matches :: bool
  cv_result_id :: string
  cv_result_state_hash :: string
  cv_issues :: validation_result

definition make_consumption ::
    "prims \<Rightarrow> string \<Rightarrow> string \<Rightarrow> string \<Rightarrow> string \<Rightarrow> int \<Rightarrow> stamp \<Rightarrow> int \<Rightarrow> py_exc + approval_consumption"
  where
  "make_consumption P approval project run charter prior consumed resulting =
     andthen (make_event_id P (VStr ''approval_consumption'') (VStr project) (VDict
       [(KStr ''approval_id'', VStr approval), (KStr ''run_id'', VStr run),
        (KStr ''charter_hash'', VStr charter), (KStr ''prior_state_version'', VInt prior),
        (KStr ''consumed_at'', VStr (stamp_text P consumed)),
        (KStr ''resulting_state_version'', VInt resulting)]))
     (\<lambda>cid. Inr
       \<lparr>ac_approval_id = approval, ac_project_id = project, ac_run_id = run, ac_charter_hash = charter,
        ac_prior_state_version = prior, ac_consumed_at = consumed,
        ac_resulting_state_version = resulting, ac_consumption_id = cid,
        ac_schema = ''max-research-approval-consumption/v1''\<rparr>)"

definition run_expectation :: "max_run_state \<Rightarrow> approval_expectation" where
  "run_expectation s =
     \<lparr>ex_run_id = Some (run_id s), ex_project_id = Some (project_id s),
      ex_charter_hash = Some (charter_hash s), ex_model_identity = Some (model_identity s),
      ex_source_policy_hash = Some (source_policy_hash s), ex_budget = Some (budget s)\<rparr>"

definition py_quote :: "string \<Rightarrow> string" where
  "py_quote s = CHR 0x27 # s @ [CHR 0x27]"

text \<open>The target-specific part: what the target status does to the carried fields.\<close>

definition consume_approval ::
    "prims \<Rightarrow> max_run_state \<Rightarrow> start_approval option \<Rightarrow> int \<Rightarrow> approval_consumption list option
     \<Rightarrow> py_exc + run_transition" where
  "consume_approval P s approval now ledger =
     andthen (from_option (contract_error ''human start approval is required before APPROVED'') approval) (\<lambda>a.
     andthen (from_option (contract_error ''approval consumption ledger snapshot is required'') ledger) (\<lambda>led.
     andthen (raise_if_invalid (validate_start_approval P a (run_expectation s) now True)) (\<lambda>_.
     andthen (require (\<not> list_ex (\<lambda>c. ac_approval_id c = ap_approval_id a) led)
       (contract_error ''start approval has already appeared in the consumption ledger'')) (\<lambda>_.
     andthen (make_consumption P (ap_approval_id a) (project_id s) (run_id s) (charter_hash s)
       (state_version s) (Iso now) (state_version s + 1)) (\<lambda>c. Inr
       \<lparr>new_state = s\<lparr>approval_id := Some (ap_approval_id a), approval_consumed_at := Some (Iso now),
          approval_consumption_id := Some (ac_consumption_id c),
          budget_snapshot_hash := Some (hash_json P (JObj (budget s)))\<rparr>,
        new_consumption = Some c\<rparr>)))))"

definition complete_run :: "max_run_state \<Rightarrow> completion_view option \<Rightarrow> py_exc + run_transition" where
  "complete_run s completion =
     andthen (from_option
       (contract_error ''a complete CompletionEvaluationInput is required before COMPLETED'') completion) (\<lambda>v.
     andthen (require (cv_input_run_state_hash v = current_state_hash s
                       \<and> cv_input_research_hash v = current_state_hash s)
       (contract_error ''completion input is stale or does not bind the current Run State'')) (\<lambda>_.
     andthen (require (cv_submitted_matches v)
       (contract_error ''submitted CompletionResult differs from recomputed result'')) (\<lambda>_.
     andthen (raise_if_invalid (cv_issues v)) (\<lambda>_. Inr
       \<lparr>new_state = s\<lparr>completion_result_id := Some (cv_result_id v),
          completion_state_hash := Some (cv_result_state_hash v),
          current_state_hash := Some (cv_result_state_hash v),
          current_checkpoint_id := (case cv_input_checkpoint_id v of
             None \<Rightarrow> current_checkpoint_id s
           | Some c \<Rightarrow> if c = [] then current_checkpoint_id s else Some c)\<rparr>,
        new_consumption = None\<rparr>))))"

definition target_effect ::
    "prims \<Rightarrow> max_run_state \<Rightarrow> run_status \<Rightarrow> start_approval option \<Rightarrow> int \<Rightarrow> completion_view option
     \<Rightarrow> approval_consumption list option \<Rightarrow> py_exc + run_transition" where
  "target_effect P s target approval now completion ledger =
     (if target = Approved then consume_approval P s approval now ledger
      else if target = Running \<and> status s = Awaiting_start_approval
      then Inl (contract_error ''AWAITING_START_APPROVAL cannot transition directly to RUNNING'')
      else if target = Running \<and> status s = Approved
      then andthen (require (approval_consumption_id s \<noteq> None)
             (contract_error ''APPROVED state is missing its immutable approval consumption''))
             (\<lambda>_. Inr \<lparr>new_state = s, new_consumption = None\<rparr>)
      else if target = Completed then complete_run s completion
      else Inr \<lparr>new_state = s, new_consumption = None\<rparr>)"

definition transition_run_state ::
    "prims \<Rightarrow> max_run_state \<Rightarrow> run_status \<Rightarrow> start_approval option \<Rightarrow> int \<Rightarrow> completion_view option
     \<Rightarrow> string option \<Rightarrow> approval_consumption list option \<Rightarrow> py_exc + run_transition" where
  "transition_run_state P s target approval now completion research_hash ledger =
     andthen (raise_if_invalid (validate_run_state P s)) (\<lambda>_.
     andthen (require (target \<in> set (allowed_run_transitions (status s)))
       (contract_error (''illegal Max Run transition ''
          @ py_quote (status_value (status s)) @ '' -> '' @ py_quote (status_value target)))) (\<lambda>_.
     andthen (target_effect P s target approval now completion ledger) (\<lambda>t.
       let carried = new_state t;
           bound = (if target \<in> {Running, Paused} \<and> research_hash \<noteq> None
                    then research_hash else current_state_hash carried);
           updated = carried\<lparr>status := target, state_version := state_version s + 1,
                             current_state_hash := bound\<rparr>
       in andthen (raise_if_invalid (validate_run_state P updated)) (\<lambda>_. Inr
            \<lparr>new_state = updated, new_consumption = new_consumption t\<rparr>))))"

end
