(* ===== verification/Contract_Correct.thy ===== *)
theory Contract_Correct
  imports Ids
begin

text \<open>
  What the canonical projection and the identifiers promise: the canonical text is a faithful
  and order-independent image of a value, strict mappings accept exactly the declared fields,
  identifiers survive parsing, and identifiers of different identities differ as long as the
  hash separates their texts.
\<close>

section \<open>Canonical text\<close>

text \<open>
  C38. The canonical text determines the value and nothing more: whatever NFC does to strings, two
  values without floating-point numbers have the same canonical text exactly when they are the same
  JSON value after NFC of every string and key, up to the order of keys.
\<close>

theorem canonical_text_determines_value:
  assumes "wf_json j" "wf_json j'" "plain j" "plain j'"
    and "canonical_json_nfc nfc P (of_json j) = Inr t" "canonical_json_nfc nfc P (of_json j') = Inr t'"
  shows "t = t' \<longleftrightarrow> sort_keys (nfc_json nfc j) = sort_keys (nfc_json nfc j')"
proof -
  note t = canonical_text_nfc [OF assms(1,5)] canonical_text_nfc [OF assms(2,6)]
  have "plain (nfc_json nfc j)" "plain (nfc_json nfc j')" using assms(3,4) by (simp_all add: plain_nfc_json)
  from json_text_inject [OF this, of P] show ?thesis unfolding t by (auto simp: json_text_def)
qed

text \<open>Two spellings of one key and one string, which the sample NFC identifies.\<close>

definition sample_nfc :: "string \<Rightarrow> string" where
  "sample_nfc s = (if s = ''e+'' then [CHR 0xE9] else s)"

theorem canonical_text_determines_value_witness:
  "sort_keys (nfc_json sample_nfc (JObj [(''e+'', JInt 1), (''b'', JStr ''e+'')]))
     = sort_keys (nfc_json sample_nfc (JObj [(''b'', JStr [CHR 0xE9]), ([CHR 0xE9], JInt 1)]))"
proof -
  let ?P = "\<lparr>sha256 = id, float_repr = (\<lambda>_. []), iso_stamp = (\<lambda>_. []), isoformat = (\<lambda>_. []), py_repr = (\<lambda>_. [])\<rparr>"
  let ?j = "JObj [(''e+'', JInt 1), (''b'', JStr ''e+'')]" and ?j' = "JObj [(''b'', JStr [CHR 0xE9]), ([CHR 0xE9], JInt 1)]"
  have same: "canonical_json_nfc sample_nfc ?P (of_json ?j) = canonical_json_nfc sample_nfc ?P (of_json ?j')"
    "\<not> isl (canonical_json_nfc sample_nfc ?P (of_json ?j))"
    by code_simp+
  then obtain t where "canonical_json_nfc sample_nfc ?P (of_json ?j) = Inr t"
    by (cases "canonical_json_nfc sample_nfc ?P (of_json ?j)") auto
  with same(1) show ?thesis
    using canonical_text_determines_value [of ?j ?j' sample_nfc ?P t t] by simp
qed

text \<open>
  Freezing a value yields a deeply immutable one with the same canonical text and digest, so
  a stored frozen value hashes as the value it was made of.
\<close>

theorem freezing_preserves_hash:
  "frozen (deep_freeze v)
   \<and> canonical_json P (deep_freeze v) = canonical_json P v
   \<and> canonical_sha256 P (deep_freeze v) = canonical_sha256 P v"
  by (simp add: frozen_deep_freeze canonical_json_projection canonical_sha256_def)

text \<open>
  The digest does not depend on the order in which a dictionary was filled, at any depth the
  two values differ only by the order of their top-level keys.
\<close>

theorem digest_key_order:
  assumes "mset kvs = mset kvs'" "wf_json (JObj kvs)"
  shows "canonical_sha256 P (of_json (JObj kvs)) = canonical_sha256 P (of_json (JObj kvs'))"
proof -
  have "wf_json (JObj kvs')"
  proof -
    have "mset (map fst kvs) = mset (map fst kvs')" using assms(1) by simp
    then have "distinct (map fst kvs')" using assms(2) mset_eq_imp_distinct_iff wf_json.simps(3) by blast
    then show ?thesis using assms mset_eq_setD [OF assms(1)] by (simp add: list_all_iff)
  qed
  moreover have "json_text P (JObj kvs) = json_text P (JObj kvs')"
    unfolding json_text_def using sort_keys_perm [OF assms(1)] assms(2) by simp
  ultimately show ?thesis
    using assms(2) by (simp only: canonical_sha256_of_json hash_json_def)
qed

lemma digest_key_order_witness:
  "(\<lambda>P. canonical_sha256 P (of_json (JObj [(''a'', JInt 1), (''b'', JNull)])))
     = (\<lambda>P. canonical_sha256 P (of_json (JObj [(''b'', JNull), (''a'', JInt 1)])))"
  by (intro ext digest_key_order) simp_all

text \<open>
  Taking the canonical text fails exactly where the projection fails: the colliding-keys
  check of the normalisation never rejects a projected value (equal rendered keys have already
  been merged by the projection).
\<close>

theorem canonical_json_raises_iff:
  "canonical_json P v = Inl e \<longleftrightarrow> model_to_dict P v = Inl e"
  by (cases "model_to_dict P v") (simp_all add: canonical_json_projection)

section \<open>Strict mappings\<close>

text \<open>
  The mapping boundary accepts a value exactly when it is an object whose keys are all allowed
  and include every required one; it returns the object unchanged.
\<close>

theorem require_mapping_fields_accepts:
  "require_mapping_fields allowed required path v = Inr kvs \<longleftrightarrow>
     v = JObj kvs \<and> set (map fst kvs) \<subseteq> set allowed \<and> set required \<subseteq> set (map fst kvs)"
proof -
  have "mapping_issues allowed required path kvs' = [] \<longleftrightarrow>
      set (map fst kvs') \<subseteq> set allowed \<and> set required \<subseteq> set (map fst kvs')" for kvs' :: "(string \<times> json) list"
  proof -
    have sort_Nil: "sort (filter Q xs) = [] \<longleftrightarrow> (\<forall>x\<in>set xs. \<not> Q x)" for Q and xs :: "string list"
      by (metis filter_empty_conv length_0_conv length_sort)
    show ?thesis
      unfolding mapping_issues_def Let_def append_is_Nil_conv map_is_Nil_conv sort_Nil by blast
  qed
  then show ?thesis
    by (cases v) (auto simp: require_mapping_fields_def Let_def)
qed

section \<open>Identifiers\<close>

text \<open>
  C39. Round trip of identifiers: a constructed identifier parses back to its normalised kind and
  its opaque part, and it is accepted as a stable identifier of that kind.
\<close>

theorem stable_id_round_trip:
  assumes "make_stable_id kind obj = Inr s"
  shows "\<exists>k u. normalize_kind kind = Inr k \<and> obj = VStr u
    \<and> parse_stable_id (JStr s) = Some \<lparr>id_kind = k, id_opaque = u\<rparr>
    \<and> stable_id_value \<lparr>id_kind = k, id_opaque = u\<rparr> = Inr s
    \<and> is_stable_id (JStr s) (Some k)"
proof -
  obtain k u where h: "normalize_kind kind = Inr k" "is_kind k" "obj = VStr u" "is_opaque u"
      "s = ''mr1:'' @ k @ '':'' @ u"
    using assms by (auto simp: result_simps)
  have k: "kind_key k = k" using h(1,2) normalize_kind_image kind_key_idem by blast
  then have "parse_stable_id (JStr s) = Some \<lparr>id_kind = k, id_opaque = u\<rparr>"
    using h parse_rendered [OF h(2,4)] by simp
  then show ?thesis
    using h k by (auto simp: stable_id_value_def result_simps is_stable_id_def)
qed

lemma stable_id_round_trip_witness:
  "parse_stable_id (JStr ''mr1:document_version:a1'')
     = Some \<lparr>id_kind = ''document_version'', id_opaque = ''a1''\<rparr>"
proof -
  have "make_stable_id (VStr ''Document-Version '') (VStr ''a1'') = Inr ''mr1:document_version:a1''"
    by code_simp
  moreover have "kind_key ''Document-Version '' = ''document_version''" by code_simp
  ultimately show ?thesis using stable_id_round_trip by fastforce
qed

text \<open>
  Every identifier that parses has one canonical spelling: rendering the parsed identifier
  succeeds and parses to the same identifier.
\<close>

theorem parsed_id_canonical:
  assumes "parse_stable_id v = Some i"
  shows "\<exists>s. stable_id_value i = Inr s \<and> parse_stable_id (JStr s) = Some i"
proof -
  obtain k where "is_kind k" "id_kind i = kind_key k" using assms by (rule parse_stable_id_Some)
  then have "is_kind (id_kind i)" using kind_key_is_kind by simp
  with assms show ?thesis by (rule parse_then_make)
qed

lemma parsed_id_canonical_witness:
  "\<exists>s. stable_id_value \<lparr>id_kind = ''start_approval'', id_opaque = ''x''\<rparr> = Inr s"
proof -
  have "parse_stable_id (JStr ''mr1:start-approval:x'') = Some \<lparr>id_kind = ''start_approval'', id_opaque = ''x''\<rparr>"
    by code_simp
  from parsed_id_canonical [OF this] show ?thesis by blast
qed

definition identity_record :: "string \<Rightarrow> json \<Rightarrow> json" where
  "identity_record k identity = JObj
     [(''namespace'', JStr (if k \<in> set global_kinds then ''global'' else ''project_local'')),
      (''kind'', JStr k), (''identity'', identity)]"

lemma semantic_opaque_json:
  assumes "wf_json j"
  shows "semantic_opaque P (VStr k) (of_json j) = Inr (take 48 (hash_json P (identity_record (kind_key k) j)))"
proof -
  have "canonical_sha256 P (of_json (identity_record (kind_key k) j))
      = Inr (hash_json P (identity_record (kind_key k) j))"
    using assms by (intro canonical_sha256_of_json) (simp add: identity_record_def)
  then show ?thesis by (simp add: semantic_opaque_def id_namespace_def identity_record_def)
qed

lemma hex_take_opaque:
  assumes "is_hex64 h"
  shows "is_opaque (take 48 h)"
proof -
  have hex: "is_alnum c" if "is_hex_char c" for c
    using that by (auto simp: is_hex_char_def is_alnum_def is_lower_def)
  obtain c cs where t: "take 48 h = c # cs" using assms by (cases h) (auto simp: is_hex64_def)
  have all: "list_all is_hex_char (take 48 h)"
    using assms by (auto simp: is_hex64_def list_all_iff dest: in_set_takeD)
  have "length (take 48 h) = 48" using assms by (simp add: is_hex64_def)
  then have "length (c # cs) = 48" by (simp only: t)
  then show ?thesis
    using all t hex by (auto simp: is_opaque_def is_opaque_char_def list_all_iff)
qed

lemma make_event_id_json:
  assumes "wf_json j" "is_kind (kind_key k)" "digest_ok P"
  shows "make_event_id P (VStr k) (VStr p) (of_json j)
    = Inr (''mr1:'' @ kind_key k @ '':'' @ take 48 (hash_json P (identity_record (kind_key k)
        (JObj [(''project_id'', JStr p), (''identity'', j)]))))"
proof -
  have "semantic_opaque P (VStr k) (of_json (JObj [(''project_id'', JStr p), (''identity'', j)]))
    = Inr (take 48 (hash_json P (identity_record (kind_key k)
        (JObj [(''project_id'', JStr p), (''identity'', j)]))))"
    using assms(1) by (intro semantic_opaque_json) simp
  moreover have "is_opaque (take 48 (hash_json P j'))" for j'
    using assms(3) hex_take_opaque by (simp add: digest_ok_def hash_json_def)
  ultimately show ?thesis using assms(2) by (simp add: make_event_id_def result_simps)
qed

lemma make_event_id_stable:
  assumes "digest_ok P" "is_kind (kind_key k)" "wf_json j"
  shows "\<exists>s. make_event_id P (VStr k) (VStr p) (of_json j) = Inr s \<and> is_stable_id (JStr s) (Some k)"
proof -
  let ?u = "take 48 (hash_json P (identity_record (kind_key k) (JObj [(''project_id'', JStr p), (''identity'', j)])))"
  have "is_opaque ?u" using assms(1) hex_take_opaque by (simp add: digest_ok_def hash_json_def)
  then show ?thesis
    using make_event_id_json [OF assms(3,2,1)] parse_rendered [OF assms(2)] kind_key_idem [OF assms(2)]
    by (simp add: is_stable_id_def)
qed

text \<open>
  C40. Event identifiers are total and well formed: for every well-formed identity of a valid kind
  the constructor returns an identifier that is accepted as a stable identifier of that kind.
\<close>

theorem event_id_total:
  assumes "digest_ok P" "is_kind (kind_key k)" "wf_json j"
  shows "\<exists>s. make_event_id P (VStr k) (VStr p) (of_json j) = Inr s \<and> is_stable_id (JStr s) (Some k)"
  using make_event_id_stable [OF assms] .

lemma event_id_total_witness:
  "\<exists>s. make_event_id \<lparr>sha256 = (\<lambda>_. replicate 64 (CHR ''0'')), float_repr = (\<lambda>_. []), iso_stamp = (\<lambda>_. []),
      isoformat = (\<lambda>_. []), py_repr = (\<lambda>_. [])\<rparr> (VStr ''start_approval'') (VStr ''p'')
      (of_json (JObj [(''run_id'', JStr ''r'')])) = Inr s \<and> is_stable_id (JStr s) (Some ''start_approval'')"
proof (rule event_id_total)
  show "is_kind (kind_key ''start_approval'')" by code_simp
  have "is_hex64 (replicate 64 (CHR ''0''))" by code_simp
  then show "digest_ok \<lparr>sha256 = (\<lambda>_. replicate 64 (CHR ''0'')), float_repr = (\<lambda>_. []), iso_stamp = (\<lambda>_. []),
      isoformat = (\<lambda>_. []), py_repr = (\<lambda>_. [])\<rparr>" by (simp add: digest_ok_def)
qed simp

section \<open>Version identifiers\<close>

definition version_identity :: "string \<Rightarrow> string \<Rightarrow> string \<Rightarrow> int \<Rightarrow> json" where
  "version_identity kind project sid version = identity_record (kind_key kind)
     (JObj [(''project_id'', JStr project), (''stable_id'', JStr sid), (''version'', JInt version)])"

lemma make_version_id_json:
  assumes "make_version_id P (VStr kind) (VStr project) (VStr sid) (VInt version) = Inr v"
    "is_kind (kind_key kind)"
  shows "\<exists>k. v = ''mr1:'' @ k @ '':'' @ take 48 (sha256 P (json_text P (version_identity kind project sid version)))
    \<and> is_kind k"
proof -
  let ?j = "JObj [(''project_id'', JStr project), (''stable_id'', JStr sid), (''version'', JInt version)]"
  have "semantic_opaque P (VStr (kind_key kind)) (of_json ?j)
      = Inr (take 48 (sha256 P (json_text P (version_identity kind project sid version))))"
    using semantic_opaque_json [of ?j P "kind_key kind"] kind_key_idem [OF assms(2)]
    by (simp add: version_identity_def hash_json_def)
  then show ?thesis
    using assms(1) by (auto simp: make_version_id_def result_simps split: if_splits)
qed

lemma version_identity_inject:
  "sort_keys (version_identity k p s n) = sort_keys (version_identity k' p' s' n')
    \<longleftrightarrow> kind_key k = kind_key k' \<and> p = p' \<and> s = s' \<and> n = n'"
  by (auto simp: version_identity_def identity_record_def)

text \<open>
  Version identifiers are bound to their identity: identifiers of versions that differ in
  kind, project, stable identity or number differ, provided the first 48 digits of the hash
  separate the two identity texts.
\<close>

theorem version_ids_distinct:
  assumes "make_version_id P (VStr k) (VStr p) (VStr s) (VInt n) = Inr v"
    and "make_version_id P (VStr k') (VStr p') (VStr s') (VInt n') = Inr v'"
    and "is_kind (kind_key k)" "is_kind (kind_key k')"
    and "inj_on (\<lambda>t. take 48 (sha256 P t))
           {json_text P (version_identity k p s n), json_text P (version_identity k' p' s' n')}"
    and "(kind_key k, p, s, n) \<noteq> (kind_key k', p', s', n')"
  shows "v \<noteq> v'"
proof
  assume eq: "v = v'"
  let ?t = "json_text P (version_identity k p s n)" and ?t' = "json_text P (version_identity k' p' s' n')"
  obtain a where a: "v = ''mr1:'' @ a @ '':'' @ take 48 (sha256 P ?t)" "is_kind a"
    using make_version_id_json [OF assms(1,3)] by blast
  obtain b where b: "v' = ''mr1:'' @ b @ '':'' @ take 48 (sha256 P ?t')" "is_kind b"
    using make_version_id_json [OF assms(2,4)] by blast
  have "a @ CHR '':'' # take 48 (sha256 P ?t) = b @ CHR '':'' # take 48 (sha256 P ?t')"
    using eq a(1) b(1) by simp
  then have "take 48 (sha256 P ?t) = take 48 (sha256 P ?t')"
    using takeWhile_colon(2) [OF is_kind_no_colon [OF a(2)]] takeWhile_colon(2) [OF is_kind_no_colon [OF b(2)]]
    by (metis list.inject)
  then have "?t = ?t'" by (rule inj_onD [OF assms(5)]) blast+
  moreover have "plain (version_identity k p s n)" "plain (version_identity k' p' s' n')"
    by (simp_all add: version_identity_def identity_record_def)
  ultimately have "sort_keys (version_identity k p s n) = sort_keys (version_identity k' p' s' n')"
    by (intro json_text_inject)
  then show False using assms(6) version_identity_inject by simp
qed

lemma inj_on_pair: "f a \<noteq> f b \<Longrightarrow> inj_on f {a, b}"
  by (auto simp: inj_on_def)

definition parity_prims :: prims where
  "parity_prims = \<lparr>sha256 = (\<lambda>t. replicate 64 (if CHR ''2'' \<in> set t then CHR ''1'' else CHR ''0'')),
     float_repr = (\<lambda>_. []), iso_stamp = (\<lambda>_. []), isoformat = (\<lambda>_. []), py_repr = (\<lambda>_. [])\<rparr>"

lemma version_ids_distinct_witness:
  "\<exists>v v'. make_version_id parity_prims (VStr ''claim'') (VStr ''p'') (VStr ''s'') (VInt 1) = Inr v
     \<and> make_version_id parity_prims (VStr ''claim'') (VStr ''p'') (VStr ''s'') (VInt 2) = Inr v' \<and> v \<noteq> v'"
proof -
  have k: "kind_key ''claim'' = ''claim''" "is_kind ''claim''" "kind_key ''claim-version'' = ''claim-version''"
    "is_kind ''claim-version''"
    by code_simp+
  have hex: "is_hex64 (replicate 64 (CHR ''0''))" "is_hex64 (replicate 64 (CHR ''1''))" by code_simp+
  then have "digest_ok parity_prims" by (simp add: digest_ok_def parity_prims_def)
  then have "is_opaque (take 48 (hash_json parity_prims j))" for j
    using hex_take_opaque by (simp add: digest_ok_def hash_json_def)
  note opaque = this
  have m: "\<exists>v. make_version_id parity_prims (VStr ''claim'') (VStr ''p'') (VStr ''s'') (VInt n) = Inr v"
    if "1 \<le> n" for n
    using that opaque k
      semantic_opaque_json [of "JObj [(''project_id'', JStr ''p''), (''stable_id'', JStr ''s''), (''version'', JInt n)]"]
    by (simp add: make_version_id_def result_simps)
  obtain v where v: "make_version_id parity_prims (VStr ''claim'') (VStr ''p'') (VStr ''s'') (VInt 1) = Inr v"
    using m [of 1] by auto
  obtain v' where v': "make_version_id parity_prims (VStr ''claim'') (VStr ''p'') (VStr ''s'') (VInt 2) = Inr v'"
    using m [of 2] by auto
  have "take 48 (sha256 parity_prims (json_text parity_prims (version_identity ''claim'' ''p'' ''s'' 1)))
      \<noteq> take 48 (sha256 parity_prims (json_text parity_prims (version_identity ''claim'' ''p'' ''s'' 2)))"
    by code_simp
  then have "inj_on (\<lambda>t. take 48 (sha256 parity_prims t))
      {json_text parity_prims (version_identity ''claim'' ''p'' ''s'' 1),
       json_text parity_prims (version_identity ''claim'' ''p'' ''s'' 2)}"
    by (rule inj_on_pair [where f = "\<lambda>t. take 48 (sha256 parity_prims t)"])
  note separated = this
  have "v \<noteq> v'"
    by (rule version_ids_distinct [OF v v' _ _ separated]) (simp_all add: k)
  with v v' show ?thesis by blast
qed

end
