(* ===== verification/Run_Laws.thy ===== *)
theory Run_Laws
  imports Run_State Contract_Correct
begin

text \<open>
  Laws of the run lifecycle: what a successful transition preserves and establishes, and, over
  whole histories of transitions (\<open>run_history\<close>), that no run gets past approval without
  consuming exactly one human approval.
\<close>

section \<open>One transition\<close>

definition same_run :: "max_run_state \<Rightarrow> max_run_state \<Rightarrow> bool" where
  "same_run s s' \<longleftrightarrow> run_id s' = run_id s \<and> project_id s' = project_id s
     \<and> charter_hash s' = charter_hash s \<and> model_identity s' = model_identity s
     \<and> budget s' = budget s \<and> source_policy_hash s' = source_policy_hash s
     \<and> run_schema s' = run_schema s \<and> iteration_index s' = iteration_index s"

lemma same_run_refl [simp]: "same_run s s"
  by (simp add: same_run_def)

lemma same_run_trans: "same_run s t \<Longrightarrow> same_run t u \<Longrightarrow> same_run s u"
  by (simp add: same_run_def)

lemma transition_elim:
  assumes "transition_run_state P s target approval now completion research ledger = Inr t"
  obtains t0 h where "validate_run_state P s = []" "target \<in> set (allowed_run_transitions (status s))"
    "target_effect P s target approval now completion ledger = Inr t0"
    "new_state t = (new_state t0)\<lparr>status := target, state_version := state_version s + 1,
       current_state_hash := h\<rparr>"
    "new_consumption t = new_consumption t0" "validate_run_state P (new_state t) = []"
proof -
  from assms obtain t0 h where v: "validate_run_state P s = []"
      and a: "target \<in> set (allowed_run_transitions (status s))"
      and e: "target_effect P s target approval now completion ledger = Inr t0"
      and u: "validate_run_state P ((new_state t0)\<lparr>status := target, state_version := state_version s + 1,
        current_state_hash := h\<rparr>) = []"
      and t: "t = \<lparr>new_state = (new_state t0)\<lparr>status := target, state_version := state_version s + 1,
        current_state_hash := h\<rparr>, new_consumption = new_consumption t0\<rparr>"
    unfolding transition_run_state_def Let_def andthen_eq_Inr raise_if_invalid_eq_Inr require_eq_Inr
    by (metis Inr_inject)
  show thesis
    by (rule that [OF v a e, of h]) (use u t in simp_all)
qed

lemma transition_edge:
  assumes "transition_run_state P s target approval now completion research ledger = Inr t"
  shows "target \<in> set (allowed_run_transitions (status s))" "status (new_state t) = target"
    "state_version (new_state t) = state_version s + 1" "validate_run_state P s = []"
    "validate_run_state P (new_state t) = []"
  using assms by (auto elim!: transition_elim)

lemma consume_approval_Inr:
  assumes "consume_approval P s approval now ledger = Inr t"
  obtains a led c where "approval = Some a" "ledger = Some led"
    "validate_start_approval P a (run_expectation s) now True = []"
    "\<not> list_ex (\<lambda>c. ac_approval_id c = ap_approval_id a) led"
    "make_consumption P (ap_approval_id a) (project_id s) (run_id s) (charter_hash s)
       (state_version s) (Iso now) (state_version s + 1) = Inr c"
    "new_consumption t = Some c"
    "new_state t = s\<lparr>approval_id := Some (ap_approval_id a), approval_consumed_at := Some (Iso now),
       approval_consumption_id := Some (ac_consumption_id c),
       budget_snapshot_hash := Some (hash_json P (JObj (budget s)))\<rparr>"
  using assms that unfolding consume_approval_def by (auto simp: result_simps)

lemma target_effect_cases:
  assumes "target_effect P s target approval now completion ledger = Inr t"
  obtains (approve) "target = Approved" "consume_approval P s approval now ledger = Inr t"
  | (complete) "target = Completed" "complete_run s completion = Inr t" "new_consumption t = None"
      "approval_consumption_id (new_state t) = approval_consumption_id s"
      "approval_id (new_state t) = approval_id s"
  | (plain) "target \<noteq> Approved" "target \<noteq> Completed" "new_state t = s" "new_consumption t = None"
  using assms that unfolding target_effect_def complete_run_def
  by (auto simp: result_simps split: if_splits)

lemma transition_same_run:
  assumes "transition_run_state P s target approval now completion research ledger = Inr t"
  shows "same_run s (new_state t)"
proof -
  obtain t0 h where "target_effect P s target approval now completion ledger = Inr t0"
    and n: "new_state t = (new_state t0)\<lparr>status := target, state_version := state_version s + 1,
       current_state_hash := h\<rparr>"
    using assms by (elim transition_elim)
  then have "same_run s (new_state t0)"
    by (auto elim!: target_effect_cases consume_approval_Inr
        simp: same_run_def complete_run_def result_simps)
  then show ?thesis by (simp add: n same_run_def)
qed

text \<open>An approval is consumed exactly by the transitions to APPROVED.\<close>

lemma transition_consumption:
  assumes "transition_run_state P s target approval now completion research ledger = Inr t"
  shows "(case new_consumption t of
      None \<Rightarrow> target \<noteq> Approved \<and> approval_consumption_id (new_state t) = approval_consumption_id s
        \<and> approval_id (new_state t) = approval_id s
    | Some c \<Rightarrow> target = Approved \<and> approval_consumption_id (new_state t) = Some (ac_consumption_id c)
        \<and> approval_id (new_state t) = Some (ac_approval_id c)
        \<and> ac_prior_state_version c = state_version s \<and> ac_resulting_state_version c = state_version s + 1
        \<and> ac_run_id c = run_id s \<and> ac_project_id c = project_id s \<and> ac_charter_hash c = charter_hash s)"
proof -
  obtain t0 h where e: "target_effect P s target approval now completion ledger = Inr t0"
    and n: "new_state t = (new_state t0)\<lparr>status := target, state_version := state_version s + 1,
       current_state_hash := h\<rparr>" "new_consumption t = new_consumption t0"
    using assms by (elim transition_elim)
  from e show ?thesis
    by (cases rule: target_effect_cases)
      (auto simp: n make_consumption_def result_simps elim!: consume_approval_Inr)
qed

section \<open>Histories\<close>

inductive run_history :: "prims \<Rightarrow> max_run_state \<Rightarrow> max_run_state \<Rightarrow> approval_consumption list \<Rightarrow> bool"
  for P :: prims and s0 :: max_run_state where
  begin_history: "run_history P s0 s0 []"
| step_history: "run_history P s0 s cs \<Longrightarrow>
    transition_run_state P s target approval now completion research ledger = Inr t \<Longrightarrow>
    run_history P s0 (new_state t) (cs @ (case new_consumption t of None \<Rightarrow> [] | Some c \<Rightarrow> [c]))"

inductive_cases run_history_cases: "run_history P s0 s cs"

definition past_approval :: "run_status \<Rightarrow> bool" where
  "past_approval st \<longleftrightarrow> st \<in> {Approved, Running, Paused, Completed}"

definition approval_inv :: "max_run_state \<Rightarrow> approval_consumption list \<Rightarrow> bool" where
  "approval_inv s cs \<longleftrightarrow>
     (status s = Awaiting_start_approval \<longrightarrow> cs = [])
     \<and> (past_approval (status s) \<longrightarrow>
          (\<exists>c. cs = [c] \<and> approval_consumption_id s = Some (ac_consumption_id c)
             \<and> approval_id s = Some (ac_approval_id c)))
     \<and> length cs \<le> 1"

lemma allowed_predecessor:
  "target \<in> set (allowed_run_transitions st) \<Longrightarrow>
     (target = Approved \<longrightarrow> st = Awaiting_start_approval)
     \<and> (past_approval target \<and> target \<noteq> Approved \<longrightarrow> past_approval st)
     \<and> target \<noteq> Awaiting_start_approval
     \<and> (past_approval st \<or> st = Awaiting_start_approval)"
  by (cases st) (auto simp: past_approval_def)

lemma approval_inv_step:
  assumes "approval_inv s cs"
    and t: "transition_run_state P s target approval now completion research ledger = Inr t"
  shows "approval_inv (new_state t) (cs @ (case new_consumption t of None \<Rightarrow> [] | Some c \<Rightarrow> [c]))"
proof -
  note edge = transition_edge [OF t]
  show ?thesis
  proof (cases "new_consumption t")
    case None
    then show ?thesis
      using assms(1) transition_consumption [OF t] allowed_predecessor [OF edge(1)] edge(2)
      by (auto simp: approval_inv_def)
  next
    case (Some c)
    then have "target = Approved" using transition_consumption [OF t] by simp
    then have "cs = []"
      using assms(1) allowed_predecessor [OF edge(1)] by (auto simp: approval_inv_def)
    then show ?thesis
      using Some transition_consumption [OF t] edge(2)
      by (auto simp: approval_inv_def past_approval_def)
  qed
qed

lemma history_approval_inv:
  assumes "run_history P s0 s cs" "status s0 = Awaiting_start_approval"
  shows "approval_inv s cs"
  using assms
proof (induction rule: run_history.induct)
  case begin_history
  then show ?case by (simp add: approval_inv_def past_approval_def)
next
  case (step_history s cs target approval now completion research ledger t)
  then show ?case using approval_inv_step by blast
qed

end
