(* ===== verification/Control_Db.thy ===== *)
theory Control_Db
  imports Payload_Guard Run_Laws
begin

text \<open>
  The control database of \<open>max_research/persistence/repository.py\<close>: the actor, the tables its run
  lifecycle, leases, iterations, budget and event log live in, and the private methods that read
  and write them.

  \<^item> A table whose key is the run (\<open>max_runs\<close>, \<open>max_leases\<close>, \<open>max_iteration_current\<close>) is a map; an
    append-only table is the list of its rows, oldest first. An INSERT that violates a primary
    key, a UNIQUE or a CHECK constraint of the schema raises \<open>Integrity_error\<close>.
  \<^item> A JSON column is its text, what \<open>json.loads\<close> makes of the text and what the contract type's
    \<open>from_mapping\<close> makes of that value; \<open>json_column\<close> is a column the program itself writes.
  \<^item> An operation takes the database and returns a failure or its answer and the new database;
    \<open>control_transaction\<close> rolls back on every exception, so a failed operation leaves the
    database as it was. \<open>public\<close> is the outermost \<open>except\<close> clause.
  \<^item> The clock is read several times during an operation; \<open>readings\<close> holds the instants read.
    \<open>timestamp\<close> is \<open>_timestamp\<close>: the format ends with "Z", so \<open>[:-3]\<close> leaves four digits of
    the fraction and a stored time is rounded down to 100 microseconds.
\<close>

section \<open>Actors and times\<close>

record actor =
  actor_id :: string
  session_id :: string
  actor_kind :: string
  actor_role :: string
  actor_framework :: string
  actor_model :: "string option"

definition is_admin :: "actor \<Rightarrow> bool" where
  "is_admin a \<longleftrightarrow> actor_kind a = ''user'' \<and> actor_role a = ''admin''"

record readings =
  now_dt :: int
  now_stamp :: int
  now_check :: int
  now_grant :: int

definition stamp_floor :: "int \<Rightarrow> int" where
  "stamp_floor t = t - t mod 100"

definition timestamp :: "int \<Rightarrow> stamp" where
  "timestamp t = Stamp (stamp_floor t)"

definition parse_timestamp :: "stamp option \<Rightarrow> int option" where
  "parse_timestamp v = (case v of None \<Rightarrow> None | Some s \<Rightarrow> parse_time s)"

text \<open>\<open>now + timedelta(seconds=n)\<close>, in microseconds since 1970: the years 1 to 9999.\<close>

definition add_seconds :: "int \<Rightarrow> int \<Rightarrow> failure + int" where
  "add_seconds now n =
     (let t = now + n * 1000000 in
      if -62135596800000000 \<le> t \<and> t \<le> 253402300799999999 then Inr t
      else Inl (Raised (OverflowError ''date value out of range'')))"

section \<open>Tables\<close>

record 'a column =
  col_text :: string
  col_value :: "json option"
  col_model :: "'a option"

definition json_column :: "prims \<Rightarrow> json \<Rightarrow> 'a \<Rightarrow> 'a column" where
  "json_column P j m = \<lparr>col_text = json_text P j, col_value = Some (sort_keys j), col_model = Some m\<rparr>"

text \<open>
  What \<open>canonical_json\<close> renders and \<open>canonical_sha256\<close> hashes: the value \<open>model_to_dict\<close> makes of a
  JSON value, or the exception it raises.
\<close>

definition stored_json :: "prims \<Rightarrow> json \<Rightarrow> failure + json" where
  "stored_json P j = raising (model_to_dict P (of_json j))"

record run_row =
  rr_project :: string
  rr_status :: string
  rr_charter_hash :: string
  rr_charter_valid :: bool
  rr_budget_policy :: json
  rr_budget_hash :: string
  rr_state_hash :: "string option"
  rr_checkpoint :: "string option"
  rr_version :: int
  rr_iteration :: int
  rr_completion_id :: "string option"
  rr_completion_hash :: "string option"
  rr_result_json :: "string option"
  rr_result_hash :: "string option"
  rr_state :: "max_run_state column"
  rr_updated :: stamp

record lease_row =
  ls_owner :: "string option"
  ls_session :: "string option"
  ls_token :: int
  ls_expires :: "stamp option"
  ls_acquired :: "stamp option"
  ls_renewed :: "stamp option"
  ls_released :: "stamp option"

record event_row =
  ev_id :: string
  ev_run :: string
  ev_seq :: int
  ev_type :: string
  ev_payload :: "unit column"
  ev_payload_hash :: string
  ev_previous :: string
  ev_hash :: string
  ev_actor :: string
  ev_kind :: string
  ev_session :: string
  ev_created :: stamp

record transition_row =
  tr_id :: string
  tr_run :: string
  tr_prior :: int
  tr_resulting :: int
  tr_from :: string
  tr_to :: string
  tr_json :: "run_transition column"
  tr_hash :: string
  tr_created :: stamp
  tr_actor :: string
  tr_kind :: string
  tr_session :: string

record approval_row =
  sa_id :: string
  sa_run :: string
  sa_approval :: start_approval
  sa_hash :: string
  sa_reason :: string
  sa_actor :: string

record consumption_row =
  cs_run :: string
  cs_consumption :: approval_consumption
  cs_hash :: string
  cs_actor :: string

record iteration_row =
  it_id :: string
  it_run :: string
  it_project :: string
  it_seq :: int
  it_round :: string
  it_status :: string
  it_input :: string
  it_json :: string
  it_token :: int
  it_started :: stamp
  it_actor :: string

record outcome_row =
  oc_id :: string
  oc_iteration :: string
  oc_run :: string
  oc_status :: string
  oc_input :: string
  oc_output :: "string option"
  oc_delta :: "(string \<times> json) list"
  oc_json :: string
  oc_claims :: string
  oc_evidence :: string
  oc_counter :: string
  oc_strategy :: string
  oc_summary :: string
  oc_token :: int
  oc_finished :: stamp

record artifact_row =
  al_id :: string
  al_iteration :: string
  al_run :: string
  al_type :: string
  al_artifact :: string
  al_json :: string
  al_hash :: string

record budget_link =
  bl_id :: string
  bl_iteration :: string
  bl_entry :: string

record ledger_row =
  lg_entry :: string
  lg_run :: string
  lg_seq :: int
  lg_operation :: string
  lg_key :: string
  lg_amount :: json
  lg_provenance :: json
  lg_reservation :: "string option"
  lg_created :: stamp
  lg_actor :: string
  lg_session :: string
  lg_request_hash :: "string option"
  lg_iteration :: "string option"

record receipt_row =
  rc_id :: string
  rc_run :: string
  rc_iteration :: string
  rc_model :: string
  rc_amount :: json
  rc_hash :: string

text \<open>
  The tables of the portability layer \<open>resume\<close> consults; \<open>None\<close> is a schema without the table.
\<close>

record packet_row =
  pk_id :: string
  pk_run :: string
  pk_created :: string

record target_ack =
  ta_packet :: string
  ta_complete :: bool
  ta_binding :: string
  ta_project :: string
  ta_handoff :: string

record handoff_row =
  ho_approval :: string
  ho_state :: string
  ho_binding :: string

record handoff_tables =
  ht_packets :: "packet_row list option"
  ht_acks :: "string list"
  ht_target_acks :: "target_ack list option"
  ht_bindings :: "string \<rightharpoonup> string \<times> string"
  ht_handoffs :: "string \<rightharpoonup> handoff_row"

record control_db =
  db_runs :: "string \<rightharpoonup> run_row"
  db_leases :: "string \<rightharpoonup> lease_row"
  db_events :: "event_row list"
  db_transitions :: "transition_row list"
  db_approvals :: "approval_row list"
  db_consumptions :: "consumption_row list"
  db_iterations :: "iteration_row list"
  db_open :: "string \<rightharpoonup> string"
  db_outcomes :: "outcome_row list"
  db_artifacts :: "artifact_row list"
  db_cognitive :: "string list"
  db_budget_links :: "budget_link list"
  db_ledger :: "ledger_row list"
  db_receipts :: "receipt_row list"
  db_handoff :: handoff_tables

definition public :: "failure + 'a \<Rightarrow> failure + 'a" where
  "public r = (case r of Inl e \<Rightarrow> Inl (Max_control (safe_error e)) | Inr x \<Rightarrow> Inr x)"

lemma public_eq_Inr [result_simps]: "public r = Inr x \<longleftrightarrow> r = Inr x"
  by (cases r) (simp_all add: public_def)

lemma public_simps [simp]: "public (Inr x) = Inr x" "public (Inl e) = Inl (Max_control (safe_error e))"
  by (simp_all add: public_def)

section \<open>Runs\<close>

definition run_row :: "control_db \<Rightarrow> string \<Rightarrow> failure + run_row" where
  "run_row db r = from_option (Max_control ''Max run was not found'') (db_runs db r)"

definition run_state :: "run_row \<Rightarrow> failure + max_run_state" where
  "run_state row = from_option (Max_control ''stored Max Run State is invalid'') (col_model (rr_state row))"

definition state_column :: "prims \<Rightarrow> max_run_state \<Rightarrow> failure + max_run_state column" where
  "state_column P s = andthen (stored_json P (run_state_json P s)) (\<lambda>j. Inr (json_column P j s))"

definition written_row ::
    "prims \<Rightarrow> max_run_state \<Rightarrow> max_run_state column \<Rightarrow> stamp \<Rightarrow> json option \<Rightarrow> run_row \<Rightarrow> run_row" where
  "written_row P s column now completion row = row
     \<lparr>rr_status := status_value (status s), rr_state_hash := current_state_hash s,
      rr_checkpoint := current_checkpoint_id s, rr_version := state_version s,
      rr_iteration := iteration_index s, rr_completion_id := completion_result_id s,
      rr_completion_hash := completion_state_hash s, rr_state := column, rr_updated := now,
      rr_result_json := (case completion of None \<Rightarrow> rr_result_json row | Some j \<Rightarrow> Some (json_text P j)),
      rr_result_hash := (case completion of None \<Rightarrow> rr_result_hash row | Some j \<Rightarrow> Some (hash_json P j))\<rparr>"

definition update_run ::
    "prims \<Rightarrow> max_run_state \<Rightarrow> stamp \<Rightarrow> json option \<Rightarrow> control_db \<Rightarrow> failure + control_db" where
  "update_run P s now completion db =
     andthen (state_column P s) (\<lambda>column.
     case db_runs db (run_id s) of
       None \<Rightarrow> Inr db
     | Some row \<Rightarrow>
         andthen (require (1 \<le> state_version s \<and> 0 \<le> iteration_index s) Integrity_error) (\<lambda>_.
         Inr (db\<lparr>db_runs := (db_runs db)(run_id s \<mapsto> written_row P s column now completion row)\<rparr>)))"

definition run_summary :: "prims \<Rightarrow> max_run_state \<Rightarrow> json" where
  "run_summary P s = JObj
    [(''run_id'', JStr (run_id s)), (''project_id'', JStr (project_id s)),
     (''status'', JStr (status_value (status s))), (''charter_hash'', JStr (charter_hash s)),
     (''model_identity'', JStr (model_identity s)), (''source_policy_hash'', JStr (source_policy_hash s)),
     (''budget_hash'', JStr (hash_json P (JObj (budget s)))), (''state_version'', JInt (state_version s)),
     (''current_state_hash'', opt_json (current_state_hash s)),
     (''current_checkpoint_id'', opt_json (current_checkpoint_id s)),
     (''approval_id'', opt_json (approval_id s)),
     (''approval_consumption_id'', opt_json (approval_consumption_id s))]"

definition get_run :: "prims \<Rightarrow> string \<Rightarrow> control_db \<Rightarrow> failure + json" where
  "get_run P r db =
     andthen (run_row db r) (\<lambda>row.
     andthen (run_state row) (\<lambda>s.
     andthen (require (charter_hash s = rr_charter_hash row \<and> hash_json P (JObj (budget s)) = rr_budget_hash row)
       (Max_control ''stored Run State binding is inconsistent'')) (\<lambda>_.
     Inr (run_summary P s))))"

section \<open>The transition ledger\<close>

definition transition_row_of ::
    "prims \<Rightarrow> string \<Rightarrow> json \<Rightarrow> max_run_state \<Rightarrow> run_transition \<Rightarrow> actor \<Rightarrow> stamp \<Rightarrow> transition_row" where
  "transition_row_of P tid j prior t actor now =
     \<lparr>tr_id = tid, tr_run = run_id prior, tr_prior = state_version prior,
      tr_resulting = state_version (new_state t), tr_from = status_value (status prior),
      tr_to = status_value (status (new_state t)),
      tr_json = json_column P j t, tr_hash = hash_json P j,
      tr_created = now, tr_actor = actor_id actor, tr_kind = actor_kind actor,
      tr_session = session_id actor\<rparr>"

definition record_transition ::
    "prims \<Rightarrow> max_run_state \<Rightarrow> run_transition \<Rightarrow> actor \<Rightarrow> stamp \<Rightarrow> control_db
     \<Rightarrow> failure + transition_row \<times> control_db" where
  "record_transition P prior t actor now db =
     andthen (stored_json P (transition_json P t)) (\<lambda>j.
     andthen (raising (make_event_id P (VStr ''run_transition_result'') (VStr (project_id prior)) (VDict
       [(KStr ''run_id'', VStr (run_id prior)), (KStr ''prior_state_version'', VInt (state_version prior)),
        (KStr ''resulting_state_version'', VInt (state_version (new_state t))),
        (KStr ''transition_hash'', VStr (hash_json P j))]))) (\<lambda>tid.
     let row = transition_row_of P tid j prior t actor now in
     andthen (require
       (1 \<le> tr_prior row \<and> tr_resulting row = tr_prior row + 1
        \<and> tid \<notin> set (map tr_id (db_transitions db))
        \<and> (tr_run row, tr_resulting row) \<notin> set (map (\<lambda>x. (tr_run x, tr_resulting x)) (db_transitions db)))
       Integrity_error) (\<lambda>_.
     Inr (row, db\<lparr>db_transitions := db_transitions db @ [row]\<rparr>))))"

section \<open>The event log\<close>

definition events_of :: "control_db \<Rightarrow> string \<Rightarrow> event_row list" where
  "events_of db r = sort_key ev_seq (filter (\<lambda>e. ev_run e = r) (db_events db))"

definition event_identity :: "event_row \<Rightarrow> (string \<times> json) list" where
  "event_identity e =
     [(''run_id'', JStr (ev_run e)), (''sequence_no'', JInt (ev_seq e)), (''event_type'', JStr (ev_type e)),
      (''payload_hash'', JStr (ev_payload_hash e)), (''previous_event_hash'', JStr (ev_previous e))]"

definition event_digest :: "prims \<Rightarrow> event_row \<Rightarrow> string" where
  "event_digest P e = hash_json P (JObj ((''event_id'', JStr (ev_id e)) # event_identity e @
     [(''payload_json'', JStr (col_text (ev_payload e))), (''actor_id'', JStr (ev_actor e)),
      (''actor_kind'', JStr (ev_kind e)), (''session_id'', JStr (ev_session e)),
      (''created_at'', JStr (stamp_text P (ev_created e)))]))"

definition new_event ::
    "prims \<Rightarrow> event_row list \<Rightarrow> string \<Rightarrow> string \<Rightarrow> json \<Rightarrow> actor \<Rightarrow> stamp \<Rightarrow> event_row" where
  "new_event P earlier r type payload actor now =
     \<lparr>ev_id = [], ev_run = r,
      ev_seq = (if earlier = [] then 1 else ev_seq (last earlier) + 1), ev_type = type,
      ev_payload = json_column P payload (), ev_payload_hash = hash_json P payload,
      ev_previous = (if earlier = [] then [] else ev_hash (last earlier)), ev_hash = [],
      ev_actor = actor_id actor, ev_kind = actor_kind actor, ev_session = session_id actor,
      ev_created = now\<rparr>"

definition append_event ::
    "prims \<Rightarrow> string \<Rightarrow> string \<Rightarrow> json \<Rightarrow> actor \<Rightarrow> stamp \<Rightarrow> control_db \<Rightarrow> failure + control_db" where
  "append_event P r type payload actor now db =
     andthen (reject_untrusted_payload payload) (\<lambda>_.
     andthen (stored_json P payload) (\<lambda>j.
     let draft = new_event P (events_of db r) r type j actor now in
     andthen (from_option (Raised (TypeError ''NoneType object is not subscriptable'')) (db_runs db r)) (\<lambda>row.
     andthen (raising (make_event_id P (VStr ''event'') (VStr (rr_project row)) (VDict
       [(KStr ''run_id'', VStr r), (KStr ''sequence_no'', VInt (ev_seq draft)),
        (KStr ''event_type'', VStr type), (KStr ''payload_hash'', VStr (ev_payload_hash draft)),
        (KStr ''previous_event_hash'', VStr (ev_previous draft))]))) (\<lambda>eid.
     let event = draft\<lparr>ev_id := eid, ev_hash := event_digest P (draft\<lparr>ev_id := eid\<rparr>)\<rparr> in
     andthen (require (1 \<le> ev_seq event \<and> eid \<notin> set (map ev_id (db_events db))
       \<and> (r, ev_seq event) \<notin> set (map (\<lambda>x. (ev_run x, ev_seq x)) (db_events db))) Integrity_error) (\<lambda>_.
     Inr (db\<lparr>db_events := db_events db @ [event]\<rparr>))))))"

definition append_events ::
    "prims \<Rightarrow> string \<Rightarrow> (string \<times> json) list \<Rightarrow> actor \<Rightarrow> stamp \<Rightarrow> control_db \<Rightarrow> failure + control_db" where
  "append_events P r es actor now db = fold_result (\<lambda>(type, payload). append_event P r type payload actor now) es db"

section \<open>The fence\<close>

definition assert_fence :: "control_db \<Rightarrow> string \<Rightarrow> actor \<Rightarrow> int option \<Rightarrow> int \<Rightarrow> failure + unit" where
  "assert_fence db r actor token now =
     andthen (from_option (Max_control ''a current lease fencing token is required for this write'') token) (\<lambda>tok.
     andthen (from_option (Max_control ''stale or foreign lease fencing token'') (db_leases db r)) (\<lambda>row.
     andthen (require (ls_owner row = Some (actor_id actor) \<and> ls_session row = Some (session_id actor)
         \<and> ls_token row = tok)
       (Max_control ''stale or foreign lease fencing token'')) (\<lambda>_.
     require (case parse_timestamp (ls_expires row) of None \<Rightarrow> False | Some e \<Rightarrow> now < e)
       (Max_control ''lease has expired''))))"

end
