(* ===== verification/Control_Lease.thy ===== *)
theory Control_Lease
  imports Control_Db
begin

text \<open>
  Leases of \<open>max_research/persistence/repository.py\<close>: one row per run with its owner, its expiry and
  a fencing token that every acquisition increases. \<open>acquire_lease_connection\<close> is the part the
  start and resume of a run share; \<open>acquire_lease\<close>, \<open>renew_lease\<close> and \<open>release_lease\<close> are the
  three operations of the owner.
\<close>

record lease_grant =
  lr_owner :: string
  lr_session :: string
  lr_token :: int
  lr_expires :: stamp

definition parse_status :: "string \<Rightarrow> py_exc + run_status" where
  "parse_status v =
     (case List.find (\<lambda>st. status_value st = v)
         [Awaiting_start_approval, Approved, Running, Paused, Completed, Failed, Cancelled] of
        None \<Rightarrow> Inl (ValueError ''not a valid RunStatus'')
      | Some st \<Rightarrow> Inr st)"

definition stamp_truthy :: "stamp option \<Rightarrow> bool" where
  "stamp_truthy v \<longleftrightarrow> (case v of None \<Rightarrow> False | Some (Text s) \<Rightarrow> s \<noteq> [] | Some _ \<Rightarrow> True)"

definition str_truthy :: "string option \<Rightarrow> bool" where
  "str_truthy v \<longleftrightarrow> (case v of None \<Rightarrow> False | Some s \<Rightarrow> s \<noteq> [])"

text \<open>The row shows another session as the present owner.\<close>

definition held_by_other :: "lease_row \<Rightarrow> actor \<Rightarrow> int \<Rightarrow> bool" where
  "held_by_other row actor now \<longleftrightarrow>
     str_truthy (ls_owner row) \<and> \<not> stamp_truthy (ls_released row)
     \<and> (case parse_timestamp (ls_expires row) of None \<Rightarrow> False | Some e \<Rightarrow> now < e)
     \<and> (ls_owner row \<noteq> Some (actor_id actor) \<or> ls_session row \<noteq> Some (session_id actor))"

definition granted_row :: "lease_row \<Rightarrow> actor \<Rightarrow> int \<Rightarrow> stamp \<Rightarrow> lease_row" where
  "granted_row row actor expires now = row
     \<lparr>ls_owner := Some (actor_id actor), ls_session := Some (session_id actor),
      ls_token := ls_token row + 1, ls_expires := Some (timestamp expires),
      ls_acquired := (case ls_acquired row of None \<Rightarrow> Some now | a \<Rightarrow> a),
      ls_renewed := Some now, ls_released := None\<rparr>"

definition grant_of :: "lease_row \<Rightarrow> actor \<Rightarrow> int \<Rightarrow> lease_grant" where
  "grant_of row actor expires =
     \<lparr>lr_owner = actor_id actor, lr_session = session_id actor, lr_token = ls_token row + 1,
      lr_expires = timestamp expires\<rparr>"

definition acquire_lease_connection ::
    "string \<Rightarrow> actor \<Rightarrow> int \<Rightarrow> readings \<Rightarrow> run_status list \<Rightarrow> control_db
     \<Rightarrow> failure + lease_grant \<times> control_db" where
  "acquire_lease_connection r actor ttl clk allowed db =
     andthen (require (1 \<le> ttl \<and> ttl \<le> 86400)
       (Max_control ''lease TTL is outside the supported range'')) (\<lambda>_.
     andthen (from_option (Max_control ''run lease row is missing'') (db_leases db r)) (\<lambda>row.
     andthen (run_row db r) (\<lambda>run.
     andthen (raising (parse_status (rr_status run))) (\<lambda>st.
     andthen (require (st \<in> set (if allowed = [] then [Running] else allowed))
       (Max_control ''lease acquisition is not allowed in the current Run state'')) (\<lambda>_.
     andthen (require (\<not> held_by_other row actor (now_check clk))
       (Max_control ''run lease is held by another owner'')) (\<lambda>_.
     andthen (add_seconds (now_grant clk) ttl) (\<lambda>expires.
     Inr (grant_of row actor expires,
       db\<lparr>db_leases := (db_leases db)(r \<mapsto> granted_row row actor expires (timestamp (now_stamp clk)))\<rparr>))))))))"

definition grant_payload :: "prims \<Rightarrow> lease_grant \<Rightarrow> (string \<times> json) list" where
  "grant_payload P g =
     [(''owner_id'', JStr (lr_owner g)), (''session_id'', JStr (lr_session g)),
      (''fencing_token'', JInt (lr_token g)), (''expires_at'', JStr (stamp_text P (lr_expires g)))]"

text \<open>The run must be RUNNING for its owner to acquire, renew or release.\<close>

definition running_state :: "string \<Rightarrow> string \<Rightarrow> control_db \<Rightarrow> failure + max_run_state" where
  "running_state r message db =
     andthen (run_row db r) (\<lambda>row.
     andthen (run_state row) (\<lambda>s.
     andthen (require (status s = Running) (Max_control message)) (\<lambda>_. Inr s)))"

definition acquire_lease ::
    "prims \<Rightarrow> string \<Rightarrow> actor \<Rightarrow> int \<Rightarrow> readings \<Rightarrow> control_db \<Rightarrow> failure + lease_grant \<times> control_db" where
  "acquire_lease P r actor ttl clk db = public (
     andthen (running_state r ''only RUNNING Runs can acquire or take over a lease'' db) (\<lambda>s.
     andthen (acquire_lease_connection r actor ttl clk [] db) (\<lambda>(g, db1).
     andthen (append_event P r ''lease_acquired'' (JObj (grant_payload P g)) actor
       (timestamp (now_stamp clk)) db1) (\<lambda>db2.
     Inr (g, db2)))))"

definition set_lease :: "string \<Rightarrow> (lease_row \<Rightarrow> lease_row) \<Rightarrow> control_db \<Rightarrow> control_db" where
  "set_lease r f db = db\<lparr>db_leases := (case db_leases db r of
     None \<Rightarrow> db_leases db | Some row \<Rightarrow> (db_leases db)(r \<mapsto> f row))\<rparr>"

definition renew_lease ::
    "prims \<Rightarrow> string \<Rightarrow> actor \<Rightarrow> int \<Rightarrow> int \<Rightarrow> readings \<Rightarrow> control_db \<Rightarrow> failure + lease_grant \<times> control_db" where
  "renew_lease P r actor token ttl clk db = public (
     andthen (running_state r ''only RUNNING Runs can renew a lease'' db) (\<lambda>s.
     andthen (assert_fence db r actor (Some token) (now_check clk)) (\<lambda>_.
     andthen (add_seconds (now_grant clk) ttl) (\<lambda>expires.
     let db1 = set_lease r (\<lambda>row. row\<lparr>ls_expires := Some (timestamp expires),
                 ls_renewed := Some (timestamp (now_stamp clk))\<rparr>) db
     in andthen (append_event P r ''lease_renewed'' (JObj [(''fencing_token'', JInt token),
          (''expires_at'', JStr (stamp_text P (timestamp expires)))]) actor (timestamp (now_stamp clk)) db1) (\<lambda>db2.
     Inr (\<lparr>lr_owner = actor_id actor, lr_session = session_id actor, lr_token = token,
           lr_expires = timestamp expires\<rparr>, db2))))))"

text \<open>\<open>UPDATE max_leases SET expires_at=now, released_at=now\<close>.\<close>

definition expire_lease :: "string \<Rightarrow> stamp \<Rightarrow> control_db \<Rightarrow> control_db" where
  "expire_lease r now db = set_lease r (\<lambda>row. row\<lparr>ls_expires := Some now, ls_released := Some now\<rparr>) db"

definition release_lease ::
    "prims \<Rightarrow> string \<Rightarrow> actor \<Rightarrow> int \<Rightarrow> readings \<Rightarrow> control_db \<Rightarrow> failure + control_db" where
  "release_lease P r actor token clk db = public (
     andthen (running_state r ''only RUNNING Runs can release a lease'' db) (\<lambda>s.
     andthen (assert_fence db r actor (Some token) (now_check clk)) (\<lambda>_.
     append_event P r ''lease_released'' (JObj [(''fencing_token'', JInt token)]) actor
       (timestamp (now_stamp clk)) (expire_lease r (timestamp (now_stamp clk)) db))))"

end
