(* ===== verification/Control_Ops.thy ===== *)
theory Control_Ops
  imports Control_Lease Budget_Amounts
begin

text \<open>
  The run lifecycle of \<open>max_research/persistence/repository.py\<close>: \<open>propose\<close>, \<open>approve\<close>, \<open>_transition\<close>
  (with \<open>start\<close>, \<open>pause\<close> and \<open>cancel\<close>) and \<open>resume\<close>. The charter and the canonical layer below
  \<open>propose\<close> are not modelled: a \<open>proposal\<close> holds what they compute (hashes and identifiers) and the
  Charter's budget, which \<open>propose\<close> normalises.
\<close>

section \<open>State writes\<close>

text \<open>\<open>_update_run\<close> followed by \<open>_record_transition_result\<close>, as every state change does.\<close>

definition write_result ::
    "prims \<Rightarrow> json option \<Rightarrow> max_run_state \<Rightarrow> run_transition \<Rightarrow> actor \<Rightarrow> stamp \<Rightarrow> control_db
     \<Rightarrow> failure + transition_row \<times> control_db" where
  "write_result P completion prior t actor now db =
     andthen (update_run P (new_state t) now completion db) (\<lambda>db1. record_transition P prior t actor now db1)"

definition write_state ::
    "prims \<Rightarrow> max_run_state \<Rightarrow> run_transition \<Rightarrow> actor \<Rightarrow> stamp \<Rightarrow> control_db
     \<Rightarrow> failure + transition_row \<times> control_db" where
  "write_state P prior t actor now db = write_result P None prior t actor now db"

definition current_run :: "string \<Rightarrow> control_db \<Rightarrow> failure + run_row \<times> max_run_state" where
  "current_run r db = andthen (run_row db r) (\<lambda>row. andthen (run_state row) (\<lambda>s. Inr (row, s)))"

section \<open>propose\<close>

record proposal =
  pp_project :: string
  pp_charter_hash :: string
  pp_model :: string
  pp_policy_hash :: string
  pp_budget :: json
  pp_state_hash :: string
  pp_checkpoint :: string
  pp_question_version :: string
  pp_question_id :: string

definition stored_budget :: "amount \<Rightarrow> (string \<times> json) list" where
  "stored_budget limits = map (\<lambda>p. (fst p, quantity_json (snd p))) limits"

definition initial_state :: "prims \<Rightarrow> string \<Rightarrow> proposal \<Rightarrow> amount \<Rightarrow> max_run_state" where
  "initial_state P r p limits =
     \<lparr>run_id = r, project_id = pp_project p, status = Awaiting_start_approval,
      charter_hash = pp_charter_hash p, model_identity = pp_model p, budget = stored_budget limits,
      source_policy_hash = pp_policy_hash p, approval_id = None, iteration_index = 0, state_version = 1,
      approval_consumed_at = None, completion_result_id = None, completion_state_hash = None,
      run_schema = ''max-research-run-state/v1'', current_state_hash = Some (pp_state_hash p),
      current_checkpoint_id = Some (pp_checkpoint p), approval_consumption_id = None,
      budget_snapshot_hash = Some (hash_json P (amount_json limits))\<rparr>"

definition initial_row :: "prims \<Rightarrow> max_run_state \<Rightarrow> max_run_state column \<Rightarrow> stamp \<Rightarrow> run_row" where
  "initial_row P s column now =
     \<lparr>rr_project = project_id s, rr_status = status_value (status s), rr_charter_hash = charter_hash s,
      rr_charter_valid = True, rr_budget_policy = JObj (budget s), rr_budget_hash = hash_json P (JObj (budget s)),
      rr_state_hash = current_state_hash s, rr_checkpoint = current_checkpoint_id s,
      rr_version = state_version s, rr_iteration = iteration_index s, rr_completion_id = None,
      rr_completion_hash = None, rr_result_json = None, rr_result_hash = None,
      rr_state = column, rr_updated = now\<rparr>"

definition empty_lease :: lease_row where
  "empty_lease = \<lparr>ls_owner = None, ls_session = None, ls_token = 0, ls_expires = None,
     ls_acquired = None, ls_renewed = None, ls_released = None\<rparr>"

definition propose ::
    "prims \<Rightarrow> proposal \<Rightarrow> actor \<Rightarrow> readings \<Rightarrow> string \<Rightarrow> control_db \<Rightarrow> failure + max_run_state \<times> control_db" where
  "propose P p actor clk nonce db =
     andthen (require (is_project_id (JStr (pp_project p))) (Max_control ''project_id is invalid'')) (\<lambda>_.
     andthen (public (normalize_budget_limits (pp_budget p))) (\<lambda>limits.
     let now = timestamp (now_stamp clk) in
     andthen (raising (make_event_id P (VStr ''run'') (VStr (pp_project p)) (VDict
       [(KStr ''charter_hash'', VStr (pp_charter_hash p)), (KStr ''model_identity'', VStr (pp_model p)),
        (KStr ''created_at'', VStr (stamp_text P now)), (KStr ''nonce'', VStr nonce)]))) (\<lambda>r.
     let s = initial_state P r p limits in
     andthen (raising (raise_if_invalid (validate_run_state P s))) (\<lambda>_. public (
     andthen (state_column P s) (\<lambda>column.
     andthen (require (db_runs db r = None \<and> db_leases db r = None) Integrity_error) (\<lambda>_.
     let db1 = db\<lparr>db_runs := (db_runs db)(r \<mapsto> initial_row P s column now),
                  db_leases := (db_leases db)(r \<mapsto> empty_lease)\<rparr> in
     andthen (append_events P r
       [(''run_proposed'', JObj [(''project_id'', JStr (pp_project p)), (''charter_hash'', JStr (pp_charter_hash p)),
           (''model_identity'', JStr (pp_model p)), (''state_hash'', JStr (pp_state_hash p))]),
        (''canonical_version_appended'', JObj [(''version_id'', JStr (pp_question_version p)),
           (''stable_id'', JStr (pp_question_id p)), (''kind'', JStr ''research_question'')]),
        (''canonical_membership_added'', JObj [(''version_id'', JStr (pp_question_version p)),
           (''membership_kind'', JStr ''object''), (''reason'', JStr ''run_proposal'')]),
        (''checkpoint_created'', JObj [(''checkpoint_id'', JStr (pp_checkpoint p)),
           (''checkpoint_version'', JInt 1), (''state_hash'', JStr (pp_state_hash p))])]
       actor now db1) (\<lambda>db2. Inr (s, db2)))))))))"

section \<open>approve\<close>

definition bound_approval ::
    "string \<Rightarrow> max_run_state \<Rightarrow> string \<Rightarrow> actor \<Rightarrow> stamp \<Rightarrow> stamp \<Rightarrow> start_approval" where
  "bound_approval r s aid actor now expires =
     \<lparr>ap_run_id = r, ap_project_id = project_id s, ap_charter_hash = charter_hash s,
      ap_model_identity = model_identity s, ap_budget = budget s,
      ap_source_policy_hash = source_policy_hash s, ap_approval_id = aid, ap_decision = ''approved'',
      ap_approved_by = actor_id actor, ap_approved_at = now, ap_decision_authority = ''human'',
      ap_expires_at = Some expires, ap_consumed_at = None, ap_schema = ''max-research-start-approval/v1''\<rparr>"

definition start_approval_json :: "prims \<Rightarrow> start_approval \<Rightarrow> json" where
  "start_approval_json P a = JObj
    [(''run_id'', JStr (ap_run_id a)), (''project_id'', JStr (ap_project_id a)),
     (''charter_hash'', JStr (ap_charter_hash a)), (''model_identity'', JStr (ap_model_identity a)),
     (''budget'', JObj (ap_budget a)), (''source_policy_hash'', JStr (ap_source_policy_hash a)),
     (''approval_id'', JStr (ap_approval_id a)), (''decision'', JStr (ap_decision a)),
     (''approved_by'', JStr (ap_approved_by a)), (''approved_at'', JStr (stamp_text P (ap_approved_at a))),
     (''decision_authority'', JStr (ap_decision_authority a)), (''expires_at'', opt_stamp P (ap_expires_at a)),
     (''consumed_at'', opt_stamp P (ap_consumed_at a)), (''schema'', JStr (ap_schema a))]"

definition insert_approval ::
    "prims \<Rightarrow> string \<Rightarrow> start_approval \<Rightarrow> string \<Rightarrow> actor \<Rightarrow> control_db \<Rightarrow> failure + control_db" where
  "insert_approval P r a reason actor db =
     andthen (require (ap_approval_id a \<notin> set (map sa_id (db_approvals db))) Integrity_error) (\<lambda>_.
     Inr (db\<lparr>db_approvals := db_approvals db @
       [\<lparr>sa_id = ap_approval_id a, sa_run = r, sa_approval = a, sa_hash = hash_json P (start_approval_json P a),
         sa_reason = strip reason, sa_actor = actor_id actor\<rparr>]\<rparr>))"

definition insert_consumption ::
    "prims \<Rightarrow> string \<Rightarrow> approval_consumption \<Rightarrow> actor \<Rightarrow> control_db \<Rightarrow> failure + control_db" where
  "insert_consumption P r c actor db =
     andthen (require
       (ac_consumption_id c \<notin> set (map (\<lambda>x. ac_consumption_id (cs_consumption x)) (db_consumptions db))
        \<and> ac_approval_id c \<notin> set (map (\<lambda>x. ac_approval_id (cs_consumption x)) (db_consumptions db)))
       Integrity_error) (\<lambda>_.
     Inr (db\<lparr>db_consumptions := db_consumptions db @
       [\<lparr>cs_run = r, cs_consumption = c, cs_hash = hash_json P (consumption_json P c),
         cs_actor = actor_id actor\<rparr>]\<rparr>))"

definition consumptions_of :: "control_db \<Rightarrow> string \<Rightarrow> approval_consumption list" where
  "consumptions_of db r = map cs_consumption (filter (\<lambda>x. cs_run x = r) (db_consumptions db))"

definition transition_payload :: "max_run_state \<Rightarrow> max_run_state \<Rightarrow> (string \<times> json) list" where
  "transition_payload s s' = [(''from'', JStr (status_value (status s))),
     (''to'', JStr (status_value (status s'))), (''state_version'', JInt (state_version s'))]"

definition approve_events ::
    "prims \<Rightarrow> start_approval \<Rightarrow> approval_consumption \<Rightarrow> string \<Rightarrow> max_run_state \<Rightarrow> max_run_state
     \<Rightarrow> (string \<times> json) list" where
  "approve_events P a c reason s s' =
     [(''approval_created'', JObj [(''approval_id'', JStr (ap_approval_id a)),
         (''charter_hash'', JStr (ap_charter_hash a)),
         (''reason_hash'', JStr (hash_json P (JStr (strip reason)))), (''authority'', JStr ''human'')]),
      (''approval_consumed'', JObj [(''approval_id'', JStr (ap_approval_id a)),
         (''consumption_id'', JStr (ac_consumption_id c)),
         (''prior_state_version'', JInt (ac_prior_state_version c)),
         (''resulting_state_version'', JInt (ac_resulting_state_version c))]),
      (''run_transition'', JObj (transition_payload s s'))]"

definition approve ::
    "prims \<Rightarrow> string \<Rightarrow> string \<Rightarrow> string \<Rightarrow> actor \<Rightarrow> int \<Rightarrow> readings \<Rightarrow> string \<Rightarrow> control_db
     \<Rightarrow> failure + (approval_consumption \<times> transition_row \<times> max_run_state) \<times> control_db" where
  "approve P r charter reason actor ttl clk nonce db =
     andthen (require (is_admin actor)
       (Max_control ''approval requires explicit human admin authority'')) (\<lambda>_.
     andthen (require (nonblank reason) (Max_control ''approval reason is required'')) (\<lambda>_.
     andthen (require (1 \<le> ttl \<and> ttl \<le> 86400)
       (Max_control ''approval expiry is outside the supported range'')) (\<lambda>_.
     andthen (add_seconds (now_dt clk) ttl) (\<lambda>expires. public (
     let now = timestamp (now_stamp clk) in
     andthen (current_run r db) (\<lambda>(row, s).
     andthen (require (status s = Awaiting_start_approval)
       (Max_control ''only an awaiting run can be approved'')) (\<lambda>_.
     andthen (require (charter = charter_hash s)
       (Max_control ''charter hash does not match the stored Charter'')) (\<lambda>_.
     andthen (require (rr_charter_valid row) (Max_control ''stored Charter is invalid'')) (\<lambda>_.
     andthen (raising (make_event_id P (VStr ''start_approval'') (VStr (project_id s)) (VDict
       [(KStr ''run_id'', VStr r), (KStr ''charter_hash'', VStr (charter_hash s)),
        (KStr ''approved_by'', VStr (actor_id actor)), (KStr ''approved_at'', VStr (stamp_text P now)),
        (KStr ''nonce'', VStr nonce)]))) (\<lambda>aid.
     let a = bound_approval r s aid actor now (timestamp expires) in
     andthen (raising (raise_if_invalid (validate_start_approval P a
       ((run_expectation s)\<lparr>ex_run_id := Some r\<rparr>) (now_dt clk) True))) (\<lambda>_.
     andthen (raising (transition_run_state P s Approved (Some a) (now_dt clk) None None
       (Some (consumptions_of db r)))) (\<lambda>t.
     andthen (from_option (Max_control ''approval consumption was not produced'') (new_consumption t)) (\<lambda>c.
     andthen (insert_approval P r a reason actor db) (\<lambda>db1.
     andthen (insert_consumption P r c actor db1) (\<lambda>db2.
     andthen (write_state P s t actor now db2) (\<lambda>(tr, db3).
     andthen (append_events P r (approve_events P a c reason s (new_state t)) actor now db3) (\<lambda>db4.
     Inr ((c, tr, new_state t), db4))))))))))))))))))"

section \<open>_transition\<close>

definition token_json :: "int option \<Rightarrow> json" where
  "token_json m = (case m of None \<Rightarrow> JNull | Some t \<Rightarrow> JInt t)"

text \<open>The lease and the new state: only a start from APPROVED takes the lease.\<close>

definition transition_lease ::
    "prims \<Rightarrow> string \<Rightarrow> max_run_state \<Rightarrow> run_status \<Rightarrow> actor \<Rightarrow> int \<Rightarrow> readings \<Rightarrow> control_db
     \<Rightarrow> failure + (run_transition \<times> lease_grant option) \<times> control_db" where
  "transition_lease P r s target actor ttl clk db =
     (if target = Running \<and> status s = Approved
      then andthen (acquire_lease_connection r actor ttl clk [Approved] db) (\<lambda>(g, db1).
           andthen (raising (transition_run_state P s Running None (now_dt clk) None None None)) (\<lambda>t.
           Inr ((t, Some g), db1)))
      else andthen (raising (transition_run_state P s target None (now_dt clk) None None None)) (\<lambda>t.
           Inr ((t, None), db)))"

definition pause_effects ::
    "prims \<Rightarrow> string \<Rightarrow> max_run_state \<Rightarrow> int option \<Rightarrow> actor \<Rightarrow> stamp \<Rightarrow> control_db \<Rightarrow> failure + control_db" where
  "pause_effects P r s token actor now db =
     andthen (require (current_state_hash s \<noteq> None)
       (Max_control ''pause requires a current Research State'')) (\<lambda>_.
     andthen (append_event P r ''pause_snapshot'' (JObj [(''state_hash'', opt_json (current_state_hash s)),
       (''checkpoint_id'', opt_json (current_checkpoint_id s)),
       (''budget_hash'', JStr (hash_json P (JObj (budget s))))]) actor now db) (\<lambda>db1.
     append_event P r ''lease_released'' (JObj [(''reason'', JStr ''run_paused''),
       (''fencing_token'', token_json token)]) actor now (expire_lease r now db1)))"

definition lease_event ::
    "prims \<Rightarrow> string \<Rightarrow> lease_grant option \<Rightarrow> actor \<Rightarrow> stamp \<Rightarrow> control_db \<Rightarrow> failure + control_db" where
  "lease_event P r grant actor now db =
     (case grant of None \<Rightarrow> Inr db
      | Some g \<Rightarrow> append_event P r ''lease_acquired'' (JObj (grant_payload P g)) actor now db)"

definition cancel_effects ::
    "prims \<Rightarrow> string \<Rightarrow> max_run_state \<Rightarrow> run_status \<Rightarrow> int option \<Rightarrow> actor \<Rightarrow> stamp \<Rightarrow> control_db
     \<Rightarrow> failure + control_db" where
  "cancel_effects P r s target token actor now db =
     (if target = Cancelled \<and> status s = Running
      then append_event P r ''lease_released'' (JObj [(''reason'', JStr ''run_cancelled''),
             (''fencing_token'', token_json token)]) actor now (expire_lease r now db)
      else Inr db)"

definition control_transition ::
    "prims \<Rightarrow> string \<Rightarrow> run_status \<Rightarrow> actor \<Rightarrow> int option \<Rightarrow> int \<Rightarrow> readings \<Rightarrow> control_db
     \<Rightarrow> failure + (max_run_state \<times> transition_row \<times> lease_grant option) \<times> control_db" where
  "control_transition P r target actor token ttl clk db = public (
     let now = timestamp (now_stamp clk) in
     andthen (current_run r db) (\<lambda>(row, s).
     andthen (if target \<in> {Paused, Cancelled} \<and> status s = Running
              then assert_fence db r actor token (now_check clk) else Inr ()) (\<lambda>_.
     andthen (require (\<not> (target = Cancelled \<and> status s = Paused \<and> \<not> is_admin actor))
       (Max_control ''cancelling a paused Run requires human admin authority'')) (\<lambda>_.
     andthen (transition_lease P r s target actor ttl clk db) (\<lambda>((t, grant), db1).
     andthen (if target = Paused then pause_effects P r s token actor now db1 else Inr db1) (\<lambda>db2.
     andthen (write_state P s t actor now db2) (\<lambda>(tr, db3).
     andthen (lease_event P r grant actor now db3) (\<lambda>db4.
     andthen (cancel_effects P r s target token actor now db4) (\<lambda>db5.
     andthen (append_event P r ''run_transition'' (JObj (transition_payload s (new_state t) @
       [(''state_hash'', opt_json (current_state_hash (new_state t)))])) actor now db5) (\<lambda>db6.
     Inr ((new_state t, tr, grant), db6)))))))))))"

definition start where
  "start P r actor ttl clk db = control_transition P r Running actor None ttl clk db"

definition pause where
  "pause P r actor token clk db = control_transition P r Paused actor (Some token) 60 clk db"

definition cancel where
  "cancel P r actor token clk db = control_transition P r Cancelled actor token 60 clk db"

section \<open>resume\<close>

text \<open>\<open>ORDER BY created_at DESC, packet_id DESC LIMIT 1\<close>.\<close>

definition latest_packet :: "packet_row list \<Rightarrow> string \<Rightarrow> packet_row option" where
  "latest_packet packets r =
     (let own = sort_key pk_created (sort_key pk_id (filter (\<lambda>p. pk_run p = r) packets))
      in if own = [] then None else Some (last own))"

definition handoff_current :: "handoff_tables \<Rightarrow> string \<Rightarrow> target_ack \<Rightarrow> bool" where
  "handoff_current h r ack \<longleftrightarrow>
     (case ht_bindings h r of None \<Rightarrow> False
      | Some (binding, project) \<Rightarrow> binding = ta_binding ack \<and> project = ta_project ack)
     \<and> (case ht_handoffs h r of None \<Rightarrow> False
        | Some x \<Rightarrow> ho_approval x = ta_handoff ack \<and> ho_state x = ''CONSUMED'' \<and> ho_binding x = ta_binding ack)"

definition check_rehydration :: "handoff_tables \<Rightarrow> string \<Rightarrow> failure + unit" where
  "check_rehydration h r =
     (case ht_packets h of None \<Rightarrow> Inr ()
      | Some packets \<Rightarrow>
         (case latest_packet packets r of None \<Rightarrow> Inr ()
          | Some p \<Rightarrow>
             (let target = (case ht_target_acks h of None \<Rightarrow> None
                 | Some acks \<Rightarrow> List.find (\<lambda>a. ta_packet a = pk_id p \<and> ta_complete a) acks)
              in andthen (require (pk_id p \<in> set (ht_acks h) \<and> (ht_target_acks h \<noteq> None \<longrightarrow> target \<noteq> None))
                   (Max_control ''resume requires an acknowledged rehydration packet'')) (\<lambda>_.
                 case target of None \<Rightarrow> Inr ()
                 | Some ack \<Rightarrow> require (handoff_current h r ack)
                     (Max_control ''resume rehydration acknowledgement is not the current handoff/binding'')))))"

record resume_expectation =
  re_version :: "int option"
  re_checkpoint :: "string option"
  re_state_hash :: "string option"

definition expectation_met :: "'a option \<Rightarrow> 'a option \<Rightarrow> bool" where
  "expectation_met expected actual \<longleftrightarrow> expected = None \<or> actual = expected"

definition resume ::
    "prims \<Rightarrow> string \<Rightarrow> actor \<Rightarrow> int \<Rightarrow> resume_expectation \<Rightarrow> readings \<Rightarrow> control_db
     \<Rightarrow> failure + (max_run_state \<times> transition_row \<times> lease_grant) \<times> control_db" where
  "resume P r actor ttl ex clk db =
     andthen (require (is_admin actor)
       (Max_control ''resume requires explicit human admin authority'')) (\<lambda>_. public (
     let now = timestamp (now_stamp clk) in
     andthen (current_run r db) (\<lambda>(row, s).
     andthen (require (status s = Paused) (Max_control ''only PAUSED Runs can resume'')) (\<lambda>_.
     andthen (require (expectation_met (re_version ex) (Some (state_version s)))
       (Max_control ''resume state version expectation is stale'')) (\<lambda>_.
     andthen (require (expectation_met (re_checkpoint ex) (current_checkpoint_id s))
       (Max_control ''resume checkpoint expectation is stale'')) (\<lambda>_.
     andthen (require (expectation_met (re_state_hash ex) (current_state_hash s))
       (Max_control ''resume state hash expectation is stale'')) (\<lambda>_.
     andthen (check_rehydration (db_handoff db) r) (\<lambda>_.
     andthen (acquire_lease_connection r actor ttl clk [Paused] db) (\<lambda>(g, db1).
     andthen (raising (transition_run_state P s Running None (now_dt clk) None None None)) (\<lambda>t.
     andthen (write_state P s t actor now db1) (\<lambda>(tr, db2).
     andthen (append_events P r
       [(''lease_acquired'', JObj (grant_payload P g @ [(''reason'', JStr ''resume'')])),
        (''run_transition'', JObj (transition_payload s (new_state t)))] actor now db2) (\<lambda>db3.
     Inr ((new_state t, tr, g), db3)))))))))))))"

end
