(* ===== verification/Control_Iteration.thy ===== *)
theory Control_Iteration
  imports Control_Ops Budget_Amounts
begin

text \<open>
  Iterations of \<open>max_research/persistence/repository.py\<close>: \<open>begin_iteration\<close>, \<open>_open_iteration\<close>,
  \<open>_budget_delta_for_iteration\<close> and \<open>finish_iteration\<close>, with \<open>Iteration\<close> and \<open>validate_iteration\<close>
  of the contract package.

  \<open>finish_iteration\<close> receives cognitive records (claim, evidence and counter-evidence snapshots, a
  strategy ledger, typed artifacts) whose contract types are not part of this model. They enter
  as JSON with two parameters: \<open>fr_snapshots\<close> is the outcome of parsing the records and of
  \<open>_validate_iteration_snapshots\<close>, and \<open>typed\<close> the outcome of the artifact type's \<open>from_mapping\<close>
  and its binding checks.
\<close>

section \<open>The contract type\<close>

record iteration =
  ir_project :: string
  ir_run :: string
  ir_sequence :: int
  ir_kind :: string
  ir_inputs :: "json list"
  ir_outputs :: "json list"
  ir_objects :: "json list"
  ir_status :: string
  ir_id :: string
  ir_schema :: string

definition iteration_kinds :: "string list" where
  "iteration_kinds = [''socratic_exploration'', ''targeted_retrieval'', ''acquisition_request'',
     ''adversarial_attack'', ''habermasian_adjudication'', ''rehydration_review'', ''state_update'',
     ''synthesis'', ''cold_review'']"

definition iteration_json :: "iteration \<Rightarrow> json" where
  "iteration_json i = JObj
    [(''project_id'', JStr (ir_project i)), (''run_id'', JStr (ir_run i)), (''sequence'', JInt (ir_sequence i)),
     (''kind'', JStr (ir_kind i)), (''inputs'', JList (ir_inputs i)), (''outputs'', JList (ir_outputs i)),
     (''canonical_object_ids'', JList (ir_objects i)), (''status'', JStr (ir_status i)),
     (''iteration_id'', JStr (ir_id i)), (''schema'', JStr (ir_schema i))]"

definition validate_iteration :: "iteration \<Rightarrow> validation_result" where
  "validate_iteration i =
     check (ir_kind i \<in> set iteration_kinds) ''iteration.kind'' ''$.kind'' ''unsupported iteration kind''
   @ check (0 \<le> ir_sequence i) ''iteration.sequence'' ''$.sequence'' ''sequence must be non-negative''
   @ check (is_project_id (JStr (ir_project i))) ''iteration.project_id'' ''$.project_id'' ''project_id is not valid''
   @ id_sequence (ir_inputs i) ''$.inputs'' None False
   @ id_sequence (ir_outputs i) ''$.outputs'' None False
   @ id_sequence (ir_objects i) ''$.canonical_object_ids'' None False"

section \<open>begin_iteration\<close>

definition contract_kind :: "string \<Rightarrow> string" where
  "contract_kind kind = dict_get kind kind
     [(''exploration'', ''socratic_exploration''), (''adjudication'', ''habermasian_adjudication''),
      (''attack'', ''adversarial_attack''), (''rehydration'', ''rehydration_review''),
      (''acquisition_review'', ''acquisition_request'')]"

definition iterations_of :: "control_db \<Rightarrow> string \<Rightarrow> iteration_row list" where
  "iterations_of db r = filter (\<lambda>i. it_run i = r) (db_iterations db)"

text \<open>\<open>SELECT MAX(sequence_no)\<close>, read as \<open>int(prior or 0)\<close>.\<close>

definition max_sequence :: "int list \<Rightarrow> int" where
  "max_sequence ns = (if ns = [] then 0 else foldr max (tl ns) (hd ns))"

record begin_request =
  br_round :: string
  br_input :: "string option"
  br_iteration :: "string option"
  br_sequence :: "int option"

definition new_iteration :: "string \<Rightarrow> max_run_state \<Rightarrow> int \<Rightarrow> string \<Rightarrow> string \<Rightarrow> iteration" where
  "new_iteration r s n kind iid =
     \<lparr>ir_project = project_id s, ir_run = r, ir_sequence = n, ir_kind = contract_kind kind,
      ir_inputs = [], ir_outputs = [], ir_objects = [], ir_status = ''started'', ir_id = iid,
      ir_schema = ''max-research-iteration/v1''\<rparr>"

definition insert_iteration :: "iteration_row \<Rightarrow> stamp \<Rightarrow> control_db \<Rightarrow> failure + control_db" where
  "insert_iteration row now db =
     andthen (require (1 \<le> it_seq row \<and> 1 \<le> it_token row \<and> it_id row \<notin> set (map it_id (db_iterations db))
       \<and> (it_run row, it_seq row) \<notin> set (map (\<lambda>x. (it_run x, it_seq x)) (db_iterations db))) Integrity_error) (\<lambda>_.
     andthen (require (db_open db (it_run row) = None) Integrity_error) (\<lambda>_.
     Inr (db\<lparr>db_iterations := db_iterations db @ [row],
            db_open := (db_open db)(it_run row \<mapsto> it_id row)\<rparr>)))"

definition or_else :: "string option \<Rightarrow> string option \<Rightarrow> string option" where
  "or_else a b = (if str_truthy a then a else b)"

definition begin_iteration ::
    "prims \<Rightarrow> string \<Rightarrow> begin_request \<Rightarrow> actor \<Rightarrow> int \<Rightarrow> readings \<Rightarrow> control_db
     \<Rightarrow> failure + (iteration_row \<times> max_run_state) \<times> control_db" where
  "begin_iteration P r q actor token clk db = public (
     let now = timestamp (now_stamp clk) in
     andthen (current_run r db) (\<lambda>(row, s).
     andthen (require (status s = Running) (Max_control ''begin_iteration requires a RUNNING Run'')) (\<lambda>_.
     andthen (assert_fence db r actor (Some token) (now_check clk)) (\<lambda>_.
     andthen (require (db_open db r = None) (Max_control ''a Run may have only one open iteration'')) (\<lambda>_.
     andthen (round_type (br_round q)) (\<lambda>kind.
     andthen (require (or_else (br_input q) (current_state_hash s) = current_state_hash s)
       (Max_control ''iteration input state hash is stale'')) (\<lambda>_.
     let n = max_sequence (map it_seq (iterations_of db r)) + 1 in
     andthen (require (br_sequence q = None \<or> br_sequence q = Some n)
       (Max_control ''iteration sequence is not contiguous'')) (\<lambda>_.
     andthen (if str_truthy (br_iteration q) then Inr (the (br_iteration q))
              else raising (make_event_id P (VStr ''iteration'') (VStr (project_id s)) (VDict
                [(KStr ''run_id'', VStr r), (KStr ''sequence'', VInt n), (KStr ''kind'', VStr kind)]))) (\<lambda>iid.
     let it = new_iteration r s n kind iid in
     andthen (raising (raise_if_invalid (validate_iteration it))) (\<lambda>_.
     andthen (from_option Integrity_error (current_state_hash s)) (\<lambda>input.
     let row = \<lparr>it_id = iid, it_run = r, it_project = project_id s, it_seq = n, it_round = kind,
                it_status = ''started'', it_input = input, it_json = json_text P (iteration_json it),
                it_token = token, it_started = now, it_actor = actor_id actor\<rparr> in
     andthen (insert_iteration row now db) (\<lambda>db1.
     let s' = s\<lparr>iteration_index := n, state_version := state_version s + 1\<rparr> in
     andthen (raising (raise_if_invalid (validate_run_state P s'))) (\<lambda>_.
     andthen (write_state P s \<lparr>new_state = s', new_consumption = None\<rparr> actor now db1) (\<lambda>(tr, db2).
     andthen (append_event P r ''iteration_begun'' (JObj [(''iteration_id'', JStr iid),
       (''sequence_no'', JInt n), (''round_type'', JStr kind), (''input_state_hash'', JStr input),
       (''fencing_token'', JInt token)]) actor now db2) (\<lambda>db3.
     Inr ((row, s'), db3))))))))))))))))"

section \<open>The open iteration and its budget\<close>

definition open_iteration :: "control_db \<Rightarrow> string \<Rightarrow> failure + iteration_row" where
  "open_iteration db r =
     andthen (from_option (Max_control ''the Run has no open iteration'') (db_open db r)) (\<lambda>iid.
     andthen (from_option (Max_control ''the current iteration pointer is invalid'')
       (List.find (\<lambda>i. it_id i = iid \<and> it_run i = r) (db_iterations db))) (\<lambda>row.
     andthen (require (it_status row = ''started'')
       (Max_control ''the current iteration pointer is invalid'')) (\<lambda>_.
     andthen (require (it_id row \<notin> set (map oc_iteration (db_outcomes db)))
       (Max_control ''the current iteration already has an outcome'')) (\<lambda>_. Inr row))))"

definition ledger_of :: "control_db \<Rightarrow> string \<Rightarrow> ledger_row list" where
  "ledger_of db r = sort_key lg_seq (filter (\<lambda>x. lg_run x = r) (db_ledger db))"

definition negate_q :: "quantity \<Rightarrow> quantity" where
  "negate_q q = (case q of Whole i \<Rightarrow> Whole (- i) | Double x \<Rightarrow> Double (- x))"

definition add_delta :: "rounding \<Rightarrow> bool \<Rightarrow> string \<times> quantity \<Rightarrow> amount \<Rightarrow> amount" where
  "add_delta R negative kv delta =
     dict_put (fst kv) (add_q R (case map_of delta (fst kv) of None \<Rightarrow> Whole 0 | Some q \<Rightarrow> q)
       (if negative then negate_q (snd kv) else snd kv)) delta"

definition delta_step :: "rounding \<Rightarrow> ledger_row \<Rightarrow> amount \<Rightarrow> failure + amount" where
  "delta_step R row delta =
     andthen (normalize_budget_amount R (lg_amount row) True) (\<lambda>a.
     Inr (fold (add_delta R (lg_operation row \<in> {''release'', ''refund''})) a delta))"

definition budget_delta_for_iteration ::
    "rounding \<Rightarrow> control_db \<Rightarrow> string \<Rightarrow> string \<Rightarrow> failure + amount" where
  "budget_delta_for_iteration R db r iid =
     andthen (fold_result (delta_step R) (filter (\<lambda>x. lg_iteration x = Some iid) (ledger_of db r)) []) (\<lambda>delta.
     Inr (filter (\<lambda>p. worth (snd p) \<noteq> 0) (sort_key fst delta)))"

text \<open>Equality of two dictionaries with numeric values, both in the order of their keys.\<close>

definition same_amount :: "amount \<Rightarrow> amount \<Rightarrow> bool" where
  "same_amount a b \<longleftrightarrow> map (\<lambda>p. (fst p, worth (snd p))) a = map (\<lambda>p. (fst p, worth (snd p))) b"

section \<open>finish_iteration\<close>

record finish_request =
  fr_status :: string
  fr_output :: "string option"
  fr_parsed :: "failure + unit"
  fr_snapshots :: "failure + unit"
  fr_claims :: json
  fr_evidence :: json
  fr_counter :: json
  fr_strategy :: json
  fr_refs :: "json list"
  fr_artifacts :: "json list"
  fr_delta :: json
  fr_metadata :: "(string \<times> json) list"

type_synonym artifact_check = "string \<Rightarrow> json \<Rightarrow> failure + unit"

definition artifact_types :: "string list" where
  "artifact_types = [''search_strategy'', ''attack_record'', ''attack'', ''discussion_session'', ''adjudication'',
     ''rehydration_output'', ''acquisition_request'', ''speculative_idea'', ''validity_audit'',
     ''minority_report'', ''cold_review_packet'', ''cold_review_result'', ''final_report'',
     ''formal_completion_evidence'']"

record artifact =
  af_type :: string
  af_id :: string
  af_json :: json

definition nonempty_str :: "json option \<Rightarrow> string option" where
  "nonempty_str v = (case v of Some (JStr (c # cs)) \<Rightarrow> Some (c # cs) | _ \<Rightarrow> None)"

definition read_artifact :: "prims \<Rightarrow> artifact_check \<Rightarrow> json \<Rightarrow> failure + artifact" where
  "read_artifact P typed item =
     andthen (case item of JObj kvs \<Rightarrow> Inr kvs
       | _ \<Rightarrow> Inl (Max_control ''iteration artifact link must be an object'')) (\<lambda>kvs.
     andthen (require (set (map fst kvs)
         \<subseteq> {''artifact_type'', ''artifact_id'', ''artifact'', ''artifact_json'', ''artifact_hash''})
       (Max_control ''iteration artifact link is invalid'')) (\<lambda>_.
     andthen (from_option (Max_control ''iteration artifact link is invalid'')
       (nonempty_str (map_of kvs ''artifact_type''))) (\<lambda>type.
     andthen (case (case map_of kvs ''artifact'' of None \<Rightarrow> map_of kvs ''artifact_json'' | v \<Rightarrow> v) of
         Some (JObj a) \<Rightarrow> Inr (JObj a)
       | _ \<Rightarrow> Inl (Max_control ''typed iteration artifact is required'')) (\<lambda>a.
     andthen (from_option (Max_control ''iteration artifact ID is invalid'')
       (if json_truthy (map_of kvs ''artifact_id'') then nonempty_str (map_of kvs ''artifact_id'')
        else nonempty_str (Some (JStr (take 48 (hash_json P a)))))) (\<lambda>aid.
     andthen (reject_untrusted_payload a) (\<lambda>_.
     andthen (require (type \<in> set artifact_types) (Max_control ''unknown typed iteration artifact'')) (\<lambda>_.
     andthen (case typed type a of
         Inl (Max_control m) \<Rightarrow> Inl (Max_control m)
       | Inl _ \<Rightarrow> Inl (Max_control ''typed cognitive artifact validation failed'')
       | Inr u \<Rightarrow> Inr u) (\<lambda>_.
     Inr \<lparr>af_type = type, af_id = aid, af_json = a\<rparr>))))))))"

definition link_artifact ::
    "prims \<Rightarrow> string \<Rightarrow> string \<Rightarrow> string \<Rightarrow> artifact \<Rightarrow> control_db \<Rightarrow> failure + control_db" where
  "link_artifact P r project iid a db =
     andthen (raising (make_event_id P (VStr ''iteration_artifact'') (VStr project) (VDict
       [(KStr ''iteration_id'', VStr iid), (KStr ''artifact_type'', VStr (af_type a)),
        (KStr ''artifact_id'', VStr (af_id a))]))) (\<lambda>lid.
     andthen (require (lid \<notin> set (map al_id (db_artifacts db))
       \<and> (iid, af_type a, af_id a) \<notin> set (map (\<lambda>x. (al_iteration x, al_type x, al_artifact x)) (db_artifacts db)))
       Integrity_error) (\<lambda>_.
     andthen (raising (make_event_id P (VStr ''cognitive_artifact'') (VStr project) (VDict
       [(KStr ''run_id'', VStr r), (KStr ''iteration_id'', VStr iid),
        (KStr ''artifact_type'', VStr (af_type a)), (KStr ''artifact_id'', VStr (af_id a))]))) (\<lambda>cid.
     andthen (require (cid \<notin> set (db_cognitive db)) Integrity_error) (\<lambda>_.
     Inr (db\<lparr>db_artifacts := db_artifacts db @ [\<lparr>al_id = lid, al_iteration = iid, al_run = r,
              al_type = af_type a, al_artifact = af_id a, al_json = json_text P (af_json a),
              al_hash = hash_json P (af_json a)\<rparr>],
            db_cognitive := db_cognitive db @ [cid]\<rparr>)))))"

definition store_artifact ::
    "prims \<Rightarrow> artifact_check \<Rightarrow> string \<Rightarrow> string \<Rightarrow> string \<Rightarrow> json \<Rightarrow> artifact list \<times> control_db
     \<Rightarrow> failure + artifact list \<times> control_db" where
  "store_artifact P typed r project iid item acc =
     andthen (read_artifact P typed item) (\<lambda>a.
     andthen (link_artifact P r project iid a (snd acc)) (\<lambda>db. Inr (fst acc @ [a], db)))"

definition link_budget_row ::
    "prims \<Rightarrow> string \<Rightarrow> string \<Rightarrow> ledger_row \<Rightarrow> control_db \<Rightarrow> failure + control_db" where
  "link_budget_row P project iid row db =
     andthen (raising (make_event_id P (VStr ''iteration_budget'') (VStr project) (VDict
       [(KStr ''iteration_id'', VStr iid), (KStr ''entry_id'', VStr (lg_entry row))]))) (\<lambda>lid.
     andthen (require (lid \<notin> set (map bl_id (db_budget_links db))
       \<and> (iid, lg_entry row) \<notin> set (map (\<lambda>x. (bl_iteration x, bl_entry x)) (db_budget_links db))) Integrity_error) (\<lambda>_.
     Inr (db\<lparr>db_budget_links := db_budget_links db @
       [\<lparr>bl_id = lid, bl_iteration = iid, bl_entry = lg_entry row\<rparr>]\<rparr>)))"

definition artifact_summary :: "prims \<Rightarrow> artifact list \<Rightarrow> json" where
  "artifact_summary P artifacts = JList (map (\<lambda>a. JObj [(''artifact_type'', JStr (af_type a)),
     (''artifact_id'', JStr (af_id a)), (''artifact_hash'', JStr (hash_json P (af_json a)))]) artifacts)"

definition outcome_json ::
    "prims \<Rightarrow> string \<Rightarrow> iteration_row \<Rightarrow> finish_request \<Rightarrow> string option \<Rightarrow> amount \<Rightarrow> artifact list \<Rightarrow> json" where
  "outcome_json P r begun q output delta artifacts = JObj (fold (\<lambda>(k, v) d. dict_put k v d) (fr_metadata q)
    [(''iteration_id'', JStr (it_id begun)), (''run_id'', JStr r), (''status'', JStr (fr_status q)),
     (''input_state_hash'', JStr (it_input begun)), (''output_state_hash'', opt_json output),
     (''claim_snapshots'', fr_claims q), (''evidence_snapshots'', fr_evidence q),
     (''counterevidence_snapshots'', fr_counter q), (''strategy_ledger'', fr_strategy q),
     (''record_refs'', JList (fr_refs q)), (''budget_delta'', amount_json delta),
     (''artifacts'', artifact_summary P artifacts)])"

definition insert_outcome :: "outcome_row \<Rightarrow> control_db \<Rightarrow> failure + control_db" where
  "insert_outcome row db =
     andthen (require (oc_status row \<in> {''completed'', ''aborted''} \<and> 1 \<le> oc_token row
       \<and> oc_id row \<notin> set (map oc_id (db_outcomes db))
       \<and> oc_iteration row \<notin> set (map oc_iteration (db_outcomes db))) Integrity_error) (\<lambda>_.
     Inr (db\<lparr>db_outcomes := db_outcomes db @ [row]\<rparr>))"

text \<open>The parsing before the transaction.\<close>

definition read_finish :: "rounding \<Rightarrow> finish_request \<Rightarrow> failure + amount" where
  "read_finish R q =
     andthen (require (fr_status q \<in> {''completed'', ''aborted''})
       (Max_control ''iteration outcome must be completed or aborted'')) (\<lambda>_. public (
     andthen (fr_parsed q) (\<lambda>_.
     andthen (require (list_all (\<lambda>v. is_stable_id v None) (fr_refs q))
       (Max_control ''iteration record references must be stable IDs'')) (\<lambda>_.
     normalize_budget_amount R (fr_delta q) True))))"

definition final_output :: "finish_request \<Rightarrow> max_run_state \<Rightarrow> failure + string option" where
  "final_output q s =
     (if fr_status q = ''completed''
      then andthen (require (fr_output q = None \<or> fr_output q = current_state_hash s)
             (Max_control ''completed iteration output must bind the authoritative current state'')) (\<lambda>_.
           Inr (current_state_hash s))
      else Inr (fr_output q))"

definition finish_iteration ::
    "prims \<Rightarrow> rounding \<Rightarrow> artifact_check \<Rightarrow> string \<Rightarrow> string \<Rightarrow> finish_request \<Rightarrow> actor \<Rightarrow> int \<Rightarrow> readings
     \<Rightarrow> control_db \<Rightarrow> failure + (outcome_row \<times> max_run_state) \<times> control_db" where
  "finish_iteration P R typed r iid q actor token clk db =
     andthen (read_finish R q) (\<lambda>requested. public (
     let now = timestamp (now_stamp clk) in
     andthen (current_run r db) (\<lambda>(row, s).
     andthen (require (status s = Running) (Max_control ''finish_iteration requires a RUNNING Run'')) (\<lambda>_.
     andthen (assert_fence db r actor (Some token) (now_check clk)) (\<lambda>_.
     andthen (open_iteration db r) (\<lambda>begun.
     andthen (require (it_id begun = iid) (Max_control ''iteration is not the current open iteration'')) (\<lambda>_.
     andthen (budget_delta_for_iteration R db r iid) (\<lambda>actual.
     andthen (require (same_amount requested actual)
       (Max_control ''iteration budget delta is not reconstructed from the ledger'')) (\<lambda>_.
     andthen (fr_snapshots q) (\<lambda>_.
     andthen (final_output q s) (\<lambda>output.
     andthen (fold_result (store_artifact P typed r (project_id s) iid) (fr_artifacts q) ([], db)) (\<lambda>(artifacts, db1).
     andthen (fold_result (link_budget_row P (project_id s) iid)
       (filter (\<lambda>x. lg_iteration x = Some iid) (ledger_of db r)) db1) (\<lambda>db2.
     andthen (if fr_metadata q = [] then Inr () else reject_untrusted_payload (JObj (fr_metadata q))) (\<lambda>_.
     andthen (raising (make_event_id P (VStr ''iteration_outcome'') (VStr (project_id s)) (VDict
       [(KStr ''iteration_id'', VStr iid), (KStr ''status'', VStr (fr_status q)),
        (KStr ''output_state_hash'', (case output of None \<Rightarrow> VNone | Some h \<Rightarrow> VStr h))]))) (\<lambda>oid.
     let out = \<lparr>oc_id = oid, oc_iteration = iid, oc_run = r, oc_status = fr_status q, oc_input = it_input begun,
                oc_output = output, oc_delta = map (\<lambda>p. (fst p, quantity_json (snd p))) actual,
                oc_json = json_text P (outcome_json P r begun q output actual artifacts),
                oc_claims = json_text P (fr_claims q), oc_evidence = json_text P (fr_evidence q),
                oc_counter = json_text P (fr_counter q), oc_strategy = json_text P (fr_strategy q),
                oc_summary = json_text P (artifact_summary P artifacts),
                oc_token = token, oc_finished = now\<rparr> in
     andthen (insert_outcome out db2) (\<lambda>db3.
     let db4 = db3\<lparr>db_open := (db_open db3)(r := None)\<rparr>;
         s' = s\<lparr>state_version := state_version s + 1\<rparr> in
     andthen (raising (raise_if_invalid (validate_run_state P s'))) (\<lambda>_.
     andthen (write_state P s \<lparr>new_state = s', new_consumption = None\<rparr> actor now db4) (\<lambda>(tr, db5).
     andthen (append_event P r ''iteration_finished'' (JObj [(''iteration_id'', JStr iid),
       (''outcome_id'', JStr oid), (''status'', JStr (fr_status q)), (''input_state_hash'', JStr (it_input begun)),
       (''output_state_hash'', opt_json output), (''artifact_count'', JInt (int (length artifacts))),
       (''budget_delta_hash'', JStr (hash_json P (amount_json actual))), (''fencing_token'', JInt token)])
       actor now db5) (\<lambda>db6.
     Inr ((out, s'), db6))))))))))))))))))))"

end
