(* ===== verification/Control_Verify.thy ===== *)
theory Control_Verify
  imports Control_Iteration
begin

text \<open>
  The read-only checks of \<open>max_research/persistence/repository.py\<close> on the stored history of a run:
  the hash chain of its events (\<open>_verify_event_chain\<close>), the ledger of its transitions
  (\<open>_verify_transition_results\<close>) and the paged event listing (\<open>list_events\<close>).
\<close>

section \<open>The event chain\<close>

record chain_report =
  ch_ok :: bool
  ch_count :: nat
  ch_last :: string
  ch_issues :: "string list"

definition chain_row_issues :: "prims \<Rightarrow> event_row \<Rightarrow> int \<Rightarrow> string \<Rightarrow> string list" where
  "chain_row_issues P e expected previous =
     (if ev_seq e = expected then [] else [''event sequence is not contiguous''])
     @ (case col_value (ev_payload e) of
          None \<Rightarrow> [''event payload is not canonical JSON'']
        | Some v \<Rightarrow>
            (case canonical_sha256 P (of_json v) of
               Inl err \<Rightarrow> [''event payload is not canonical JSON'']
             | Inr h \<Rightarrow>
                 (if h = ev_payload_hash e then [] else [''event payload hash mismatch''])
                 @ (if ev_previous e = previous \<and> ev_hash e = event_digest P e then []
                    else [''event hash chain mismatch''])))"

fun chain_issues :: "prims \<Rightarrow> event_row list \<Rightarrow> int \<Rightarrow> string \<Rightarrow> string list" where
  "chain_issues P [] expected previous = []"
| "chain_issues P (e # es) expected previous =
     chain_row_issues P e expected previous @ chain_issues P es (expected + 1) (ev_hash e)"

definition verify_event_chain :: "prims \<Rightarrow> control_db \<Rightarrow> string \<Rightarrow> chain_report" where
  "verify_event_chain P db r =
     (let rows = events_of db r; issues = chain_issues P rows 1 []
      in \<lparr>ch_ok = (issues = []), ch_count = length rows,
          ch_last = (if rows = [] then [] else ev_hash (last rows)), ch_issues = sort (remdups issues)\<rparr>)"

section \<open>The transition ledger\<close>

record ledger_report =
  vr_ok :: bool
  vr_count :: nat
  vr_last :: string
  vr_issues :: "string list"

text \<open>The issues of one row and the status it leads to.\<close>

definition stored_transition :: "json \<Rightarrow> run_transition option \<Rightarrow> run_transition option" where
  "stored_transition v model =
     (case v of
        JObj kvs \<Rightarrow> if set (map fst kvs) \<subseteq> {''new_state'', ''approval_consumption''} \<and> dict_has ''new_state'' kvs
                   then model else None
      | _ \<Rightarrow> None)"

definition ledger_row_issues :: "prims \<Rightarrow> string \<Rightarrow> transition_row \<Rightarrow> int \<Rightarrow> string \<Rightarrow> string list \<times> string" where
  "ledger_row_issues P r row expected previous =
     (let order = (if tr_prior row = expected then [] else [''transition result state versions are not contiguous''])
                @ (if tr_from row = previous then [] else [''transition result predecessor status is inconsistent''])
      in case (case col_value (tr_json row) of None \<Rightarrow> None | Some v \<Rightarrow>
                 (case canonical_sha256 P (of_json v) of Inl err \<Rightarrow> None | Inr h \<Rightarrow> Some (v, h))) of
           None \<Rightarrow> (order @ [''transition result JSON is invalid''], tr_to row)
         | Some (v, h) \<Rightarrow>
             (let hashed = order @ (if h = tr_hash row then [] else [''transition result hash mismatch'']) in
              case stored_transition v (col_model (tr_json row)) of
                None \<Rightarrow> (hashed @ [''transition result JSON is invalid''], tr_to row)
              | Some t \<Rightarrow>
                  (hashed
                   @ (if run_id (new_state t) = r \<and> state_version (new_state t) = tr_resulting row then []
                      else [''transition result state binding is inconsistent''])
                   @ (if tr_to row = status_value (status (new_state t)) then []
                      else [''transition result target status is inconsistent'']),
                   status_value (status (new_state t)))))"

fun ledger_issues :: "prims \<Rightarrow> string \<Rightarrow> transition_row list \<Rightarrow> int \<Rightarrow> string \<Rightarrow> string list \<times> int \<times> string" where
  "ledger_issues P r [] expected previous = ([], expected, previous)"
| "ledger_issues P r (row # rows) expected previous =
     (let (issues, st) = ledger_row_issues P r row expected previous;
          (rest, version, last) = ledger_issues P r rows (tr_resulting row) st
      in (issues @ rest, version, last))"

definition transitions_of :: "control_db \<Rightarrow> string \<Rightarrow> transition_row list" where
  "transitions_of db r = sort_key tr_resulting (filter (\<lambda>x. tr_run x = r) (db_transitions db))"

definition verify_transition_results :: "prims \<Rightarrow> control_db \<Rightarrow> string \<Rightarrow> ledger_report" where
  "verify_transition_results P db r =
     (let rows = transitions_of db r;
          (issues, version, st) = ledger_issues P r rows 1 ''AWAITING_START_APPROVAL'';
          final = issues @ (case db_runs db r of
              None \<Rightarrow> [''transition result run is missing'']
            | Some row \<Rightarrow>
                (if rr_version row = version then [] else [''transition result ledger does not reach current state version''])
                @ (if rr_status row = st then [] else [''transition result ledger does not reach current status'']))
      in \<lparr>vr_ok = (final = []), vr_count = length rows, vr_last = st, vr_issues = sort (remdups final)\<rparr>)"

section \<open>list_events\<close>

record event_page =
  pg_events :: "event_row list"
  pg_next :: "int option"

definition list_events :: "control_db \<Rightarrow> string \<Rightarrow> int \<Rightarrow> int \<Rightarrow> failure + event_page" where
  "list_events db r cursor limit =
     andthen (require (0 \<le> cursor) (Max_control ''event cursor must be a non-negative integer'')) (\<lambda>_.
     andthen (require (1 \<le> limit \<and> limit \<le> 200) (Max_control ''event limit is outside the supported range'')) (\<lambda>_.
     andthen (run_row db r) (\<lambda>_.
     let items = take (nat limit) (filter (\<lambda>e. cursor < ev_seq e) (events_of db r))
     in Inr \<lparr>pg_events = items,
             pg_next = (if int (length items) = limit then Some (ev_seq (last items)) else None)\<rparr>)))"

end
