(* ===== verification/Budget_Ledger.thy ===== *)
theory Budget_Ledger
  imports Control_Iteration
begin

text \<open>
  The budget ledger of \<open>max_research/persistence/repository.py\<close> and the usage receipts of
  \<open>persistence/control_models.py\<close>: the balance reconstructed from the append-only ledger
  (\<open>_budget_reconstruct_connection\<close>), what is left of a reservation (\<open>_reservation_remaining\<close>) and
  the one write path of all five operations (\<open>_budget_write\<close>).

  \<^item> The usage authority is a service of the caller: a function from a receipt and the call context
    to its verification (\<open>JNull\<close>, \<open>JBool\<close> or an object) or an exception; \<open>None\<close> when none is
    registered.
  \<^item> The ledger's JSON columns are their values.
\<close>

section \<open>Usage receipts\<close>

record usage_receipt =
  ur_id :: string
  ur_run :: string
  ur_iteration :: string
  ur_model :: string
  ur_amount :: "(string \<times> json) list"
  ur_issued :: string
  ur_authority :: string
  ur_payload_hash :: string
  ur_receipt_hash :: json
  ur_logical_call :: string
  ur_intent :: string
  ur_request :: string
  ur_provider_call :: string
  ur_profile :: string

definition receipt_fields :: "string list" where
  "receipt_fields = [''receipt_id'', ''run_id'', ''iteration_id'', ''model_identity'', ''amount'', ''issued_at'',
     ''authority_id'', ''payload_hash'', ''receipt_hash'', ''logical_call_id'', ''intent_hash'', ''request_hash'',
     ''provider_call_id'', ''inference_profile_hash'']"

definition receipt_text :: "prims \<Rightarrow> (string \<times> json) list \<Rightarrow> string \<Rightarrow> string" where
  "receipt_text P kvs key = (case map_of kvs key of None \<Rightarrow> [] | Some (JStr s) \<Rightarrow> s | Some j \<Rightarrow> py_repr P j)"

definition receipt_required :: "(string \<times> json) list \<Rightarrow> string \<Rightarrow> py_exc + string" where
  "receipt_required kvs key =
     from_option (contract_error (''usage receipt '' @ key @ '' is required'')) (nonempty_str (map_of kvs key))"

definition receipt_from_mapping :: "prims \<Rightarrow> json \<Rightarrow> py_exc + usage_receipt" where
  "receipt_from_mapping P v =
     andthen (case v of JObj kvs \<Rightarrow> Inr kvs | _ \<Rightarrow> Inl (contract_error ''usage receipt must be an object'')) (\<lambda>kvs.
     andthen (require (set (map fst kvs) \<subseteq> set receipt_fields)
       (contract_error ''usage receipt contains unsupported fields'')) (\<lambda>_.
     andthen (receipt_required kvs ''receipt_id'') (\<lambda>rid.
     andthen (receipt_required kvs ''run_id'') (\<lambda>run.
     andthen (receipt_required kvs ''iteration_id'') (\<lambda>iid.
     andthen (receipt_required kvs ''model_identity'') (\<lambda>model.
     andthen (receipt_required kvs ''issued_at'') (\<lambda>issued.
     andthen (receipt_required kvs ''authority_id'') (\<lambda>auth.
     andthen (receipt_required kvs ''payload_hash'') (\<lambda>ph.
     andthen (case map_of kvs ''amount'' of Some (JObj (a # as)) \<Rightarrow> Inr (a # as)
       | _ \<Rightarrow> Inl (contract_error ''usage receipt amount is required'')) (\<lambda>amt.
     Inr \<lparr>ur_id = rid, ur_run = run, ur_iteration = iid, ur_model = model, ur_amount = amt,
        ur_issued = issued, ur_authority = auth, ur_payload_hash = ph,
        ur_receipt_hash = (case map_of kvs ''receipt_hash'' of None \<Rightarrow> JNull | Some j \<Rightarrow> j),
        ur_logical_call = receipt_text P kvs ''logical_call_id'', ur_intent = receipt_text P kvs ''intent_hash'',
        ur_request = receipt_text P kvs ''request_hash'',
        ur_provider_call = receipt_text P kvs ''provider_call_id'',
        ur_profile = receipt_text P kvs ''inference_profile_hash''\<rparr>))))))))))"

definition receipt_binding :: "usage_receipt \<Rightarrow> (string \<times> json) list" where
  "receipt_binding u =
     [(''logical_call_id'', JStr (ur_logical_call u)), (''intent_hash'', JStr (ur_intent u)),
      (''request_hash'', JStr (ur_request u)), (''provider_call_id'', JStr (ur_provider_call u)),
      (''inference_profile_hash'', JStr (ur_profile u))]"

definition receipt_payload :: "usage_receipt \<Rightarrow> (string \<times> json) list" where
  "receipt_payload u =
     [(''receipt_id'', JStr (ur_id u)), (''run_id'', JStr (ur_run u)), (''iteration_id'', JStr (ur_iteration u)),
      (''model_identity'', JStr (ur_model u)), (''amount'', JObj (ur_amount u)), (''issued_at'', JStr (ur_issued u)),
      (''authority_id'', JStr (ur_authority u))]
     @ (if ur_logical_call u \<noteq> [] \<or> ur_intent u \<noteq> [] \<or> ur_request u \<noteq> [] \<or> ur_provider_call u \<noteq> []
           \<or> ur_profile u \<noteq> [] then receipt_binding u else [])"

definition computed_payload_hash :: "prims \<Rightarrow> usage_receipt \<Rightarrow> string" where
  "computed_payload_hash P u = hash_json P (JObj (receipt_payload u))"

definition computed_receipt_hash :: "prims \<Rightarrow> usage_receipt \<Rightarrow> string" where
  "computed_receipt_hash P u = hash_json P (JObj
     [(''payload'', JObj (receipt_payload u)), (''payload_hash'', JStr (ur_payload_hash u))])"

definition receipt_hash_value :: "prims \<Rightarrow> usage_receipt \<Rightarrow> string" where
  "receipt_hash_value P u =
     (case nonempty_str (Some (ur_receipt_hash u)) of Some h \<Rightarrow> h | None \<Rightarrow> computed_receipt_hash P u)"

section \<open>The balance\<close>

record balance =
  bal_limits :: amount
  bal_used :: "string \<rightharpoonup> quantity"
  bal_reserved :: "string \<rightharpoonup> quantity"

definition units_of :: "amount \<Rightarrow> string list" where
  "units_of limits = map fst limits"

definition starting_balance :: "amount \<Rightarrow> balance" where
  "starting_balance limits = \<lparr>bal_limits = limits,
     bal_used = map_of (map (\<lambda>p. (fst p, Whole 0)) limits),
     bal_reserved = map_of (map (\<lambda>p. (fst p, Whole 0)) limits)\<rparr>"

definition quantity_at :: "(string \<rightharpoonup> quantity) \<Rightarrow> string \<Rightarrow> quantity" where
  "quantity_at m unit = (case m unit of None \<Rightarrow> Whole 0 | Some q \<Rightarrow> q)"

text \<open>What one unit of one ledger row does to the balance; every step is checked.\<close>

definition balance_unit ::
    "rounding \<Rightarrow> string \<Rightarrow> string \<times> quantity \<Rightarrow> balance \<Rightarrow> failure + balance" where
  "balance_unit R operation uv b =
     andthen (from_option (Max_control ''budget ledger unit is not declared by the Charter'')
       (map_of (bal_limits b) (fst uv))) (\<lambda>limit.
     let unit = fst uv; v = snd uv;
         used = quantity_at (bal_used b) unit; reserved = quantity_at (bal_reserved b) unit
     in if operation = ''reserve'' then
          andthen (require (add_q R (add_q R used reserved) v \<le> limit)
            (Max_control ''stored budget ledger exceeds the Charter limit'')) (\<lambda>_.
          Inr (b\<lparr>bal_reserved := (bal_reserved b)(unit \<mapsto> add_q R reserved v)\<rparr>))
        else if operation = ''commit'' then
          andthen (require (v \<le> reserved)
            (Max_control ''stored budget commit exceeds its reservation'')) (\<lambda>_.
          andthen (require (add_q R used v \<le> limit)
            (Max_control ''stored budget ledger exceeds the Charter limit'')) (\<lambda>_.
          Inr (b\<lparr>bal_reserved := (bal_reserved b)(unit \<mapsto> sub_q R reserved v),
                 bal_used := (bal_used b)(unit \<mapsto> add_q R used v)\<rparr>)))
        else if operation = ''release'' then
          andthen (require (v \<le> reserved)
            (Max_control ''stored budget release exceeds its reservation'')) (\<lambda>_.
          Inr (b\<lparr>bal_reserved := (bal_reserved b)(unit \<mapsto> sub_q R reserved v)\<rparr>))
        else if operation = ''usage'' then
          andthen (require (add_q R (add_q R used v) reserved \<le> limit)
            (Max_control ''stored budget usage exceeds the Charter limit'')) (\<lambda>_.
          Inr (b\<lparr>bal_used := (bal_used b)(unit \<mapsto> add_q R used v)\<rparr>))
        else
          andthen (require (v \<le> used)
            (Max_control ''stored budget refund makes a negative balance'')) (\<lambda>_.
          Inr (b\<lparr>bal_used := (bal_used b)(unit \<mapsto> sub_q R used v)\<rparr>)))"

definition flag_true :: "json \<Rightarrow> string \<Rightarrow> bool" where
  "flag_true provenance key \<longleftrightarrow>
     (case provenance of JObj kvs \<Rightarrow> map_of kvs key = Some (JBool True) | _ \<Rightarrow> False)"

definition budget_request_hash ::
    "prims \<Rightarrow> string \<Rightarrow> amount \<Rightarrow> string option \<Rightarrow> json \<Rightarrow> string \<Rightarrow> string option \<Rightarrow> string" where
  "budget_request_hash P operation a reservation provenance r iid = hash_json P (JObj
     [(''operation'', JStr operation), (''amount'', amount_json a), (''reservation_id'', opt_json reservation),
      (''provenance'', provenance), (''run_id'', JStr r), (''iteration_id'', opt_json iid)])"

text \<open>A stored row binds its request; a usage row names a receipt or is marked server-owned.\<close>

definition check_request_hash :: "prims \<Rightarrow> string \<Rightarrow> ledger_row \<Rightarrow> amount \<Rightarrow> failure + unit" where
  "check_request_hash P r row a =
     require (\<not> str_truthy (lg_request_hash row)
       \<or> lg_request_hash row = Some (budget_request_hash P (lg_operation row) a
           (if lg_operation row = ''reserve'' then None else lg_reservation row) (lg_provenance row) r (lg_iteration row))
       \<or> flag_true (lg_provenance row) ''legacy'')
     (Max_control ''stored budget request hash does not bind its ledger request'')"

definition check_usage_row ::
    "rounding \<Rightarrow> control_db \<Rightarrow> string \<Rightarrow> ledger_row \<Rightarrow> amount \<Rightarrow> failure + unit" where
  "check_usage_row R db r row a =
     (let stated = (case lg_provenance row of JObj kvs \<Rightarrow> map_of kvs ''receipt_hash'' | _ \<Rightarrow> None)
      in if json_truthy stated
         then andthen (from_option (Max_control ''stored usage receipt is not bound to the ledger entry'')
                (List.find (\<lambda>x. Some (JStr (rc_hash x)) = stated \<and> rc_run x = r) (db_receipts db))) (\<lambda>receipt.
              andthen (require (Some (rc_iteration receipt) = lg_iteration row)
                (Max_control ''stored usage receipt is not bound to the ledger entry'')) (\<lambda>_.
              andthen (normalize_budget_amount R (rc_amount receipt) False) (\<lambda>a'.
              require (same_amount a' a) (Max_control ''stored usage receipt is not bound to the ledger entry''))))
         else require ((flag_true (lg_provenance row) ''legacy'' \<and> str_truthy (lg_request_hash row))
                \<or> flag_true (lg_provenance row) ''server_owned'')
                (Max_control ''stored budget usage lacks a typed authoritative receipt''))"

definition balance_row ::
    "prims \<Rightarrow> rounding \<Rightarrow> control_db \<Rightarrow> string \<Rightarrow> ledger_row \<Rightarrow> balance \<Rightarrow> failure + balance" where
  "balance_row P R db r row b =
     andthen (normalize_budget_amount R (lg_amount row) True) (\<lambda>a.
     andthen (case lg_provenance row of JObj kvs \<Rightarrow> Inr ()
       | _ \<Rightarrow> Inl (Max_control ''stored budget provenance is invalid'')) (\<lambda>_.
     andthen (check_request_hash P r row a) (\<lambda>_.
     andthen (if lg_operation row = ''usage'' then check_usage_row R db r row a else Inr ()) (\<lambda>_.
     andthen (require (lg_operation row \<in> {''reserve'', ''commit'', ''release'', ''usage'', ''refund''})
       (Max_control ''stored budget ledger contains an unsupported operation'')) (\<lambda>_.
     fold_result (balance_unit R (lg_operation row)) a b)))))"

definition available :: "rounding \<Rightarrow> balance \<Rightarrow> string \<times> quantity \<Rightarrow> quantity" where
  "available R b p = sub_q R (sub_q R (snd p) (quantity_at (bal_used b) (fst p))) (quantity_at (bal_reserved b) (fst p))"

definition budget_reconstruct :: "prims \<Rightarrow> rounding \<Rightarrow> control_db \<Rightarrow> string \<Rightarrow> failure + balance" where
  "budget_reconstruct P R db r =
     andthen (run_row db r) (\<lambda>row.
     andthen (normalize_budget_limits (rr_budget_policy row)) (\<lambda>limits.
     andthen (fold_result (balance_row P R db r) (ledger_of db r) (starting_balance limits)) (\<lambda>b.
     andthen (require (list_all (\<lambda>p. Whole 0 \<le> available R b p) limits)
       (Max_control ''budget ledger has a negative available balance'')) (\<lambda>_. Inr b))))"

definition remaining_unit :: "rounding \<Rightarrow> string \<times> quantity \<Rightarrow> amount \<Rightarrow> failure + amount" where
  "remaining_unit R uv remaining =
     (let q = sub_q R (case map_of remaining (fst uv) of None \<Rightarrow> Whole 0 | Some q \<Rightarrow> q) (snd uv)
      in andthen (require (Whole 0 \<le> q) (Max_control ''budget reservation history is invalid'')) (\<lambda>_.
         Inr (dict_put (fst uv) q remaining)))"

definition remaining_row :: "rounding \<Rightarrow> ledger_row \<Rightarrow> amount \<Rightarrow> failure + amount" where
  "remaining_row R row remaining =
     andthen (normalize_budget_amount R (lg_amount row) True) (\<lambda>a.
     if lg_operation row \<in> {''commit'', ''release''} then fold_result (remaining_unit R) a remaining
     else Inr remaining)"

definition reservation_remaining :: "rounding \<Rightarrow> control_db \<Rightarrow> string \<Rightarrow> string \<Rightarrow> failure + amount" where
  "reservation_remaining R db r rid =
     andthen (from_option (Max_control ''budget reservation was not found'')
       (List.find (\<lambda>x. lg_run x = r \<and> lg_entry x = rid \<and> lg_operation x = ''reserve'') (db_ledger db))) (\<lambda>reserve.
     andthen (normalize_budget_amount R (lg_amount reserve) True) (\<lambda>a.
     andthen (fold_result (remaining_row R) (filter (\<lambda>x. lg_reservation x = Some rid) (ledger_of db r)) a) (\<lambda>remaining.
     Inr (filter (\<lambda>p. worth (snd p) \<noteq> 0) remaining))))"

section \<open>The write path\<close>

datatype receipt_arg = Typed_receipt usage_receipt | Raw_receipt json

record call_context =
  cc_logical_call :: "string option"
  cc_intent :: "string option"
  cc_request :: "string option"
  cc_provider_call :: "string option"
  cc_profile :: "string option"

record budget_request =
  bq_operation :: string
  bq_amount :: "json option"
  bq_key :: string
  bq_reservation :: "string option"
  bq_iteration :: "string option"
  bq_provenance :: "json option"
  bq_receipt :: "receipt_arg option"
  bq_context :: call_context
  bq_server_owned :: bool

type_synonym usage_authority = "(usage_receipt \<Rightarrow> string \<Rightarrow> string \<Rightarrow> string \<Rightarrow> call_context \<Rightarrow> py_exc + json) option"

record budget_answer =
  ba_entry :: string
  ba_seq :: int
  ba_operation :: string
  ba_amount :: json
  ba_reservation :: "string option"
  ba_retry :: bool
  ba_balance :: balance

definition settles :: "string \<Rightarrow> bool" where
  "settles operation \<longleftrightarrow> operation \<in> {''commit'', ''release''}"

definition by_key :: "control_db \<Rightarrow> string \<Rightarrow> string \<Rightarrow> ledger_row option" where
  "by_key db r key = List.find (\<lambda>x. lg_run x = r \<and> lg_key x = strip key) (db_ledger db)"

definition retry_answer ::
    "prims \<Rightarrow> rounding \<Rightarrow> control_db \<Rightarrow> string \<Rightarrow> ledger_row \<Rightarrow> json \<Rightarrow> failure + budget_answer \<times> control_db" where
  "retry_answer P R db r e a =
     andthen (budget_reconstruct P R db r) (\<lambda>b.
     Inr (\<lparr>ba_entry = lg_entry e, ba_seq = lg_seq e, ba_operation = lg_operation e, ba_amount = a,
           ba_reservation = lg_reservation e, ba_retry = True, ba_balance = b\<rparr>, db))"

text \<open>A commit or release under a key that was used before.\<close>

definition settle_retry ::
    "prims \<Rightarrow> rounding \<Rightarrow> control_db \<Rightarrow> string \<Rightarrow> budget_request \<Rightarrow> amount \<Rightarrow> ledger_row
     \<Rightarrow> failure + budget_answer \<times> control_db" where
  "settle_retry P R db r q requested e =
     andthen (require (lg_operation e = bq_operation q \<and> lg_reservation e = bq_reservation q)
       (Max_control ''CONFLICT: budget idempotency key request differs'')) (\<lambda>_.
     andthen (require (bq_iteration q = None \<or> lg_iteration e = bq_iteration q)
       (Max_control ''CONFLICT: budget idempotency key iteration differs'')) (\<lambda>_.
     andthen (normalize_budget_amount R (lg_amount e) True) (\<lambda>stored.
     andthen (require (bq_amount q = None \<or> same_amount requested stored)
       (Max_control ''CONFLICT: budget idempotency key amount differs'')) (\<lambda>_.
     retry_answer P R db r e (amount_json stored)))))"

definition requested_amount :: "rounding \<Rightarrow> budget_request \<Rightarrow> failure + amount" where
  "requested_amount R q =
     (if bq_amount q = None \<and> settles (bq_operation q) then Inr []
      else normalize_budget_amount R (if json_truthy (bq_amount q) then the (bq_amount q) else JObj []) False)"

definition settled_amount ::
    "rounding \<Rightarrow> control_db \<Rightarrow> string \<Rightarrow> budget_request \<Rightarrow> amount \<Rightarrow> failure + amount" where
  "settled_amount R db r q requested =
     (if \<not> settles (bq_operation q) then Inr requested
      else andthen (require (str_truthy (bq_reservation q))
             (Max_control ''commit and release require a reservation ID'')) (\<lambda>_.
           andthen (reservation_remaining R db r (the (bq_reservation q))) (\<lambda>remaining.
           let a = (if bq_amount q = None then remaining else requested)
           in andthen (require (list_all (\<lambda>p. snd p
                  \<le> (case map_of remaining (fst p) of None \<Rightarrow> Whole 0 | Some v \<Rightarrow> v)) a)
                (Max_control ''budget operation exceeds the reservation'')) (\<lambda>_. Inr a))))"

definition context_binding :: "call_context \<Rightarrow> usage_receipt \<Rightarrow> (string option \<times> string) list" where
  "context_binding c u =
     [(cc_logical_call c, ur_logical_call u), (cc_intent c, ur_intent u), (cc_request c, ur_request u),
      (cc_provider_call c, ur_provider_call u), (cc_profile c, ur_profile u)]"

definition check_receipt ::
    "prims \<Rightarrow> rounding \<Rightarrow> string \<Rightarrow> string \<Rightarrow> string \<Rightarrow> amount \<Rightarrow> call_context \<Rightarrow> usage_receipt \<Rightarrow> failure + unit" where
  "check_receipt P R r iid model a c u =
     andthen (require (ur_run u = r \<and> ur_iteration u = iid \<and> ur_model u = model)
       (Max_control ''usage receipt is outside the Run or model binding'')) (\<lambda>_.
     andthen (normalize_budget_amount R (JObj (ur_amount u)) False) (\<lambda>a'.
     andthen (require (same_amount a' a) (Max_control ''usage receipt amount does not match the ledger request'')) (\<lambda>_.
     andthen (require (ur_payload_hash u = computed_payload_hash P u
         \<and> (ur_receipt_hash u = JNull \<or> ur_receipt_hash u = JStr (computed_receipt_hash P u)))
       (Max_control ''usage receipt hash is invalid'')) (\<lambda>_.
     if list_ex (\<lambda>p. fst p \<noteq> None) (context_binding c u)
     then andthen (require (list_all (\<lambda>(expected, actual). expected = None \<or> expected = Some actual) (context_binding c u))
            (Max_control ''usage receipt call binding is invalid'')) (\<lambda>_.
          require (list_all (\<lambda>p. snd p \<noteq> []) (context_binding c u))
            (Max_control ''usage receipt call binding is incomplete''))
     else Inr ()))))"

definition verified_provenance ::
    "prims \<Rightarrow> usage_receipt \<Rightarrow> json \<Rightarrow> json" where
  "verified_provenance P u verification = JObj
     [(''receipt_hash'', JStr (receipt_hash_value P u)), (''authority_id'', JStr (ur_authority u)),
      (''verification'', (case verification of JObj kvs \<Rightarrow> JObj kvs | _ \<Rightarrow> JObj [(''verified'', JBool True)]))]"

definition receipt_provenance ::
    "prims \<Rightarrow> rounding \<Rightarrow> usage_authority \<Rightarrow> string \<Rightarrow> string \<Rightarrow> string \<Rightarrow> amount \<Rightarrow> call_context \<Rightarrow> usage_receipt
     \<Rightarrow> failure + json" where
  "receipt_provenance P R auth r iid model a c u =
     andthen (from_option (Max_control ''usage requires a registered UsageAuthority'') auth) (\<lambda>verify.
     andthen (check_receipt P R r iid model a c u) (\<lambda>_.
     andthen (case verify u r iid model c of
         Inl e \<Rightarrow> Inl (Max_control ''usage receipt authority rejected the receipt'')
       | Inr v \<Rightarrow> Inr v) (\<lambda>v.
     andthen (require (v \<noteq> JNull \<and> v \<noteq> JBool False)
       (Max_control ''usage receipt authority rejected the receipt'')) (\<lambda>_.
     andthen (reject_untrusted_payload (verified_provenance P u v)) (\<lambda>_.
     Inr (verified_provenance P u v))))))"

definition read_receipt :: "prims \<Rightarrow> receipt_arg \<Rightarrow> failure + usage_receipt" where
  "read_receipt P arg =
     (case arg of
        Typed_receipt u \<Rightarrow> Inr u
      | Raw_receipt j \<Rightarrow> (case receipt_from_mapping P j of
          Inl e \<Rightarrow> Inl (Max_control ''usage receipt is invalid'') | Inr u \<Rightarrow> Inr u))"

text \<open>The receipt, if any, and the provenance to store.\<close>

definition resolve_provenance ::
    "prims \<Rightarrow> rounding \<Rightarrow> usage_authority \<Rightarrow> string \<Rightarrow> string \<Rightarrow> string \<Rightarrow> amount \<Rightarrow> budget_request
     \<Rightarrow> failure + usage_receipt option \<times> json" where
  "resolve_provenance P R auth r iid model a q =
     (if bq_operation q = ''usage'' then
        (case bq_receipt q of
           None \<Rightarrow>
             andthen (require (bq_server_owned q)
               (Max_control ''usage requires a registered UsageAuthority and typed UsageReceipt'')) (\<lambda>_.
             andthen (case bq_provenance q of
                 Some (JObj kvs) \<Rightarrow> if flag_true (JObj kvs) ''server_owned'' then Inr (JObj kvs)
                   else Inl (Max_control ''only the server may append a receipt-free usage charge'')
               | _ \<Rightarrow> Inl (Max_control ''only the server may append a receipt-free usage charge'')) (\<lambda>p.
             andthen (reject_untrusted_payload p) (\<lambda>_. Inr (None, p))))
         | Some arg \<Rightarrow>
             andthen (read_receipt P arg) (\<lambda>u.
             andthen (receipt_provenance P R auth r iid model a (bq_context q) u) (\<lambda>p. Inr (Some u, p))))
      else if json_truthy (bq_provenance q)
      then andthen (reject_untrusted_payload (the (bq_provenance q))) (\<lambda>_. Inr (None, the (bq_provenance q)))
      else Inr (None, JObj []))"

definition insert_receipt ::
    "prims \<Rightarrow> string \<Rightarrow> string \<Rightarrow> amount \<Rightarrow> usage_receipt option \<Rightarrow> control_db \<Rightarrow> failure + control_db" where
  "insert_receipt P r iid a u db =
     (case u of None \<Rightarrow> Inr db
      | Some u \<Rightarrow>
          andthen (require (ur_id u \<notin> set (map rc_id (db_receipts db))) Integrity_error) (\<lambda>_.
          Inr (db\<lparr>db_receipts := db_receipts db @ [\<lparr>rc_id = ur_id u, rc_run = r, rc_iteration = iid,
            rc_model = ur_model u, rc_amount = amount_json a, rc_hash = receipt_hash_value P u\<rparr>]\<rparr>)))"

definition insert_ledger :: "ledger_row \<Rightarrow> control_db \<Rightarrow> failure + control_db" where
  "insert_ledger row db =
     andthen (require (1 \<le> lg_seq row \<and> lg_entry row \<notin> set (map lg_entry (db_ledger db))
       \<and> (lg_run row, lg_seq row) \<notin> set (map (\<lambda>x. (lg_run x, lg_seq x)) (db_ledger db))
       \<and> (lg_run row, lg_key row) \<notin> set (map (\<lambda>x. (lg_run x, lg_key x)) (db_ledger db))) Integrity_error) (\<lambda>_.
     Inr (db\<lparr>db_ledger := db_ledger db @ [row]\<rparr>))"

definition new_ledger_row ::
    "prims \<Rightarrow> control_db \<Rightarrow> string \<Rightarrow> string \<Rightarrow> budget_request \<Rightarrow> string \<Rightarrow> amount \<Rightarrow> json \<Rightarrow> actor \<Rightarrow> stamp
     \<Rightarrow> py_exc + ledger_row" where
  "new_ledger_row P db r project q iid a provenance actor now =
     (let n = max_sequence (map lg_seq (ledger_of db r)) + 1 in
      andthen (make_event_id P (VStr ''budget_entry'') (VStr project) (VDict
        [(KStr ''run_id'', VStr r), (KStr ''sequence_no'', VInt n),
         (KStr ''idempotency_key'', VStr (strip (bq_key q)))])) (\<lambda>eid.
      Inr \<lparr>lg_entry = eid, lg_run = r, lg_seq = n, lg_operation = bq_operation q, lg_key = strip (bq_key q),
         lg_amount = amount_json a, lg_provenance = provenance,
         lg_reservation = (if bq_operation q = ''reserve'' then Some eid else bq_reservation q),
         lg_created = now, lg_actor = actor_id actor, lg_session = session_id actor,
         lg_request_hash = Some (budget_request_hash P (bq_operation q) a (bq_reservation q) provenance r (Some iid)),
         lg_iteration = Some iid\<rparr>))"

text \<open>The new entry: it is stored, the balance is reconstructed from the ledger with it, and logged.\<close>

definition append_entry ::
    "prims \<Rightarrow> rounding \<Rightarrow> string \<Rightarrow> string \<Rightarrow> budget_request \<Rightarrow> string \<Rightarrow> amount \<Rightarrow> usage_receipt option \<Rightarrow> json
     \<Rightarrow> actor \<Rightarrow> int \<Rightarrow> stamp \<Rightarrow> control_db \<Rightarrow> failure + budget_answer \<times> control_db" where
  "append_entry P R r project q iid a u provenance actor token now db =
     andthen (insert_receipt P r iid a u db) (\<lambda>db1.
     andthen (raising (new_ledger_row P db1 r project q iid a provenance actor now)) (\<lambda>row.
     andthen (insert_ledger row db1) (\<lambda>db2.
     andthen (budget_reconstruct P R db2 r) (\<lambda>b.
     andthen (append_event P r ''budget_ledger_appended'' (JObj [(''entry_id'', JStr (lg_entry row)),
       (''sequence_no'', JInt (lg_seq row)), (''operation'', JStr (lg_operation row)),
       (''amount_hash'', JStr (hash_json P (amount_json a))), (''reservation_id'', opt_json (lg_reservation row)),
       (''fencing_token'', JInt token)]) actor now db2) (\<lambda>db3.
     Inr (\<lparr>ba_entry = lg_entry row, ba_seq = lg_seq row, ba_operation = lg_operation row,
           ba_amount = amount_json a, ba_reservation = lg_reservation row, ba_retry = False, ba_balance = b\<rparr>, db3))))))"

text \<open>
  After the checks on the run and the lease. The source looks a commit or release with no amount
  up by its key a second time; the first look-up has already answered in every such case.
\<close>

definition budget_entry ::
    "prims \<Rightarrow> rounding \<Rightarrow> usage_authority \<Rightarrow> string \<Rightarrow> budget_request \<Rightarrow> actor \<Rightarrow> int \<Rightarrow> stamp \<Rightarrow> max_run_state
     \<Rightarrow> amount \<Rightarrow> control_db \<Rightarrow> failure + budget_answer \<times> control_db" where
  "budget_entry P R auth r q actor token now s requested db =
     andthen (settled_amount R db r q requested) (\<lambda>a.
     andthen (require (str_truthy (bq_iteration q))
       (Max_control ''budget writes require an explicit iteration_id'')) (\<lambda>_.
     let iid = the (bq_iteration q) in
     andthen (open_iteration db r) (\<lambda>it.
     andthen (require (it_id it = iid) (Max_control ''budget write is outside the open iteration'')) (\<lambda>_.
     andthen (resolve_provenance P R auth r iid (model_identity s) a q) (\<lambda>(u, provenance).
     case by_key db r (bq_key q) of
       Some e \<Rightarrow>
         andthen (require (lg_request_hash e = Some (budget_request_hash P (bq_operation q) a (bq_reservation q)
             provenance r (Some iid)))
           (Max_control ''CONFLICT: budget idempotency key request differs'')) (\<lambda>_.
         retry_answer P R db r e (lg_amount e))
     | None \<Rightarrow> append_entry P R r (project_id s) q iid a u provenance actor token now db)))))"

definition budget_write ::
    "prims \<Rightarrow> rounding \<Rightarrow> usage_authority \<Rightarrow> string \<Rightarrow> budget_request \<Rightarrow> actor \<Rightarrow> int \<Rightarrow> readings \<Rightarrow> control_db
     \<Rightarrow> failure + budget_answer \<times> control_db" where
  "budget_write P R auth r q actor token clk db =
     andthen (require (bq_operation q \<in> {''reserve'', ''commit'', ''release'', ''usage'', ''refund''})
       (Max_control ''unsupported budget operation'')) (\<lambda>_.
     andthen (require (nonblank (bq_key q) \<and> length (bq_key q) \<le> 200)
       (Max_control ''budget idempotency key is required'')) (\<lambda>_. public (
     andthen (current_run r db) (\<lambda>(row, s).
     andthen (require (status s = Running) (Max_control ''budget writes require a RUNNING Run'')) (\<lambda>_.
     andthen (assert_fence db r actor (Some token) (now_check clk)) (\<lambda>_.
     andthen (requested_amount R q) (\<lambda>requested.
     case (if settles (bq_operation q) then by_key db r (bq_key q) else None) of
       Some e \<Rightarrow> settle_retry P R db r q requested e
     | None \<Rightarrow> budget_entry P R auth r q actor token (timestamp (now_stamp clk)) s requested db)))))))"

section \<open>The five operations\<close>

definition no_context :: call_context where
  "no_context = \<lparr>cc_logical_call = None, cc_intent = None, cc_request = None, cc_provider_call = None,
     cc_profile = None\<rparr>"

definition plain_request ::
    "string \<Rightarrow> json option \<Rightarrow> string \<Rightarrow> string option \<Rightarrow> string option \<Rightarrow> budget_request" where
  "plain_request operation a key reservation iid =
     \<lparr>bq_operation = operation, bq_amount = a, bq_key = key, bq_reservation = reservation, bq_iteration = iid,
      bq_provenance = None, bq_receipt = None, bq_context = no_context, bq_server_owned = False\<rparr>"

definition reserve_budget where
  "reserve_budget P R r a key iid = budget_write P R None r (plain_request ''reserve'' (Some a) key None iid)"

definition commit_budget where
  "commit_budget P R r rid a key iid = budget_write P R None r (plain_request ''commit'' a key (Some rid) iid)"

definition release_budget where
  "release_budget P R r rid a key iid = budget_write P R None r (plain_request ''release'' a key (Some rid) iid)"

definition refund_budget where
  "refund_budget P R r a key iid = budget_write P R None r (plain_request ''refund'' (Some a) key None iid)"

definition record_authoritative_usage where
  "record_authoritative_usage P R auth r a provenance receipt key iid context =
     budget_write P R auth r ((plain_request ''usage'' (Some a) key None iid)
       \<lparr>bq_provenance := provenance, bq_receipt := receipt, bq_context := context\<rparr>)"

definition record_server_usage ::
    "prims \<Rightarrow> rounding \<Rightarrow> string \<Rightarrow> json \<Rightarrow> string \<Rightarrow> string \<Rightarrow> string \<Rightarrow> actor \<Rightarrow> int \<Rightarrow> readings \<Rightarrow> control_db
     \<Rightarrow> failure + budget_answer \<times> control_db" where
  "record_server_usage P R r a key iid charge actor token clk db =
     andthen (require (nonblank charge) (Max_control ''server usage charge kind is required'')) (\<lambda>_.
     andthen (require (charge = ''iteration'')
       (Max_control ''server usage is limited to one service-owned iteration unit'')) (\<lambda>_.
     andthen (normalize_budget_amount R a False) (\<lambda>amt.
     andthen (require (same_amount amt [(''iteration_count'', Whole 1)])
       (Max_control ''server usage is limited to one service-owned iteration unit'')) (\<lambda>_.
     budget_write P R None r ((plain_request ''usage'' (Some a) key None (Some iid))
       \<lparr>bq_provenance := Some (JObj [(''server_owned'', JBool True), (''charge_kind'', JStr charge)]),
        bq_server_owned := True\<rparr>) actor token clk db))))"

end
