(* ===== verification/Control_Frames.thy ===== *)
theory Control_Frames
  imports Control_Verify Budget_Ledger
begin

text \<open>
  What the writes of the control plane change and what they leave alone: one frame lemma per
  primitive, giving the new database as an update of the old one. \<open>log_extends\<close> is the one way
  the event log grows: by events linked to the log they are appended to.
\<close>

section \<open>The event log\<close>

definition run_log :: "event_row list \<Rightarrow> string \<Rightarrow> event_row list" where
  "run_log es r = filter (\<lambda>e. ev_run e = r) es"

definition appended :: "prims \<Rightarrow> event_row list \<Rightarrow> event_row \<Rightarrow> bool" where
  "appended P es e \<longleftrightarrow>
     (let own = sort_key ev_seq (run_log es (ev_run e)) in
        ev_seq e = (if own = [] then 1 else ev_seq (last own) + 1)
        \<and> ev_previous e = (if own = [] then [] else ev_hash (last own)))
     \<and> ev_hash e = event_digest P e
     \<and> (\<exists>j. wf_json j \<and> ev_payload e = json_column P j () \<and> ev_payload_hash e = hash_json P j)
     \<and> ev_id e \<notin> set (map ev_id es)"

inductive log_extends :: "prims \<Rightarrow> event_row list \<Rightarrow> event_row list \<Rightarrow> bool"
  for P :: prims and es :: "event_row list" where
  log_refl: "log_extends P es es"
| log_step: "log_extends P es es' \<Longrightarrow> appended P es' e \<Longrightarrow> log_extends P es (es' @ [e])"

lemma log_extends_trans: "log_extends P es es' \<Longrightarrow> log_extends P es' es'' \<Longrightarrow> log_extends P es es''"
  by (rotate_tac, induction rule: log_extends.induct) (auto intro: log_extends.intros)

lemma log_extends_prefix: "log_extends P es es' \<Longrightarrow> \<exists>new. es' = es @ new"
  by (induction rule: log_extends.induct) auto

lemma stored_json_wf: "stored_json P j = Inr j' \<Longrightarrow> wf_json j'"
  using model_to_dict_wf by (auto simp: stored_json_def result_simps)

lemma append_event_frame:
  assumes "append_event P r type payload actor now db = Inr db'"
  obtains e where "db' = db\<lparr>db_events := db_events db @ [e]\<rparr>" "appended P (db_events db) e" "ev_run e = r"
    "ev_type e = type" "reject_untrusted_payload payload = Inr ()"
proof -
  from assms obtain j row eid where j: "stored_json P payload = Inr j"
      and ok: "reject_untrusted_payload payload = Inr ()"
      and new: "eid \<notin> set (map ev_id (db_events db))"
      and db': "db' = db\<lparr>db_events := db_events db @
        [(new_event P (events_of db r) r type j actor now)\<lparr>ev_id := eid,
           ev_hash := event_digest P ((new_event P (events_of db r) r type j actor now)\<lparr>ev_id := eid\<rparr>)\<rparr>]\<rparr>"
    unfolding append_event_def Let_def by (auto simp: result_simps)
  let ?e = "(new_event P (events_of db r) r type j actor now)\<lparr>ev_id := eid,
     ev_hash := event_digest P ((new_event P (events_of db r) r type j actor now)\<lparr>ev_id := eid\<rparr>)\<rparr>"
  have "appended P (db_events db) ?e"
    using new stored_json_wf [OF j]
    by (auto simp: appended_def new_event_def event_digest_def event_identity_def events_of_def run_log_def)
  with db' ok show thesis by (intro that [of ?e]) (simp_all add: new_event_def)
qed

lemma append_event_log:
  assumes "append_event P r type payload actor now db = Inr db'"
  shows "\<exists>es. db' = db\<lparr>db_events := es\<rparr> \<and> log_extends P (db_events db) es"
  using assms by (rule append_event_frame) (blast intro: log_extends.intros)

lemma append_events_log:
  assumes "append_events P r evs actor now db = Inr db'"
  shows "\<exists>es. db' = db\<lparr>db_events := es\<rparr> \<and> log_extends P (db_events db) es"
  using assms unfolding append_events_def
proof (rule fold_result_invariant
    [where I = "\<lambda>d. \<exists>es. d = db\<lparr>db_events := es\<rparr> \<and> log_extends P (db_events db) es"])
  show "\<exists>es. db = db\<lparr>db_events := es\<rparr> \<and> log_extends P (db_events db) es"
    by (rule exI [of _ "db_events db"]) (simp add: log_refl)
next
  fix x u v
  assume u: "\<exists>es. u = db\<lparr>db_events := es\<rparr> \<and> log_extends P (db_events db) es"
    and v: "(case x of (type, payload) \<Rightarrow> append_event P r type payload actor now) u = Inr v"
  obtain type payload where "append_event P r type payload actor now u = Inr v"
    using v by (cases x) auto
  then obtain es where v: "v = u\<lparr>db_events := es\<rparr>" "log_extends P (db_events u) es"
    using append_event_log by blast
  obtain es' where u': "u = db\<lparr>db_events := es'\<rparr>" "log_extends P (db_events db) es'" using u by blast
  have "log_extends P (db_events db) es" using log_extends_trans [OF u'(2)] v(2) u'(1) by simp
  then show "\<exists>es. v = db\<lparr>db_events := es\<rparr> \<and> log_extends P (db_events db) es"
    using v(1) u'(1) by auto
qed

section \<open>The run and its transition ledger\<close>

definition state_of :: "control_db \<Rightarrow> string \<Rightarrow> max_run_state option" where
  "state_of db r = (case db_runs db r of None \<Rightarrow> None | Some row \<Rightarrow> col_model (rr_state row))"

lemma current_run_eq [result_simps]:
  "current_run r db = Inr (row, s) \<longleftrightarrow> db_runs db r = Some row \<and> col_model (rr_state row) = Some s"
  by (auto simp: current_run_def run_row_def run_state_def result_simps)

lemma update_run_frame:
  assumes "update_run P s now completion db = Inr db'" and "db_runs db (run_id s) = Some row"
  obtains column where "db' = db\<lparr>db_runs := (db_runs db)(run_id s \<mapsto> written_row P s column now completion row)\<rparr>"
    "col_model column = Some s" "1 \<le> state_version s"
  using assms that unfolding update_run_def state_column_def
  by (auto simp: result_simps json_column_def)

lemma record_transition_frame:
  assumes "record_transition P prior t actor now db = Inr (tr, db')"
  obtains tid j where "db' = db\<lparr>db_transitions := db_transitions db @ [tr]\<rparr>"
    "tr = transition_row_of P tid j prior t actor now" "stored_json P (transition_json P t) = Inr j"
    "1 \<le> state_version prior" "state_version (new_state t) = state_version prior + 1"
proof -
  from assms obtain tid j where "stored_json P (transition_json P t) = Inr j"
      "tr = transition_row_of P tid j prior t actor now"
      "db' = db\<lparr>db_transitions := db_transitions db @ [tr]\<rparr>"
      "1 \<le> tr_prior tr \<and> tr_resulting tr = tr_prior tr + 1"
    unfolding record_transition_def Let_def by (auto simp: result_simps)
  then show thesis by (intro that) (simp_all add: transition_row_of_def)
qed

text \<open>A state write: the row and the ledger entry that belongs to it.\<close>

lemma write_result_frame:
  assumes "write_result P completion s t actor now db = Inr (tr, db')"
    and "run_id s = r" "run_id (new_state t) = r" "db_runs db r = Some row"
  obtains column tid j where
    "db' = db\<lparr>db_runs := (db_runs db)(r \<mapsto> written_row P (new_state t) column now completion row),
              db_transitions := db_transitions db @ [tr]\<rparr>"
    "col_model column = Some (new_state t)" "tr = transition_row_of P tid j s t actor now"
    "stored_json P (transition_json P t) = Inr j"
    "state_version (new_state t) = state_version s + 1" "1 \<le> state_version s"
proof -
  from assms(1) obtain db1 where u: "update_run P (new_state t) now completion db = Inr db1"
      and rec: "record_transition P s t actor now db1 = Inr (tr, db')"
    by (auto simp: write_result_def result_simps)
  have row: "db_runs db (run_id (new_state t)) = Some row" using assms by simp
  obtain column where c: "db1 = db\<lparr>db_runs := (db_runs db)(r \<mapsto> written_row P (new_state t) column now completion row)\<rparr>"
      "col_model column = Some (new_state t)"
    using update_run_frame [OF u row] assms(3) by metis
  show thesis
    by (rule record_transition_frame [OF rec], rule that [of column]) (simp_all add: c)
qed

section \<open>Leases\<close>

lemma acquire_lease_frame:
  assumes "acquire_lease_connection r actor ttl clk allowed db = Inr (g, db')"
  obtains row expires where "db_leases db r = Some row" "\<not> held_by_other row actor (now_check clk)"
    "add_seconds (now_grant clk) ttl = Inr expires" "1 \<le> ttl" "ttl \<le> 86400" "g = grant_of row actor expires"
    "db' = db\<lparr>db_leases := (db_leases db)(r \<mapsto> granted_row row actor expires (timestamp (now_stamp clk)))\<rparr>"
  using assms that unfolding acquire_lease_connection_def by (auto simp: result_simps)

lemma assert_fence_passes:
  "assert_fence db r actor token now = Inr u \<longleftrightarrow>
     (\<exists>row e. db_leases db r = Some row \<and> token = Some (ls_token row)
        \<and> ls_owner row = Some (actor_id actor) \<and> ls_session row = Some (session_id actor)
        \<and> parse_timestamp (ls_expires row) = Some e \<and> now < e)"
  unfolding assert_fence_def
  by (cases "db_leases db r"; cases token; cases "parse_timestamp (ls_expires (the (db_leases db r)))")
    (auto simp: result_simps)

lemma set_lease_frame:
  obtains leases where "set_lease r f db = db\<lparr>db_leases := leases\<rparr>"
    "\<And>q. q \<noteq> r \<Longrightarrow> leases q = db_leases db q" "leases r = map_option f (db_leases db r)"
proof (cases "db_leases db r")
  case None
  then show thesis by (intro that [of "db_leases db"]) (simp_all add: set_lease_def)
next
  case (Some row)
  then show thesis by (intro that [of "(db_leases db)(r \<mapsto> f row)"]) (simp_all add: set_lease_def)
qed

lemma expire_lease_frame:
  obtains leases where "expire_lease r now db = db\<lparr>db_leases := leases\<rparr>" "\<And>q. q \<noteq> r \<Longrightarrow> leases q = db_leases db q"
    "leases r = map_option (\<lambda>row. row\<lparr>ls_expires := Some now, ls_released := Some now\<rparr>) (db_leases db r)"
  using set_lease_frame unfolding expire_lease_def by blast

end
