(* ===== verification/Control_Effects.thy ===== *)
theory Control_Effects
  imports Control_Frames
begin

text \<open>
  The effect of every operation of the control plane, read off once: which state it started from,
  which guards held, and what it did to the run, to its transition ledger, to its lease and to the
  event log. The invariants are proved from these lemmas, not from the operations.
\<close>

text \<open>The stored state of run \<open>r\<close> is a state of run \<open>r\<close>.\<close>

definition bound_run :: "control_db \<Rightarrow> string \<Rightarrow> bool" where
  "bound_run db r \<longleftrightarrow> (\<forall>s. state_of db r = Some s \<longrightarrow> run_id s = r)"

text \<open>Run \<open>r\<close> moved from \<open>s\<close> to the new state of \<open>t\<close>, with the ledger entry of that move.\<close>

definition advance ::
    "prims \<Rightarrow> string \<Rightarrow> max_run_state \<Rightarrow> run_transition \<Rightarrow> control_db \<Rightarrow> control_db \<Rightarrow> bool" where
  "advance P r s t db db' \<longleftrightarrow>
     (\<exists>row column completion tid j actor now.
        db_runs db r = Some row \<and> col_model (rr_state row) = Some s \<and> run_id s = r
        \<and> run_id (new_state t) = r
        \<and> db_runs db' = (db_runs db)(r \<mapsto> written_row P (new_state t) column now completion row)
        \<and> col_model column = Some (new_state t)
        \<and> db_transitions db' = db_transitions db @ [transition_row_of P tid j s t actor now]
        \<and> stored_json P (transition_json P t) = Inr j
        \<and> state_version (new_state t) = state_version s + 1 \<and> 1 \<le> state_version s)"

lemma advance_from_result:
  assumes w: "write_result P completion s t actor now db1 = Inr (tr, db2)"
    and "db_runs db1 = db_runs db" "db_transitions db1 = db_transitions db"
    and "db_runs db r = Some row" "col_model (rr_state row) = Some s" "run_id s = r" "run_id (new_state t) = r"
  shows "\<exists>runs trs. db2 = db1\<lparr>db_runs := runs, db_transitions := trs\<rparr>
    \<and> (\<forall>d :: control_db. db_runs d = runs \<and> db_transitions d = trs \<longrightarrow> advance P r s t db d)"
proof -
  have row: "db_runs db1 r = Some row" using assms by simp
  obtain column tid j where f:
    "db2 = db1\<lparr>db_runs := (db_runs db1)(r \<mapsto> written_row P (new_state t) column now completion row),
              db_transitions := db_transitions db1 @ [tr]\<rparr>"
    "col_model column = Some (new_state t)" "tr = transition_row_of P tid j s t actor now"
    "stored_json P (transition_json P t) = Inr j"
    "state_version (new_state t) = state_version s + 1" "1 \<le> state_version s"
    using write_result_frame [OF w assms(6,7) row] by metis
  have "advance P r s t db d"
    if "db_runs d = (db_runs db1)(r \<mapsto> written_row P (new_state t) column now completion row)"
      "db_transitions d = db_transitions db1 @ [tr]" for d :: control_db
    using f(2-) assms(2-) that unfolding advance_def
    by (intro exI [of _ row] exI [of _ column] exI [of _ completion] exI [of _ tid] exI [of _ j] exI [of _ actor] exI [of _ now]) simp
  then show ?thesis
    by (intro exI conjI) (rule f(1), blast)
qed

lemmas advance_from_write = advance_from_result [where completion = None, folded write_state_def]

lemma transition_keeps_run:
  "transition_run_state P s target approval now completion research ledger = Inr t \<Longrightarrow>
     run_id (new_state t) = run_id s"
  using transition_same_run by (auto simp: same_run_def)

section \<open>_transition\<close>

lemma pause_effects_frame:
  assumes "pause_effects P r s token actor now db = Inr db'"
  obtains leases es where "db' = db\<lparr>db_leases := leases, db_events := es\<rparr>" "log_extends P (db_events db) es"
    "\<And>q. q \<noteq> r \<Longrightarrow> leases q = db_leases db q"
    "leases r = map_option (\<lambda>row. row\<lparr>ls_expires := Some now, ls_released := Some now\<rparr>) (db_leases db r)"
proof -
  from assms obtain db1 where
    a: "append_event P r ''pause_snapshot'' (JObj [(''state_hash'', opt_json (current_state_hash s)),
       (''checkpoint_id'', opt_json (current_checkpoint_id s)),
       (''budget_hash'', JStr (hash_json P (JObj (budget s))))]) actor now db = Inr db1"
    and b: "append_event P r ''lease_released'' (JObj [(''reason'', JStr ''run_paused''),
       (''fencing_token'', token_json token)]) actor now (expire_lease r now db1) = Inr db'"
    by (auto simp: pause_effects_def result_simps)
  obtain es1 where e1: "db1 = db\<lparr>db_events := es1\<rparr>" "log_extends P (db_events db) es1"
    using append_event_log [OF a] by blast
  obtain leases where l: "expire_lease r now db1 = db1\<lparr>db_leases := leases\<rparr>"
      "\<And>q. q \<noteq> r \<Longrightarrow> leases q = db_leases db1 q"
      "leases r = map_option (\<lambda>row. row\<lparr>ls_expires := Some now, ls_released := Some now\<rparr>) (db_leases db1 r)"
    using expire_lease_frame by blast
  obtain es2 where e2: "db' = (expire_lease r now db1)\<lparr>db_events := es2\<rparr>"
      "log_extends P (db_events (expire_lease r now db1)) es2"
    using append_event_log [OF b] by blast
  show thesis
  proof (rule that [where leases = leases and es = es2])
    show "db' = db\<lparr>db_leases := leases, db_events := es2\<rparr>" using e1 l e2 by simp
    show "log_extends P (db_events db) es2" using e1 l(1) e2(2) log_extends_trans by fastforce
  qed (use l e1 in simp_all)
qed

lemma pause_part:
  assumes "(if target = Paused then pause_effects P r s token actor now db else Inr db) = Inr db'"
  shows "\<exists>leases es. db' = db\<lparr>db_leases := leases, db_events := es\<rparr> \<and> log_extends P (db_events db) es
    \<and> (\<forall>q. q \<noteq> r \<longrightarrow> leases q = db_leases db q)
    \<and> (if target = Paused
        then leases r = map_option (\<lambda>row. row\<lparr>ls_expires := Some now, ls_released := Some now\<rparr>) (db_leases db r)
        else leases r = db_leases db r)"
proof (cases "target = Paused")
  case True
  then have "pause_effects P r s token actor now db = Inr db'" using assms by simp
  then show ?thesis using True by (elim pause_effects_frame) (simp, blast)
next
  case False
  then show ?thesis using assms
    by (intro exI [of _ "db_leases db"] exI [of _ "db_events db"]) (simp add: log_refl)
qed

lemma cancel_effects_frame:
  assumes "cancel_effects P r s target token actor now db = Inr db'"
  obtains leases es where "db' = db\<lparr>db_leases := leases, db_events := es\<rparr>" "log_extends P (db_events db) es"
    "\<And>q. q \<noteq> r \<Longrightarrow> leases q = db_leases db q"
    "leases r = db_leases db r \<or>
     leases r = map_option (\<lambda>row. row\<lparr>ls_expires := Some now, ls_released := Some now\<rparr>) (db_leases db r)"
proof (cases "target = Cancelled \<and> status s = Running")
  case False
  then show thesis using assms
    by (intro that [where leases = "db_leases db" and es = "db_events db"]) (auto simp: cancel_effects_def log_refl)
next
  case True
  then have b: "append_event P r ''lease_released'' (JObj [(''reason'', JStr ''run_cancelled''),
       (''fencing_token'', token_json token)]) actor now (expire_lease r now db) = Inr db'"
    using assms by (simp add: cancel_effects_def)
  obtain leases where l: "expire_lease r now db = db\<lparr>db_leases := leases\<rparr>"
      "\<And>q. q \<noteq> r \<Longrightarrow> leases q = db_leases db q"
      "leases r = map_option (\<lambda>row. row\<lparr>ls_expires := Some now, ls_released := Some now\<rparr>) (db_leases db r)"
    using expire_lease_frame by blast
  obtain es where e: "db' = (expire_lease r now db)\<lparr>db_events := es\<rparr>"
      "log_extends P (db_events (expire_lease r now db)) es"
    using append_event_log [OF b] by blast
  show thesis by (rule that [where leases = leases and es = es]) (use l e in simp_all)
qed

lemma lease_event_frame:
  assumes "lease_event P r grant actor now db = Inr db'"
  shows "\<exists>es. db' = db\<lparr>db_events := es\<rparr> \<and> log_extends P (db_events db) es"
proof (cases grant)
  case None
  then show ?thesis using assms
    by (intro exI [of _ "db_events db"]) (simp add: lease_event_def log_refl)
next
  case (Some g)
  then show ?thesis using assms append_event_log by (auto simp: lease_event_def)
qed

lemma transition_lease_frame:
  assumes "transition_lease P r s target actor ttl clk db = Inr ((t, grant), db')"
  obtains leases where "db' = db\<lparr>db_leases := leases\<rparr>" "\<And>q. q \<noteq> r \<Longrightarrow> leases q = db_leases db q"
    "transition_run_state P s target None (now_dt clk) None None None = Inr t"
    "(grant = None \<and> \<not> (target = Running \<and> status s = Approved) \<and> leases = db_leases db) \<or>
     (\<exists>row expires. target = Running \<and> status s = Approved \<and> db_leases db r = Some row
        \<and> \<not> held_by_other row actor (now_check clk) \<and> grant = Some (grant_of row actor expires)
        \<and> leases r = Some (granted_row row actor expires (timestamp (now_stamp clk))))"
proof (cases "target = Running \<and> status s = Approved")
  case True
  then obtain g where a: "acquire_lease_connection r actor ttl clk [Approved] db = Inr (g, db')"
      and t: "transition_run_state P s Running None (now_dt clk) None None None = Inr t" "grant = Some g"
    using assms by (auto simp: transition_lease_def result_simps)
  show thesis using a True t
    by (elim acquire_lease_frame)
      (rule that [of "db_leases db'"], auto)
next
  case False
  then have "transition_run_state P s target None (now_dt clk) None None None = Inr t \<and> grant = None \<and> db' = db"
    using assms unfolding transition_lease_def by (simp only: if_False) (auto simp: result_simps)
  then show thesis using False by (intro that [of "db_leases db"]) auto
qed

text \<open>
  What may happen to a lease: nothing; a new acquisition, which raises the token; or a change of
  its times, which keeps token and owner.
\<close>

definition lease_moves :: "lease_row option \<Rightarrow> lease_row option \<Rightarrow> bool" where
  "lease_moves a b \<longleftrightarrow> a = b
     \<or> (\<exists>row row'. a = Some row \<and> b = Some row'
          \<and> (ls_token row' = ls_token row + 1
             \<or> (ls_token row' = ls_token row \<and> ls_owner row' = ls_owner row \<and> ls_session row' = ls_session row)))"

lemma lease_moves_refl [simp]: "lease_moves a a"
  by (simp add: lease_moves_def)

lemma lease_moves_granted: "lease_moves (Some row) (Some (granted_row row actor expires now))"
  by (simp add: lease_moves_def granted_row_def)

lemma lease_moves_times: "lease_moves a (map_option (\<lambda>row. row\<lparr>ls_expires := x, ls_released := y\<rparr>) a)"
  by (cases a) (simp_all add: lease_moves_def)

definition leases_move :: "string \<Rightarrow> control_db \<Rightarrow> control_db \<Rightarrow> bool" where
  "leases_move r db db' \<longleftrightarrow> (\<forall>q. q \<noteq> r \<longrightarrow> db_leases db' q = db_leases db q)
     \<and> lease_moves (db_leases db r) (db_leases db' r)"

lemma transition_effect:
  assumes op: "control_transition P r target actor token ttl clk db = Inr ((s', tr, grant), db')"
    and bound: "bound_run db r"
  obtains s t runs trs leases es where
    "db' = db\<lparr>db_runs := runs, db_transitions := trs, db_leases := leases, db_events := es\<rparr>"
    "advance P r s t db db'" "log_extends P (db_events db) (db_events db')" "leases_move r db db'"
    "transition_run_state P s target None (now_dt clk) None None None = Inr t" "s' = new_state t"
    "target \<in> {Paused, Cancelled} \<and> status s = Running \<Longrightarrow> assert_fence db r actor token (now_check clk) = Inr ()"
    "\<not> (target = Cancelled \<and> status s = Paused \<and> \<not> is_admin actor)"
    "grant \<noteq> None \<longleftrightarrow> target = Running \<and> status s = Approved"
proof -
  let ?now = "timestamp (now_stamp clk)"
  from op obtain row s t db1 db2 db3 db4 db5 u where
      row: "db_runs db r = Some row" "col_model (rr_state row) = Some s"
    and fence: "(if target \<in> {Paused, Cancelled} \<and> status s = Running
        then assert_fence db r actor token (now_check clk) else Inr ()) = Inr (u :: unit)"
    and admin: "\<not> (target = Cancelled \<and> status s = Paused \<and> \<not> is_admin actor)"
    and lease: "transition_lease P r s target actor ttl clk db = Inr ((t, grant), db1)"
    and pause: "(if target = Paused then pause_effects P r s token actor ?now db1 else Inr db1) = Inr db2"
    and w: "write_state P s t actor ?now db2 = Inr (tr, db3)"
    and le: "lease_event P r grant actor ?now db3 = Inr db4"
    and ce: "cancel_effects P r s target token actor ?now db4 = Inr db5"
    and last: "append_event P r ''run_transition'' (JObj (transition_payload s (new_state t) @
       [(''state_hash'', opt_json (current_state_hash (new_state t)))])) actor ?now db5 = Inr db'"
    and s': "s' = new_state t"
    unfolding control_transition_def Let_def public_eq_Inr andthen_eq_Inr current_run_eq split_paired_Ex
      prod.case require_eq_Inr sum.inject prod.inject by blast
  have sr: "run_id s = r" using bound row by (simp add: bound_run_def state_of_def)
  obtain leases1 where l1: "db1 = db\<lparr>db_leases := leases1\<rparr>" "\<And>q. q \<noteq> r \<Longrightarrow> leases1 q = db_leases db q"
      and t: "transition_run_state P s target None (now_dt clk) None None None = Inr t"
      and g: "(grant = None \<and> \<not> (target = Running \<and> status s = Approved) \<and> leases1 = db_leases db) \<or>
        (\<exists>row expires. target = Running \<and> status s = Approved \<and> db_leases db r = Some row
           \<and> \<not> held_by_other row actor (now_check clk) \<and> grant = Some (grant_of row actor expires)
           \<and> leases1 r = Some (granted_row row actor expires ?now))"
    using transition_lease_frame [OF lease] by blast
  have tr: "run_id (new_state t) = r" using transition_keeps_run [OF t] sr by simp
  obtain leases2 es2 where p2: "db2 = db1\<lparr>db_leases := leases2, db_events := es2\<rparr> \<and> log_extends P (db_events db1) es2
      \<and> (\<forall>q. q \<noteq> r \<longrightarrow> leases2 q = db_leases db1 q)
      \<and> (if target = Paused
          then leases2 r = map_option (\<lambda>row. row\<lparr>ls_expires := Some ?now, ls_released := Some ?now\<rparr>) (db_leases db1 r)
          else leases2 r = db_leases db1 r)"
    using pause_part [OF pause] by (elim exE) (rule that)
  then have l2: "db2 = db1\<lparr>db_leases := leases2, db_events := es2\<rparr>" "log_extends P (db_events db1) es2"
      "\<And>q. q \<noteq> r \<Longrightarrow> leases2 q = leases1 q"
      and m2: "if target = Paused
        then leases2 r = map_option (\<lambda>row. row\<lparr>ls_expires := Some ?now, ls_released := Some ?now\<rparr>) (leases1 r)
        else leases2 r = leases1 r"
    using l1(1) by simp_all
  have "db_runs db2 = db_runs db" "db_transitions db2 = db_transitions db" using l1(1) l2(1) by simp_all
  from advance_from_write [OF w this row sr tr]
  obtain runs trs where w3: "db3 = db2\<lparr>db_runs := runs, db_transitions := trs\<rparr>"
      and adv: "\<forall>d :: control_db. db_runs d = runs \<and> db_transitions d = trs \<longrightarrow> advance P r s t db d"
    by (elim exE conjE) (rule that)
  obtain es4 where e4: "db4 = db3\<lparr>db_events := es4\<rparr>" "log_extends P (db_events db3) es4"
    using lease_event_frame [OF le] by blast
  obtain leases5 es5 where e5: "db5 = db4\<lparr>db_leases := leases5, db_events := es5\<rparr>"
      "log_extends P (db_events db4) es5" "\<And>q. q \<noteq> r \<Longrightarrow> leases5 q = db_leases db4 q"
      "leases5 r = db_leases db4 r \<or> leases5 r =
         map_option (\<lambda>row. row\<lparr>ls_expires := Some ?now, ls_released := Some ?now\<rparr>) (db_leases db4 r)"
    using cancel_effects_frame [OF ce] by metis
  have "db_leases db5 = leases5" using e5(1) by simp
  then have c5: "target \<noteq> Cancelled \<Longrightarrow> leases5 r = db_leases db4 r"
    using ce by (auto simp: cancel_effects_def)
  obtain es6 where e6: "db' = db5\<lparr>db_events := es6\<rparr>" "log_extends P (db_events db5) es6"
    using append_event_log [OF last] by blast
  have shape: "db' = db\<lparr>db_runs := runs, db_transitions := trs, db_leases := leases5, db_events := es6\<rparr>"
    using l1 l2 w3 e4 e5 e6 by simp
  have log: "log_extends P (db_events db) (db_events db')"
    using l1 l2 w3 e4 e5 e6 by (auto intro: log_extends_trans)
  have moves: "lease_moves (db_leases db r) (leases5 r)"
  proof (cases "target = Running")
    case True
    then have "leases5 r = leases1 r" using m2 c5 e4 w3 l2 by simp
    then show ?thesis using g lease_moves_granted by auto
  next
    case False
    then have "leases1 = db_leases db" using g by auto
    then show ?thesis using m2 c5 e4 w3 l2 e5(4) lease_moves_times
      by (cases "target = Paused") (auto split: if_splits)
  qed
  have lm: "leases_move r db db'"
    using moves shape l1 l2 w3 e4 e5(3) by (simp add: leases_move_def)
  have gr: "grant \<noteq> None \<longleftrightarrow> target = Running \<and> status s = Approved" using g by auto
  have fn: "assert_fence db r actor token (now_check clk) = Inr ()"
    if "target \<in> {Paused, Cancelled} \<and> status s = Running" using fence that by simp
  have av: "advance P r s t db db'" using adv shape by simp
  show thesis by (rule that [OF shape av log lm t s' fn admin gr])
qed

section \<open>approve\<close>

lemma approve_effect:
  assumes op: "approve P r charter reason actor ttl clk nonce db = Inr ((c, tr, s'), db')"
    and bound: "bound_run db r"
  obtains s t aid expires runs trs aps cons es where
    "db' = db\<lparr>db_runs := runs, db_transitions := trs, db_approvals := aps, db_consumptions := cons, db_events := es\<rparr>"
    "advance P r s t db db'" "log_extends P (db_events db) (db_events db')"
    "transition_run_state P s Approved
       (Some (bound_approval r s aid actor (timestamp (now_stamp clk)) (timestamp expires)))
       (now_dt clk) None None (Some (consumptions_of db r)) = Inr t"
    "new_consumption t = Some c" "s' = new_state t" "is_admin actor" "nonblank reason"
    "status s = Awaiting_start_approval" "charter = charter_hash s"
    "cons = db_consumptions db @ [\<lparr>cs_run = r, cs_consumption = c, cs_hash = hash_json P (consumption_json P c),
         cs_actor = actor_id actor\<rparr>]"
    "add_seconds (now_dt clk) ttl = Inr expires" "1 \<le> ttl" "ttl \<le> 86400"
proof -
  let ?now = "timestamp (now_stamp clk)"
  from op obtain row s t aid expires db1 db2 db3 where
      row: "db_runs db r = Some row" "col_model (rr_state row) = Some s"
    and g: "is_admin actor" "nonblank reason" "1 \<le> ttl \<and> ttl \<le> 86400" "add_seconds (now_dt clk) ttl = Inr expires"
      "status s = Awaiting_start_approval" "charter = charter_hash s"
    and t: "transition_run_state P s Approved (Some (bound_approval r s aid actor ?now (timestamp expires)))
       (now_dt clk) None None (Some (consumptions_of db r)) = Inr t"
    and c: "new_consumption t = Some c"
    and i1: "insert_approval P r (bound_approval r s aid actor ?now (timestamp expires)) reason actor db = Inr db1"
    and i2: "insert_consumption P r c actor db1 = Inr db2"
    and w: "write_state P s t actor ?now db2 = Inr (tr, db3)"
    and ev: "append_events P r (approve_events P (bound_approval r s aid actor ?now (timestamp expires)) c reason s (new_state t))
       actor ?now db3 = Inr db'"
    and s': "new_state t = s'"
    unfolding approve_def Let_def public_eq_Inr andthen_eq_Inr current_run_eq split_paired_Ex
      prod.case require_eq_Inr raising_eq_Inr from_option_eq_Inr sum.inject prod.inject by blast
  have sr: "run_id s = r" using bound row by (simp add: bound_run_def state_of_def)
  have tr: "run_id (new_state t) = r" using transition_keeps_run [OF t] sr by simp
  obtain aps where d1: "db1 = db\<lparr>db_approvals := aps\<rparr>"
    using i1 by (auto simp: insert_approval_def result_simps)
  have d2: "db2 = db1\<lparr>db_consumptions := db_consumptions db @ [\<lparr>cs_run = r, cs_consumption = c,
      cs_hash = hash_json P (consumption_json P c), cs_actor = actor_id actor\<rparr>]\<rparr>"
    using i2 d1 by (auto simp: insert_consumption_def result_simps)
  have "db_runs db2 = db_runs db" "db_transitions db2 = db_transitions db" using d1 d2 by simp_all
  from advance_from_write [OF w this row sr tr]
  obtain runs trs where w3: "db3 = db2\<lparr>db_runs := runs, db_transitions := trs\<rparr>"
      and adv: "\<forall>d :: control_db. db_runs d = runs \<and> db_transitions d = trs \<longrightarrow> advance P r s t db d"
    by (elim exE conjE) (rule that)
  obtain es where e: "db' = db3\<lparr>db_events := es\<rparr>" "log_extends P (db_events db3) es"
    using append_events_log [OF ev] by blast
  have shape: "db' = db\<lparr>db_runs := runs, db_transitions := trs, db_approvals := aps, db_consumptions :=
      db_consumptions db @ [\<lparr>cs_run = r, cs_consumption = c, cs_hash = hash_json P (consumption_json P c),
         cs_actor = actor_id actor\<rparr>], db_events := es\<rparr>"
    using d1 d2 w3 e by simp
  have log: "log_extends P (db_events db) (db_events db')" using d1 d2 w3 e by simp
  have av: "advance P r s t db db'" using adv shape by simp
  show thesis
    by (rule that [OF shape av log t c s' [symmetric] g(1,2,5,6) refl g(4)]) (use g in simp_all)
qed

section \<open>resume\<close>

lemma resume_effect:
  assumes op: "resume P r actor ttl ex clk db = Inr ((s', tr, grant), db')"
    and bound: "bound_run db r"
  obtains s t runs trs leases es where
    "db' = db\<lparr>db_runs := runs, db_transitions := trs, db_leases := leases, db_events := es\<rparr>"
    "advance P r s t db db'" "log_extends P (db_events db) (db_events db')" "leases_move r db db'"
    "transition_run_state P s Running None (now_dt clk) None None None = Inr t" "s' = new_state t"
    "is_admin actor" "status s = Paused" "check_rehydration (db_handoff db) r = Inr ()"
    "expectation_met (re_version ex) (Some (state_version s))"
    "expectation_met (re_checkpoint ex) (current_checkpoint_id s)"
    "expectation_met (re_state_hash ex) (current_state_hash s)"
proof -
  let ?now = "timestamp (now_stamp clk)"
  from op obtain row s t db1 db2 u where
      row: "db_runs db r = Some row" "col_model (rr_state row) = Some s"
    and g: "is_admin actor" "status s = Paused" "expectation_met (re_version ex) (Some (state_version s))"
      "expectation_met (re_checkpoint ex) (current_checkpoint_id s)"
      "expectation_met (re_state_hash ex) (current_state_hash s)"
    and re: "check_rehydration (db_handoff db) r = Inr u"
    and l: "acquire_lease_connection r actor ttl clk [Paused] db = Inr (grant, db1)"
    and t: "transition_run_state P s Running None (now_dt clk) None None None = Inr t"
    and w: "write_state P s t actor ?now db1 = Inr (tr, db2)"
    and ev: "append_events P r
       [(''lease_acquired'', JObj (grant_payload P grant @ [(''reason'', JStr ''resume'')])),
        (''run_transition'', JObj (transition_payload s (new_state t)))] actor ?now db2 = Inr db'"
    and s': "new_state t = s'"
    unfolding resume_def Let_def public_eq_Inr andthen_eq_Inr current_run_eq split_paired_Ex
      prod.case require_eq_Inr raising_eq_Inr sum.inject prod.inject by blast
  have sr: "run_id s = r" using bound row by (simp add: bound_run_def state_of_def)
  have tr: "run_id (new_state t) = r" using transition_keeps_run [OF t] sr by simp
  obtain row0 expires where l1: "db_leases db r = Some row0"
      "db1 = db\<lparr>db_leases := (db_leases db)(r \<mapsto> granted_row row0 actor expires ?now)\<rparr>"
    using l by (rule acquire_lease_frame)
  have "db_runs db1 = db_runs db" "db_transitions db1 = db_transitions db" using l1 by simp_all
  from advance_from_write [OF w this row sr tr]
  obtain runs trs where w3: "db2 = db1\<lparr>db_runs := runs, db_transitions := trs\<rparr>"
      and adv: "\<forall>d :: control_db. db_runs d = runs \<and> db_transitions d = trs \<longrightarrow> advance P r s t db d"
    by (elim exE conjE) (rule that)
  obtain es where e: "db' = db2\<lparr>db_events := es\<rparr>" "log_extends P (db_events db2) es"
    using append_events_log [OF ev] by blast
  have shape: "db' = db\<lparr>db_runs := runs, db_transitions := trs,
      db_leases := (db_leases db)(r \<mapsto> granted_row row0 actor expires ?now), db_events := es\<rparr>"
    using l1 w3 e by simp
  have log: "log_extends P (db_events db) (db_events db')" using l1 w3 e by simp
  have lm: "leases_move r db db'" using l1(1) shape by (simp add: leases_move_def lease_moves_granted)
  have av: "advance P r s t db db'" using adv shape by simp
  show thesis
    by (rule that [OF shape av log lm t s' [symmetric] g(1,2)]) (use g re in simp_all)
qed

end
