(* ===== verification/Control_Work.thy ===== *)
theory Control_Work
  imports Control_Effects
begin

text \<open>
  The effects of the operations of a running run: leases, iterations and the budget, and of
  \<open>propose\<close>, in the same form as those of the lifecycle.
\<close>

section \<open>Leases\<close>

lemma running_state_eq [result_simps]:
  "running_state r m db = Inr s \<longleftrightarrow> state_of db r = Some s \<and> status s = Running"
  by (auto simp: running_state_def run_row_def run_state_def state_of_def result_simps split: option.splits)

lemma acquire_lease_effect:
  assumes "acquire_lease P r actor ttl clk db = Inr (g, db')"
  obtains s row expires leases es where "db' = db\<lparr>db_leases := leases, db_events := es\<rparr>"
    "log_extends P (db_events db) (db_events db')" "leases_move r db db'"
    "state_of db r = Some s" "status s = Running" "db_leases db r = Some row" "g = grant_of row actor expires"
    "leases r = Some (granted_row row actor expires (timestamp (now_stamp clk)))"
    "\<not> held_by_other row actor (now_check clk)" "add_seconds (now_grant clk) ttl = Inr expires" "1 \<le> ttl" "ttl \<le> 86400"
proof -
  from assms obtain s db1 where s: "state_of db r = Some s" "status s = Running"
      and a: "acquire_lease_connection r actor ttl clk [] db = Inr (g, db1)"
      and e: "append_event P r ''lease_acquired'' (JObj (grant_payload P g)) actor (timestamp (now_stamp clk)) db1 = Inr db'"
    by (auto simp: acquire_lease_def result_simps)
  obtain row expires where l: "db_leases db r = Some row" "\<not> held_by_other row actor (now_check clk)"
      "add_seconds (now_grant clk) ttl = Inr expires" "1 \<le> ttl" "ttl \<le> 86400" "g = grant_of row actor expires"
      "db1 = db\<lparr>db_leases := (db_leases db)(r \<mapsto> granted_row row actor expires (timestamp (now_stamp clk)))\<rparr>"
    using a by (rule acquire_lease_frame)
  obtain es where es: "db' = db1\<lparr>db_events := es\<rparr>" "log_extends P (db_events db1) es"
    using append_event_log [OF e] by blast
  have shape: "db' = db\<lparr>db_leases := (db_leases db)(r \<mapsto> granted_row row actor expires (timestamp (now_stamp clk))),
      db_events := es\<rparr>" using l es by simp
  have log: "log_extends P (db_events db) (db_events db')" using l es by simp
  have lm: "leases_move r db db'" using l(1) shape by (simp add: leases_move_def lease_moves_granted)
  show thesis by (rule that [OF shape log lm s l(1,6) _ l(2-5)]) simp
qed

lemma renew_lease_effect:
  assumes "renew_lease P r actor token ttl clk db = Inr (g, db')"
  obtains s expires leases es where "db' = db\<lparr>db_leases := leases, db_events := es\<rparr>"
    "log_extends P (db_events db) (db_events db')" "leases_move r db db'"
    "state_of db r = Some s" "status s = Running" "assert_fence db r actor (Some token) (now_check clk) = Inr ()"
    "add_seconds (now_grant clk) ttl = Inr expires" "lr_expires g = timestamp expires"
    "leases r = map_option (\<lambda>row. row\<lparr>ls_expires := Some (timestamp expires),
       ls_renewed := Some (timestamp (now_stamp clk))\<rparr>) (db_leases db r)"
proof -
  let ?f = "\<lambda>expires row. row\<lparr>ls_expires := Some (timestamp expires), ls_renewed := Some (timestamp (now_stamp clk))\<rparr>"
  from assms obtain s expires u where s: "state_of db r = Some s" "status s = Running"
      and a: "assert_fence db r actor (Some token) (now_check clk) = Inr u"
      and x: "add_seconds (now_grant clk) ttl = Inr expires"
      and e: "append_event P r ''lease_renewed'' (JObj [(''fencing_token'', JInt token),
          (''expires_at'', JStr (stamp_text P (timestamp expires)))]) actor (timestamp (now_stamp clk))
          (set_lease r (?f expires) db) = Inr db'"
      and g: "lr_expires g = timestamp expires"
    by (auto simp: renew_lease_def Let_def result_simps)
  obtain leases where l: "set_lease r (?f expires) db = db\<lparr>db_leases := leases\<rparr>"
      "\<And>q. q \<noteq> r \<Longrightarrow> leases q = db_leases db q" "leases r = map_option (?f expires) (db_leases db r)"
    using set_lease_frame by blast
  obtain es where es: "db' = (set_lease r (?f expires) db)\<lparr>db_events := es\<rparr>"
      "log_extends P (db_events (set_lease r (?f expires) db)) es"
    using append_event_log [OF e] by blast
  have shape: "db' = db\<lparr>db_leases := leases, db_events := es\<rparr>" using l(1) es by simp
  have log: "log_extends P (db_events db) (db_events db')" using l(1) es by simp
  have lm: "leases_move r db db'" using l shape
    by (cases "db_leases db r") (simp_all add: leases_move_def lease_moves_def)
  show thesis by (rule that [OF shape log lm s _ x g l(3)]) (use a in simp)
qed

lemma release_lease_effect:
  assumes "release_lease P r actor token clk db = Inr db'"
  obtains s leases es where "db' = db\<lparr>db_leases := leases, db_events := es\<rparr>"
    "log_extends P (db_events db) (db_events db')" "leases_move r db db'"
    "state_of db r = Some s" "status s = Running" "assert_fence db r actor (Some token) (now_check clk) = Inr ()"
    "leases r = map_option (\<lambda>row. row\<lparr>ls_expires := Some (timestamp (now_stamp clk)),
       ls_released := Some (timestamp (now_stamp clk))\<rparr>) (db_leases db r)"
proof -
  let ?now = "timestamp (now_stamp clk)"
  from assms obtain s u where s: "state_of db r = Some s" "status s = Running"
      and a: "assert_fence db r actor (Some token) (now_check clk) = Inr u"
      and e: "append_event P r ''lease_released'' (JObj [(''fencing_token'', JInt token)]) actor ?now
          (expire_lease r ?now db) = Inr db'"
    by (auto simp: release_lease_def result_simps)
  obtain leases where l: "expire_lease r ?now db = db\<lparr>db_leases := leases\<rparr>"
      "\<And>q. q \<noteq> r \<Longrightarrow> leases q = db_leases db q"
      "leases r = map_option (\<lambda>row. row\<lparr>ls_expires := Some ?now, ls_released := Some ?now\<rparr>) (db_leases db r)"
    using expire_lease_frame by blast
  obtain es where es: "db' = (expire_lease r ?now db)\<lparr>db_events := es\<rparr>"
      "log_extends P (db_events (expire_lease r ?now db)) es"
    using append_event_log [OF e] by blast
  have shape: "db' = db\<lparr>db_leases := leases, db_events := es\<rparr>" using l(1) es by simp
  have log: "log_extends P (db_events db) (db_events db')" using l(1) es by simp
  have lm: "leases_move r db db'" using l(2,3) shape lease_moves_times [of "db_leases db r"]
    by (simp add: leases_move_def)
  show thesis by (rule that [OF shape log lm s _ l(3)]) (use a in simp)
qed

section \<open>Iterations\<close>

text \<open>A work step: the state keeps its status and bindings and only its counters move.\<close>

definition counted :: "prims \<Rightarrow> max_run_state \<Rightarrow> max_run_state \<Rightarrow> bool" where
  "counted P s s' \<longleftrightarrow> (\<exists>n. s' = s\<lparr>iteration_index := n, state_version := state_version s + 1\<rparr>)
     \<and> status s = Running \<and> validate_run_state P s' = []"

lemma begin_iteration_effect:
  assumes op: "begin_iteration P r q actor token clk db = Inr ((row, s'), db')"
    and bound: "bound_run db r"
  obtains s runs trs es where
    "db' = db\<lparr>db_runs := runs, db_transitions := trs, db_events := es,
       db_iterations := db_iterations db @ [row], db_open := (db_open db)(r \<mapsto> it_id row)\<rparr>"
    "advance P r s \<lparr>new_state = s', new_consumption = None\<rparr> db db'"
    "log_extends P (db_events db) (db_events db')" "counted P s s'"
    "assert_fence db r actor (Some token) (now_check clk) = Inr ()" "db_open db r = None"
    "it_run row = r" "it_seq row = max_sequence (map it_seq (iterations_of db r)) + 1" "it_status row = ''started''"
    "it_id row \<notin> set (map it_id (db_iterations db))" "it_token row = token" "iteration_index s' = it_seq row"
    "Some (it_input row) = current_state_hash s"
proof -
  let ?now = "timestamp (now_stamp clk)"
  let ?n = "max_sequence (map it_seq (iterations_of db r)) + 1"
  let ?row = "\<lambda>s kind iid input. \<lparr>it_id = iid, it_run = r, it_project = project_id s, it_seq = ?n, it_round = kind,
     it_status = ''started'', it_input = input, it_json = json_text P (iteration_json (new_iteration r s ?n kind iid)),
     it_token = token, it_started = ?now, it_actor = actor_id actor\<rparr>"
  from op obtain run s kind iid input db1 tr db2 u where
      row: "db_runs db r = Some run" "col_model (rr_state run) = Some s"
    and g: "status s = Running" "db_open db r = None"
    and f: "assert_fence db r actor (Some token) (now_check clk) = Inr u"
    and input: "current_state_hash s = Some input"
    and rw: "row = ?row s kind iid input"
    and ins: "insert_iteration (?row s kind iid input) ?now db = Inr db1"
    and v: "validate_run_state P (s\<lparr>iteration_index := ?n, state_version := state_version s + 1\<rparr>) = []"
    and w: "write_state P s \<lparr>new_state = s\<lparr>iteration_index := ?n, state_version := state_version s + 1\<rparr>,
        new_consumption = None\<rparr> actor ?now db1 = Inr (tr, db2)"
    and ev: "append_event P r ''iteration_begun'' (JObj [(''iteration_id'', JStr iid),
       (''sequence_no'', JInt ?n), (''round_type'', JStr kind), (''input_state_hash'', JStr input),
       (''fencing_token'', JInt token)]) actor ?now db2 = Inr db'"
    and s': "s' = s\<lparr>iteration_index := ?n, state_version := state_version s + 1\<rparr>"
    unfolding begin_iteration_def Let_def public_eq_Inr andthen_eq_Inr current_run_eq split_paired_Ex
      prod.case require_eq_Inr raising_eq_Inr raise_if_invalid_eq_Inr from_option_eq_Inr sum.inject prod.inject by metis
  have sr: "run_id s = r" using bound row by (simp add: bound_run_def state_of_def)
  have d1: "db1 = db\<lparr>db_iterations := db_iterations db @ [row], db_open := (db_open db)(r \<mapsto> it_id row)\<rparr>"
      and new: "it_id row \<notin> set (map it_id (db_iterations db))"
    using ins rw by (auto simp: insert_iteration_def result_simps)
  have same: "db_runs db1 = db_runs db" "db_transitions db1 = db_transitions db" using d1 by simp_all
  have w': "write_state P s \<lparr>new_state = s', new_consumption = None\<rparr> actor ?now db1 = Inr (tr, db2)"
    using w s' by simp
  have tr: "run_id (new_state \<lparr>new_state = s', new_consumption = None\<rparr>) = r" using sr s' by simp
  from advance_from_write [OF w' same row sr tr]
  obtain runs trs where w3: "db2 = db1\<lparr>db_runs := runs, db_transitions := trs\<rparr>"
      and adv: "\<forall>d :: control_db. db_runs d = runs \<and> db_transitions d = trs
        \<longrightarrow> advance P r s \<lparr>new_state = s', new_consumption = None\<rparr> db d"
    by (elim exE conjE) (rule that)
  obtain es where e: "db' = db2\<lparr>db_events := es\<rparr>" "log_extends P (db_events db2) es"
    using append_event_log [OF ev] by blast
  have shape: "db' = db\<lparr>db_runs := runs, db_transitions := trs, db_events := es,
       db_iterations := db_iterations db @ [row], db_open := (db_open db)(r \<mapsto> it_id row)\<rparr>"
    using d1 w3 e by simp
  have log: "log_extends P (db_events db) (db_events db')" using d1 w3 e by simp
  have av: "advance P r s \<lparr>new_state = s', new_consumption = None\<rparr> db db'" using adv shape by simp
  have cnt: "counted P s s'" using g v s' by (auto simp: counted_def)
  show thesis
    by (rule that [OF shape av log cnt _ g(2) _ _ _ new]) (use f rw s' input in simp_all)
qed

lemma store_artifacts_frame:
  assumes "fold_result (store_artifact P typed r project iid) items (acc, db) = Inr (as, db')"
  shows "\<exists>x y. db' = db\<lparr>db_artifacts := x, db_cognitive := y\<rparr>"
proof -
  have "\<exists>x y. snd (as, db') = db\<lparr>db_artifacts := x, db_cognitive := y\<rparr>"
    using assms
  proof (rule fold_result_invariant [where I = "\<lambda>u. \<exists>x y. snd u = db\<lparr>db_artifacts := x, db_cognitive := y\<rparr>"])
    show "\<exists>x y. snd (acc, db) = db\<lparr>db_artifacts := x, db_cognitive := y\<rparr>"
      by (intro exI [of _ "db_artifacts db"] exI [of _ "db_cognitive db"]) simp
  next
    fix item u v
    assume u: "\<exists>x y. snd u = db\<lparr>db_artifacts := x, db_cognitive := y\<rparr>"
      and v: "store_artifact P typed r project iid item u = Inr v"
    from v obtain a where "link_artifact P r project iid a (snd u) = Inr (snd v)"
      by (auto simp: store_artifact_def result_simps)
    then have "\<exists>x y. snd v = (snd u)\<lparr>db_artifacts := x, db_cognitive := y\<rparr>"
      unfolding link_artifact_def andthen_eq_Inr sum.inject by (elim exE conjE) (rule exI, rule exI, erule sym)
    with u show "\<exists>x y. snd v = db\<lparr>db_artifacts := x, db_cognitive := y\<rparr>" by (elim exE) (rule exI, rule exI, simp)
  qed
  then show ?thesis by simp
qed

lemma link_budget_frame:
  assumes "fold_result (link_budget_row P project iid) rows db = Inr db'"
  shows "\<exists>x. db' = db\<lparr>db_budget_links := x\<rparr>"
  using assms
proof (rule fold_result_invariant [where I = "\<lambda>u. \<exists>x. u = db\<lparr>db_budget_links := x\<rparr>"])
  show "\<exists>x. db = db\<lparr>db_budget_links := x\<rparr>" by (rule exI [of _ "db_budget_links db"]) simp
next
  fix item u v
  assume "\<exists>x. u = db\<lparr>db_budget_links := x\<rparr>" "link_budget_row P project iid item u = Inr v"
  then show "\<exists>x. v = db\<lparr>db_budget_links := x\<rparr>" by (auto simp: link_budget_row_def result_simps)
qed

lemma finish_iteration_effect:
  assumes op: "finish_iteration P R typed r iid q actor token clk db = Inr ((out, s'), db')"
    and bound: "bound_run db r"
  obtains s begun actual runs trs es a c l where
    "db' = db\<lparr>db_runs := runs, db_transitions := trs, db_events := es, db_artifacts := a, db_cognitive := c,
       db_budget_links := l, db_outcomes := db_outcomes db @ [out], db_open := (db_open db)(r := None)\<rparr>"
    "advance P r s \<lparr>new_state = s', new_consumption = None\<rparr> db db'"
    "log_extends P (db_events db) (db_events db')" "counted P s s'"
    "assert_fence db r actor (Some token) (now_check clk) = Inr ()"
    "open_iteration db r = Inr begun" "it_id begun = iid" "oc_iteration out = iid" "oc_run out = r"
    "budget_delta_for_iteration R db r iid = Inr actual" "\<exists>requested. read_finish R q = Inr requested \<and> same_amount requested actual"
proof -
  let ?now = "timestamp (now_stamp clk)"
  from op obtain requested run s begun actual u arts db1 db2 db3 tr db5 oid outp where
      row: "db_runs db r = Some run" "col_model (rr_state run) = Some s"
    and rd: "read_finish R q = Inr requested"
    and g: "status s = Running"
    and f: "assert_fence db r actor (Some token) (now_check clk) = Inr u"
    and op: "open_iteration db r = Inr begun" "it_id begun = iid"
    and bd: "budget_delta_for_iteration R db r iid = Inr actual" "same_amount requested actual"
    and st: "fold_result (store_artifact P typed r (project_id s) iid) (fr_artifacts q) ([], db) = Inr (arts, db1)"
    and lk: "fold_result (link_budget_row P (project_id s) iid)
        (filter (\<lambda>x. lg_iteration x = Some iid) (ledger_of db r)) db1 = Inr db2"
    and o: "\<lparr>oc_id = oid, oc_iteration = iid, oc_run = r, oc_status = fr_status q, oc_input = it_input begun,
                oc_output = outp, oc_delta = map (\<lambda>p. (fst p, quantity_json (snd p))) actual,
                oc_json = json_text P (outcome_json P r begun q outp actual arts),
                oc_claims = json_text P (fr_claims q), oc_evidence = json_text P (fr_evidence q),
                oc_counter = json_text P (fr_counter q), oc_strategy = json_text P (fr_strategy q),
                oc_summary = json_text P (artifact_summary P arts),
                oc_token = token, oc_finished = ?now\<rparr> = out"
    and ins: "insert_outcome \<lparr>oc_id = oid, oc_iteration = iid, oc_run = r, oc_status = fr_status q, oc_input = it_input begun,
                oc_output = outp, oc_delta = map (\<lambda>p. (fst p, quantity_json (snd p))) actual,
                oc_json = json_text P (outcome_json P r begun q outp actual arts),
                oc_claims = json_text P (fr_claims q), oc_evidence = json_text P (fr_evidence q),
                oc_counter = json_text P (fr_counter q), oc_strategy = json_text P (fr_strategy q),
                oc_summary = json_text P (artifact_summary P arts),
                oc_token = token, oc_finished = ?now\<rparr> db2 = Inr db3"
    and v: "validate_run_state P (s\<lparr>state_version := state_version s + 1\<rparr>) = []"
    and w: "write_state P s \<lparr>new_state = s\<lparr>state_version := state_version s + 1\<rparr>, new_consumption = None\<rparr>
        actor ?now (db3\<lparr>db_open := (db_open db3)(r := None)\<rparr>) = Inr (tr, db5)"
    and ev: "append_event P r ''iteration_finished'' (JObj [(''iteration_id'', JStr iid),
       (''outcome_id'', JStr oid), (''status'', JStr (fr_status q)), (''input_state_hash'', JStr (it_input begun)),
       (''output_state_hash'', opt_json outp), (''artifact_count'', JInt (int (length arts))),
       (''budget_delta_hash'', JStr (hash_json P (amount_json actual))), (''fencing_token'', JInt token)])
       actor ?now db5 = Inr db'"
    and s': "s\<lparr>state_version := state_version s + 1\<rparr> = s'"
    unfolding finish_iteration_def Let_def public_eq_Inr andthen_eq_Inr current_run_eq split_paired_Ex
      prod.case require_eq_Inr raising_eq_Inr raise_if_invalid_eq_Inr from_option_eq_Inr sum.inject prod.inject by blast
  have sr: "run_id s = r" using bound row by (simp add: bound_run_def state_of_def)
  obtain a c where d1: "db1 = db\<lparr>db_artifacts := a, db_cognitive := c\<rparr>"
    using store_artifacts_frame [OF st] by blast
  obtain l where d2: "db2 = db1\<lparr>db_budget_links := l\<rparr>" using link_budget_frame [OF lk] by blast
  have d3: "db3 = db2\<lparr>db_outcomes := db_outcomes db @ [out]\<rparr>"
    using ins o d1 d2 by (auto simp: insert_outcome_def result_simps)
  let ?db4 = "db3\<lparr>db_open := (db_open db3)(r := None)\<rparr>"
  have same: "db_runs ?db4 = db_runs db" "db_transitions ?db4 = db_transitions db" using d1 d2 d3 by simp_all
  have w': "write_state P s \<lparr>new_state = s', new_consumption = None\<rparr> actor ?now ?db4 = Inr (tr, db5)"
    using w s' [symmetric] by simp
  have tr: "run_id (new_state \<lparr>new_state = s', new_consumption = None\<rparr>) = r" using sr s' [symmetric] by simp
  from advance_from_write [OF w' same row sr tr]
  obtain runs trs where w3: "db5 = ?db4\<lparr>db_runs := runs, db_transitions := trs\<rparr>"
      and adv: "\<forall>d :: control_db. db_runs d = runs \<and> db_transitions d = trs
        \<longrightarrow> advance P r s \<lparr>new_state = s', new_consumption = None\<rparr> db d"
    by (elim exE conjE) (rule that)
  obtain es where e: "db' = db5\<lparr>db_events := es\<rparr>" "log_extends P (db_events db5) es"
    using append_event_log [OF ev] by blast
  have shape: "db' = db\<lparr>db_runs := runs, db_transitions := trs, db_events := es, db_artifacts := a, db_cognitive := c,
       db_budget_links := l, db_outcomes := db_outcomes db @ [out], db_open := (db_open db)(r := None)\<rparr>"
    using d1 d2 d3 w3 e by simp
  have log: "log_extends P (db_events db) (db_events db')" using d1 d2 d3 w3 e by simp
  have av: "advance P r s \<lparr>new_state = s', new_consumption = None\<rparr> db db'" using adv shape by simp
  have cnt: "counted P s s'" unfolding counted_def
    by (intro conjI exI [of _ "iteration_index s"]) (use g v s' [symmetric] in simp_all)
  have rq: "\<exists>requested. read_finish R q = Inr requested \<and> same_amount requested actual" using rd bd by blast
  show thesis
    by (rule that [OF shape av log cnt _ op _ _ bd(1) rq]) (use f o [symmetric] in simp_all)
qed

section \<open>The budget\<close>

lemma budget_reconstruct_depends:
  assumes "db_runs db' = db_runs db" "db_ledger db' = db_ledger db" "db_receipts db' = db_receipts db"
  shows "budget_reconstruct P R db' r = budget_reconstruct P R db r"
proof -
  have "check_usage_row R db' = check_usage_row R db"
    using assms by (intro ext) (simp add: check_usage_row_def Let_def cong: if_cong)
  then have "balance_row P R db' r = balance_row P R db r"
    by (intro ext) (simp add: balance_row_def cong: if_cong)
  then show ?thesis using assms by (simp add: budget_reconstruct_def ledger_of_def run_row_def)
qed

lemma append_entry_effect:
  assumes "append_entry P R r project q iid a u provenance actor token now db = Inr (ans, db')"
  obtains row es new where "list_all (\<lambda>x. rc_run x = r) new"
    "db' = db\<lparr>db_receipts := db_receipts db @ new, db_ledger := db_ledger db @ [row], db_events := es\<rparr>"
    "log_extends P (db_events db) (db_events db')" "budget_reconstruct P R db' r = Inr (ba_balance ans)"
    "lg_run row = r" "lg_operation row = bq_operation q" "lg_key row = strip (bq_key q)" "lg_iteration row = Some iid"
    "lg_amount row = amount_json a" "lg_seq row = max_sequence (map lg_seq (ledger_of db r)) + 1"
    "lg_request_hash row = Some (budget_request_hash P (bq_operation q) a (bq_reservation q) provenance r (Some iid))"
    "lg_reservation row = (if bq_operation q = ''reserve'' then Some (lg_entry row) else bq_reservation q)"
    "lg_entry row \<notin> set (map lg_entry (db_ledger db))"
    "(r, lg_key row) \<notin> set (map (\<lambda>x. (lg_run x, lg_key x)) (db_ledger db))" "by_key db r (bq_key q) = None"
    "ba_retry ans = False" "ba_entry ans = lg_entry row" "ba_amount ans = lg_amount row"
proof -
  from assms obtain db1 row db2 b where
      i: "insert_receipt P r iid a u db = Inr db1"
    and n: "new_ledger_row P db1 r project q iid a provenance actor now = Inr row"
    and il: "insert_ledger row db1 = Inr db2"
    and b: "budget_reconstruct P R db2 r = Inr b"
    and ev: "append_event P r ''budget_ledger_appended'' (JObj [(''entry_id'', JStr (lg_entry row)),
       (''sequence_no'', JInt (lg_seq row)), (''operation'', JStr (lg_operation row)),
       (''amount_hash'', JStr (hash_json P (amount_json a))), (''reservation_id'', opt_json (lg_reservation row)),
       (''fencing_token'', JInt token)]) actor now db2 = Inr db'"
    and ans: "ans = \<lparr>ba_entry = lg_entry row, ba_seq = lg_seq row, ba_operation = lg_operation row,
           ba_amount = amount_json a, ba_reservation = lg_reservation row, ba_retry = False, ba_balance = b\<rparr>"
    unfolding append_entry_def andthen_eq_Inr raising_eq_Inr sum.inject prod.inject by blast
  have "\<exists>new. db1 = db\<lparr>db_receipts := db_receipts db @ new\<rparr> \<and> list_all (\<lambda>x. rc_run x = r) new"
  proof (cases u)
    case None
    then have "db1 = db\<lparr>db_receipts := db_receipts db @ []\<rparr>" using i by (simp add: insert_receipt_def)
    then show ?thesis by (intro exI [of _ "[]"]) simp
  next
    case (Some x)
    then have "db1 = db\<lparr>db_receipts := db_receipts db @ [\<lparr>rc_id = ur_id x, rc_run = r, rc_iteration = iid,
        rc_model = ur_model x, rc_amount = amount_json a, rc_hash = receipt_hash_value P x\<rparr>]\<rparr>"
      using i by (auto simp: insert_receipt_def result_simps)
    then show ?thesis by (intro exI conjI) (assumption, simp)
  qed
  then obtain new where d1: "db1 = db\<lparr>db_receipts := db_receipts db @ new\<rparr>" "list_all (\<lambda>x. rc_run x = r) new"
    by blast
  have d2: "db2 = db1\<lparr>db_ledger := db_ledger db @ [row]\<rparr>" and uniq: "lg_entry row \<notin> set (map lg_entry (db_ledger db))"
      and key: "(lg_run row, lg_key row) \<notin> set (map (\<lambda>x. (lg_run x, lg_key x)) (db_ledger db))"
    using il d1 by (auto simp: insert_ledger_def result_simps)
  have l1: "ledger_of db1 r = ledger_of db r" by (simp add: d1 ledger_of_def)
  from n obtain eid where row: "row = \<lparr>lg_entry = eid, lg_run = r, lg_seq = max_sequence (map lg_seq (ledger_of db r)) + 1,
         lg_operation = bq_operation q, lg_key = strip (bq_key q), lg_amount = amount_json a, lg_provenance = provenance,
         lg_reservation = (if bq_operation q = ''reserve'' then Some eid else bq_reservation q),
         lg_created = now, lg_actor = actor_id actor, lg_session = session_id actor,
         lg_request_hash = Some (budget_request_hash P (bq_operation q) a (bq_reservation q) provenance r (Some iid)),
         lg_iteration = Some iid\<rparr>"
    by (auto simp: new_ledger_row_def Let_def result_simps l1)
  have none: "by_key db r (bq_key q) = None"
    using key row by (auto simp: by_key_def find_None_iff)
  obtain es where e: "db' = db2\<lparr>db_events := es\<rparr>" "log_extends P (db_events db2) es"
    using append_event_log [OF ev] by blast
  have shape: "db' = db\<lparr>db_receipts := db_receipts db @ new, db_ledger := db_ledger db @ [row], db_events := es\<rparr>"
    using d1 d2 e by simp
  have log: "log_extends P (db_events db) (db_events db')" using d1 d2 e by simp
  have bal: "budget_reconstruct P R db' r = Inr (ba_balance ans)"
    using b ans e budget_reconstruct_depends [of db' db2] by simp
  show thesis
    by (rule that [OF d1(2) shape log bal _ _ _ _ _ _ _ _ uniq _ none]) (use row ans key in simp_all)
qed

lemma retry_answer_eq:
  "retry_answer P R db r e a = Inr (ans, db') \<longleftrightarrow>
     db' = db \<and> budget_reconstruct P R db r = Inr (ba_balance ans)
     \<and> ans = \<lparr>ba_entry = lg_entry e, ba_seq = lg_seq e, ba_operation = lg_operation e, ba_amount = a,
           ba_reservation = lg_reservation e, ba_retry = True, ba_balance = ba_balance ans\<rparr>"
  by (cases ans) (auto simp: retry_answer_def result_simps)

lemma budget_entry_cases:
  assumes "budget_entry P R auth r q actor token now s requested db = Inr (ans, db')"
  obtains
    (retry) e a provenance iid where "by_key db r (bq_key q) = Some e" "retry_answer P R db r e (lg_amount e) = Inr (ans, db')"
      "bq_iteration q = Some iid"
      "lg_request_hash e = Some (budget_request_hash P (bq_operation q) a (bq_reservation q) provenance r (Some iid))"
  | (entry) begun a u provenance where "open_iteration db r = Inr begun" "bq_iteration q = Some (it_id begun)"
      "settled_amount R db r q requested = Inr a"
      "append_entry P R r (project_id s) q (it_id begun) a u provenance actor token now db = Inr (ans, db')"
proof -
  from assms obtain a it u provenance where st: "settled_amount R db r q requested = Inr a"
      and q: "str_truthy (bq_iteration q)" and it: "open_iteration db r = Inr it" "it_id it = the (bq_iteration q)"
      and last: "(case by_key db r (bq_key q) of
         Some e \<Rightarrow>
           andthen (require (lg_request_hash e = Some (budget_request_hash P (bq_operation q) a (bq_reservation q)
               provenance r (Some (the (bq_iteration q)))))
             (Max_control ''CONFLICT: budget idempotency key request differs'')) (\<lambda>_.
           retry_answer P R db r e (lg_amount e))
       | None \<Rightarrow> append_entry P R r (project_id s) q (the (bq_iteration q)) a u provenance actor token now db)
       = Inr (ans, db')"
    unfolding budget_entry_def Let_def andthen_eq_Inr split_paired_Ex prod.case require_eq_Inr by blast
  have some: "bq_iteration q = Some (it_id it)" using q it(2) by (cases "bq_iteration q") (simp_all add: str_truthy_def)
  show thesis
  proof (cases "by_key db r (bq_key q)")
    case None
    then show thesis using last it(1) some st by (intro entry [of it a u provenance]) simp_all
  next
    case (Some e)
    then show thesis using last some
      by (intro retry [of e "it_id it" a provenance]) (auto simp: result_simps)
  qed
qed

lemma budget_write_effect:
  assumes "budget_write P R auth r q actor token clk db = Inr (ans, db')"
  obtains s where "state_of db r = Some s" "status s = Running"
    "assert_fence db r actor (Some token) (now_check clk) = Inr ()"
    "bq_operation q \<in> {''reserve'', ''commit'', ''release'', ''usage'', ''refund''}"
    "(\<exists>e a. by_key db r (bq_key q) = Some e \<and> retry_answer P R db r e a = Inr (ans, db') \<and> lg_operation e = bq_operation q
        \<and> settles (bq_operation q))
     \<or> (\<exists>e. by_key db r (bq_key q) = Some e \<and> retry_answer P R db r e (lg_amount e) = Inr (ans, db')
          \<and> \<not> settles (bq_operation q))
     \<or> (\<exists>begun a u provenance requested. open_iteration db r = Inr begun \<and> bq_iteration q = Some (it_id begun)
          \<and> requested_amount R q = Inr requested \<and> settled_amount R db r q requested = Inr a
          \<and> append_entry P R r (project_id s) q (it_id begun) a u provenance actor token
               (timestamp (now_stamp clk)) db = Inr (ans, db'))"
proof -
  from assms obtain row s u requested where op: "bq_operation q \<in> {''reserve'', ''commit'', ''release'', ''usage'', ''refund''}"
      and row: "db_runs db r = Some row" "col_model (rr_state row) = Some s" and s: "status s = Running"
      and f: "assert_fence db r actor (Some token) (now_check clk) = Inr u"
      and rq: "requested_amount R q = Inr requested"
      and last: "(case (if settles (bq_operation q) then by_key db r (bq_key q) else None) of
         Some e \<Rightarrow> settle_retry P R db r q requested e
       | None \<Rightarrow> budget_entry P R auth r q actor token (timestamp (now_stamp clk)) s requested db) = Inr (ans, db')"
    unfolding budget_write_def public_eq_Inr andthen_eq_Inr current_run_eq split_paired_Ex prod.case require_eq_Inr
    by blast
  show thesis
  proof (rule that [OF _ s _ op])
    show "state_of db r = Some s" using row by (simp add: state_of_def)
    show "assert_fence db r actor (Some token) (now_check clk) = Inr ()" using f by simp
    show "(\<exists>e a. by_key db r (bq_key q) = Some e \<and> retry_answer P R db r e a = Inr (ans, db') \<and> lg_operation e = bq_operation q
        \<and> settles (bq_operation q))
     \<or> (\<exists>e. by_key db r (bq_key q) = Some e \<and> retry_answer P R db r e (lg_amount e) = Inr (ans, db')
          \<and> \<not> settles (bq_operation q))
     \<or> (\<exists>begun a u provenance requested. open_iteration db r = Inr begun \<and> bq_iteration q = Some (it_id begun)
          \<and> requested_amount R q = Inr requested \<and> settled_amount R db r q requested = Inr a
          \<and> append_entry P R r (project_id s) q (it_id begun) a u provenance actor token
               (timestamp (now_stamp clk)) db = Inr (ans, db'))"
    proof (cases "if settles (bq_operation q) then by_key db r (bq_key q) else None")
      case (Some e)
      then have k: "settles (bq_operation q)" "by_key db r (bq_key q) = Some e" by (auto split: if_splits)
      from last Some have "settle_retry P R db r q requested e = Inr (ans, db')" by simp
      then have "lg_operation e = bq_operation q \<and> (\<exists>a. retry_answer P R db r e a = Inr (ans, db'))"
        unfolding settle_retry_def andthen_eq_Inr require_eq_Inr by blast
      with k show ?thesis by blast
    next
      case None
      with last have b: "budget_entry P R auth r q actor token (timestamp (now_stamp clk)) s requested db = Inr (ans, db')"
        by simp
      have no: "by_key db r (bq_key q) \<noteq> None \<Longrightarrow> \<not> settles (bq_operation q)" using None by (auto split: if_splits)
      from b show ?thesis
      proof (cases rule: budget_entry_cases)
        case (retry e a provenance iid)
        then show ?thesis using no by (intro disjI2 disjI1 exI [of _ e]) simp
      next
        case (entry begun a u provenance)
        then show ?thesis using rq by (intro disjI2 exI [of _ begun] exI [of _ a] exI [of _ u] exI [of _ provenance]
              exI [of _ requested]) simp
      qed
    qed
  qed
qed

section \<open>propose\<close>

lemma propose_effect:
  assumes "propose P p actor clk nonce db = Inr (s, db')"
  obtains r limits column leases es where
    "db' = db\<lparr>db_runs := (db_runs db)(r \<mapsto> initial_row P s column (timestamp (now_stamp clk))), db_leases := leases,
       db_events := es\<rparr>"
    "s = initial_state P r p limits" "canonical_limits limits" "db_runs db r = None" "db_leases db r = None"
    "leases = (db_leases db)(r \<mapsto> empty_lease)" "col_model column = Some s" "log_extends P (db_events db) (db_events db')"
    "validate_run_state P s = []"
proof -
  let ?now = "timestamp (now_stamp clk)"
  from assms obtain r limits column where v: "validate_run_state P (initial_state P r p limits) = []"
      and c: "state_column P (initial_state P r p limits) = Inr column" and n: "db_runs db r = None \<and> db_leases db r = None"
      and ev: "\<exists>evs. append_events P r evs actor ?now
         (db\<lparr>db_runs := (db_runs db)(r \<mapsto> initial_row P (initial_state P r p limits) column ?now),
             db_leases := (db_leases db)(r \<mapsto> empty_lease)\<rparr>) = Inr db'"
      and s: "initial_state P r p limits = s" and nl: "normalize_budget_limits (pp_budget p) = Inr limits"
    unfolding propose_def Let_def public_eq_Inr andthen_eq_Inr require_eq_Inr raising_eq_Inr raise_if_invalid_eq_Inr
      sum.inject prod.inject by blast
  from ev obtain evs where "append_events P r evs actor ?now
         (db\<lparr>db_runs := (db_runs db)(r \<mapsto> initial_row P (initial_state P r p limits) column ?now),
             db_leases := (db_leases db)(r \<mapsto> empty_lease)\<rparr>) = Inr db'" by blast
  from append_events_log [OF this] obtain es where es: "db' = (db\<lparr>db_runs := (db_runs db)(r \<mapsto> initial_row P s column ?now),
             db_leases := (db_leases db)(r \<mapsto> empty_lease)\<rparr>)\<lparr>db_events := es\<rparr>" "log_extends P (db_events db) es"
    using s by auto
  have m: "col_model column = Some s" using c s by (auto simp: state_column_def json_column_def result_simps)
  show thesis
    by (rule that [where r = r and limits = limits and column = column and leases = "(db_leases db)(r \<mapsto> empty_lease)" and es = es]) (use es m n v s normalized_limits_canonical [OF nl] in simp_all)
qed

end
