(* ===== verification/Research_Objects.thy ===== *)
theory Research_Objects
  imports Run_State
begin

text \<open>
  The canonical research graph of \<open>max_research/contract\<close>: \<open>CanonicalObject\<close>,
  \<open>CanonicalRelation\<close> and \<open>ResearchState\<close> of \<open>models.py\<close>, with \<open>validate_canonical_object\<close>,
  \<open>validate_canonical_relation\<close> and the look-ups of \<open>validator.py\<close>.

  The objects are the constructed ones (\<open>__post_init__\<close> has run), with fields of the declared
  types: identifiers are strings, versions integers, payloads JSON objects. The branches that
  report a field of another type are therefore not reached. An optional version identifier of a
  relation is a \<open>string option\<close>. The look-up tables are dictionaries in insertion order.
\<close>

section \<open>Types\<close>

record canonical_object =
  co_stable :: string
  co_kind :: string
  co_project :: string
  co_version :: int
  co_version_id :: string
  co_payload :: "(string \<times> json) list"
  co_supersedes :: "string option"
  co_schema :: string

record canonical_relation =
  cr_source :: string
  cr_target :: string
  cr_relation :: string
  cr_project :: string
  cr_id :: string
  cr_source_version :: "string option"
  cr_target_version :: "string option"
  cr_metadata :: "(string \<times> json) list"
  cr_schema :: string

record research_state =
  rs_project :: string
  rs_run :: "string option"
  rs_objects :: "canonical_object list"
  rs_relations :: "canonical_relation list"
  rs_latest :: "(string \<times> canonical_object) list"
  rs_leading :: "string option"
  rs_hash :: string

definition relation_kinds :: "string list" where
  "relation_kinds = [''supports'', ''counters'', ''has_evidence_link'', ''links_evidence'', ''derived_from'',
     ''located_in'', ''version_of'', ''supersedes'', ''cites'', ''has_source_role'', ''targets'', ''requires'',
     ''produces'', ''discusses'']"

definition evidence_statuses :: "string list" where
  "evidence_statuses = [''candidate'', ''unverified'', ''unknown'', ''verified'', ''accepted'', ''rejected'',
     ''invalidated'', ''exact_quote_verified'']"

definition final_evidence_statuses :: "string list" where
  "final_evidence_statuses = [''verified'', ''accepted'', ''exact_quote_verified'']"

definition final_claim_statuses :: "string list" where
  "final_claim_statuses = [''final'', ''accepted'', ''reported'', ''complete'', ''completed'']"

definition opt_value :: "string option \<Rightarrow> pyval" where
  "opt_value m = (case m of None \<Rightarrow> VNone | Some s \<Rightarrow> VStr s)"

definition strings_json :: "string list \<Rightarrow> json" where
  "strings_json xs = JList (map JStr xs)"

text \<open>\<open>__post_init__\<close>: the kind is normalised and a missing identifier computed.\<close>

definition make_object ::
    "prims \<Rightarrow> string \<Rightarrow> string \<Rightarrow> string \<Rightarrow> int \<Rightarrow> string option \<Rightarrow> (string \<times> json) list \<Rightarrow> string option \<Rightarrow> string
     \<Rightarrow> py_exc + canonical_object" where
  "make_object P sid kind project version version_id payload supersedes schema =
     andthen (normalize_kind (VStr kind)) (\<lambda>k.
     andthen (case version_id of
         Some (c # cs) \<Rightarrow> Inr (c # cs)
       | _ \<Rightarrow> make_version_id P (VStr k) (VStr project) (VStr sid) (VInt version)) (\<lambda>vid.
     Inr \<lparr>co_stable = sid, co_kind = k, co_project = project, co_version = version, co_version_id = vid,
          co_payload = payload, co_supersedes = supersedes, co_schema = schema\<rparr>))"

definition relation_id_of :: "prims \<Rightarrow> canonical_relation \<Rightarrow> py_exc + string" where
  "relation_id_of P rel = make_relation_id P (VStr (cr_project rel)) (VStr (cr_source rel)) (VStr (cr_target rel))
     (VStr (cr_relation rel)) (opt_value (cr_source_version rel)) (opt_value (cr_target_version rel))"

definition make_relation :: "prims \<Rightarrow> canonical_relation \<Rightarrow> py_exc + canonical_relation" where
  "make_relation P rel =
     (if cr_id rel \<noteq> [] then Inr rel
      else andthen (relation_id_of P rel) (\<lambda>rid. Inr (rel\<lparr>cr_id := rid\<rparr>)))"

section \<open>validate_canonical_object\<close>

text \<open>\<open>_cross_project_payload_refs\<close>: every nested reference stays in the project.\<close>

definition reference_issues :: "string \<Rightarrow> string \<Rightarrow> (string \<times> json) list \<Rightarrow> validation_issue list" where
  "reference_issues project path kvs =
     (case (map_of kvs ''stable_id'', map_of kvs ''project_id'') of
        (Some sid, Some pid) \<Rightarrow>
          check (is_stable_id sid None) ''reference.invalid_id'' (path @ ''.stable_id'')
            ''reference stable_id is invalid''
          @ check (pid = JStr project) ''reference.cross_project'' path
            ''canonical references may not cross project boundaries''
      | _ \<Rightarrow> [])"

fun payload_refs :: "string \<Rightarrow> string \<Rightarrow> json \<Rightarrow> validation_issue list"
  and refs_fields :: "string \<Rightarrow> string \<Rightarrow> (string \<times> json) list \<Rightarrow> validation_issue list"
  and refs_items :: "string \<Rightarrow> string \<Rightarrow> nat \<Rightarrow> json list \<Rightarrow> validation_issue list" where
  "payload_refs project path (JObj kvs) = reference_issues project path kvs @ refs_fields project path kvs"
| "payload_refs project path (JList js) = refs_items project path 0 js"
| "payload_refs project path j = []"
| "refs_fields project path [] = []"
| "refs_fields project path ((k, j) # kvs) =
     payload_refs project (path @ ''.'' @ k) j @ refs_fields project path kvs"
| "refs_items project path n [] = []"
| "refs_items project path n (j # js) =
     payload_refs project (index_path path n) j @ refs_items project path (n + 1) js"

definition validate_canonical_object :: "prims \<Rightarrow> canonical_object \<Rightarrow> validation_result" where
  "validate_canonical_object P x =
     (let kind = kind_key (co_kind x);
          vkind = Some (kind @ ''-version'');
          expected = (case expected_version_id P (VStr kind) (VStr (co_project x)) (VStr (co_stable x)) (VInt (co_version x))
            of Inl e \<Rightarrow> None | Inr v \<Rightarrow> Some v)
      in check (co_schema x = ''max-research-canonical-object/v1'') ''object.schema'' ''$.schema''
           ''unsupported canonical object schema''
       @ check (is_kind kind) ''object.kind'' ''$.kind'' ''canonical object kind is invalid''
       @ check (is_stable_id (JStr (co_stable x)) (Some kind)) ''object.stable_id'' ''$.stable_id''
           ''stable_id must encode the object's kind''
       @ check (is_project_id (JStr (co_project x))) ''object.project_id'' ''$.project_id'' ''project_id is not valid''
       @ check (1 \<le> co_version x) ''object.version'' ''$.version'' ''version must be a positive integer''
       @ (if \<not> is_stable_id (JStr (co_version_id x)) vkind
          then [issue ''object.version_id'' ''$.version_id'' ''version_id must use the object's version namespace'']
          else check (case expected of None \<Rightarrow> True | Some v \<Rightarrow> co_version_id x = v) ''object.version_binding''
            ''$.version_id'' ''version_id is not bound to project, identity, kind and version'')
       @ check (\<not> (co_version x = 1 \<and> co_supersedes x \<noteq> None)) ''object.first_version_supersedes''
           ''$.supersedes_version_id'' ''version 1 cannot supersede another version''
       @ (if 1 < co_version x
          then if \<not> is_stable_id (opt_json (co_supersedes x)) vkind
               then [issue ''object.successor_required'' ''$.supersedes_version_id''
                       ''later versions must point to a prior version'']
               else check (co_supersedes x \<noteq> Some (co_version_id x)) ''object.self_supersedes''
                 ''$.supersedes_version_id'' ''a version cannot supersede itself''
          else [])
       @ payload_refs (co_project x) ''$.payload'' (JObj (co_payload x)))"

section \<open>validate_canonical_relation\<close>

definition validate_canonical_relation :: "prims \<Rightarrow> canonical_relation \<Rightarrow> py_exc + validation_result" where
  "validate_canonical_relation P rel =
     andthen (relation_id_of P rel) (\<lambda>expected. Inr (
       check (cr_schema rel = ''max-research-relation/v1'') ''relation.schema'' ''$.schema''
         ''unsupported relation schema''
     @ check (is_stable_id (JStr (cr_source rel)) None) ''relation.invalid_id'' ''$.source_id''
         ''source_id must be a stable ID''
     @ check (is_stable_id (JStr (cr_target rel)) None) ''relation.invalid_id'' ''$.target_id''
         ''target_id must be a stable ID''
     @ check (cr_relation rel \<in> set relation_kinds) ''relation.kind'' ''$.relation''
         ''relation kind is not in the MR-0A vocabulary''
     @ check (is_project_id (JStr (cr_project rel))) ''relation.project_id'' ''$.project_id'' ''project_id is not valid''
     @ check (is_stable_id (opt_json (cr_source_version rel)) None) ''relation.version_required''
         ''$.source_version_id'' ''source_version_id is required and must be a stable version ID''
     @ check (is_stable_id (opt_json (cr_target_version rel)) None) ''relation.version_required''
         ''$.target_version_id'' ''target_version_id is required and must be a stable version ID''
     @ check (cr_id rel = expected) ''relation.id_binding'' ''$.relation_id''
         ''relation_id is not bound to project, endpoints, relation and endpoint versions''
     @ check (\<not> (cr_source rel = cr_target rel \<and> cr_relation rel \<noteq> ''supersedes'')) ''relation.self_reference''
         ''$.target_id'' ''self-references are not allowed for this relation''))"

section \<open>Look-ups\<close>

text \<open>\<open>sorted(objects, key=(stable_id, version))\<close>: two stable sorts.\<close>

definition sort_objects :: "canonical_object list \<Rightarrow> canonical_object list" where
  "sort_objects xs = sort_key co_stable (sort_key co_version xs)"

definition index_identity :: "canonical_object \<Rightarrow> (string \<times> canonical_object) list \<Rightarrow> (string \<times> canonical_object) list" where
  "index_identity x d =
     (case map_of d (co_stable x) of
        None \<Rightarrow> dict_put (co_stable x) x d
      | Some y \<Rightarrow> if co_version y < co_version x then dict_put (co_stable x) x d else d)"

definition index_objects ::
    "canonical_object list \<Rightarrow> (string \<times> canonical_object) list \<times> (string \<times> canonical_object) list" where
  "index_objects xs =
     (fold index_identity (sort_objects xs) [],
      fold (\<lambda>x. dict_put (co_version_id x) x) (sort_objects xs) [])"

definition by_identity :: "canonical_object list \<Rightarrow> string \<Rightarrow> canonical_object option" where
  "by_identity xs = map_of (fst (index_objects xs))"

definition by_version :: "canonical_object list \<Rightarrow> string \<Rightarrow> canonical_object option" where
  "by_version xs = map_of (snd (index_objects xs))"

definition resolve_object :: "canonical_object list \<Rightarrow> string \<Rightarrow> canonical_object option" where
  "resolve_object xs ref = (case by_version xs ref of Some x \<Rightarrow> Some x | None \<Rightarrow> by_identity xs ref)"

definition relation_target :: "canonical_object list \<Rightarrow> canonical_relation \<Rightarrow> canonical_object option" where
  "relation_target xs rel =
     (case cr_target_version rel of None \<Rightarrow> None
      | Some v \<Rightarrow> (case by_version xs v of
          Some x \<Rightarrow> if co_stable x = cr_target rel then Some x else None
        | None \<Rightarrow> None))"

definition payload_ids :: "(string \<times> json) list \<Rightarrow> string list \<Rightarrow> string list" where
  "payload_ids payload keys =
     concat (map (\<lambda>(k, v). if k \<notin> set keys then [] else
       (case v of
          JStr s \<Rightarrow> if is_stable_id v None then [s] else []
        | JList js \<Rightarrow> concat (map (\<lambda>j. case j of JStr s \<Rightarrow> if is_stable_id j None then [s] else [] | _ \<Rightarrow> []) js)
        | _ \<Rightarrow> [])) payload)"

definition live_relations ::
    "canonical_object \<Rightarrow> canonical_relation list \<Rightarrow> string \<Rightarrow> canonical_relation list" where
  "live_relations x rels name = filter (\<lambda>rel. cr_source rel = co_stable x
     \<and> cr_source_version rel = Some (co_version_id x) \<and> cr_relation rel = name) rels"

text \<open>The values of a set of strings, in the order of \<open>sorted\<close>.\<close>

definition sorted_set :: "string list \<Rightarrow> string list" where
  "sorted_set xs = sort (remdups xs)"

end
