(* ===== verification/Research_Graph.thy ===== *)
theory Research_Graph
  imports Research_Objects
begin

text \<open>
  The graph operations of \<open>max_research/contract/validator.py\<close>: \<open>_latest_objects\<close>,
  \<open>_relation_endpoint_ok\<close>, \<open>validate_claim_evidence_trace\<close> and \<open>rebuild_research_state\<close>.

  \<open>str(status).lower()\<close> of a status that is not a string is none of the status words, so such a
  status is read as \<open>unknown\<close>.
\<close>

section \<open>Version chains\<close>

text \<open>The stable identifiers in the order of their first object.\<close>

definition stable_ids :: "canonical_object list \<Rightarrow> string list" where
  "stable_ids xs = rev (remdups (rev (map co_stable xs)))"

definition versions_of :: "canonical_object list \<Rightarrow> string \<Rightarrow> canonical_object list" where
  "versions_of xs sid = sort_key co_version (filter (\<lambda>x. co_stable x = sid) xs)"

fun duplicate_version_ids :: "string list \<Rightarrow> canonical_object list \<Rightarrow> validation_issue list" where
  "duplicate_version_ids seen [] = []"
| "duplicate_version_ids seen (x # xs) =
     check (co_version_id x \<notin> set seen) ''object.duplicate_version_id'' ''$.objects''
       (''version ID '' @ co_version_id x @ '' is used by more than one object'')
     @ duplicate_version_ids (co_version_id x # seen) xs"

fun supersedes_issues :: "string \<Rightarrow> canonical_object list \<Rightarrow> validation_issue list" where
  "supersedes_issues path (x # y # xs) =
     check (co_supersedes y = Some (co_version_id x)) ''object.supersedes_mismatch'' path
       ''each successor must supersede the immediately prior version''
     @ supersedes_issues path (y # xs)"
| "supersedes_issues path _ = []"

definition chain_issues_of :: "string \<Rightarrow> canonical_object list \<Rightarrow> validation_issue list" where
  "chain_issues_of sid ordered =
     (let path = ''$.objects['' @ sid @ '']''; actual = map co_version ordered in
        check (distinct actual) ''object.duplicate_version'' path ''object versions must be unique''
      @ check (actual = map int [1..<length ordered + 1]) ''object.version_gap'' path
          ''object versions must be contiguous''
      @ supersedes_issues path ordered)"

definition latest_objects :: "canonical_object list \<Rightarrow> (string \<times> canonical_object) list \<times> validation_issue list" where
  "latest_objects xs =
     (map (\<lambda>sid. (sid, last (versions_of xs sid))) (stable_ids xs),
      duplicate_version_ids [] xs @ concat (map (\<lambda>sid. chain_issues_of sid (versions_of xs sid)) (stable_ids xs)))"

section \<open>Endpoints\<close>

definition endpoint_issues ::
    "canonical_object list \<Rightarrow> string \<Rightarrow> string \<Rightarrow> string \<Rightarrow> string option \<Rightarrow> string \<Rightarrow> validation_issue list" where
  "endpoint_issues xs project field sid version path =
     (case (case version of None \<Rightarrow> None | Some v \<Rightarrow> by_version xs v) of
        None \<Rightarrow> [issue ''relation.orphan_version'' (path @ ''.'' @ field @ ''_version_id'')
                   (field @ '' version is not canonical'')]
      | Some x \<Rightarrow>
          if co_stable x \<noteq> sid
          then [issue ''relation.version_identity_mismatch'' (path @ ''.'' @ field @ ''_version_id'')
                  (field @ '' version does not belong to '' @ field @ ''_id'')]
          else check (co_project x = project) ''reference.cross_project'' path
                 ''relation endpoint crosses project boundary'')
     @ check (by_identity xs sid \<noteq> None) ''relation.orphan_endpoint'' (path @ ''.'' @ field @ ''_id'')
         (field @ '' stable object is not canonical'')"

definition relation_endpoint_issues ::
    "canonical_relation \<Rightarrow> canonical_object list \<Rightarrow> string \<Rightarrow> validation_issue list" where
  "relation_endpoint_issues rel xs path =
     endpoint_issues xs (cr_project rel) ''source'' (cr_source rel) (cr_source_version rel) path
     @ endpoint_issues xs (cr_project rel) ''target'' (cr_target rel) (cr_target_version rel) path"

section \<open>The evidence trace of a claim\<close>

definition status_word :: "canonical_object \<Rightarrow> string" where
  "status_word x = (case map_of (co_payload x) ''status'' of Some (JStr s) \<Rightarrow> lower s | _ \<Rightarrow> ''unknown'')"

definition is_final_claim :: "canonical_object \<Rightarrow> bool" where
  "is_final_claim x \<longleftrightarrow> status_word x \<in> set final_claim_statuses"

definition is_final_evidence :: "canonical_object \<Rightarrow> bool" where
  "is_final_evidence x \<longleftrightarrow> status_word x \<in> set final_evidence_statuses"

definition has_status :: "canonical_object \<Rightarrow> bool" where
  "has_status x \<longleftrightarrow> (case map_of (co_payload x) ''status'' of None \<Rightarrow> False | Some JNull \<Rightarrow> False | Some j \<Rightarrow> True)"

definition direct_evidence_keys :: "string list" where
  "direct_evidence_keys = [''evidence_id'', ''evidence_ids'', ''verified_evidence_ids'']"

definition link_keys :: "string list" where
  "link_keys = [''evidence_link_id'', ''evidence_link_ids'']"

definition has_direct_key :: "canonical_object \<Rightarrow> bool" where
  "has_direct_key x \<longleftrightarrow> list_ex (\<lambda>k. dict_has k (co_payload x)) direct_evidence_keys"

definition payload_get :: "canonical_object \<Rightarrow> string \<Rightarrow> json" where
  "payload_get x k = (case map_of (co_payload x) k of None \<Rightarrow> JNull | Some j \<Rightarrow> j)"

definition object_path :: "string \<Rightarrow> string" where
  "object_path sid = ''$.objects['' @ sid @ '']''"

definition relation_path :: "canonical_relation \<Rightarrow> string" where
  "relation_path rel = ''$.relations['' @ cr_id rel @ '']''"

definition has_kind :: "string \<Rightarrow> canonical_object option \<Rightarrow> bool" where
  "has_kind kind m \<longleftrightarrow> (case m of None \<Rightarrow> False | Some x \<Rightarrow> co_kind x = kind)"

definition document_issues ::
    "canonical_object list \<Rightarrow> canonical_object \<Rightarrow> canonical_relation \<Rightarrow> validation_issue list" where
  "document_issues xs evidence rel =
     (case relation_target xs rel of
        Some d \<Rightarrow> check (\<not> is_final_evidence evidence
              \<or> payload_get evidence ''verified_source_version_id'' = JStr (co_version_id d))
            ''evidence.source_version_binding'' (object_path (co_stable evidence) @ ''.payload.verified_source_version_id'')
            ''verified Evidence source version differs from the exact trace endpoint''
      | None \<Rightarrow> [])"

definition passage_issues ::
    "canonical_object list \<Rightarrow> canonical_relation list \<Rightarrow> canonical_object \<Rightarrow> canonical_relation \<Rightarrow> validation_issue list" where
  "passage_issues xs rels evidence rel =
     (case relation_target xs rel of
        Some p \<Rightarrow>
          if co_kind p = ''passage'' then
            let documents = live_relations p rels ''located_in'' in
            if documents = []
            then [issue ''claim.document_version_missing'' (object_path (co_stable p))
                    ''Passage must be located in a Document Version'']
            else check (list_ex (\<lambda>d. has_kind ''document_version'' (relation_target xs d)) documents)
                   ''claim.document_version_kind'' (object_path (co_stable p))
                   ''Passage location must resolve to Document Version''
                 @ concat (map (document_issues xs evidence) documents)
          else [issue ''claim.passage_kind'' (relation_path rel) ''derived_from target must be Passage'']
      | None \<Rightarrow> [issue ''claim.passage_kind'' (relation_path rel) ''derived_from target must be Passage''])"

definition verification_issues :: "canonical_object list \<Rightarrow> canonical_object \<Rightarrow> validation_issue list" where
  "verification_issues xs evidence =
     (let vid = payload_get evidence ''verification_record_id'';
          path = object_path (co_stable evidence) @ ''.payload.''
      in (if \<not> is_stable_id vid (Some ''verification_record'')
          then [issue ''evidence.verification_record_required'' (path @ ''verification_record_id'')
                  ''verified Evidence must bind a canonical verification record'']
          else check (case vid of JStr s \<Rightarrow> by_identity xs s \<noteq> None \<or> by_version xs s \<noteq> None | _ \<Rightarrow> False)
                 ''evidence.verification_record_orphan'' (path @ ''verification_record_id'')
                 ''verification record is not present in canonical state'')
         @ check (is_stable_id (payload_get evidence ''verified_source_version_id'') (Some ''document_version-version''))
             ''evidence.source_version_required'' (path @ ''verified_source_version_id'')
             ''verified Evidence must bind the exact source Document Version'')"

definition evidence_issues ::
    "canonical_object list \<Rightarrow> canonical_relation list \<Rightarrow> canonical_object \<Rightarrow> canonical_object \<Rightarrow> validation_issue list" where
  "evidence_issues xs rels claim evidence =
     (let path = object_path (co_stable evidence); passages = live_relations evidence rels ''derived_from'' in
        check (has_status evidence) ''evidence.status_required'' (path @ ''.payload.status'')
          ''Evidence status is missing and therefore cannot be treated as verified''
      @ check (status_word evidence \<in> set evidence_statuses) ''evidence.status_unknown'' (path @ ''.payload.status'')
          ''Evidence status is outside the closed eligibility vocabulary''
      @ (if is_final_evidence evidence then verification_issues xs evidence else [])
      @ check (is_final_evidence evidence \<or> \<not> is_final_claim claim) ''claim.evidence_status''
          (path @ ''.payload.status'') ''final claims cannot use unverified or provisional evidence''
      @ (if passages = []
         then [issue ''claim.evidence_passage_missing'' path ''Evidence must derive from a Passage'']
         else concat (map (passage_issues xs rels evidence) passages)))"

text \<open>One evidence link: its issues and the evidence it reaches.\<close>

definition link_issues ::
    "canonical_object list \<Rightarrow> canonical_relation list \<Rightarrow> canonical_object \<Rightarrow> string \<Rightarrow> validation_issue list" where
  "link_issues xs rels claim lid =
     (case resolve_object xs lid of
        None \<Rightarrow> [issue ''claim.orphan_evidence_link'' ''$.payload'' (''evidence link '' @ lid @ '' is missing'')]
      | Some link \<Rightarrow>
          if co_kind link \<noteq> ''evidence_link''
          then [issue ''claim.evidence_link_kind'' ''$.payload'' (lid @ '' is not an Evidence Link'')]
          else check (\<not> has_direct_key link) ''claim.link_direct_evidence_bypass'' (object_path lid @ ''.payload'')
                 ''Evidence Link must bind evidence with a canonical relation''
            @ (let links = live_relations link rels ''links_evidence'' in
               if links = []
               then [issue ''claim.link_evidence_missing'' (object_path lid)
                       ''Evidence Link has no version-bound links_evidence relation'']
               else concat (map (\<lambda>rel. case relation_target xs rel of
                   Some e \<Rightarrow> if co_kind e = ''evidence'' then evidence_issues xs rels claim e
                     else [issue ''claim.evidence_kind'' (relation_path rel)
                             ''links_evidence target must be canonical Evidence'']
                 | None \<Rightarrow> [issue ''claim.evidence_kind'' (relation_path rel)
                             ''links_evidence target must be canonical Evidence'']) links)))"

definition link_evidence ::
    "canonical_object list \<Rightarrow> canonical_relation list \<Rightarrow> string \<Rightarrow> string list" where
  "link_evidence xs rels lid =
     (case resolve_object xs lid of
        None \<Rightarrow> []
      | Some link \<Rightarrow>
          if co_kind link \<noteq> ''evidence_link'' then []
          else concat (map (\<lambda>rel. case relation_target xs rel of
              Some e \<Rightarrow> if co_kind e = ''evidence'' then [co_stable e] else []
            | None \<Rightarrow> []) (live_relations link rels ''links_evidence'')))"

definition claim_links :: "canonical_relation list \<Rightarrow> canonical_object \<Rightarrow> string list" where
  "claim_links rels claim = sorted_set (payload_ids (co_payload claim) link_keys
     @ map cr_target (live_relations claim rels ''has_evidence_link''))"

definition validate_claim_evidence_trace ::
    "canonical_object \<Rightarrow> canonical_object list \<Rightarrow> canonical_relation list \<Rightarrow> validation_result" where
  "validate_claim_evidence_trace claim xs rels =
     (if co_kind claim \<noteq> ''claim''
      then [issue ''claim.kind'' ''$.kind'' ''evidence trace requires a claim object'']
      else
        let links = claim_links rels claim in
          check (\<not> (json_truthy (map_of (co_payload claim) ''inherited_from_summary'')
                   \<or> json_truthy (map_of (co_payload claim) ''summary_only''))) ''claim.summary_inheritance'' ''$.payload''
            ''summary-only claims are not formal claims''
        @ check (payload_ids (co_payload claim) direct_evidence_keys = [] \<and> \<not> has_direct_key claim)
            ''claim.direct_evidence_bypass'' ''$.payload''
            ''formal claims may reference evidence only through canonical Evidence Link relations''
        @ check (links \<noteq> []) ''claim.evidence_trace_missing'' ''$.payload''
            ''formal claim must resolve through an Evidence Link''
        @ concat (map (link_issues xs rels claim) links)
        @ check (\<not> (links \<noteq> [] \<and> concat (map (link_evidence xs rels) links) = []))
            ''claim.evidence_trace_incomplete'' ''$.payload''
            ''claim evidence must resolve Evidence Link -> Evidence -> Passage -> Document Version'')"

section \<open>rebuild_research_state\<close>

text \<open>Frozen JSON is hashable unless it contains an object.\<close>

fun hashable :: "json \<Rightarrow> bool" where
  "hashable (JObj kvs) = False"
| "hashable (JList js) = list_all hashable js"
| "hashable j = True"

definition add_leading :: "canonical_object \<Rightarrow> string list \<Rightarrow> py_exc + string list" where
  "add_leading x acc =
     (if co_kind x = ''hypothesis''
         \<and> (json_truthy (map_of (co_payload x) ''is_leading'') \<or> json_truthy (map_of (co_payload x) ''leading''))
      then (let st = dict_get ''status'' (JStr ''active'') (co_payload x) in
            andthen (require (hashable st) (TypeError ''unhashable type'')) (\<lambda>_.
            Inr (if st \<in> {JStr ''rejected'', JStr ''weakened''} then acc else acc @ [co_stable x])))
      else Inr acc)"

definition object_json :: "canonical_object \<Rightarrow> json" where
  "object_json x = JObj
     [(''stable_id'', JStr (co_stable x)), (''kind'', JStr (co_kind x)), (''project_id'', JStr (co_project x)),
      (''version'', JInt (co_version x)), (''version_id'', JStr (co_version_id x)), (''payload'', JObj (co_payload x)),
      (''supersedes_version_id'', opt_json (co_supersedes x)), (''schema'', JStr (co_schema x))]"

definition relation_json :: "canonical_relation \<Rightarrow> json" where
  "relation_json rel = JObj
     [(''source_id'', JStr (cr_source rel)), (''target_id'', JStr (cr_target rel)),
      (''relation'', JStr (cr_relation rel)), (''project_id'', JStr (cr_project rel)),
      (''relation_id'', JStr (cr_id rel)), (''source_version_id'', opt_json (cr_source_version rel)),
      (''target_version_id'', opt_json (cr_target_version rel)), (''metadata'', JObj (cr_metadata rel)),
      (''schema'', JStr (cr_schema rel))]"

definition state_json ::
    "string \<Rightarrow> string option \<Rightarrow> canonical_object list \<Rightarrow> canonical_relation list \<Rightarrow> json" where
  "state_json project run xs rels = JObj
     [(''project_id'', JStr project), (''run_id'', opt_json run), (''objects'', JList (map object_json xs)),
      (''relations'', JList (map relation_json rels))]"

definition object_row_issues :: "prims \<Rightarrow> string \<Rightarrow> nat \<times> canonical_object \<Rightarrow> validation_issue list" where
  "object_row_issues P project nx =
     validate_canonical_object P (snd nx)
     @ check (co_project (snd nx) = project) ''reference.cross_project'' (index_path ''$.objects'' (fst nx))
         ''object belongs to another project''"

definition relation_row_issues ::
    "prims \<Rightarrow> string \<Rightarrow> canonical_object list \<Rightarrow> nat \<times> canonical_relation \<Rightarrow> py_exc + validation_issue list" where
  "relation_row_issues P project xs nr =
     andthen (validate_canonical_relation P (snd nr)) (\<lambda>issues. Inr (issues
     @ check (cr_project (snd nr) = project) ''reference.cross_project'' (index_path ''$.relations'' (fst nr))
         ''relation belongs to another project''
     @ relation_endpoint_issues (snd nr) xs (index_path ''$.relations'' (fst nr))))"

definition claim_issues ::
    "canonical_object list \<Rightarrow> canonical_relation list \<Rightarrow> (string \<times> canonical_object) list \<Rightarrow> validation_issue list" where
  "claim_issues xs rels latest = concat (map (\<lambda>p. if co_kind (snd p) = ''claim''
     then validate_claim_evidence_trace (snd p) xs rels else []) (sort_key fst latest))"

definition rebuild_research_state ::
    "prims \<Rightarrow> canonical_object list \<Rightarrow> canonical_relation list \<Rightarrow> string \<Rightarrow> string option \<Rightarrow> py_exc + research_state" where
  "rebuild_research_state P xs rels project run =
     andthen (traverse (relation_row_issues P project xs) (enumerate 0 rels)) (\<lambda>rel_issues.
     let (latest, version_issues) = latest_objects xs in
     andthen (fold_result add_leading (map snd latest) []) (\<lambda>leading.
     andthen (raise_if_invalid (
         check (is_project_id (JStr project)) ''state.project_id'' ''$.project_id'' ''project_id is not valid''
       @ concat (map (object_row_issues P project) (enumerate 0 xs))
       @ concat rel_issues
       @ version_issues
       @ claim_issues xs rels latest
       @ check (length leading \<le> 1) ''state.multiple_leading_hypotheses'' ''$.objects''
           ''at most one leading hypothesis is allowed'')) (\<lambda>_.
     let objects = sort_objects xs; relations = sort_key cr_id rels in
     andthen (canonical_sha256 P (of_json (state_json project run objects relations))) (\<lambda>h.
     Inr \<lparr>rs_project = project, rs_run = run, rs_objects = objects, rs_relations = relations,
          rs_latest = latest, rs_leading = (case leading of [] \<Rightarrow> None | x # _ \<Rightarrow> Some x), rs_hash = h\<rparr>))))"

end
