(* ===== verification/Research_Report.thy ===== *)
theory Research_Report
  imports Research_Graph
begin

text \<open>
  The report projection of \<open>max_research/contract\<close>: \<open>ReportProjection\<close> of \<open>models.py\<close>,
  \<open>_expected_source_links\<close>, \<open>validate_report_projection\<close> and \<open>project_report\<close> of
  \<open>validator.py\<close>. The projection is a constructed one with fields of the declared types.
\<close>

section \<open>Source links\<close>

record source_link =
  sl_claim :: string
  sl_link :: string
  sl_evidence :: string
  sl_passage :: string
  sl_document :: string
  sl_document_version :: string
  sl_project :: string
  sl_citations :: "(string \<times> json) list"

definition link_json :: "source_link \<Rightarrow> json" where
  "link_json l = JObj (
     [(''claim_id'', JStr (sl_claim l)), (''evidence_link_id'', JStr (sl_link l)), (''evidence_id'', JStr (sl_evidence l)),
      (''passage_id'', JStr (sl_passage l)), (''document_version_id'', JStr (sl_document l)),
      (''document_version_version_id'', JStr (sl_document_version l)), (''project_id'', JStr (sl_project l))]
     @ sl_citations l)"

definition citations_of :: "canonical_object \<Rightarrow> (string \<times> json) list" where
  "citations_of e = concat (map (\<lambda>k. case map_of (co_payload e) k of None \<Rightarrow> [] | Some j \<Rightarrow> [(k, j)])
     [''citation_id'', ''citation_locator''])"

definition source_link_of ::
    "string \<Rightarrow> string \<Rightarrow> canonical_object \<Rightarrow> canonical_object \<Rightarrow> canonical_object \<Rightarrow> canonical_object \<Rightarrow> source_link" where
  "source_link_of project cid link e p d =
     \<lparr>sl_claim = cid, sl_link = co_stable link, sl_evidence = co_stable e, sl_passage = co_stable p,
      sl_document = co_stable d, sl_document_version = co_version_id d, sl_project = project,
      sl_citations = citations_of e\<rparr>"

text \<open>The targets of the relations \<open>name\<close> of \<open>x\<close> that are objects of kind \<open>kind\<close>.\<close>

definition targets_of ::
    "canonical_object list \<Rightarrow> canonical_relation list \<Rightarrow> canonical_object \<Rightarrow> string \<Rightarrow> string \<Rightarrow> canonical_object list" where
  "targets_of xs rels x name kind =
     concat (map (\<lambda>rel. case relation_target xs rel of
        Some y \<Rightarrow> if co_kind y = kind then [y] else [] | None \<Rightarrow> []) (live_relations x rels name))"

definition report_links :: "research_state \<Rightarrow> canonical_object \<Rightarrow> string list" where
  "report_links st claim = sorted_set (payload_ids (co_payload claim) link_keys
     @ concat (map (\<lambda>rel. case relation_target (rs_objects st) rel of Some y \<Rightarrow> [co_stable y] | None \<Rightarrow> [])
         (live_relations claim (rs_relations st) ''has_evidence_link'')))"

definition links_of_claim :: "research_state \<Rightarrow> string \<Rightarrow> source_link list" where
  "links_of_claim st cid =
     (case map_of (rs_latest st) cid of
        None \<Rightarrow> []
      | Some claim \<Rightarrow>
          concat (map (\<lambda>lid. case resolve_object (rs_objects st) lid of
              None \<Rightarrow> []
            | Some link \<Rightarrow>
                if co_kind link \<noteq> ''evidence_link'' then []
                else concat (map (\<lambda>e. concat (map (\<lambda>p. map (\<lambda>d. source_link_of (rs_project st) cid link e p d)
                       (targets_of (rs_objects st) (rs_relations st) p ''located_in'' ''document_version''))
                     (targets_of (rs_objects st) (rs_relations st) e ''derived_from'' ''passage'')))
                   (targets_of (rs_objects st) (rs_relations st) link ''links_evidence'' ''evidence'')))
            (report_links st claim)))"

text \<open>\<open>sorted\<close> by a tuple of five identifiers: stable sorts, the last key first.\<close>

definition expected_source_links :: "research_state \<Rightarrow> string list \<Rightarrow> source_link list" where
  "expected_source_links st cids =
     sort_key sl_claim (sort_key sl_link (sort_key sl_evidence (sort_key sl_passage (sort_key sl_document
       (concat (map (links_of_claim st) cids))))))"

section \<open>The projection\<close>

record report_projection =
  rp_project :: string
  rp_state_hash :: string
  rp_claims :: "string list"
  rp_evidence :: "string list"
  rp_links :: "json list"
  rp_summary :: string
  rp_id :: string

definition make_report :: "prims \<Rightarrow> report_projection \<Rightarrow> py_exc + report_projection" where
  "make_report P rp =
     (if rp_id rp \<noteq> [] then Inr rp
      else andthen (canonical_sha256 P (of_json (JObj [(''project_id'', JStr (rp_project rp)),
             (''state_hash'', JStr (rp_state_hash rp)), (''claims'', JList (map JStr (sort (rp_claims rp)))),
             (''evidence'', JList (map JStr (sort (rp_evidence rp)))), (''links'', JList (rp_links rp))]))) (\<lambda>h.
           andthen (make_stable_id (VStr ''report'') (VStr (take 48 h))) (\<lambda>rid. Inr (rp\<lparr>rp_id := rid\<rparr>))))"

definition report_claim_issues :: "research_state \<Rightarrow> string \<Rightarrow> validation_issue list" where
  "report_claim_issues st cid =
     (case map_of (rs_latest st) cid of
        None \<Rightarrow> [issue ''report.unknown_claim'' ''$.claim_ids'' (''claim '' @ cid @ '' is not in Research State'')]
      | Some claim \<Rightarrow>
          check (is_final_claim claim) ''report.claim_status'' (''$.claim_ids['' @ cid @ '']'')
            ''final report claims require an explicit final/accepted status''
          @ validate_claim_evidence_trace claim (rs_objects st) (rs_relations st))"

definition report_link_issues :: "research_state \<Rightarrow> nat \<times> source_link \<Rightarrow> validation_issue list" where
  "report_link_issues st nl =
     (case by_identity (rs_objects st) (sl_evidence (snd nl)) of
        None \<Rightarrow> []
      | Some e \<Rightarrow>
          check (is_final_evidence e) ''report.evidence_eligibility'' (index_path ''$.source_links'' (fst nl))
            ''final report may project only verified, accepted, or exact-quote-verified Evidence''
          @ check (is_stable_id (payload_get e ''verification_record_id'') (Some ''verification_record''))
              ''report.verification_record'' (index_path ''$.source_links'' (fst nl))
              ''final report evidence must bind a canonical verification record'')"

definition validate_report_projection ::
    "prims \<Rightarrow> report_projection \<Rightarrow> research_state \<Rightarrow> py_exc + validation_result" where
  "validate_report_projection P rp st =
     (let links = expected_source_links st (rp_claims rp) in
      andthen (canonical_sha256 P (of_json (JList (rp_links rp)))) (\<lambda>given.
      andthen (canonical_sha256 P (of_json (JList (map link_json links)))) (\<lambda>expected. Inr (
        check (rp_project rp = rs_project st) ''report.cross_project'' ''$.project_id''
          ''report projection is outside state project''
      @ check (rp_state_hash rp = rs_hash st) ''report.state_hash'' ''$.state_hash''
          ''report projection does not identify this Research State''
      @ id_sequence (map JStr (rp_claims rp)) ''$.claim_ids'' (Some ''claim'') True
      @ id_sequence (map JStr (rp_evidence rp)) ''$.evidence_ids'' (Some ''evidence'') False
      @ concat (map (report_claim_issues st) (rp_claims rp))
      @ check (set (rp_evidence rp) = sl_evidence ` set links) ''report.evidence_projection'' ''$.evidence_ids''
          ''report evidence set differs from exact canonical claim trace''
      @ concat (map (report_link_issues st) (enumerate 0 links))
      @ check (given = expected) ''report.source_links'' ''$.source_links''
          ''report source_links are fabricated, incomplete, or not the exact canonical projection''
      @ check (is_stable_id (JStr (rp_id rp)) (Some ''report'')) ''report.id'' ''$.report_id''
          ''report_id must be a stable report ID''))))"

definition selected_claim :: "research_state \<Rightarrow> string \<Rightarrow> py_exc + unit" where
  "selected_claim st cid =
     andthen (from_option (contract_error (''report claim '' @ cid @ '' is not in Research State''))
       (map_of (rs_latest st) cid)) (\<lambda>claim.
     andthen (require (is_final_claim claim) (contract_error (''report claim '' @ cid @ '' is not final/accepted''))) (\<lambda>_.
     andthen (raise_if_invalid (validate_claim_evidence_trace claim (rs_objects st) (rs_relations st))) (\<lambda>_. Inr ())))"

definition project_report ::
    "prims \<Rightarrow> research_state \<Rightarrow> string list option \<Rightarrow> string \<Rightarrow> py_exc + report_projection" where
  "project_report P st claim_ids summary =
     (let selected = (case claim_ids of Some cids \<Rightarrow> cids
        | None \<Rightarrow> sort (map fst (filter (\<lambda>p. co_kind (snd p) = ''claim'') (rs_latest st))))
      in andthen (require (selected \<noteq> []) (contract_error ''report must contain at least one canonical claim'')) (\<lambda>_.
         andthen (traverse (selected_claim st) selected) (\<lambda>_.
         let links = expected_source_links st selected in
         andthen (make_report P \<lparr>rp_project = rs_project st, rp_state_hash = rs_hash st, rp_claims = selected,
             rp_evidence = sorted_set (map sl_evidence links), rp_links = map link_json links,
             rp_summary = summary, rp_id = []\<rparr>) (\<lambda>rp.
         andthen (andthen (validate_report_projection P rp st) raise_if_invalid) (\<lambda>_. Inr rp)))))"

end
