(* ===== verification/Research_Discussion.thy ===== *)
theory Research_Discussion
  imports Research_Graph
begin

text \<open>
  Discussion sessions of \<open>max_research/contract\<close>: the record types of \<open>models.py\<close> from
  \<open>RolePosition\<close> to \<open>DiscussionSession\<close>, \<open>_validity_audit\<close> and \<open>validate_discussion_session\<close> of
  \<open>validator.py\<close>, for constructed sessions with fields of the declared types.
\<close>

section \<open>Types\<close>

record role_position =
  po_role :: string
  po_position :: string
  po_claims :: "string list"
  po_evidence :: "string list"
  po_rationale :: string

record role_packet =
  dk_project :: string
  dk_run :: string
  dk_state_hash :: string
  dk_target :: string
  dk_role :: string
  dk_allowed :: "string list"
  dk_model :: string
  dk_inference :: string
  dk_forbidden :: "string list"
  dk_sees_others :: bool
  dk_id :: string

record cross_examination =
  ce_examiner :: string
  ce_respondent :: string
  ce_question :: string
  ce_answer :: string
  ce_claims :: "string list"

record correction_position =
  cp_role :: string
  cp_correction :: string
  cp_claims :: "string list"

record validity_audit =
  va_auditor :: string
  va_passed :: bool
  va_findings :: "string list"
  va_claims :: "string list"
  va_facts :: "bool option"
  va_normative :: "bool option"
  va_expression :: "bool option"
  va_fidelity :: "bool option"
  va_rationale :: string

record minority_report =
  mr_role :: string
  mr_position :: string
  mr_reason :: string
  mr_claims :: "string list"
  mr_id :: string

record adjudication =
  ad_value :: string
  ad_rationale :: string
  ad_rivals :: "string list"
  ad_evidence :: "string list"
  ad_reports :: "string list"
  ad_role :: string

record discussion_session =
  ds_project :: string
  ds_run :: string
  ds_target :: string
  ds_positions :: "role_position list"
  ds_examinations :: "cross_examination list"
  ds_corrections :: "correction_position list"
  ds_audits :: "validity_audit list"
  ds_adjudication :: "adjudication option"
  ds_minority :: "minority_report list"
  ds_id :: string
  ds_state_hash :: string
  ds_model :: string
  ds_inference :: string
  ds_packets :: "role_packet list"
  ds_schema :: string

definition adjudication_values :: "string list" where
  "adjudication_values = [''reasoned_consensus'', ''qualified_consensus'', ''reasoned_dissensus'', ''underdetermined'',
     ''rejected'']"

text \<open>\<open>__post_init__\<close>: missing identifiers are computed.\<close>

definition make_packet :: "prims \<Rightarrow> role_packet \<Rightarrow> py_exc + role_packet" where
  "make_packet P k =
     (if dk_id k \<noteq> [] then Inr k
      else andthen (make_event_id P (VStr ''role_packet'') (VStr (dk_project k)) (of_json (JObj
             [(''run_id'', JStr (dk_run k)), (''state_hash'', JStr (dk_state_hash k)), (''target_id'', JStr (dk_target k)),
              (''role'', JStr (dk_role k)), (''allowed'', strings_json (sort (dk_allowed k))),
              (''model'', JStr (dk_model k)), (''inference'', JStr (dk_inference k))])))
           (\<lambda>i. Inr (k\<lparr>dk_id := i\<rparr>)))"

definition make_minority :: "prims \<Rightarrow> minority_report \<Rightarrow> py_exc + minority_report" where
  "make_minority P m =
     (if mr_id m \<noteq> [] then Inr m
      else andthen (canonical_sha256 P (of_json (JObj
             [(''role'', JStr (mr_role m)), (''position'', JStr (mr_position m)), (''reason'', JStr (mr_reason m)),
              (''claims'', strings_json (sort (mr_claims m)))]))) (\<lambda>h.
           andthen (make_stable_id (VStr ''report'') (VStr (take 48 h))) (\<lambda>i. Inr (m\<lparr>mr_id := i\<rparr>))))"

definition make_session :: "prims \<Rightarrow> discussion_session \<Rightarrow> py_exc + discussion_session" where
  "make_session P d =
     (if ds_id d \<noteq> [] then Inr d
      else andthen (make_event_id P (VStr ''discussion_session'') (VStr (ds_project d)) (of_json (JObj
             [(''run_id'', JStr (ds_run d)), (''target_id'', JStr (ds_target d)), (''state_hash'', JStr (ds_state_hash d)),
              (''roles'', strings_json (sort (map po_role (ds_positions d))))]))) (\<lambda>i. Inr (d\<lparr>ds_id := i\<rparr>)))"

section \<open>JSON\<close>

definition opt_bool_json :: "bool option \<Rightarrow> json" where
  "opt_bool_json m = (case m of None \<Rightarrow> JNull | Some b \<Rightarrow> JBool b)"

definition position_json :: "role_position \<Rightarrow> json" where
  "position_json p = JObj
     [(''role'', JStr (po_role p)), (''position'', JStr (po_position p)),
      (''canonical_claim_ids'', strings_json (po_claims p)), (''canonical_evidence_ids'', strings_json (po_evidence p)),
      (''rationale'', JStr (po_rationale p))]"

definition packet_json :: "role_packet \<Rightarrow> json" where
  "packet_json k = JObj
     [(''project_id'', JStr (dk_project k)), (''run_id'', JStr (dk_run k)), (''state_hash'', JStr (dk_state_hash k)),
      (''target_id'', JStr (dk_target k)), (''role'', JStr (dk_role k)),
      (''allowed_canonical_ids'', strings_json (dk_allowed k)), (''model_identity'', JStr (dk_model k)),
      (''inference_profile_hash'', JStr (dk_inference k)), (''forbidden_output_ids'', strings_json (dk_forbidden k)),
      (''sees_other_role_outputs'', JBool (dk_sees_others k)), (''packet_id'', JStr (dk_id k))]"

definition examination_json :: "cross_examination \<Rightarrow> json" where
  "examination_json x = JObj
     [(''examiner_role'', JStr (ce_examiner x)), (''respondent_role'', JStr (ce_respondent x)),
      (''question'', JStr (ce_question x)), (''answer'', JStr (ce_answer x)),
      (''challenged_claim_ids'', strings_json (ce_claims x))]"

definition correction_json :: "correction_position \<Rightarrow> json" where
  "correction_json c = JObj
     [(''role'', JStr (cp_role c)), (''correction'', JStr (cp_correction c)),
      (''corrected_claim_ids'', strings_json (cp_claims c))]"

definition audit_json :: "validity_audit \<Rightarrow> json" where
  "audit_json a = JObj
     [(''auditor_role'', JStr (va_auditor a)), (''passed'', JBool (va_passed a)),
      (''findings'', strings_json (va_findings a)), (''audited_claim_ids'', strings_json (va_claims a)),
      (''facts_evidence_true'', opt_bool_json (va_facts a)), (''normative_valid'', opt_bool_json (va_normative a)),
      (''expression_clear'', opt_bool_json (va_expression a)), (''role_fidelity'', opt_bool_json (va_fidelity a)),
      (''rationale'', JStr (va_rationale a))]"

definition minority_json :: "minority_report \<Rightarrow> json" where
  "minority_json m = JObj
     [(''role'', JStr (mr_role m)), (''position'', JStr (mr_position m)), (''preserved_reason'', JStr (mr_reason m)),
      (''canonical_claim_ids'', strings_json (mr_claims m)), (''report_id'', JStr (mr_id m))]"

definition adjudication_json :: "adjudication \<Rightarrow> json" where
  "adjudication_json a = JObj
     [(''value'', JStr (ad_value a)), (''rationale'', JStr (ad_rationale a)), (''rival_ids'', strings_json (ad_rivals a)),
      (''canonical_evidence_ids'', strings_json (ad_evidence a)), (''minority_report_ids'', strings_json (ad_reports a)),
      (''adjudicator_role'', JStr (ad_role a))]"

definition session_json :: "discussion_session \<Rightarrow> json" where
  "session_json d = JObj
     [(''project_id'', JStr (ds_project d)), (''run_id'', JStr (ds_run d)), (''target_id'', JStr (ds_target d)),
      (''independent_positions'', JList (map position_json (ds_positions d))),
      (''cross_examinations'', JList (map examination_json (ds_examinations d))),
      (''corrections'', JList (map correction_json (ds_corrections d))),
      (''validity_audits'', JList (map audit_json (ds_audits d))),
      (''adjudication'', (case ds_adjudication d of None \<Rightarrow> JNull | Some a \<Rightarrow> adjudication_json a)),
      (''minority_reports'', JList (map minority_json (ds_minority d))), (''session_id'', JStr (ds_id d)),
      (''state_hash'', JStr (ds_state_hash d)), (''model_identity'', JStr (ds_model d)),
      (''inference_profile_hash'', JStr (ds_inference d)), (''role_packets'', JList (map packet_json (ds_packets d))),
      (''schema'', JStr (ds_schema d))]"

section \<open>The session by itself\<close>

definition text_issues :: "(string \<times> string) list \<Rightarrow> string \<Rightarrow> validation_issue list" where
  "text_issues texts code = concat (map (\<lambda>(path, s). required_text (nonblank s) path code) texts)"

text \<open>\<open>path[n]\<close> for every element of a list.\<close>

definition indexed :: "(string \<Rightarrow> 'a \<Rightarrow> validation_issue list) \<Rightarrow> string \<Rightarrow> 'a list \<Rightarrow> validation_issue list" where
  "indexed f path xs = concat (map (\<lambda>(n, x). f (index_path path n) x) (enumerate 0 xs))"

definition audit_dimensions :: "validity_audit \<Rightarrow> (string \<times> bool option) list" where
  "audit_dimensions a = [(''facts_evidence_true'', va_facts a), (''normative_valid'', va_normative a),
     (''expression_clear'', va_expression a), (''role_fidelity'', va_fidelity a)]"

definition audit_issues :: "string \<Rightarrow> validity_audit \<Rightarrow> validation_issue list" where
  "audit_issues path a =
     (let dims = map snd (audit_dimensions a) in
        required_text (nonblank (va_auditor a)) (path @ ''.auditor_role'') ''discussion.auditor_required''
      @ concat (map (\<lambda>(name, v). check (v \<noteq> None) ''discussion.audit_dimension_required'' (path @ ''.'' @ name)
          ''validity audit must record every required dimension'') (audit_dimensions a))
      @ check (\<not> (None \<notin> set dims \<and> va_passed a \<noteq> (set dims \<subseteq> {Some True}))) ''discussion.audit_passed_mismatch''
          (path @ ''.passed'') ''ValidityAudit.passed must equal the conjunction of all required dimensions''
      @ check (va_passed a) ''discussion.audit_failed'' path ''a failed validity audit blocks adjudication''
      @ check (va_findings a \<noteq> [] \<or> nonblank (va_rationale a)) ''discussion.audit_rationale'' path
          ''validity audit requires findings or rationale'')"

definition position_issues :: "string \<Rightarrow> role_position \<Rightarrow> validation_issue list" where
  "position_issues path p =
     required_text (nonblank (po_role p)) (path @ ''.role'') ''discussion.role_required''
   @ required_text (nonblank (po_position p)) (path @ ''.position'') ''discussion.position_required''
   @ id_sequence (map JStr (po_claims p)) (path @ ''.canonical_claim_ids'') (Some ''claim'') False
   @ id_sequence (map JStr (po_evidence p)) (path @ ''.canonical_evidence_ids'') (Some ''evidence'') False"

definition packet_issues :: "discussion_session \<Rightarrow> string \<Rightarrow> role_packet \<Rightarrow> validation_issue list" where
  "packet_issues d path k =
     concat (map (\<lambda>(name, ok). check ok ''discussion.packet_binding'' (path @ ''.'' @ name)
         ''role packet is not bound to this session'')
       [(''project_id'', dk_project k = ds_project d), (''run_id'', dk_run k = ds_run d),
        (''state_hash'', dk_state_hash k = ds_state_hash d), (''target_id'', dk_target k = ds_target d),
        (''model_identity'', dk_model k = ds_model d), (''inference_profile_hash'', dk_inference k = ds_inference d)])
   @ check (dk_role k \<in> po_role ` set (ds_positions d)) ''discussion.packet_role'' (path @ ''.role'')
       ''role packet role has no independent position''
   @ check (\<not> dk_sees_others k) ''discussion.role_contamination'' (path @ ''.sees_other_role_outputs'')
       ''role packet must not see another role's output''
   @ id_sequence (map JStr (dk_allowed k)) (path @ ''.allowed_canonical_ids'') None False
   @ id_sequence (map JStr (dk_forbidden k)) (path @ ''.forbidden_output_ids'') None False
   @ check (set (dk_forbidden k) \<inter> set (dk_allowed k) = {}) ''discussion.packet_forbidden_overlap'' path
       ''forbidden outputs may not be in the allowed packet''"

definition examination_issues :: "discussion_session \<Rightarrow> string \<Rightarrow> cross_examination \<Rightarrow> validation_issue list" where
  "examination_issues d path x =
     check (ce_examiner x \<noteq> ce_respondent x) ''discussion.same_role_cross_exam'' path
       ''cross-examination must involve distinct roles''
   @ check ({ce_examiner x, ce_respondent x} \<subseteq> po_role ` set (ds_positions d)) ''discussion.cross_exam_role'' path
       ''cross-examination roles must be independent roles''
   @ required_text (nonblank (ce_question x)) (path @ ''.question'') ''discussion.question_required''
   @ required_text (nonblank (ce_answer x)) (path @ ''.answer'') ''discussion.answer_required''
   @ id_sequence (map JStr (ce_claims x)) (path @ ''.challenged_claim_ids'') (Some ''claim'') False"

definition adjudication_issues :: "discussion_session \<Rightarrow> validation_issue list" where
  "adjudication_issues d =
     (case ds_adjudication d of
        None \<Rightarrow> [issue ''discussion.adjudication_required'' ''$.adjudication'' ''session requires an adjudication record'']
      | Some a \<Rightarrow>
          check (ad_value a \<in> set adjudication_values) ''discussion.adjudication_value'' ''$.adjudication.value''
            ''invalid adjudication value''
        @ required_text (nonblank (ad_rationale a)) ''$.adjudication.rationale'' ''discussion.rationale_required''
        @ id_sequence (map JStr (ad_rivals a)) ''$.adjudication.rival_ids'' None True
        @ id_sequence (map JStr (ad_evidence a)) ''$.adjudication.canonical_evidence_ids'' (Some ''evidence'') True
        @ check (\<not> (ad_value a = ''reasoned_dissensus'' \<and> ds_minority d = [])) ''discussion.minority_missing''
            ''$.minority_reports'' ''reasoned dissensus must preserve a minority report''
        @ check (mr_id ` set (ds_minority d) = set (ad_reports a)) ''discussion.minority_id_binding''
            ''$.adjudication.minority_report_ids'' ''adjudication must reference the actual minority report IDs exactly'')"

definition session_issues :: "discussion_session \<Rightarrow> validation_issue list" where
  "session_issues d =
     (let roles = map po_role (ds_positions d) in
        check (is_project_id (JStr (ds_project d))) ''discussion.project_id'' ''$.project_id'' ''project_id is not valid''
      @ text_issues [(''$.run_id'', ds_run d), (''$.state_hash'', ds_state_hash d), (''$.model_identity'', ds_model d),
          (''$.inference_profile_hash'', ds_inference d)] ''discussion.binding_required''
      @ check (is_stable_id (JStr (ds_target d)) None) ''discussion.target_id'' ''$.target_id'' ''target_id must be stable''
      @ check (2 \<le> length (remdups roles)) ''discussion.independent_positions'' ''$.independent_positions''
          ''session requires at least two distinct independent roles''
      @ check (length (ds_packets d) = length (ds_positions d)) ''discussion.role_packet_count'' ''$.role_packets''
          ''one isolated role packet is required for each position''
      @ indexed position_issues ''$.independent_positions'' (ds_positions d)
      @ indexed (packet_issues d) ''$.role_packets'' (ds_packets d)
      @ check (dk_role ` set (ds_packets d) = set roles) ''discussion.packet_roles'' ''$.role_packets''
          ''role packets must cover the independent roles exactly''
      @ check (ds_examinations d \<noteq> []) ''discussion.cross_examination_required'' ''$.cross_examinations''
          ''a real rival must cross-examine the leading position''
      @ indexed (examination_issues d) ''$.cross_examinations'' (ds_examinations d)
      @ adjudication_issues d
      @ check (ds_audits d \<noteq> []) ''discussion.validity_audit_required'' ''$.validity_audits''
          ''session requires a validity audit''
      @ indexed audit_issues ''$.validity_audits'' (ds_audits d))"

section \<open>The session against a research state\<close>

definition known_ref :: "research_state \<Rightarrow> string \<Rightarrow> bool" where
  "known_ref st i \<longleftrightarrow> i \<in> fst ` set (rs_latest st) \<or> i \<in> co_version_id ` snd ` set (rs_latest st)"

definition check_ids :: "research_state \<Rightarrow> string list \<Rightarrow> string \<Rightarrow> validation_issue list" where
  "check_ids st ids path = indexed (\<lambda>p i. check (known_ref st i) ''discussion.state_reference'' p
     ''discussion reference is not a canonical object/version in the supplied Research State'') path ids"

definition state_issues :: "discussion_session \<Rightarrow> research_state \<Rightarrow> validation_issue list" where
  "state_issues d st =
     check (ds_project d = rs_project st) ''discussion.state_project'' ''$.project_id''
       ''discussion session is outside the supplied Research State''
   @ check (ds_run d = (case rs_run st of None \<Rightarrow> [] | Some r \<Rightarrow> r)) ''discussion.state_run'' ''$.run_id''
       ''discussion session run is outside the supplied Research State''
   @ check (ds_state_hash d = rs_hash st) ''discussion.state_hash'' ''$.state_hash''
       ''discussion session must bind the supplied Research State''
   @ check (ds_target d \<in> fst ` set (rs_latest st)) ''discussion.state_target'' ''$.target_id''
       ''discussion target is not in the supplied Research State''
   @ indexed (\<lambda>path p. check_ids st (po_claims p) (path @ ''.canonical_claim_ids'')
       @ check_ids st (po_evidence p) (path @ ''.canonical_evidence_ids'')) ''$.independent_positions'' (ds_positions d)
   @ indexed (\<lambda>path k. check_ids st (dk_allowed k) (path @ ''.allowed_canonical_ids'')
       @ check_ids st (dk_forbidden k) (path @ ''.forbidden_output_ids'')
       @ check (known_ref st (dk_target k)) ''discussion.packet_target_state'' (path @ ''.target_id'')
           ''role packet target is not in the supplied Research State'') ''$.role_packets'' (ds_packets d)
   @ indexed (\<lambda>path x. check_ids st (ce_claims x) (path @ ''.challenged_claim_ids''))
       ''$.cross_examinations'' (ds_examinations d)
   @ (case ds_adjudication d of None \<Rightarrow> []
      | Some a \<Rightarrow> check_ids st (ad_rivals a) ''$.adjudication.rival_ids''
          @ check_ids st (ad_evidence a) ''$.adjudication.canonical_evidence_ids'')
   @ indexed (\<lambda>path m. check_ids st (mr_claims m) (path @ ''.canonical_claim_ids'')) ''$.minority_reports'' (ds_minority d)"

definition validate_discussion_session :: "discussion_session \<Rightarrow> research_state option \<Rightarrow> validation_result" where
  "validate_discussion_session d st =
     session_issues d @ (case st of None \<Rightarrow> [] | Some s \<Rightarrow> state_issues d s)"

end
