(* ===== verification/Research_Review.thy ===== *)
theory Research_Review
  imports Research_Report Research_Discussion
begin

text \<open>
  Cold review of \<open>max_research/contract\<close>: \<open>ColdReviewPacket\<close> and \<open>ColdReviewResult\<close> of
  \<open>models.py\<close>, \<open>validate_cold_review_packet\<close> and \<open>validate_cold_review_result\<close> of
  \<open>validator.py\<close>, for constructed values with fields of the declared types.
\<close>

record cold_packet =
  cw_project :: string
  cw_run :: string
  cw_state_hash :: string
  cw_charter :: string
  cw_claims :: "string list"
  cw_evidence :: "string list"
  cw_links :: "json list"
  cw_report :: string
  cw_excluded :: "string list"
  cw_id :: string
  cw_schema :: string
  cw_hash :: string

record cold_result =
  cr_packet_id :: string
  cr_packet_hash :: string
  cr_res_project :: string
  cr_run :: string
  cr_charter :: string
  cr_state_hash :: string
  cr_report :: string
  cr_model :: string
  cr_inference :: string
  cr_passed :: bool
  cr_blocking :: "string list"
  cr_claim_audit :: "(string \<times> json) list"
  cr_evidence_audit :: "(string \<times> json) list"
  cr_citation_audit :: "(string \<times> json) list"
  cr_evaluated :: stamp
  cr_result_id :: string
  cr_res_schema :: string

definition required_exclusions :: "string list" where
  "required_exclusions = [''working_summary'', ''recent_summaries'', ''working_interpretation'', ''search_history'',
     ''search_history_narrative'', ''role_discussion_history'']"

text \<open>The payload the packet's identifier and hash are made of.\<close>

definition packet_payload :: "cold_packet \<Rightarrow> json" where
  "packet_payload k = JObj
     [(''project_id'', JStr (cw_project k)), (''run_id'', JStr (cw_run k)), (''state_hash'', JStr (cw_state_hash k)),
      (''charter_hash'', JStr (cw_charter k)), (''final_claim_ids'', strings_json (sort (cw_claims k))),
      (''evidence_ids'', strings_json (sort (cw_evidence k))), (''source_link_records'', JList (cw_links k)),
      (''report_id'', JStr (cw_report k)), (''excluded_sections'', strings_json (sort (cw_excluded k)))]"

definition packet_event_id :: "prims \<Rightarrow> cold_packet \<Rightarrow> py_exc + string" where
  "packet_event_id P k = make_event_id P (VStr ''cold_review'') (VStr (cw_project k)) (of_json (packet_payload k))"

definition make_cold_packet :: "prims \<Rightarrow> cold_packet \<Rightarrow> py_exc + cold_packet" where
  "make_cold_packet P k =
     andthen (if cw_id k \<noteq> [] then Inr (cw_id k) else packet_event_id P k) (\<lambda>i.
     andthen (if cw_hash k \<noteq> [] then Inr (cw_hash k) else canonical_sha256 P (of_json (packet_payload k))) (\<lambda>h.
     Inr (k\<lparr>cw_id := i, cw_hash := h\<rparr>)))"

definition result_event_id :: "prims \<Rightarrow> cold_result \<Rightarrow> py_exc + string" where
  "result_event_id P r = make_event_id P (VStr ''cold_review_result'') (VStr (cr_res_project r)) (of_json (JObj
     [(''packet_id'', JStr (cr_packet_id r)), (''packet_hash'', JStr (cr_packet_hash r)), (''run_id'', JStr (cr_run r)),
      (''charter_hash'', JStr (cr_charter r)), (''state_hash'', JStr (cr_state_hash r)), (''report_id'', JStr (cr_report r)),
      (''reviewer_model_identity'', JStr (cr_model r)), (''inference_profile_hash'', JStr (cr_inference r)),
      (''passed'', JBool (cr_passed r)), (''blocking_findings'', strings_json (cr_blocking r)),
      (''claim_audit'', JObj (cr_claim_audit r)), (''evidence_audit'', JObj (cr_evidence_audit r)),
      (''citation_audit'', JObj (cr_citation_audit r)), (''evaluated_at'', JStr (stamp_text P (cr_evaluated r)))]))"

definition make_cold_result :: "prims \<Rightarrow> cold_result \<Rightarrow> py_exc + cold_result" where
  "make_cold_result P r =
     (if cr_result_id r \<noteq> [] then Inr r
      else andthen (result_event_id P r) (\<lambda>i. Inr (r\<lparr>cr_result_id := i\<rparr>)))"

section \<open>The packet\<close>

definition review_claim_issues :: "research_state \<Rightarrow> string \<Rightarrow> validation_issue list" where
  "review_claim_issues st cid =
     (case map_of (rs_latest st) cid of
        None \<Rightarrow> [issue ''cold_review.claim'' ''$.final_claim_ids'' (''claim '' @ cid @ '' is not in state'')]
      | Some claim \<Rightarrow> validate_claim_evidence_trace claim (rs_objects st) (rs_relations st))"

definition validate_cold_review_packet ::
    "prims \<Rightarrow> cold_packet \<Rightarrow> research_state \<Rightarrow> string option \<Rightarrow> py_exc + validation_result" where
  "validate_cold_review_packet P k st charter =
     (let links = expected_source_links st (cw_claims k) in
      andthen (canonical_sha256 P (of_json (JList (cw_links k)))) (\<lambda>given.
      andthen (canonical_sha256 P (of_json (JList (map link_json links)))) (\<lambda>expected.
      andthen (packet_event_id P k) (\<lambda>pid.
      andthen (canonical_sha256 P (of_json (packet_payload k))) (\<lambda>ph. Inr (
        check (cw_project k = rs_project st) ''cold_review.project'' ''$.project_id'' ''cold review packet crosses project''
      @ check (Some (cw_run k) = rs_run st) ''cold_review.run'' ''$.run_id'' ''cold review packet run differs''
      @ check (cw_state_hash k = rs_hash st) ''cold_review.state'' ''$.state_hash''
          ''cold review packet must bind exact Research State''
      @ check (binds charter (cw_charter k)) ''cold_review.charter'' ''$.charter_hash'' ''cold review packet charter differs''
      @ id_sequence (map JStr (cw_claims k)) ''$.final_claim_ids'' (Some ''claim'') True
      @ id_sequence (map JStr (cw_evidence k)) ''$.evidence_ids'' (Some ''evidence'') False
      @ check (set (cw_excluded k) = set required_exclusions) ''cold_review.exclusions'' ''$.excluded_sections''
          ''cold review must exclude the complete mandatory working-context set''
      @ check (distinct (cw_excluded k)) ''cold_review.exclusion_duplicates'' ''$.excluded_sections''
          ''cold review exclusions must be unique''
      @ concat (map (review_claim_issues st) (cw_claims k))
      @ check (given = expected) ''cold_review.source_links'' ''$.source_link_records''
          ''cold review source links are not a recomputable projection''
      @ check (set (cw_evidence k) = sl_evidence ` set links) ''cold_review.evidence'' ''$.evidence_ids''
          ''cold review evidence set differs from exact claim trace''
      @ check (is_stable_id (JStr (cw_report k)) (Some ''report'')) ''cold_review.report'' ''$.report_id''
          ''report_id must be stable''
      @ check (cw_id k = pid) ''cold_review.packet_id'' ''$.packet_id'' ''packet_id is not the canonical packet identity''
      @ check (cw_hash k = ph) ''cold_review.packet_hash'' ''$.packet_hash''
          ''packet_hash is not the canonical packet input hash''))))))"

section \<open>The result\<close>

definition audit_ok :: "(string \<times> json) list \<Rightarrow> bool" where
  "audit_ok kvs \<longleftrightarrow> map_of kvs ''passed'' = Some (JBool True)"

definition result_audits :: "cold_result \<Rightarrow> (string \<times> (string \<times> json) list) list" where
  "result_audits r = [(''claim_audit'', cr_claim_audit r), (''evidence_audit'', cr_evidence_audit r),
     (''citation_audit'', cr_citation_audit r)]"

definition result_binding_issues :: "cold_result \<Rightarrow> cold_packet \<Rightarrow> research_state \<Rightarrow> validation_issue list" where
  "result_binding_issues r k st =
     concat (map (\<lambda>(name, ok). check ok ''cold_review_result.binding'' (''$.'' @ name)
         (''cold review result does not bind '' @ name))
       [(''packet_id'', cr_packet_id r = cw_id k), (''packet_hash'', cr_packet_hash r = cw_hash k),
        (''project_id'', cr_res_project r = rs_project st), (''run_id'', Some (cr_run r) = rs_run st),
        (''charter_hash'', cr_charter r = cw_charter k), (''state_hash'', cr_state_hash r = rs_hash st),
        (''report_id'', cr_report r = cw_report k)])"

definition validate_cold_review_result ::
    "prims \<Rightarrow> cold_result \<Rightarrow> cold_packet \<Rightarrow> research_state \<Rightarrow> report_projection option \<Rightarrow> string option \<Rightarrow> string option
     \<Rightarrow> py_exc + validation_result" where
  "validate_cold_review_result P r k st report model inference =
     andthen (validate_cold_review_packet P k st (Some (cw_charter k))) (\<lambda>packet.
     andthen (case report of None \<Rightarrow> Inr [] | Some rp \<Rightarrow> validate_report_projection P rp st) (\<lambda>projection.
     andthen (result_event_id P r) (\<lambda>rid. Inr (
       packet @ projection
     @ result_binding_issues r k st
     @ check (binds model (cr_model r)) ''cold_review_result.model'' ''$.reviewer_model_identity''
         ''cold review result reviewer model differs''
     @ check (binds inference (cr_inference r)) ''cold_review_result.inference'' ''$.inference_profile_hash''
         ''cold review result inference profile differs''
     @ required_text (nonblank (cr_model r)) ''$.reviewer_model_identity'' ''cold_review_result.model_required''
     @ required_text (nonblank (cr_inference r)) ''$.inference_profile_hash'' ''cold_review_result.inference_required''
     @ check (parse_time (cr_evaluated r) \<noteq> None) ''cold_review_result.timestamp'' ''$.evaluated_at''
         ''evaluated_at must be ISO-8601''
     @ concat (map (\<lambda>(name, audit). check (audit_ok audit) ''cold_review_result.audit'' (''$.'' @ name)
         ''cold review result requires a passed typed audit'') (result_audits r))
     @ check (cr_blocking r = []) ''cold_review_result.blocking'' ''$.blocking_findings''
         ''blocking cold-review findings prevent completion''
     @ check (cr_result_id r = rid) ''cold_review_result.id'' ''$.result_id''
         ''cold review result ID is not bound to all result semantics''
     @ check (cr_passed r = (cr_blocking r = [] \<and> list_all (\<lambda>p. audit_ok (snd p)) (result_audits r)))
         ''cold_review_result.passed'' ''$.passed''
         ''cold review result passed flag must be recomputable from audits and blocking findings''))))"

section \<open>JSON\<close>

definition cold_packet_json :: "cold_packet \<Rightarrow> json" where
  "cold_packet_json k = JObj
     [(''project_id'', JStr (cw_project k)), (''run_id'', JStr (cw_run k)), (''state_hash'', JStr (cw_state_hash k)),
      (''charter_hash'', JStr (cw_charter k)), (''final_claim_ids'', strings_json (cw_claims k)),
      (''evidence_ids'', strings_json (cw_evidence k)), (''source_link_records'', JList (cw_links k)),
      (''report_id'', JStr (cw_report k)), (''excluded_sections'', strings_json (cw_excluded k)),
      (''packet_id'', JStr (cw_id k)), (''schema'', JStr (cw_schema k)), (''packet_hash'', JStr (cw_hash k))]"

definition cold_result_json :: "prims \<Rightarrow> cold_result \<Rightarrow> json" where
  "cold_result_json P r = JObj
     [(''packet_id'', JStr (cr_packet_id r)), (''packet_hash'', JStr (cr_packet_hash r)),
      (''project_id'', JStr (cr_res_project r)), (''run_id'', JStr (cr_run r)), (''charter_hash'', JStr (cr_charter r)),
      (''state_hash'', JStr (cr_state_hash r)), (''report_id'', JStr (cr_report r)),
      (''reviewer_model_identity'', JStr (cr_model r)), (''inference_profile_hash'', JStr (cr_inference r)),
      (''passed'', JBool (cr_passed r)), (''blocking_findings'', strings_json (cr_blocking r)),
      (''claim_audit'', JObj (cr_claim_audit r)), (''evidence_audit'', JObj (cr_evidence_audit r)),
      (''citation_audit'', JObj (cr_citation_audit r)), (''evaluated_at'', JStr (stamp_text P (cr_evaluated r))),
      (''result_id'', JStr (cr_result_id r)), (''schema'', JStr (cr_res_schema r))]"

definition report_json :: "report_projection \<Rightarrow> json" where
  "report_json rp = JObj
     [(''project_id'', JStr (rp_project rp)), (''state_hash'', JStr (rp_state_hash rp)),
      (''claim_ids'', strings_json (rp_claims rp)), (''evidence_ids'', strings_json (rp_evidence rp)),
      (''source_links'', JList (rp_links rp)), (''summary'', JStr (rp_summary rp)), (''report_id'', JStr (rp_id rp))]"

end
