(* ===== verification/Research_Strategy.thy ===== *)
theory Research_Strategy
  imports Research_Graph
begin

text \<open>
  Search strategies and saturation of \<open>max_research/contract\<close>: \<open>SearchStrategy\<close>,
  \<open>CoverageLedger\<close>, \<open>ClaimSnapshot\<close>, \<open>EvidenceSnapshot\<close> and \<open>SaturationStatus\<close> of
  \<open>models.py\<close>, \<open>strategy_fingerprint\<close>, \<open>make_claim_snapshot\<close>, \<open>make_evidence_snapshot\<close> and
  \<open>evaluate_saturation\<close> of \<open>validator.py\<close>.

  \<open>casefold\<close> on the code points below U+0100 is \<open>lower\<close>, except that it writes the sharp s as
  \<open>ss\<close>; the micro sign, whose image is outside the range, is left as it is.
\<close>

section \<open>Types\<close>

record search_strategy =
  st_project :: string
  st_family :: string
  st_query :: string
  st_targets :: "string list"
  st_filters :: "(string \<times> json) list"
  st_results :: "string list"
  st_new_evidence :: "string list"
  st_coverage :: "string list"
  st_id :: string
  st_run :: string

record coverage_ledger =
  cl_strategies :: "search_strategy list"
  cl_required :: "string list"
  cl_allow_empty :: bool

record claim_snapshot =
  sn_claim :: string
  sn_version :: string
  sn_status :: string
  sn_hash :: string
  sn_schema :: string

record evidence_snapshot =
  es_evidence :: string
  es_version :: string
  es_status :: string
  es_hash :: string
  es_schema :: string

record saturation_status =
  sat_evidence :: bool
  sat_strategy :: bool
  sat_claim :: bool
  sat_counter :: bool
  sat_covered :: "string list"
  sat_duplicates :: "string list"
  sat_reasons :: "string list"

definition make_strategy :: "prims \<Rightarrow> search_strategy \<Rightarrow> py_exc + search_strategy" where
  "make_strategy P s =
     (if st_id s \<noteq> [] then Inr s
      else andthen (make_event_id P (VStr ''iteration'') (VStr (st_project s)) (of_json (JObj
             [(''run_id'', JStr (st_run s)), (''family'', JStr (st_family s)), (''query'', JStr (st_query s)),
              (''targets'', strings_json (sort (st_targets s))), (''filters'', JObj (st_filters s)),
              (''results'', strings_json (sort (st_results s))),
              (''new_evidence'', strings_json (sort (st_new_evidence s))),
              (''coverage'', strings_json (sort (st_coverage s)))]))) (\<lambda>i. Inr (s\<lparr>st_id := i\<rparr>)))"

section \<open>Fingerprints and snapshots\<close>

definition strategy_fingerprint :: "prims \<Rightarrow> search_strategy \<Rightarrow> py_exc + string" where
  "strategy_fingerprint P s = canonical_sha256 P (of_json (JObj
     [(''family'', JStr (casefold (strip (st_family s)))), (''query'', JStr (casefold (strip (st_query s)))),
      (''target_ids'', strings_json (sort (st_targets s))), (''filters'', JObj (st_filters s))]))"

text \<open>The status of a snapshot: explicit text, in lower case.\<close>

definition snapshot_status :: "string \<Rightarrow> canonical_object \<Rightarrow> py_exc + string" where
  "snapshot_status what x =
     (case map_of (co_payload x) ''status'' of
        Some (JStr s) \<Rightarrow> if nonblank s then Inr (lower s)
          else Inl (contract_error (what @ '' status''))
      | _ \<Rightarrow> Inl (contract_error (what @ '' status'')))"

definition snapshot_hash :: "prims \<Rightarrow> canonical_object \<Rightarrow> string \<Rightarrow> py_exc + string" where
  "snapshot_hash P x st = canonical_sha256 P (of_json (JObj
     [(''stable_id'', JStr (co_stable x)), (''version_id'', JStr (co_version_id x)), (''status'', JStr st),
      (''payload'', JObj (co_payload x))]))"

definition make_claim_snapshot :: "prims \<Rightarrow> canonical_object \<Rightarrow> py_exc + claim_snapshot" where
  "make_claim_snapshot P x =
     andthen (require (co_kind x = ''claim'') (contract_error ''claim snapshot requires a canonical Claim'')) (\<lambda>_.
     andthen (snapshot_status ''claim snapshot requires an explicit canonical claim'' x) (\<lambda>st.
     andthen (snapshot_hash P x st) (\<lambda>h. Inr
       \<lparr>sn_claim = co_stable x, sn_version = co_version_id x, sn_status = st, sn_hash = h,
        sn_schema = ''max-research-claim-snapshot/v1''\<rparr>)))"

definition make_evidence_snapshot :: "prims \<Rightarrow> canonical_object \<Rightarrow> py_exc + evidence_snapshot" where
  "make_evidence_snapshot P x =
     andthen (require (co_kind x = ''evidence'') (contract_error ''evidence snapshot requires canonical Evidence'')) (\<lambda>_.
     andthen (snapshot_status ''evidence snapshot requires an explicit canonical evidence'' x) (\<lambda>st.
     andthen (snapshot_hash P x st) (\<lambda>h. Inr
       \<lparr>es_evidence = co_stable x, es_version = co_version_id x, es_status = st, es_hash = h,
        es_schema = ''max-research-evidence-snapshot/v1''\<rparr>)))"

section \<open>evaluate_saturation\<close>

text \<open>One turn of the loop: the fingerprints seen, the first strategy of each, the duplicates.\<close>

definition note_strategy ::
    "prims \<Rightarrow> search_strategy \<Rightarrow> string list \<times> search_strategy list \<times> string list
     \<Rightarrow> py_exc + string list \<times> search_strategy list \<times> string list" where
  "note_strategy P s acc =
     (case acc of (seen, uniq, dups) \<Rightarrow>
        andthen (strategy_fingerprint P s) (\<lambda>f. Inr
          (if f \<in> set seen then (seen, uniq, dups @ [st_id s]) else (f # seen, uniq @ [s], dups))))"

text \<open>\<open>xs[-n:]\<close> for a positive \<open>n\<close>.\<close>

definition last_n :: "int \<Rightarrow> 'a list \<Rightarrow> 'a list" where
  "last_n n xs = drop (length xs - nat n) xs"

definition nothing_new :: "search_strategy list \<Rightarrow> bool" where
  "nothing_new ss \<longleftrightarrow> list_all (\<lambda>s. st_new_evidence s = []) ss"

definition counter_families :: "string list" where
  "counter_families = [''counterevidence'', ''adversarial'', ''counter'']"

definition claims_stable :: "int \<Rightarrow> string list \<Rightarrow> bool" where
  "claims_stable rounds hashes \<longleftrightarrow>
     rounds \<le> int (length hashes) \<and> length (remdups (last_n rounds hashes)) = 1"

definition saturation_reasons :: "string list \<Rightarrow> bool \<Rightarrow> bool \<Rightarrow> bool \<Rightarrow> bool \<Rightarrow> string list" where
  "saturation_reasons dups strategy evidence counter claim =
     (if dups \<noteq> [] then [''duplicate strategies do not count toward strategy saturation''] else [])
   @ (if \<not> strategy then [''required strategy families are not covered or empty strategy families were not charter-authorized''] else [])
   @ (if \<not> evidence then [''recent strategy rounds still add evidence or evidence saturation has no canonical snapshot''] else [])
   @ (if \<not> counter then [''counterevidence is not saturated''] else [])
   @ (if \<not> claim then [''claim meaning/status has not remained stable for the required rounds''] else [])"

definition evaluate_saturation ::
    "prims \<Rightarrow> coverage_ledger \<Rightarrow> claim_snapshot list \<Rightarrow> evidence_snapshot list \<Rightarrow> int \<Rightarrow> int
     \<Rightarrow> evidence_snapshot list \<Rightarrow> py_exc + saturation_status" where
  "evaluate_saturation P ledger claims evidence evidence_window claim_rounds counters =
     andthen (fold_result (note_strategy P) (cl_strategies ledger) ([], [], [])) (\<lambda>(seen, uniq, dups).
     let required = set (cl_required ledger); covered = map st_family uniq;
         strategy = (required = {} \<and> cl_allow_empty ledger) \<or> (required \<noteq> {} \<and> required \<subseteq> set covered);
         window = max 1 evidence_window;
         saturated = window \<le> int (length uniq) \<and> nothing_new (last_n window uniq) \<and> evidence \<noteq> [];
         counter = filter (\<lambda>s. casefold (st_family s) \<in> set counter_families) uniq;
         countered = counter \<noteq> [] \<and> nothing_new (last_n window counter) \<and> counters \<noteq> [];
         stable = claims_stable (max 1 claim_rounds) (map sn_hash claims)
     in Inr \<lparr>sat_evidence = saturated, sat_strategy = strategy, sat_claim = stable, sat_counter = countered,
             sat_covered = sorted_set covered, sat_duplicates = sort dups,
             sat_reasons = saturation_reasons dups strategy saturated countered stable\<rparr>)"

end
