(* ===== verification/Research_Checkpoint.thy ===== *)
theory Research_Checkpoint
  imports Research_Graph
begin

text \<open>
  Checkpoints of \<open>max_research/contract\<close>: \<open>WorkingState\<close>, \<open>Checkpoint\<close> and
  \<open>RehydrationPolicy\<close> of \<open>models.py\<close>, \<open>_scan_formal_content\<close>, \<open>validate_checkpoint\<close>,
  \<open>validate_checkpoint_lineage\<close> and \<open>should_rehydrate\<close> of \<open>validator.py\<close>, for constructed
  checkpoints with fields of the declared types.
\<close>

section \<open>Types\<close>

record working_state =
  ws_project :: string
  ws_run :: string
  ws_iteration :: int
  ws_budget :: "(string \<times> json) list"
  ws_objects :: "string list"
  ws_claims :: "string list"
  ws_evidence :: "string list"
  ws_leading :: "string option"
  ws_strategies :: "string list"
  ws_pending :: "string list"
  ws_issues :: "string list"
  ws_summary :: string
  ws_schema :: string

record checkpoint =
  ck_project :: string
  ck_run :: string
  ck_working :: working_state
  ck_budget :: "(string \<times> json) list"
  ck_iteration :: int
  ck_ids :: "string list"
  ck_id :: string
  ck_supersedes :: "string option"
  ck_created :: "string option"
  ck_version :: int
  ck_extension :: "string list"
  ck_schema :: string

definition working_json :: "working_state \<Rightarrow> json" where
  "working_json w = JObj
     [(''project_id'', JStr (ws_project w)), (''run_id'', JStr (ws_run w)), (''iteration_index'', JInt (ws_iteration w)),
      (''budget_remaining'', JObj (ws_budget w)), (''canonical_object_ids'', strings_json (ws_objects w)),
      (''claim_ids'', strings_json (ws_claims w)), (''evidence_ids'', strings_json (ws_evidence w)),
      (''active_leading_hypothesis_id'', opt_json (ws_leading w)),
      (''search_strategy_ids'', strings_json (ws_strategies w)), (''pending_questions'', strings_json (ws_pending w)),
      (''unresolved_issue_ids'', strings_json (ws_issues w)), (''summary'', JStr (ws_summary w)),
      (''schema'', JStr (ws_schema w))]"

definition checkpoint_json :: "checkpoint \<Rightarrow> json" where
  "checkpoint_json c = JObj
     [(''project_id'', JStr (ck_project c)), (''run_id'', JStr (ck_run c)), (''working_state'', working_json (ck_working c)),
      (''budget'', JObj (ck_budget c)), (''iteration_pointer'', JInt (ck_iteration c)),
      (''canonical_ids'', strings_json (ck_ids c)), (''checkpoint_id'', JStr (ck_id c)),
      (''supersedes_item_id'', opt_json (ck_supersedes c)), (''created_at'', opt_json (ck_created c)),
      (''checkpoint_version'', JInt (ck_version c)), (''frontier_extension_ids'', strings_json (ck_extension c)),
      (''schema'', JStr (ck_schema c))]"

text \<open>\<open>__post_init__\<close>: a missing identifier is computed.\<close>

definition make_checkpoint :: "prims \<Rightarrow> checkpoint \<Rightarrow> py_exc + checkpoint" where
  "make_checkpoint P c =
     (if ck_id c \<noteq> [] then Inr c
      else andthen (make_event_id P (VStr ''checkpoint'') (VStr (ck_project c)) (of_json (JObj
             [(''run_id'', JStr (ck_run c)), (''iteration'', JInt (ck_iteration c)),
              (''canonical_ids'', strings_json (sort (ck_ids c)))]))) (\<lambda>cid. Inr (c\<lparr>ck_id := cid\<rparr>)))"

section \<open>Formal content\<close>

definition formal_content_keys :: "string list" where
  "formal_content_keys = [''claim'', ''claims'', ''evidence'', ''evidences'', ''formal_claim'', ''formal_claims'',
     ''formal_evidence'', ''formal_evidences'', ''claim_payload'', ''claim_payloads'', ''evidence_payload'',
     ''evidence_payloads'', ''working_interpretation'']"

fun embeds :: "json \<Rightarrow> bool" where
  "embeds (JObj kvs) = (kvs \<noteq> [])"
| "embeds (JList js) = (js \<noteq> [])"
| "embeds j = False"

fun scan_formal :: "string \<Rightarrow> json \<Rightarrow> validation_issue list"
  and scan_fields :: "string \<Rightarrow> (string \<times> json) list \<Rightarrow> validation_issue list"
  and scan_items :: "string \<Rightarrow> nat \<Rightarrow> json list \<Rightarrow> validation_issue list" where
  "scan_formal path (JObj kvs) = scan_fields path kvs"
| "scan_formal path (JList js) = scan_items path 0 js"
| "scan_formal path j = []"
| "scan_fields path [] = []"
| "scan_fields path ((k, j) # kvs) =
     check (\<not> (lower k \<in> set formal_content_keys \<and> embeds j)) ''checkpoint.formal_content_embedded'' (path @ ''.'' @ k)
       ''checkpoint may contain only canonical IDs, not formal Claim/Evidence payloads''
     @ scan_formal (path @ ''.'' @ k) j @ scan_fields path kvs"
| "scan_items path n [] = []"
| "scan_items path n (j # js) = scan_formal (index_path path n) j @ scan_items path (n + 1) js"

section \<open>validate_checkpoint\<close>

definition working_ids_issues :: "string list \<Rightarrow> string \<times> string list \<times> string option \<Rightarrow> validation_issue list" where
  "working_ids_issues ids pik =
     (case pik of (path, items, kind) \<Rightarrow>
        id_sequence (map JStr items) path kind False
        @ concat (map (\<lambda>i. check (i \<in> set ids) ''checkpoint.orphan_reference'' path (i @ '' is not in canonical_ids'')) items))"

definition working_issues :: "checkpoint \<Rightarrow> validation_issue list" where
  "working_issues c =
     (let w = ck_working c in
        check (ws_project w = ck_project c \<and> ws_run w = ck_run c) ''checkpoint.working_state_binding'' ''$.working_state''
          ''working state is not bound to checkpoint''
      @ check (ws_iteration w = ck_iteration c) ''checkpoint.iteration_binding'' ''$.working_state.iteration_index''
          ''working state and checkpoint iteration differ''
      @ check (set (ws_objects w) = set (ck_ids c)) ''checkpoint.frontier_exact'' ''$.working_state.canonical_object_ids''
          ''working-state canonical IDs must equal the checkpoint frontier exactly''
      @ concat (map (working_ids_issues (ck_ids c))
          [(''$.working_state.claim_ids'', ws_claims w, Some ''claim''),
           (''$.working_state.evidence_ids'', ws_evidence w, Some ''evidence''),
           (''$.working_state.search_strategy_ids'', ws_strategies w, Some ''iteration''),
           (''$.working_state.unresolved_issue_ids'', ws_issues w, None)])
      @ (case ws_leading w of
           None \<Rightarrow> []
         | Some h \<Rightarrow> id_sequence [JStr h] ''$.working_state.active_leading_hypothesis_id'' (Some ''hypothesis'') False
             @ check (h \<in> set (ck_ids c)) ''checkpoint.orphan_reference''
                 ''$.working_state.active_leading_hypothesis_id'' ''leading hypothesis is not in canonical_ids''))"

definition frontier_object_issues :: "checkpoint \<Rightarrow> canonical_object list \<Rightarrow> nat \<times> string \<Rightarrow> validation_issue list" where
  "frontier_object_issues c xs ni =
     (let path = index_path ''$.canonical_ids'' (fst ni); i = snd ni;
          found = (case by_identity xs i of Some x \<Rightarrow> Some x | None \<Rightarrow> by_version xs i)
      in check (found \<noteq> None) ''checkpoint.missing_canonical_object'' path (i @ '' is unavailable'')
       @ check (case found of None \<Rightarrow> True | Some x \<Rightarrow> co_project x = ck_project c) ''reference.cross_project'' path
           ''checkpoint object crosses project boundary'')"

definition frontier_issues :: "checkpoint \<Rightarrow> canonical_object list \<Rightarrow> validation_issue list" where
  "frontier_issues c xs =
     (let identities = co_stable ` set xs; versions = co_version_id ` set xs in
        check (\<not> (set (ck_ids c) \<noteq> identities \<and> \<not> set (ck_ids c) \<subseteq> identities \<union> versions))
          ''checkpoint.frontier_object_set'' ''$.canonical_ids''
          ''checkpoint frontier does not resolve to the supplied canonical object set''
      @ concat (map (frontier_object_issues c xs) (enumerate 0 (ck_ids c))))"

definition validate_checkpoint ::
    "prims \<Rightarrow> checkpoint \<Rightarrow> string option \<Rightarrow> string option \<Rightarrow> canonical_object list option \<Rightarrow> py_exc + validation_result" where
  "validate_checkpoint P c project run objects =
     andthen (model_to_dict P (of_json (checkpoint_json c))) (\<lambda>j. Inr (
       check (ck_schema c = ''max-research-checkpoint/v1'') ''checkpoint.schema'' ''$.schema'' ''unsupported checkpoint schema''
     @ check (ck_version c = 1) ''checkpoint.version'' ''$.checkpoint_version'' ''unsupported checkpoint version''
     @ check (is_project_id (JStr (ck_project c))) ''checkpoint.project_id'' ''$.project_id'' ''project_id is not valid''
     @ check (is_stable_id (JStr (ck_id c)) (Some ''checkpoint'')) ''checkpoint.id'' ''$.checkpoint_id''
         ''checkpoint_id must be a checkpoint stable ID''
     @ check (binds project (ck_project c)) ''reference.cross_project'' ''$.project_id''
         ''checkpoint project differs from expected project''
     @ check (binds run (ck_run c)) ''checkpoint.run_id'' ''$.run_id'' ''checkpoint run differs from expected run''
     @ check (0 \<le> ck_iteration c) ''checkpoint.iteration_pointer'' ''$.iteration_pointer''
         ''iteration_pointer must be non-negative''
     @ required_mapping (ck_budget c) ''$.budget''
     @ id_sequence (map JStr (ck_ids c)) ''$.canonical_ids'' None True
     @ id_sequence (map JStr (ck_extension c)) ''$.frontier_extension_ids'' None False
     @ check (distinct (ck_ids c)) ''checkpoint.frontier_duplicate'' ''$.canonical_ids''
         ''canonical frontier must be an exact set''
     @ check (set (ck_extension c) \<subseteq> set (ck_ids c)) ''checkpoint.frontier_extension'' ''$.frontier_extension_ids''
         ''frontier extensions must be included in canonical_ids''
     @ working_issues c
     @ scan_formal ''$.checkpoint'' j
     @ (case objects of None \<Rightarrow> [] | Some xs \<Rightarrow> frontier_issues c xs)))"

section \<open>validate_checkpoint_lineage\<close>

text \<open>\<open>new > old\<close> of two Python numbers (a bool counts as 0 or 1; nothing compares with NaN).\<close>

fun py_number :: "json \<Rightarrow> rat option" where
  "py_number (JInt i) = Some (of_int i)"
| "py_number (JFloat x) = Some x"
| "py_number (JBool b) = Some (if b then 1 else 0)"
| "py_number j = None"

definition budget_increased :: "json \<Rightarrow> json option \<Rightarrow> bool" where
  "budget_increased old new =
     (case old of
        JBool b \<Rightarrow> False
      | _ \<Rightarrow> (case (py_number old, Option.bind new py_number) of (Some a, Some b) \<Rightarrow> a < b | _ \<Rightarrow> False))"

definition predecessor :: "checkpoint \<Rightarrow> string option" where
  "predecessor c = (case ck_supersedes c of Some (x # xs) \<Rightarrow> Some (x # xs) | _ \<Rightarrow> None)"

text \<open>The loop over the checkpoints; \<open>seen\<close> are the identifiers of the ones before.\<close>

fun lineage_rows :: "prims \<Rightarrow> checkpoint list \<Rightarrow> nat \<Rightarrow> string list \<Rightarrow> checkpoint list \<Rightarrow> py_exc + validation_issue list" where
  "lineage_rows P all n seen [] = Inr []"
| "lineage_rows P all n seen (c # cs) =
     andthen (validate_checkpoint P c None None None) (\<lambda>issues.
     andthen (lineage_rows P all (n + 1) (ck_id c # seen) cs) (\<lambda>more. Inr (
       issues
     @ check (ck_id c \<notin> set seen) ''checkpoint.duplicate_id'' (index_path ''$'' n) ''checkpoint IDs must be unique''
     @ (case predecessor c of
          None \<Rightarrow> []
        | Some p \<Rightarrow>
            check (p \<in> set (map ck_id all)) ''checkpoint.orphan_successor'' ''$.checkpoints''
              (''successor points to missing checkpoint '' @ p)
            @ check (p \<noteq> ck_id c) ''checkpoint.lineage_cycle'' (index_path ''$'' n) ''checkpoint cannot supersede itself'')
     @ more)))"

fun pair_issues :: "checkpoint list \<Rightarrow> validation_issue list" where
  "pair_issues (a # b # cs) =
     check (ck_supersedes b = Some (ck_id a)) ''checkpoint.predecessor_exact'' ''$.checkpoints''
       ''each checkpoint must name the immediately preceding checkpoint''
     @ concat (map (\<lambda>(key, old). check (\<not> budget_increased old (map_of (ck_budget b) key)) ''checkpoint.budget_increase''
         ''$.checkpoints'' (''budget key '' @ key @ '' increased along lineage'')) (ck_budget a))
     @ pair_issues (b # cs)"
| "pair_issues _ = []"

text \<open>\<open>children\<close>: from each named predecessor to the checkpoints that name it.\<close>

definition children_of :: "checkpoint list \<Rightarrow> string \<Rightarrow> string list" where
  "children_of cs p = map ck_id (filter (\<lambda>c. predecessor c = Some p) cs)"

definition predecessors :: "checkpoint list \<Rightarrow> string list" where
  "predecessors cs = rev (remdups (rev (concat (map (\<lambda>c. case predecessor c of None \<Rightarrow> [] | Some p \<Rightarrow> [p]) cs))))"

definition current_records :: "checkpoint list \<Rightarrow> checkpoint list" where
  "current_records cs = filter (\<lambda>c. \<not> list_ex (\<lambda>p. ck_id c \<in> set (children_of cs p)) (predecessors cs)) cs"

definition lineage_issues :: "checkpoint list \<Rightarrow> validation_issue list" where
  "lineage_issues cs =
     (if cs = [] then [] else
      let ordered = sort_key ck_iteration cs; iterations = map ck_iteration ordered in
        check (list_all (\<lambda>c. ck_project c = ck_project (hd ordered) \<and> ck_run c = ck_run (hd ordered)) (tl ordered))
          ''checkpoint.lineage_binding'' ''$.checkpoints'' ''checkpoint lineage must remain within one project/run''
      @ check (list_all (\<lambda>(a, b). a < b) (zip iterations (tl iterations))) ''checkpoint.iteration_order'' ''$.checkpoints''
          ''checkpoint iterations must strictly increase''
      @ pair_issues ordered
      @ check (length (current_records cs) = 1) ''checkpoint.one_current'' ''$.checkpoints''
          ''checkpoint lineage must have exactly one current record''
      @ concat (map (\<lambda>p. check (length (children_of cs p) \<le> 1) ''checkpoint.multiple_successors'' ''$.checkpoints''
          (p @ '' has multiple successors'')) (predecessors cs)))"

definition validate_checkpoint_lineage :: "prims \<Rightarrow> checkpoint list \<Rightarrow> py_exc + validation_result" where
  "validate_checkpoint_lineage P cs =
     andthen (lineage_rows P cs 0 [] cs) (\<lambda>rows. Inr (rows @ lineage_issues cs))"

section \<open>should_rehydrate\<close>

record rehydration_policy =
  hp_interval :: int
  hp_triggers :: "string list"
  hp_schema :: string

definition default_policy :: rehydration_policy where
  "default_policy = \<lparr>hp_interval = 12, hp_triggers = [''leading_hypothesis_changed'', ''major_counterevidence'',
     ''recovery'', ''before_completion''], hp_schema = ''max-research-rehydration/v1''\<rparr>"

definition should_rehydrate :: "rehydration_policy option \<Rightarrow> int \<Rightarrow> string list \<Rightarrow> py_exc + bool" where
  "should_rehydrate policy iteration events =
     (let p = (case policy of None \<Rightarrow> default_policy | Some p \<Rightarrow> p) in
      andthen (require (1 \<le> hp_interval p) (contract_error ''rehydration interval must be a positive integer'')) (\<lambda>_.
      Inr ((0 < iteration \<and> iteration mod hp_interval p = 0) \<or> list_ex (\<lambda>e. e \<in> set (hp_triggers p)) events)))"

end
