(* ===== verification/Research_Rehydration.thy ===== *)
theory Research_Rehydration
  imports Research_Checkpoint
begin

text \<open>
  Rehydration of \<open>max_research/contract\<close>: \<open>RehydrationInput\<close>, \<open>RehydrationOutput\<close> and \<open>DriftKind\<close>
  of \<open>models.py\<close> and \<open>rehydrate\<close> of \<open>validator.py\<close>, for a constructed input.

  The relations that a prior state has and the present one has not are reported in the order of
  the prior state, where the source iterates a set. A summary is the JSON object it is stored as;
  its list of identifiers is read as \<open>set\<close> reads it, and statuses are compared as JSON values. The
  iteration number, the events and the policy of the input are not read by \<open>rehydrate\<close>.
\<close>

section \<open>Types\<close>

record rehydration_input =
  ri_project :: string
  ri_run :: string
  ri_checkpoint :: checkpoint
  ri_objects :: "canonical_object list"
  ri_relations :: "canonical_relation list"
  ri_summary :: "(string \<times> json) list option"
  ri_prior :: "research_state option"

record rehydration_output =
  ro_accepted :: bool
  ro_state :: "research_state option"
  ro_flags :: "string list"
  ro_issues :: "json list"
  ro_ids :: "string list"

type_synonym drift = "string list \<times> validation_issue list"

definition no_drift :: drift where
  "no_drift = ([], [])"

definition joined :: "drift list \<Rightarrow> drift" where
  "joined ds = (concat (map fst ds), concat (map snd ds))"

text \<open>A failed check raises flags and one issue.\<close>

definition drift_check :: "bool \<Rightarrow> string list \<Rightarrow> string \<Rightarrow> string \<Rightarrow> string \<Rightarrow> drift" where
  "drift_check b flags code path message = (if b then [] else flags, check b code path message)"

section \<open>The parts\<close>

definition frontier_drift :: "rehydration_input \<Rightarrow> drift" where
  "frontier_drift q =
     (let wanted = set (ck_ids (ri_checkpoint q)); present = co_stable ` set (ri_objects q) in joined
       [drift_check (wanted \<subseteq> present) [''missing_canonical_object''] ''rehydration.missing_object'' ''$.canonical_objects''
          ''checkpoint references missing canonical objects'',
        drift_check (present \<subseteq> wanted \<union> set (ck_extension (ri_checkpoint q))) [''unexpected_frontier_object'']
          ''rehydration.unexpected_frontier'' ''$.canonical_objects''
          ''current object set extends the checkpoint without an explicit frontier extension''])"

definition prior_relation_ids :: "rehydration_input \<Rightarrow> string list" where
  "prior_relation_ids q = (case ri_prior q of None \<Rightarrow> [] | Some st \<Rightarrow> remdups (map cr_id (rs_relations st)))"

text \<open>The graph cannot be rebuilt.\<close>

definition rebuild_failure :: "rehydration_input \<Rightarrow> validation_issue list \<Rightarrow> drift" where
  "rebuild_failure q issues = joined
     [(if list_ex (\<lambda>i. has_prefix ''claim.'' (issue_code i)) issues then [''orphan_claim''] else [], issues),
      drift_check (set (prior_relation_ids q) \<subseteq> cr_id ` set (ri_relations q)) [''stale_relation'']
        ''rehydration.stale_relation'' ''$.relations'' ''prior relation is missing while rebuilding the current graph'']"

text \<open>\<open>set(value)\<close> of a JSON value, compared with a set of strings.\<close>

definition json_set_is :: "json \<Rightarrow> string set \<Rightarrow> py_exc + bool" where
  "json_set_is j ids =
     (case j of
        JList js \<Rightarrow> andthen (require (list_all hashable js) (TypeError ''unhashable type'')) (\<lambda>_. Inr (set js = JStr ` ids))
      | JStr s \<Rightarrow> Inr ((\<lambda>c. [c]) ` set s = ids)
      | JObj kvs \<Rightarrow> Inr (fst ` set kvs = ids)
      | _ \<Rightarrow> Inl (TypeError ''object is not iterable''))"

definition summary_ids_drift :: "rehydration_input \<Rightarrow> (string \<times> json) list \<Rightarrow> py_exc + drift" where
  "summary_ids_drift q kvs =
     (case map_of kvs ''canonical_object_ids'' of
        None \<Rightarrow> Inr no_drift | Some JNull \<Rightarrow> Inr no_drift
      | Some j \<Rightarrow> andthen (json_set_is j (co_stable ` set (ri_objects q))) (\<lambda>same. Inr
          (drift_check same [''summary_meaning_drift''] ''rehydration.summary_ids'' ''$.working_summary.canonical_object_ids''
            ''working summary cannot redefine canonical membership'')))"

definition summary_leading_drift :: "research_state \<Rightarrow> (string \<times> json) list \<Rightarrow> drift" where
  "summary_leading_drift st kvs =
     (case map_of kvs ''active_leading_hypothesis_id'' of
        None \<Rightarrow> no_drift | Some JNull \<Rightarrow> no_drift
      | Some j \<Rightarrow> drift_check (j = opt_json (rs_leading st)) [''summary_meaning_drift''] ''rehydration.meaning_drift''
          ''$.working_summary.active_leading_hypothesis_id'' ''summary disagrees with rebuilt state'')"

definition summary_drift :: "rehydration_input \<Rightarrow> research_state option \<Rightarrow> py_exc + drift" where
  "summary_drift q state =
     (case ri_summary q of
        None \<Rightarrow> Inr no_drift
      | Some kvs \<Rightarrow>
          andthen (case state of None \<Rightarrow> Inr [] | Some st \<Rightarrow>
            andthen (summary_ids_drift q kvs) (\<lambda>d. Inr [d, summary_leading_drift st kvs])) (\<lambda>ds.
          Inr (joined ((if list_ex (\<lambda>(k, j). lower k \<in> set formal_content_keys \<and> embeds j) kvs
                        then [''summary_only_inheritance''] else [],
                        scan_formal ''$.working_summary'' (JObj kvs)) # ds))))"

text \<open>One object of the prior state: still there, under the same version, with the same payload.\<close>

definition same_version :: "canonical_object list \<Rightarrow> canonical_object \<Rightarrow> canonical_object option" where
  "same_version xs x = map_of (dict_of (map (\<lambda>y. ((co_stable y, co_version_id y), y)) xs)) (co_stable x, co_version_id x)"

definition object_drift :: "prims \<Rightarrow> canonical_object list \<Rightarrow> canonical_object \<Rightarrow> py_exc + drift" where
  "object_drift P xs x =
     (case same_version xs x of
        None \<Rightarrow> Inr (drift_check False [''missing_canonical_object'', ''version_chain_drift'']
          ''rehydration.prior_object_missing'' ''$.canonical_objects''
          (''prior canonical object/version '' @ co_stable x @ '':'' @ co_version_id x @ '' is missing''))
      | Some y \<Rightarrow>
          andthen (canonical_sha256 P (of_json (JObj (co_payload x)))) (\<lambda>a.
          andthen (canonical_sha256 P (of_json (JObj (co_payload y)))) (\<lambda>b. Inr
            (drift_check (a = b) (''meaning_drift''
               # (if payload_get x ''status'' \<noteq> payload_get y ''status'' then [''status_drift''] else []))
             ''rehydration.same_version_change'' (''$.objects['' @ co_stable x @ '']'')
             ''canonical meaning changed without a successor version''))))"

text \<open>The prior objects as the values of a dictionary: the last one under each key.\<close>

definition prior_values :: "canonical_object list \<Rightarrow> canonical_object list" where
  "prior_values xs = map snd (dict_of (map (\<lambda>x. ((co_stable x, co_version_id x), x)) xs))"

definition chain_entry :: "canonical_object list \<Rightarrow> string \<times> int \<Rightarrow> string option option" where
  "chain_entry xs = map_of (dict_of (map (\<lambda>x. ((co_stable x, co_version x), co_supersedes x)) xs))"

definition chain_drift :: "canonical_object list \<Rightarrow> canonical_object list \<Rightarrow> drift" where
  "chain_drift prior present = drift_check
     (list_all (\<lambda>x. let key = (co_stable x, co_version x) in
        chain_entry present key = None \<or> chain_entry present key = chain_entry prior key) prior)
     [''version_chain_drift''] ''rehydration.version_chain'' ''$.objects'' ''version predecessor chain changed''"

definition prior_drift :: "prims \<Rightarrow> rehydration_input \<Rightarrow> research_state option \<Rightarrow> py_exc + drift" where
  "prior_drift P q state =
     (case (ri_prior q, state) of
        (Some prior, Some st) \<Rightarrow>
          andthen (traverse (object_drift P (rs_objects st)) (prior_values (rs_objects prior))) (\<lambda>objects.
          Inr (joined (objects
            @ map (\<lambda>i. drift_check False [''stale_relation''] ''rehydration.stale_relation'' ''$.relations''
                (''prior relation '' @ i @ '' is missing or no longer version-bound''))
                (filter (\<lambda>i. i \<notin> cr_id ` set (rs_relations st)) (prior_relation_ids q))
            @ [chain_drift (rs_objects prior) (rs_objects st)])))
      | _ \<Rightarrow> Inr no_drift)"

section \<open>rehydrate\<close>

definition try_rebuild :: "prims \<Rightarrow> rehydration_input \<Rightarrow> py_exc + research_state option \<times> drift" where
  "try_rebuild P q =
     (case rebuild_research_state P (ri_objects q) (ri_relations q) (ri_project q) (Some (ri_run q)) of
        Inr st \<Rightarrow> Inr (Some st, no_drift)
      | Inl (ContractValidationError issues) \<Rightarrow> Inr (None, rebuild_failure q issues)
      | Inl e \<Rightarrow> Inl e)"

definition rehydrate :: "prims \<Rightarrow> rehydration_input \<Rightarrow> py_exc + rehydration_output" where
  "rehydrate P q =
     andthen (validate_checkpoint P (ri_checkpoint q) (Some (ri_project q)) (Some (ri_run q)) (Some (ri_objects q))) (\<lambda>ck.
     andthen (try_rebuild P q) (\<lambda>(state, rebuilt).
     andthen (summary_drift q state) (\<lambda>summary.
     andthen (prior_drift P q state) (\<lambda>prior.
     let drift = joined [([], ck), frontier_drift q, rebuilt, summary, prior] in
     Inr \<lparr>ro_accepted = (snd drift = []), ro_state = state, ro_flags = sorted_set (fst drift),
          ro_issues = map issue_as_dict (snd drift), ro_ids = sorted_set (map co_stable (ri_objects q))\<rparr>))))"

end
