(* ===== verification/Research_Proposals.thy ===== *)
theory Research_Proposals
  imports Research_Discussion
begin

text \<open>
  Proposals of \<open>max_research/contract\<close>: speculative ideas (\<open>SpeculativeIdea\<close>,
  \<open>validate_speculative_transition\<close>, \<open>validate_speculative_idea\<close>), acquisition requests and
  epistemic conflict records, for constructed values with fields of the declared types. The
  information gain of an acquisition request is any JSON value.
\<close>

section \<open>Speculative ideas\<close>

definition speculative_statuses :: "string list" where
  "speculative_statuses = [''speculative'', ''candidate'', ''supported'', ''weakened'', ''rejected'']"

definition speculation_transitions :: "string \<Rightarrow> string list option" where
  "speculation_transitions s =
     (if s = ''speculative'' then Some [''candidate'']
      else if s = ''candidate'' then Some [''supported'', ''weakened'', ''rejected'']
      else if s \<in> {''supported'', ''weakened'', ''rejected''} then Some [] else None)"

definition speculation_step :: "string \<Rightarrow> string \<Rightarrow> bool" where
  "speculation_step s t \<longleftrightarrow> (case speculation_transitions s of None \<Rightarrow> False | Some ts \<Rightarrow> t \<in> set ts)"

definition history_issues :: "string \<Rightarrow> string list \<Rightarrow> validation_issue list" where
  "history_issues target hs =
     check (2 \<le> length hs \<and> hs ! 0 = ''speculative'' \<and> hs ! 1 = ''candidate'' \<and> last hs = target)
       ''speculation.history'' ''$.history'' ''status history must explicitly record speculative -> candidate -> target''
   @ concat (map (\<lambda>(a, b). check (speculation_step a b) ''speculation.history_transition'' ''$.history''
       ''status history contains an illegal transition'') (zip hs (tl hs)))"

definition validate_speculative_transition :: "string \<Rightarrow> string \<Rightarrow> string list option \<Rightarrow> validation_result" where
  "validate_speculative_transition current target history =
     (if speculation_transitions current = None
      then [issue ''speculation.current_status'' ''$.current_status'' ''unknown speculative status'']
      else check (speculation_step current target) ''speculation.illegal_transition'' ''$.status''
        ''speculative ideas cannot skip the candidate state or regress'')
   @ (case history of None \<Rightarrow> [] | Some hs \<Rightarrow> history_issues target hs)"

record speculative_idea =
  si_project :: string
  si_idea :: string
  si_status :: string
  si_supporting :: "string list"
  si_counter :: "string list"
  si_rationale :: string
  si_id :: string
  si_version :: int
  si_supersedes :: "string option"
  si_run :: string
  si_policy :: string
  si_version_id :: string
  si_schema :: string

definition make_idea :: "prims \<Rightarrow> speculative_idea \<Rightarrow> py_exc + speculative_idea" where
  "make_idea P x =
     andthen (if si_id x \<noteq> [] then Inr (si_id x)
              else make_event_id P (VStr ''speculative_idea'') (VStr (si_project x)) (of_json (JObj
                [(''run_id'', JStr (si_run x)), (''idea'', JStr (si_idea x)),
                 (''supporting'', strings_json (sort (si_supporting x))),
                 (''counterevidence'', strings_json (sort (si_counter x)))]))) (\<lambda>i.
     andthen (if si_version_id x \<noteq> [] then Inr (si_version_id x)
              else make_version_id P (VStr ''speculative_idea'') (VStr (si_project x)) (VStr i) (VInt (si_version x))) (\<lambda>v.
     Inr (x\<lparr>si_id := i, si_version_id := v\<rparr>)))"

definition validate_speculative_idea :: "prims \<Rightarrow> speculative_idea \<Rightarrow> string list option \<Rightarrow> validation_result" where
  "validate_speculative_idea P x history =
     (let expected = (case expected_version_id P (VStr ''speculative_idea'') (VStr (si_project x)) (VStr (si_id x))
            (VInt (si_version x)) of Inl e \<Rightarrow> None | Inr v \<Rightarrow> Some v)
      in check (is_project_id (JStr (si_project x))) ''speculation.project_id'' ''$.project_id'' ''project_id is not valid''
       @ text_issues [(''$.run_id'', si_run x), (''$.source_policy_hash'', si_policy x)] ''speculation.binding_required''
       @ required_text (nonblank (si_idea x)) ''$.idea'' ''speculation.idea_required''
       @ check (si_status x \<in> set speculative_statuses) ''speculation.status'' ''$.status'' ''unknown speculative status''
       @ check (\<not> (si_version x = 1 \<and> si_status x \<noteq> ''speculative'')) ''speculation.v1_status'' ''$.status''
           ''v1 speculative ideas must start in speculative status''
       @ check (is_stable_id (JStr (si_id x)) (Some ''speculative_idea'')) ''speculation.idea_id'' ''$.idea_id''
           ''idea_id must be stable''
       @ check (is_stable_id (JStr (si_version_id x)) (Some ''speculative_idea-version'')) ''speculation.version_id''
           ''$.version_id'' ''version_id must be stable and versioned''
       @ check (case expected of None \<Rightarrow> True | Some v \<Rightarrow> si_version_id x = v) ''speculation.version_binding''
           ''$.version_id'' ''version_id is not bound to idea identity''
       @ id_sequence (map JStr (si_supporting x)) ''$.supporting_ids'' (Some ''evidence'') False
       @ id_sequence (map JStr (si_counter x)) ''$.counterevidence_ids'' (Some ''evidence'') False
       @ check (\<not> (1 < si_version x \<and> \<not> is_stable_id (opt_json (si_supersedes x)) (Some ''speculative_idea-version'')))
           ''speculation.successor_required'' ''$.supersedes_version_id'' ''later idea versions need a predecessor''
       @ (case history of None \<Rightarrow> []
          | Some hs \<Rightarrow> validate_speculative_transition (si_status x) (si_status x) (Some hs)))"

section \<open>Acquisition requests\<close>

record acquisition_request =
  aq_project :: string
  aq_gap :: string
  aq_targets :: "string list"
  aq_why :: string
  aq_gain :: json
  aq_falsification :: "string list"
  aq_role :: string
  aq_types :: "string list"
  aq_languages :: "string list"
  aq_dates :: "(string \<times> json) list"
  aq_exclusions :: "string list"
  aq_max :: int
  aq_id :: string
  aq_run :: string
  aq_policy :: string
  aq_schema :: string

definition request_identity :: "acquisition_request \<Rightarrow> json" where
  "request_identity q = JObj
     [(''run_id'', JStr (aq_run q)), (''gap'', JStr (aq_gap q)), (''targets'', strings_json (sort (aq_targets q))),
      (''why'', JStr (aq_why q)), (''gain'', aq_gain q), (''falsification'', strings_json (aq_falsification q)),
      (''role'', JStr (aq_role q)), (''types'', strings_json (aq_types q)), (''languages'', strings_json (aq_languages q)),
      (''date_range'', JObj (aq_dates q)), (''exclusions'', strings_json (aq_exclusions q)),
      (''max_candidates'', JInt (aq_max q))]"

definition request_event_id :: "prims \<Rightarrow> acquisition_request \<Rightarrow> py_exc + string" where
  "request_event_id P q =
     make_event_id P (VStr ''acquisition_request'') (VStr (aq_project q)) (of_json (request_identity q))"

definition make_request :: "prims \<Rightarrow> acquisition_request \<Rightarrow> py_exc + acquisition_request" where
  "make_request P q =
     (if aq_id q \<noteq> [] then Inr q else andthen (request_event_id P q) (\<lambda>i. Inr (q\<lparr>aq_id := i\<rparr>)))"

definition string_sequence :: "json list \<Rightarrow> string \<Rightarrow> bool \<Rightarrow> validation_issue list" where
  "string_sequence js path required =
     check (\<not> (required \<and> js = [])) ''contract.empty_string_list'' path (path @ '' must not be empty'')
   @ indexed (\<lambda>p j. check (case j of JStr s \<Rightarrow> nonblank s | _ \<Rightarrow> False) ''contract.expected_string'' p
       (p @ '' must be a non-empty string'')) path js"

text \<open>A number must be positive (not a number and infinity pass \<open><= 0\<close> as Python has it); anything else must be text.\<close>

definition gain_issues :: "json \<Rightarrow> validation_issue list" where
  "gain_issues j =
     (let numeric = (\<lambda>b. check b ''acquisition.information_gain'' ''$.expected_information_gain''
            ''information gain must be positive'');
          explicit = (\<lambda>b. check b ''acquisition.information_gain'' ''$.expected_information_gain''
            ''information gain must be explicit'')
      in case j of JBool b \<Rightarrow> numeric False | JInt i \<Rightarrow> numeric (0 < i) | JFloat x \<Rightarrow> numeric (0 < x)
         | JNonFinite s \<Rightarrow> numeric (s \<noteq> ''-Infinity'') | JStr s \<Rightarrow> explicit (nonblank s) | _ \<Rightarrow> explicit False)"

definition validate_acquisition_request :: "prims \<Rightarrow> acquisition_request \<Rightarrow> py_exc + validation_result" where
  "validate_acquisition_request P q =
     andthen (request_event_id P q) (\<lambda>expected. Inr (
       check (is_project_id (JStr (aq_project q))) ''acquisition.project_id'' ''$.project_id'' ''project_id is not valid''
     @ text_issues [(''$.run_id'', aq_run q), (''$.source_policy_hash'', aq_policy q)] ''acquisition.binding_required''
     @ text_issues [(''$.research_gap'', aq_gap q), (''$.why_needed'', aq_why q), (''$.desired_source_role'', aq_role q)]
         ''acquisition.field_required''
     @ id_sequence (map JStr (aq_targets q)) ''$.target_ids'' None True
     @ string_sequence (map JStr (aq_falsification q)) ''$.possible_falsification'' True
     @ gain_issues (aq_gain q)
     @ string_sequence (map JStr (aq_types q)) ''$.preferred_types'' False
     @ string_sequence (map JStr (aq_languages q)) ''$.preferred_languages'' False
     @ string_sequence (map JStr (aq_exclusions q)) ''$.exclusions'' False
     @ check (1 \<le> aq_max q) ''acquisition.max_candidates'' ''$.max_candidates'' ''max_candidates must be positive''
     @ check (aq_id q = expected) ''acquisition.id_binding'' ''$.request_id''
         ''request_id must bind the complete request semantics''))"

section \<open>Epistemic conflicts\<close>

record conflict_record =
  ec_project :: string
  ec_run :: string
  ec_iteration :: string
  ec_call :: string
  ec_intent :: string
  ec_request :: string
  ec_proposal :: string
  ec_validator :: string
  ec_state :: string
  ec_versions :: "string list"
  ec_codes :: "string list"
  ec_type :: string
  ec_basis :: "(string \<times> json) list"
  ec_fingerprint :: string
  ec_repeat :: int
  ec_resolution :: string
  ec_actor :: string
  ec_created :: string
  ec_id :: string
  ec_schema :: string

definition conflict_resolutions :: "string list" where
  "conflict_resolutions = [''rejected'', ''rehydration_required'', ''paused'', ''resolved'']"

definition conflict_texts :: "conflict_record \<Rightarrow> (string \<times> string) list" where
  "conflict_texts c =
     [(''project_id'', ec_project c), (''run_id'', ec_run c), (''iteration_id'', ec_iteration c),
      (''logical_call_id'', ec_call c), (''intent_hash'', ec_intent c), (''request_hash'', ec_request c),
      (''proposal_hash'', ec_proposal c), (''validator_hash'', ec_validator c), (''canonical_state_hash'', ec_state c),
      (''conflict_type'', ec_type c), (''fingerprint'', ec_fingerprint c), (''actor_id'', ec_actor c),
      (''created_at'', ec_created c)]"

definition conflict_event_id :: "prims \<Rightarrow> conflict_record \<Rightarrow> py_exc + string" where
  "conflict_event_id P c = make_event_id P (VStr ''epistemic_conflict'') (VStr (ec_project c)) (of_json (JObj
     [(''run_id'', JStr (ec_run c)), (''fingerprint'', JStr (ec_fingerprint c)), (''repeat_count'', JInt (ec_repeat c))]))"

text \<open>\<open>__post_init__\<close> refuses what the validator reports.\<close>

definition make_conflict :: "prims \<Rightarrow> conflict_record \<Rightarrow> py_exc + conflict_record" where
  "make_conflict P c =
     andthen (traverse (\<lambda>(name, s). require (nonblank s)
         (contract_error (''epistemic conflict '' @ name @ '' is required'')))
       (filter (\<lambda>p. fst p \<notin> {''actor_id'', ''created_at''}) (conflict_texts c)
        @ [(''resolution'', ec_resolution c), (''actor_id'', ec_actor c), (''created_at'', ec_created c)])) (\<lambda>_.
     andthen (require (1 \<le> ec_repeat c) (contract_error ''epistemic conflict repeat_count is invalid'')) (\<lambda>_.
     andthen (require (ec_resolution c \<in> set conflict_resolutions)
       (contract_error ''epistemic conflict resolution is invalid'')) (\<lambda>_.
     andthen (if ec_id c \<noteq> [] then Inr (ec_id c) else conflict_event_id P c) (\<lambda>i. Inr (c\<lparr>ec_id := i\<rparr>)))))"

definition validate_epistemic_conflict_record :: "prims \<Rightarrow> conflict_record \<Rightarrow> py_exc + validation_result" where
  "validate_epistemic_conflict_record P c =
     andthen (conflict_event_id P c) (\<lambda>expected. Inr (
       check (ec_schema c = ''max-research-epistemic-conflict/v1'') ''epistemic_conflict.schema'' ''$.schema''
         ''unsupported epistemic conflict schema''
     @ text_issues (map (\<lambda>(name, s). (''$.'' @ name, s)) (conflict_texts c)) ''epistemic_conflict.binding_required''
     @ string_sequence (map JStr (ec_versions c)) ''$.canonical_version_hashes'' False
     @ indexed (\<lambda>p v. check (is_hex64 v) ''epistemic_conflict.version_hash'' p
         ''canonical version binding must be a SHA-256 hash'') ''$.canonical_version_hashes'' (ec_versions c)
     @ string_sequence (map JStr (ec_codes c)) ''$.issue_codes'' True
     @ check (ec_basis c \<noteq> []) ''epistemic_conflict.canonical_basis'' ''$.canonical_basis'' ''canonical basis is required''
     @ check (ec_resolution c \<in> set conflict_resolutions) ''epistemic_conflict.resolution'' ''$.resolution''
         ''resolution is not a control-plane resolution''
     @ check (1 \<le> ec_repeat c) ''epistemic_conflict.repeat_count'' ''$.repeat_count'' ''repeat_count must be positive''
     @ check (ec_id c = expected) ''epistemic_conflict.id'' ''$.conflict_id'' ''conflict_id is not deterministically bound''))"

end
