(* ===== verification/Completion_Gate.thy ===== *)
theory Completion_Gate
  imports Research_Review Research_Strategy Research_Rehydration Research_Proposals
begin

text \<open>
  Completion of a run (\<open>max_research/contract\<close>): the charter, \<open>AttackRecord\<close>,
  \<open>FormalCompletionEvidence\<close>, \<open>CompletionEvaluationInput\<close>, \<open>CompletionGateResult\<close> and
  \<open>CompletionResult\<close> of \<open>models.py\<close>; \<open>validate_charter\<close>, \<open>charter_hash\<close>,
  \<open>_validate_attack_records\<close>, \<open>_validate_formal_completion_evidence\<close>,
  \<open>_validate_completion_input\<close>, \<open>evaluate_completion_gate\<close>, \<open>evaluate_completion_result\<close>,
  \<open>validate_completion_result\<close> and the completing transition of \<open>validator.py\<close>.

  A constructed completion input has computed its own hash, so its fields have been projected to
  JSON without an error; hashes of its parts are therefore taken with \<open>hash_json\<close>.
\<close>

section \<open>The charter\<close>

record research_charter =
  ch_question :: string
  ch_scope :: json
  ch_invariants :: "string list"
  ch_non_goals :: "string list"
  ch_deliverables :: "string list"
  ch_model :: string
  ch_budget :: "(string \<times> json) list"
  ch_policy :: "(string \<times> json) list"
  ch_gates :: "(string \<times> json) list"
  ch_protocol :: string
  ch_schema :: string

definition charter_json :: "research_charter \<Rightarrow> json" where
  "charter_json c = JObj
     [(''question'', JStr (ch_question c)), (''scope'', ch_scope c), (''invariants'', strings_json (ch_invariants c)),
      (''non_goals'', strings_json (ch_non_goals c)), (''deliverables'', strings_json (ch_deliverables c)),
      (''model_identity'', JStr (ch_model c)), (''budget'', JObj (ch_budget c)), (''source_policy'', JObj (ch_policy c)),
      (''quality_gates'', JObj (ch_gates c)), (''protocol_version'', JStr (ch_protocol c)), (''schema'', JStr (ch_schema c))]"

fun negative_number :: "json \<Rightarrow> bool" where
  "negative_number (JInt i) = (i < 0)"
| "negative_number (JFloat x) = (x < 0)"
| "negative_number (JNonFinite s) = (s = ''-Infinity'')"
| "negative_number j = False"

definition mapping_values_issues :: "string \<Rightarrow> (string \<times> json) list \<Rightarrow> validation_issue list" where
  "mapping_values_issues name kvs =
     required_mapping kvs (''$.'' @ name)
   @ concat (map (\<lambda>(k, j). check (\<not> negative_number j) ''charter.negative_value'' (''$.'' @ name @ ''.'' @ k)
       (name @ ''.'' @ k @ '' must not be negative'')) kvs)"

definition validate_charter :: "research_charter \<Rightarrow> validation_result" where
  "validate_charter c =
     check (ch_schema c = ''max-research-charter/v1'') ''charter.schema'' ''$.schema'' ''unsupported charter schema''
   @ check (ch_protocol c = ''max-research/v1'') ''charter.protocol'' ''$.protocol_version''
       ''unsupported Max Research protocol''
   @ required_text (nonblank (ch_question c)) ''$.question'' ''charter.question_required''
   @ (case ch_scope c of
        JStr s \<Rightarrow> required_text (nonblank s) ''$.scope'' ''charter.scope_required''
      | JList js \<Rightarrow> string_sequence js ''$.scope'' True
      | JObj kvs \<Rightarrow> required_mapping kvs ''$.scope''
      | _ \<Rightarrow> [issue ''charter.scope_type'' ''$.scope'' ''scope must be text, a list, or an object''])
   @ string_sequence (map JStr (ch_invariants c)) ''$.invariants'' True
   @ string_sequence (map JStr (ch_non_goals c)) ''$.non_goals'' True
   @ string_sequence (map JStr (ch_deliverables c)) ''$.deliverables'' True
   @ required_text (nonblank (ch_model c)) ''$.model_identity'' ''charter.model_identity_required''
   @ mapping_values_issues ''budget'' (ch_budget c)
   @ mapping_values_issues ''source_policy'' (ch_policy c)
   @ mapping_values_issues ''quality_gates'' (ch_gates c)"

definition require_valid_charter :: "research_charter \<Rightarrow> py_exc + research_charter" where
  "require_valid_charter c = andthen (raise_if_invalid (validate_charter c)) (\<lambda>_. Inr c)"

definition charter_digest :: "prims \<Rightarrow> research_charter \<Rightarrow> py_exc + string" where
  "charter_digest P c = andthen (require_valid_charter c) (\<lambda>c. canonical_sha256 P (of_json (charter_json c)))"

section \<open>Records of the completion\<close>

record attack_record =
  ak_project :: string
  ak_run :: string
  ak_charter :: string
  ak_state_hash :: string
  ak_iteration :: string
  ak_target :: string
  ak_target_version :: string
  ak_objections :: "string list"
  ak_counter :: "string list"
  ak_outcome :: string
  ak_rationale :: string
  ak_id :: string
  ak_schema :: string

record formal_evidence =
  fe_project :: string
  fe_run :: string
  fe_state_hash :: string
  fe_report :: string
  fe_claims :: "string list"
  fe_evidence :: "string list"
  fe_links :: "json list"
  fe_eligibility :: string
  fe_id :: string
  fe_schema :: string

record completion_input =
  ci_project :: string
  ci_run :: string
  ci_charter_hash :: string
  ci_state_hash :: string
  ci_charter :: research_charter
  ci_run_state :: max_run_state
  ci_state :: research_state
  ci_ledger :: coverage_ledger
  ci_attacks :: "attack_record list"
  ci_sessions :: "discussion_session list"
  ci_rehydration :: rehydration_output
  ci_packet :: cold_packet
  ci_review :: cold_result
  ci_report :: report_projection
  ci_formal :: formal_evidence
  ci_claims :: "claim_snapshot list"
  ci_evidence :: "evidence_snapshot list"
  ci_counter :: "evidence_snapshot list"
  ci_budget :: "(string \<times> json) list"
  ci_policy :: "(string \<times> json) list"
  ci_model :: string
  ci_evaluated :: stamp
  ci_checkpoint :: "string option"
  ci_allow_empty :: bool
  ci_schema :: string
  ci_hash :: string

record gate_result =
  gr_passed :: bool
  gr_reasons :: "string list"
  gr_checks :: "(string \<times> bool) list"
  gr_project :: string
  gr_run :: string
  gr_charter :: string
  gr_state_hash :: string
  gr_hash :: string
  gr_input_hash :: string
  gr_evaluated :: string

record completion_result =
  cx_project :: string
  cx_run :: string
  cx_charter :: string
  cx_state_hash :: string
  cx_gate :: gate_result
  cx_evaluated :: stamp
  cx_id :: string
  cx_schema :: string

text \<open>\<open>__post_init__\<close>: missing identifiers are computed.\<close>

definition make_attack :: "prims \<Rightarrow> attack_record \<Rightarrow> py_exc + attack_record" where
  "make_attack P a =
     (if ak_id a \<noteq> [] then Inr a
      else andthen (make_event_id P (VStr ''attack'') (VStr (ak_project a)) (of_json (JObj
             [(''run_id'', JStr (ak_run a)), (''charter_hash'', JStr (ak_charter a)), (''state_hash'', JStr (ak_state_hash a)),
              (''iteration_id'', JStr (ak_iteration a)), (''target_id'', JStr (ak_target a)),
              (''target_version_id'', JStr (ak_target_version a)),
              (''objection_ids'', strings_json (sort (ak_objections a))),
              (''counterevidence_ids'', strings_json (sort (ak_counter a))), (''outcome'', JStr (ak_outcome a)),
              (''rationale'', JStr (ak_rationale a))]))) (\<lambda>i. Inr (a\<lparr>ak_id := i\<rparr>)))"

definition make_formal :: "prims \<Rightarrow> formal_evidence \<Rightarrow> py_exc + formal_evidence" where
  "make_formal P f =
     (if fe_id f \<noteq> [] then Inr f
      else andthen (make_event_id P (VStr ''formal_completion_evidence'') (VStr (fe_project f)) (of_json (JObj
             [(''run_id'', JStr (fe_run f)), (''state_hash'', JStr (fe_state_hash f)), (''report_id'', JStr (fe_report f)),
              (''claim_ids'', strings_json (sort (fe_claims f))), (''evidence_ids'', strings_json (sort (fe_evidence f))),
              (''source_links'', JList (fe_links f)), (''evidence_eligibility_hash'', JStr (fe_eligibility f))])))
             (\<lambda>i. Inr (f\<lparr>fe_id := i\<rparr>)))"

end
