(* ===== verification/Completion_Input.thy ===== *)
theory Completion_Input
  imports Completion_Gate
begin

text \<open>
  The completion input as JSON, its own hash, and the checks of its parts.
\<close>

section \<open>JSON of the input\<close>

definition research_state_json :: "research_state \<Rightarrow> json" where
  "research_state_json st = JObj
     [(''project_id'', JStr (rs_project st)), (''run_id'', opt_json (rs_run st)),
      (''objects'', JList (map object_json (rs_objects st))), (''relations'', JList (map relation_json (rs_relations st))),
      (''latest_by_id'', JObj (map (\<lambda>(k, x). (k, object_json x)) (rs_latest st))),
      (''active_leading_hypothesis_id'', opt_json (rs_leading st)), (''state_hash'', JStr (rs_hash st)),
      (''materialized_fields'', strings_json [''latest_by_id'', ''active_leading_hypothesis_id'', ''state_hash''])]"

definition strategy_json :: "search_strategy \<Rightarrow> json" where
  "strategy_json s = JObj
     [(''project_id'', JStr (st_project s)), (''family'', JStr (st_family s)), (''query'', JStr (st_query s)),
      (''target_ids'', strings_json (st_targets s)), (''filters'', JObj (st_filters s)),
      (''result_ids'', strings_json (st_results s)), (''new_evidence_ids'', strings_json (st_new_evidence s)),
      (''coverage_keys'', strings_json (st_coverage s)), (''strategy_id'', JStr (st_id s)), (''run_id'', JStr (st_run s))]"

definition ledger_json :: "coverage_ledger \<Rightarrow> json" where
  "ledger_json l = JObj
     [(''strategies'', JList (map strategy_json (cl_strategies l))), (''required_families'', strings_json (cl_required l)),
      (''allow_empty_strategy_families'', JBool (cl_allow_empty l))]"

definition claim_snapshot_json :: "claim_snapshot \<Rightarrow> json" where
  "claim_snapshot_json s = JObj
     [(''claim_id'', JStr (sn_claim s)), (''version_id'', JStr (sn_version s)), (''status'', JStr (sn_status s)),
      (''semantic_hash'', JStr (sn_hash s)), (''schema'', JStr (sn_schema s))]"

definition evidence_snapshot_json :: "evidence_snapshot \<Rightarrow> json" where
  "evidence_snapshot_json s = JObj
     [(''evidence_id'', JStr (es_evidence s)), (''version_id'', JStr (es_version s)), (''status'', JStr (es_status s)),
      (''semantic_hash'', JStr (es_hash s)), (''schema'', JStr (es_schema s))]"

definition attack_json :: "attack_record \<Rightarrow> json" where
  "attack_json a = JObj
     [(''project_id'', JStr (ak_project a)), (''run_id'', JStr (ak_run a)), (''charter_hash'', JStr (ak_charter a)),
      (''state_hash'', JStr (ak_state_hash a)), (''iteration_id'', JStr (ak_iteration a)), (''target_id'', JStr (ak_target a)),
      (''target_version_id'', JStr (ak_target_version a)), (''objection_ids'', strings_json (ak_objections a)),
      (''counterevidence_ids'', strings_json (ak_counter a)), (''outcome'', JStr (ak_outcome a)),
      (''rationale'', JStr (ak_rationale a)), (''attack_id'', JStr (ak_id a)), (''schema'', JStr (ak_schema a))]"

definition formal_json :: "formal_evidence \<Rightarrow> json" where
  "formal_json f = JObj
     [(''project_id'', JStr (fe_project f)), (''run_id'', JStr (fe_run f)), (''state_hash'', JStr (fe_state_hash f)),
      (''report_id'', JStr (fe_report f)), (''claim_ids'', strings_json (fe_claims f)),
      (''evidence_ids'', strings_json (fe_evidence f)), (''source_links'', JList (fe_links f)),
      (''evidence_eligibility_hash'', JStr (fe_eligibility f)), (''record_id'', JStr (fe_id f)), (''schema'', JStr (fe_schema f))]"

definition rehydration_json :: "rehydration_output \<Rightarrow> json" where
  "rehydration_json r = JObj
     [(''accepted'', JBool (ro_accepted r)),
      (''state'', (case ro_state r of None \<Rightarrow> JNull | Some st \<Rightarrow> research_state_json st)),
      (''drift_flags'', strings_json (ro_flags r)), (''issues'', JList (ro_issues r)),
      (''canonical_object_ids'', strings_json (ro_ids r))]"

definition completion_input_json :: "prims \<Rightarrow> completion_input \<Rightarrow> json" where
  "completion_input_json P c = JObj
     [(''project_id'', JStr (ci_project c)), (''run_id'', JStr (ci_run c)), (''charter_hash'', JStr (ci_charter_hash c)),
      (''state_hash'', JStr (ci_state_hash c)), (''charter'', charter_json (ci_charter c)),
      (''run_state'', run_state_json P (ci_run_state c)), (''research_state'', research_state_json (ci_state c)),
      (''strategy_ledger'', ledger_json (ci_ledger c)), (''attack_records'', JList (map attack_json (ci_attacks c))),
      (''discussion_sessions'', JList (map session_json (ci_sessions c))),
      (''rehydration_output'', rehydration_json (ci_rehydration c)), (''cold_review_packet'', cold_packet_json (ci_packet c)),
      (''cold_review_result'', cold_result_json P (ci_review c)), (''final_report'', report_json (ci_report c)),
      (''formal_completion_evidence'', formal_json (ci_formal c)),
      (''claim_snapshots'', JList (map claim_snapshot_json (ci_claims c))),
      (''evidence_snapshots'', JList (map evidence_snapshot_json (ci_evidence c))),
      (''counterevidence_snapshots'', JList (map evidence_snapshot_json (ci_counter c))),
      (''budget_snapshot'', JObj (ci_budget c)), (''source_policy_snapshot'', JObj (ci_policy c)),
      (''model_identity'', JStr (ci_model c)), (''evaluated_at'', JStr (stamp_text P (ci_evaluated c))),
      (''current_checkpoint_id'', opt_json (ci_checkpoint c)), (''allow_empty_strategy_families'', JBool (ci_allow_empty c)),
      (''schema'', JStr (ci_schema c)), (''input_hash'', JStr (ci_hash c))]"

text \<open>The hash of the input: of its projection with an empty hash. The constructor writes it.\<close>

definition completion_input_hash :: "prims \<Rightarrow> completion_input \<Rightarrow> py_exc + string" where
  "completion_input_hash P c = canonical_sha256 P (of_json (completion_input_json P (c\<lparr>ci_hash := []\<rparr>)))"

definition make_completion_input :: "prims \<Rightarrow> completion_input \<Rightarrow> py_exc + completion_input" where
  "make_completion_input P c = andthen (completion_input_hash P c) (\<lambda>h. Inr (c\<lparr>ci_hash := h\<rparr>))"

section \<open>Attack records\<close>

definition attack_state_issues :: "research_state \<Rightarrow> string \<Rightarrow> attack_record \<Rightarrow> validation_issue list" where
  "attack_state_issues st path a =
     (let xs = rs_objects st; known = (\<lambda>i. by_identity xs i \<noteq> None \<or> by_version xs i \<noteq> None) in
        (case by_version xs (ak_target_version a) of
           Some x \<Rightarrow> if co_stable x = ak_target a
             then check (co_kind x \<in> {''claim'', ''hypothesis''}) ''completion.attack_target_kind'' (path @ ''.target_id'')
               ''AttackRecord target must be a Claim or Hypothesis''
             else [issue ''completion.attack_target_state'' (path @ ''.target_version_id'')
               ''AttackRecord target/version is not an exact canonical state endpoint'']
         | None \<Rightarrow> [issue ''completion.attack_target_state'' (path @ ''.target_version_id'')
               ''AttackRecord target/version is not an exact canonical state endpoint''])
      @ concat (map (\<lambda>i. check (known i) ''completion.attack_orphan'' (path @ ''.objection_ids'')
          ''AttackRecord contains an orphan canonical ID'') (ak_objections a))
      @ concat (map (\<lambda>i. check (known i) ''completion.attack_orphan'' (path @ ''.counterevidence_ids'')
          ''AttackRecord contains an orphan canonical ID'') (ak_counter a)))"

definition attack_issues :: "completion_input \<Rightarrow> string \<Rightarrow> attack_record \<Rightarrow> validation_issue list" where
  "attack_issues c path a =
     check (ak_project a = ci_project c \<and> ak_run a = ci_run c \<and> ak_charter a = ci_charter_hash c
         \<and> ak_state_hash a = ci_state_hash c) ''completion.attack_binding'' path
       ''AttackRecord is not bound to the completion context''
   @ check (is_stable_id (JStr (ak_id a)) (Some ''attack'')) ''completion.attack_id'' (path @ ''.attack_id'')
       ''AttackRecord attack_id is not a stable attack ID''
   @ check (is_stable_id (JStr (ak_iteration a)) (Some ''iteration'')) ''completion.attack_iteration''
       (path @ ''.iteration_id'') ''AttackRecord iteration_id is not a stable iteration ID''
   @ check (is_stable_id (JStr (ak_target a)) None) ''completion.attack_target'' (path @ ''.target_id'')
       ''AttackRecord target_id is invalid''
   @ check (is_stable_id (JStr (ak_target_version a)) None) ''completion.attack_target_version''
       (path @ ''.target_version_id'') ''AttackRecord target_version_id is invalid''
   @ required_text (nonblank (ak_outcome a)) (path @ ''.outcome'') ''completion.attack_outcome''
   @ required_text (nonblank (ak_rationale a)) (path @ ''.rationale'') ''completion.attack_rationale''
   @ id_sequence (map JStr (ak_objections a)) (path @ ''.objection_ids'') None False
   @ id_sequence (map JStr (ak_counter a)) (path @ ''.counterevidence_ids'') None False
   @ attack_state_issues (ci_state c) path a"

definition attack_records_issues :: "completion_input \<Rightarrow> validation_issue list" where
  "attack_records_issues c =
     check (ci_attacks c \<noteq> []) ''completion.attack_records_required'' ''$.attack_records''
       ''at least one typed AttackRecord is required''
   @ indexed (attack_issues c) ''$.attack_records'' (ci_attacks c)"

section \<open>Formal evidence\<close>

definition formal_issues :: "prims \<Rightarrow> formal_evidence \<Rightarrow> research_state \<Rightarrow> report_projection \<Rightarrow> validation_issue list" where
  "formal_issues P f st rp =
     check (fe_project f = rs_project st \<and> fe_run f = (case rs_run st of None \<Rightarrow> [] | Some r \<Rightarrow> r) \<and> fe_state_hash f = rs_hash st)
       ''completion.formal_binding'' ''$.formal_completion_evidence'' ''formal completion evidence is not state-bound''
   @ check (fe_report f = rp_id rp \<and> fe_claims f = rp_claims rp \<and> fe_evidence f = rp_evidence rp)
       ''completion.formal_projection'' ''$.formal_completion_evidence''
       ''formal completion evidence does not bind the exact final report''
   @ check (hash_json P (JList (fe_links f)) = hash_json P (JList (rp_links rp))) ''completion.formal_links''
       ''$.formal_completion_evidence.source_links'' ''formal completion evidence source links differ from final report''
   @ check (fe_eligibility f = hash_json P (JObj [(''claim_ids'', strings_json (rp_claims rp)),
         (''evidence_ids'', strings_json (rp_evidence rp)), (''source_links'', JList (rp_links rp))]))
       ''completion.formal_eligibility'' ''$.formal_completion_evidence.evidence_eligibility_hash''
       ''formal evidence eligibility hash is not recomputable''
   @ check (is_stable_id (JStr (fe_id f)) (Some ''formal_completion_evidence'')) ''completion.formal_id''
       ''$.formal_completion_evidence.record_id'' ''formal completion evidence record ID is invalid''"

section \<open>_validate_completion_input\<close>

text \<open>The checks whose failure also clears \<open>context_binding\<close>, before the rebuild.\<close>

definition context_issues :: "completion_input \<Rightarrow> string \<Rightarrow> validation_issue list" where
  "context_issues c charter =
     (let st = ci_state c; rs = ci_run_state c in
        check (ci_project c = rs_project st \<and> ci_run c = (case rs_run st of None \<Rightarrow> [] | Some r \<Rightarrow> r)
            \<and> ci_state_hash c = rs_hash st) ''completion.context_binding'' ''$''
          ''outer completion context differs from Research State''
      @ check (ci_charter_hash c = charter) ''completion.charter_hash'' ''$.charter_hash''
          ''charter_hash is not the canonical Charter hash''
      @ check (project_id rs = ci_project c \<and> run_id rs = ci_run c \<and> charter_hash rs = ci_charter_hash c)
          ''completion.run_binding'' ''$.run_state'' ''Run State is not bound to project/run/charter''
      @ check (current_state_hash rs = Some (ci_state_hash c)) ''completion.run_state_state''
          ''$.run_state.current_state_hash'' ''Run State does not bind the supplied Research State'')"

definition checkpoint_issues :: "completion_input \<Rightarrow> validation_issue list" where
  "checkpoint_issues c =
     check (case ci_checkpoint c of None \<Rightarrow> True | Some i \<Rightarrow> current_checkpoint_id (ci_run_state c) = Some i)
       ''completion.checkpoint_binding'' ''$.current_checkpoint_id'' ''completion checkpoint binding differs from Run State''"

text \<open>\<open>str\<close> of an exception.\<close>

fun exc_text :: "py_exc \<Rightarrow> string" where
  "exc_text (ValueError s) = s"
| "exc_text (TypeError s) = s"
| "exc_text (AttributeError s) = s"
| "exc_text (KeyError s) = py_quote s"
| "exc_text (OverflowError s) = s"
| "exc_text (ContractValidationError issues) =
     (let m = join ''; '' (map issue_message issues) in if m = [] then ''invalid contract'' else m)"

definition caught :: "py_exc \<Rightarrow> bool" where
  "caught e \<longleftrightarrow> (case e of AttributeError s \<Rightarrow> False | OverflowError s \<Rightarrow> False | KeyError s \<Rightarrow> False | _ \<Rightarrow> True)"

definition recompute_issues :: "prims \<Rightarrow> research_state \<Rightarrow> py_exc + validation_issue list" where
  "recompute_issues P st =
     (case rebuild_research_state P (rs_objects st) (rs_relations st) (rs_project st) (rs_run st) of
        Inr st' \<Rightarrow> Inr (check (rs_hash st' = rs_hash st) ''completion.state_recompute'' ''$.research_state.state_hash''
          ''Research State hash is not the canonical rebuild hash'')
      | Inl e \<Rightarrow> if caught e
          then Inr [issue ''completion.state_recompute'' ''$.research_state''
            (''Research State cannot be recomputed: '' @ exc_text e)]
          else Inl e)"

definition binding_issues :: "prims \<Rightarrow> completion_input \<Rightarrow> validation_issue list" where
  "binding_issues P c =
     (let ch = ci_charter c; rs = ci_run_state c in
        check (ci_model c = ch_model ch \<and> ci_model c = model_identity rs) ''completion.model_binding''
          ''$.model_identity'' ''model identity does not match Charter and Run State''
      @ check (hash_json P (JObj (ci_budget c)) = hash_json P (JObj (ch_budget ch))
            \<and> hash_json P (JObj (ci_budget c)) = hash_json P (JObj (budget rs))) ''completion.budget_binding''
          ''$.budget_snapshot'' ''budget snapshot does not match Charter and Run State''
      @ check (hash_json P (JObj (ci_policy c)) = hash_json P (JObj (ch_policy ch))
            \<and> hash_json P (JObj (ci_policy c)) = source_policy_hash rs) ''completion.source_policy_binding''
          ''$.source_policy_snapshot'' ''source policy snapshot does not match Charter and Run State'')"

definition rehydration_ok :: "completion_input \<Rightarrow> bool" where
  "rehydration_ok c \<longleftrightarrow> ro_accepted (ci_rehydration c) \<and> ro_flags (ci_rehydration c) = []
     \<and> (case ro_state (ci_rehydration c) of None \<Rightarrow> False | Some st \<Rightarrow> rs_hash st = ci_state_hash c)"

text \<open>The snapshots of the report's claims and evidence in the state.\<close>

definition expected_claims :: "prims \<Rightarrow> completion_input \<Rightarrow> py_exc + claim_snapshot list" where
  "expected_claims P c = traverse (make_claim_snapshot P)
     (concat (map (\<lambda>i. case map_of (rs_latest (ci_state c)) i of None \<Rightarrow> [] | Some x \<Rightarrow> [x]) (rp_claims (ci_report c))))"

definition expected_evidence :: "prims \<Rightarrow> completion_input \<Rightarrow> py_exc + evidence_snapshot list" where
  "expected_evidence P c = traverse (make_evidence_snapshot P)
     (concat (map (\<lambda>i. case map_of (rs_latest (ci_state c)) i of None \<Rightarrow> [] | Some x \<Rightarrow> [x]) (rp_evidence (ci_report c))))"

definition snapshot_issues ::
    "completion_input \<Rightarrow> claim_snapshot list \<Rightarrow> evidence_snapshot list \<Rightarrow> validation_issue list" where
  "snapshot_issues c claims evidence =
     check (ci_claims c \<noteq> [] \<and> set (ci_claims c) \<subseteq> set claims) ''completion.claim_snapshots'' ''$.claim_snapshots''
       ''claim snapshots must be canonical Claim-only snapshots''
   @ check (ci_evidence c \<noteq> [] \<and> set (ci_evidence c) \<subseteq> set evidence) ''completion.evidence_snapshots''
       ''$.evidence_snapshots'' ''evidence snapshots must be canonical Evidence-only snapshots''
   @ check (ci_counter c \<noteq> []) ''completion.counterevidence_snapshots'' ''$.counterevidence_snapshots''
       ''counterevidence saturation requires canonical snapshots''"

text \<open>\<open>tuple(value)\<close> of a JSON value.\<close>

fun json_tuple :: "json \<Rightarrow> py_exc + json list" where
  "json_tuple (JList js) = Inr js"
| "json_tuple (JStr s) = Inr (map (\<lambda>c. JStr [c]) s)"
| "json_tuple (JObj kvs) = Inr (map (\<lambda>p. JStr (fst p)) kvs)"
| "json_tuple j = Inl (TypeError ''object is not iterable'')"

definition charter_families :: "research_charter \<Rightarrow> py_exc + json list" where
  "charter_families ch = json_tuple
     (case map_of (ch_gates ch) ''required_strategy_families'' of Some j \<Rightarrow> j
      | None \<Rightarrow> dict_get ''strategy_families'' (JList []) (ch_gates ch))"

definition family_issues :: "completion_input \<Rightarrow> json list \<Rightarrow> validation_issue list" where
  "family_issues c families =
     check (map JStr (cl_required (ci_ledger c)) = families) ''completion.strategy_charter_binding''
       ''$.strategy_ledger.required_families'' ''required strategy families must come from the approved Charter''
   @ check (families \<noteq> []
         \<or> (ci_allow_empty c \<and> json_truthy (map_of (ch_gates (ci_charter c)) ''allow_empty_strategy_families'')))
       ''completion.strategy_families_required'' ''$.charter.quality_gates''
       ''Max completion requires Charter-approved strategy families or an explicit hashed exception''"

text \<open>The result: the verdict on the input, all issues, and the saturation.\<close>

definition validate_completion_input ::
    "prims \<Rightarrow> completion_input \<Rightarrow> py_exc + bool \<times> validation_issue list \<times> saturation_status" where
  "validate_completion_input P c =
     (let st = ci_state c; rp = ci_report c in
      andthen (charter_digest P (ci_charter c)) (\<lambda>charter.
      andthen (recompute_issues P st) (\<lambda>recompute.
      andthen (completion_input_hash P c) (\<lambda>h.
      andthen (validate_report_projection P rp st) (\<lambda>report.
      andthen (validate_cold_review_packet P (ci_packet c) st (Some (ci_charter_hash c))) (\<lambda>packet.
      andthen (validate_cold_review_result P (ci_review c) (ci_packet c) st (Some rp) (Some (ci_model c)) None) (\<lambda>review.
      andthen (expected_claims P c) (\<lambda>claims.
      andthen (expected_evidence P c) (\<lambda>evidence.
      andthen (charter_families (ci_charter c)) (\<lambda>families.
      andthen (evaluate_saturation P (ci_ledger c) (ci_claims c) (ci_evidence c) 2 2 (ci_counter c)) (\<lambda>saturation.
      let context = context_issues c charter @ recompute;
          issues = context_issues c charter @ checkpoint_issues c @ recompute @ binding_issues P c
            @ check (ci_hash c = h) ''completion.input_hash'' ''$.input_hash'' ''completion input hash is not canonical''
            @ check (parse_time (ci_evaluated c) \<noteq> None) ''completion.evaluated_at'' ''$.evaluated_at''
                ''completion evaluation time must be ISO-8601''
            @ attack_records_issues c
            @ concat (map (\<lambda>d. validate_discussion_session d (Some st)) (ci_sessions c))
            @ check (ci_sessions c \<noteq> []) ''completion.discussion_required'' ''$.discussion_sessions''
                ''completion requires at least one state-bound discussion session''
            @ check (rehydration_ok c) ''completion.rehydration_context'' ''$.rehydration_output''
                ''completion requires an accepted, drift-free rehydration result bound to state''
            @ report @ packet @ review
            @ check (cw_report (ci_packet c) = rp_id rp) ''completion.cold_report'' ''$.cold_review_packet.report_id''
                ''cold review packet must bind final report''
            @ formal_issues P (ci_formal c) st rp
            @ snapshot_issues c claims evidence
            @ family_issues c families
      in Inr (context = [] \<and> issues = [], issues, saturation))))))))))))"

end
