(* ===== verification/Completion_Result.thy ===== *)
theory Completion_Result
  imports Completion_Input
begin

text \<open>
  \<open>evaluate_completion_gate\<close>, \<open>evaluate_completion_result\<close>, \<open>validate_completion_result\<close> and the
  completing transition of \<open>max_research/contract/validator.py\<close>.
\<close>

section \<open>The gate\<close>

text \<open>\<open>not issues\<close> of a validation result.\<close>

definition no_issues :: "validation_result \<Rightarrow> bool" where
  "no_issues issues \<longleftrightarrow> issues = []"

definition gate_checks ::
    "completion_input \<Rightarrow> bool \<Rightarrow> validation_result \<Rightarrow> validation_result \<Rightarrow> saturation_status \<Rightarrow> (string \<times> bool) list" where
  "gate_checks c valid report packet saturation =
     [(''evaluation_input'', valid),
      (''attack_records'', ci_attacks c \<noteq> []),
      (''discussion'', ci_sessions c \<noteq> []),
      (''rehydration'', ro_accepted (ci_rehydration c) \<and> ro_flags (ci_rehydration c) = []),
      (''final_report'', no_issues report),
      (''cold_review_packet'', no_issues packet),
      (''cold_review_result'', cr_passed (ci_review c) \<and> cr_blocking (ci_review c) = []),
      (''strategy_saturated'', sat_strategy saturation),
      (''evidence_saturated'', sat_evidence saturation),
      (''counterevidence_saturated'', sat_counter saturation),
      (''claim_stable'', sat_claim saturation),
      (''formal_completion_evidence'', True)]"

text \<open>The generator reads \<open>reasons\<close> while \<open>extend\<close> appends to it, so a code is added once.\<close>

fun add_codes :: "string list \<Rightarrow> string list \<Rightarrow> string list" where
  "add_codes reasons [] = reasons"
| "add_codes reasons (code # codes) = add_codes (if code \<in> set reasons then reasons else reasons @ [code]) codes"

definition gate_reasons :: "(string \<times> bool) list \<Rightarrow> validation_issue list \<Rightarrow> string list" where
  "gate_reasons checks issues = add_codes (map fst (filter (\<lambda>p. \<not> snd p) checks)) (map issue_code issues)"

definition checks_json :: "(string \<times> bool) list \<Rightarrow> json" where
  "checks_json checks = JObj (map (\<lambda>(k, b). (k, JBool b)) checks)"

definition gate_payload :: "prims \<Rightarrow> completion_input \<Rightarrow> (string \<times> bool) list \<Rightarrow> string list \<Rightarrow> json" where
  "gate_payload P c checks reasons = JObj
     [(''input_hash'', JStr (ci_hash c)), (''checks'', checks_json checks), (''reasons'', strings_json reasons),
      (''project_id'', JStr (ci_project c)), (''run_id'', JStr (ci_run c)), (''charter_hash'', JStr (ci_charter_hash c)),
      (''state_hash'', JStr (ci_state_hash c)), (''evaluated_at'', JStr (stamp_text P (ci_evaluated c)))]"

definition evaluate_completion_gate :: "prims \<Rightarrow> completion_input \<Rightarrow> py_exc + gate_result" where
  "evaluate_completion_gate P c =
     andthen (validate_completion_input P c) (\<lambda>(valid, issues, saturation).
     andthen (validate_report_projection P (ci_report c) (ci_state c)) (\<lambda>report.
     andthen (validate_cold_review_packet P (ci_packet c) (ci_state c) (Some (ci_charter_hash c))) (\<lambda>packet.
     let checks = gate_checks c valid report packet saturation; reasons = gate_reasons checks issues in
     andthen (canonical_sha256 P (of_json (gate_payload P c checks reasons))) (\<lambda>h. Inr
       \<lparr>gr_passed = (reasons = []), gr_reasons = reasons, gr_checks = checks, gr_project = ci_project c, gr_run = ci_run c,
        gr_charter = ci_charter_hash c, gr_state_hash = ci_state_hash c, gr_hash = h, gr_input_hash = ci_hash c,
        gr_evaluated = stamp_text P (ci_evaluated c)\<rparr>))))"

section \<open>The result\<close>

definition make_completion_result :: "prims \<Rightarrow> completion_result \<Rightarrow> py_exc + completion_result" where
  "make_completion_result P r =
     (if cx_id r \<noteq> [] then Inr r
      else andthen (make_event_id P (VStr ''completion_result'') (VStr (cx_project r)) (of_json (JObj
             [(''run_id'', JStr (cx_run r)), (''charter_hash'', JStr (cx_charter r)), (''state_hash'', JStr (cx_state_hash r)),
              (''gate_hash'', JStr (gr_hash (cx_gate r))), (''gate_input_hash'', JStr (gr_input_hash (cx_gate r))),
              (''evaluated_at'', JStr (stamp_text P (cx_evaluated r)))]))) (\<lambda>i. Inr (r\<lparr>cx_id := i\<rparr>)))"

definition evaluate_completion_result :: "prims \<Rightarrow> completion_input \<Rightarrow> py_exc + completion_result" where
  "evaluate_completion_result P c =
     andthen (evaluate_completion_gate P c) (\<lambda>gate. make_completion_result P
       \<lparr>cx_project = ci_project c, cx_run = ci_run c, cx_charter = ci_charter_hash c, cx_state_hash = ci_state_hash c,
        cx_gate = gate, cx_evaluated = ci_evaluated c, cx_id = [], cx_schema = ''max-research-completion-result/v1''\<rparr>)"

definition gate_json :: "gate_result \<Rightarrow> json" where
  "gate_json g = JObj
     [(''passed'', JBool (gr_passed g)), (''reasons'', strings_json (gr_reasons g)), (''checks'', checks_json (gr_checks g)),
      (''project_id'', JStr (gr_project g)), (''run_id'', JStr (gr_run g)), (''charter_hash'', JStr (gr_charter g)),
      (''state_hash'', JStr (gr_state_hash g)), (''gate_hash'', JStr (gr_hash g)),
      (''gate_input_hash'', JStr (gr_input_hash g)), (''evaluated_at'', JStr (gr_evaluated g))]"

definition completion_result_json :: "prims \<Rightarrow> completion_result \<Rightarrow> json" where
  "completion_result_json P r = JObj
     [(''project_id'', JStr (cx_project r)), (''run_id'', JStr (cx_run r)), (''charter_hash'', JStr (cx_charter r)),
      (''state_hash'', JStr (cx_state_hash r)), (''gate_result'', gate_json (cx_gate r)),
      (''evaluated_at'', JStr (stamp_text P (cx_evaluated r))), (''result_id'', JStr (cx_id r)), (''schema'', JStr (cx_schema r))]"

record completion_expectation =
  xp_project :: "string option"
  xp_run :: "string option"
  xp_charter :: "string option"
  xp_state_hash :: "string option"

definition result_checks ::
    "completion_result \<Rightarrow> completion_expectation \<Rightarrow> max_run_state option \<Rightarrow> validation_issue list" where
  "result_checks r ex current =
     concat (map (\<lambda>(name, ok). check ok ''completion_result.binding'' (''$.'' @ name)
         (''completion result '' @ name @ '' differs from expected context''))
       [(''project_id'', binds (xp_project ex) (cx_project r)), (''run_id'', binds (xp_run ex) (cx_run r)),
        (''charter_hash'', binds (xp_charter ex) (cx_charter r)), (''state_hash'', binds (xp_state_hash ex) (cx_state_hash r))])
   @ check (case current of None \<Rightarrow> True | Some s \<Rightarrow> Some (cx_state_hash r) = current_state_hash s)
       ''completion_result.run_state'' ''$.state_hash'' ''completion result does not bind the Run State current state hash''
   @ check (is_stable_id (JStr (cx_id r)) (Some ''completion_result'')) ''completion_result.id'' ''$.result_id''
       ''result_id is not stable''
   @ check (parse_time (cx_evaluated r) \<noteq> None) ''completion_result.timestamp'' ''$.evaluated_at''
       ''evaluated_at must be ISO-8601''
   @ check (gr_hash (cx_gate r) \<noteq> [] \<and> gr_input_hash (cx_gate r) \<noteq> []) ''completion_result.hash_required''
       ''$.gate_result'' ''gate_hash and gate_input_hash are required''
   @ check (gr_passed (cx_gate r)) ''completion_result.gate'' ''$.gate_result'' ''completion gate did not pass''"

definition is_key_error :: "py_exc \<Rightarrow> bool" where
  "is_key_error e \<longleftrightarrow> (case e of KeyError k \<Rightarrow> True | _ \<Rightarrow> False)"

definition validate_completion_result ::
    "prims \<Rightarrow> completion_result \<Rightarrow> completion_input option \<Rightarrow> completion_expectation \<Rightarrow> max_run_state option
     \<Rightarrow> py_exc + validation_result" where
  "validate_completion_result P r input ex current =
     (case input of
        None \<Rightarrow> Inr [issue ''completion_result.evaluation_input_required'' ''$''
          ''completion result must be verified against a complete CompletionEvaluationInput'']
      | Some c \<Rightarrow>
          (case evaluate_completion_result P c of
             Inl e \<Rightarrow> if caught e \<or> is_key_error e
               then Inr [issue ''completion_result.input_invalid'' ''$.evaluation_input''
                 (''completion input cannot be recomputed: '' @ exc_text e)]
               else Inl e
           | Inr expected \<Rightarrow> Inr (
               check (completion_result_json P r = completion_result_json P expected) ''completion_result.recompute_mismatch''
                 ''$'' ''CompletionResult differs from the pure evaluator result''
             @ result_checks r ex current)))"

section \<open>The completing transition\<close>

definition unbound :: completion_expectation where
  "unbound = \<lparr>xp_project = None, xp_run = None, xp_charter = None, xp_state_hash = None\<rparr>"

definition fresh_input :: "max_run_state \<Rightarrow> completion_input \<Rightarrow> bool" where
  "fresh_input s c \<longleftrightarrow> current_state_hash (ci_run_state c) = current_state_hash s
     \<and> Some (rs_hash (ci_state c)) = current_state_hash s"

definition same_result :: "prims \<Rightarrow> completion_result option \<Rightarrow> completion_result \<Rightarrow> bool" where
  "same_result P submitted expected \<longleftrightarrow>
     (case submitted of None \<Rightarrow> True | Some r \<Rightarrow> completion_result_json P r = completion_result_json P expected)"

definition completed_fields :: "max_run_state \<Rightarrow> completion_result \<Rightarrow> string option \<Rightarrow> max_run_state" where
  "completed_fields s expected checkpoint =
     s\<lparr>completion_result_id := Some (cx_id expected), completion_state_hash := Some (cx_state_hash expected),
       current_state_hash := Some (cx_state_hash expected),
       current_checkpoint_id := (case checkpoint of None \<Rightarrow> current_checkpoint_id s
         | Some i \<Rightarrow> if i = [] then current_checkpoint_id s else Some i)\<rparr>"

definition complete_with ::
    "prims \<Rightarrow> max_run_state \<Rightarrow> completion_input option \<Rightarrow> completion_result option \<Rightarrow> py_exc + run_transition" where
  "complete_with P s input submitted =
     andthen (from_option
       (contract_error ''a complete CompletionEvaluationInput is required before COMPLETED'') input) (\<lambda>c.
     andthen (require (fresh_input s c)
       (contract_error ''completion input is stale or does not bind the current Run State'')) (\<lambda>_.
     andthen (evaluate_completion_result P c) (\<lambda>expected.
     andthen (require (same_result P submitted expected)
       (contract_error ''submitted CompletionResult differs from recomputed result'')) (\<lambda>_.
     andthen (validate_completion_result P expected (Some c) unbound (Some s)) (\<lambda>issues.
     andthen (raise_if_invalid issues) (\<lambda>_. Inr
       \<lparr>new_state = completed_fields s expected (ci_checkpoint c), new_consumption = None\<rparr>))))))"

definition transition_to_completed ::
    "prims \<Rightarrow> max_run_state \<Rightarrow> completion_input option \<Rightarrow> completion_result option \<Rightarrow> py_exc + run_transition" where
  "transition_to_completed P s input submitted =
     andthen (raise_if_invalid (validate_run_state P s)) (\<lambda>_.
     andthen (require (Completed \<in> set (allowed_run_transitions (status s)))
       (contract_error (''illegal Max Run transition ''
          @ py_quote (status_value (status s)) @ '' -> '' @ py_quote (status_value Completed)))) (\<lambda>_.
     andthen (complete_with P s input submitted) (\<lambda>t.
       let updated = (new_state t)\<lparr>status := Completed, state_version := state_version s + 1\<rparr>
       in andthen (raise_if_invalid (validate_run_state P updated)) (\<lambda>_. Inr
            \<lparr>new_state = updated, new_consumption = new_consumption t\<rparr>))))"

text \<open>The view of an evaluation that \<open>transition_run_state\<close> of \<open>Run_State\<close> takes.\<close>

definition view_of ::
    "prims \<Rightarrow> max_run_state \<Rightarrow> completion_input \<Rightarrow> completion_result option \<Rightarrow> py_exc + completion_view" where
  "view_of P s c submitted =
     andthen (evaluate_completion_result P c) (\<lambda>expected.
     andthen (validate_completion_result P expected (Some c) unbound (Some s)) (\<lambda>issues. Inr
       \<lparr>cv_input_run_state_hash = current_state_hash (ci_run_state c), cv_input_research_hash = Some (rs_hash (ci_state c)),
        cv_input_checkpoint_id = ci_checkpoint c, cv_submitted_matches = same_result P submitted expected,
        cv_result_id = cx_id expected, cv_result_state_hash = cx_state_hash expected, cv_issues = issues\<rparr>))"

end
