(* ===== verification/Completion_Laws.thy ===== *)
theory Completion_Laws
  imports Completion_Result
begin

text \<open>
  What the parts of a passed gate have established, and the completing transition taken apart.
\<close>

section \<open>The gate\<close>

lemma add_codes_empty [simp]: "add_codes rs cs = [] \<longleftrightarrow> rs = [] \<and> cs = []"
proof -
  have kept: "rs \<noteq> [] \<Longrightarrow> add_codes rs cs \<noteq> []" for rs cs :: "string list"
    by (induction cs arbitrary: rs) simp_all
  show ?thesis
  proof (cases cs)
    case (Cons code codes)
    then show ?thesis by (cases "rs = []") (simp_all add: kept)
  qed simp
qed

lemma gate_reasons_empty: "gate_reasons checks issues = [] \<longleftrightarrow> list_all snd checks \<and> issues = []"
  by (auto simp: gate_reasons_def filter_empty_conv list_all_iff)

definition saturated :: "saturation_status \<Rightarrow> bool" where
  "saturated sat \<longleftrightarrow> sat_strategy sat \<and> sat_evidence sat \<and> sat_counter sat \<and> sat_claim sat"

lemma gate_meaning:
  "evaluate_completion_gate P c = Inr g \<and> gr_passed g \<longleftrightarrow>
     (\<exists>sat h. validate_completion_input P c = Inr (True, [], sat) \<and> saturated sat
        \<and> validate_report_projection P (ci_report c) (ci_state c) = Inr []
        \<and> validate_cold_review_packet P (ci_packet c) (ci_state c) (Some (ci_charter_hash c)) = Inr []
        \<and> ci_attacks c \<noteq> [] \<and> ci_sessions c \<noteq> [] \<and> ro_accepted (ci_rehydration c) \<and> ro_flags (ci_rehydration c) = []
        \<and> cr_passed (ci_review c) \<and> cr_blocking (ci_review c) = []
        \<and> canonical_sha256 P (of_json (gate_payload P c (gate_checks c True [] [] sat) [])) = Inr h
        \<and> g = \<lparr>gr_passed = True, gr_reasons = [], gr_checks = gate_checks c True [] [] sat, gr_project = ci_project c,
             gr_run = ci_run c, gr_charter = ci_charter_hash c, gr_state_hash = ci_state_hash c, gr_hash = h,
             gr_input_hash = ci_hash c, gr_evaluated = stamp_text P (ci_evaluated c)\<rparr>)"
  (is "?lhs \<longleftrightarrow> ?rhs")
proof
  assume l: ?lhs
  then obtain valid issues sat report packet h where
      parts: "validate_completion_input P c = Inr (valid, issues, sat)"
        "validate_report_projection P (ci_report c) (ci_state c) = Inr report"
        "validate_cold_review_packet P (ci_packet c) (ci_state c) (Some (ci_charter_hash c)) = Inr packet"
      and h: "canonical_sha256 P (of_json (gate_payload P c (gate_checks c valid report packet sat)
          (gate_reasons (gate_checks c valid report packet sat) issues))) = Inr h"
      and g: "g = \<lparr>gr_passed = (gate_reasons (gate_checks c valid report packet sat) issues = []),
          gr_reasons = gate_reasons (gate_checks c valid report packet sat) issues,
          gr_checks = gate_checks c valid report packet sat, gr_project = ci_project c,
          gr_run = ci_run c, gr_charter = ci_charter_hash c, gr_state_hash = ci_state_hash c, gr_hash = h,
          gr_input_hash = ci_hash c, gr_evaluated = stamp_text P (ci_evaluated c)\<rparr>"
    by (auto simp: evaluate_completion_gate_def Let_def result_simps)
  have none: "gate_reasons (gate_checks c valid report packet sat) issues = []" using l g by simp
  then have all: "valid" "report = []" "packet = []" "saturated sat" "issues = []" "ci_attacks c \<noteq> []"
      "ci_sessions c \<noteq> []" "ro_accepted (ci_rehydration c)" "ro_flags (ci_rehydration c) = []"
      "cr_passed (ci_review c)" "cr_blocking (ci_review c) = []"
    by (auto simp: gate_reasons_empty gate_checks_def no_issues_def saturated_def)
  have "gate_reasons (gate_checks c True [] [] sat) [] = []" using none all by simp
  then show ?rhs using parts h g all by auto
next
  assume ?rhs
  then obtain sat h where r: "validate_completion_input P c = Inr (True, [], sat)" "saturated sat"
        "validate_report_projection P (ci_report c) (ci_state c) = Inr []"
        "validate_cold_review_packet P (ci_packet c) (ci_state c) (Some (ci_charter_hash c)) = Inr []"
        "ci_attacks c \<noteq> [] \<and> ci_sessions c \<noteq> [] \<and> ro_accepted (ci_rehydration c) \<and> ro_flags (ci_rehydration c) = []
        \<and> cr_passed (ci_review c) \<and> cr_blocking (ci_review c) = []"
        "canonical_sha256 P (of_json (gate_payload P c (gate_checks c True [] [] sat) [])) = Inr h"
        "g = \<lparr>gr_passed = True, gr_reasons = [], gr_checks = gate_checks c True [] [] sat, gr_project = ci_project c,
             gr_run = ci_run c, gr_charter = ci_charter_hash c, gr_state_hash = ci_state_hash c, gr_hash = h,
             gr_input_hash = ci_hash c, gr_evaluated = stamp_text P (ci_evaluated c)\<rparr>"
    by blast
  then have "gate_reasons (gate_checks c True [] [] sat) [] = []"
    by (simp add: gate_reasons_empty gate_checks_def no_issues_def saturated_def)
  then show ?lhs using r by (simp add: evaluate_completion_gate_def Let_def)
qed

section \<open>The input\<close>

lemma recompute_clean:
  "recompute_issues P st = Inr [] \<longleftrightarrow>
     (\<exists>st'. rebuild_research_state P (rs_objects st) (rs_relations st) (rs_project st) (rs_run st) = Inr st' \<and> rs_hash st' = rs_hash st)"
  by (auto simp: recompute_issues_def split: sum.splits)

lemma valid_input_parts:
  assumes "validate_completion_input P c = Inr (v, [], sat)"
  shows "\<exists>charter. charter_digest P (ci_charter c) = Inr charter \<and> context_issues c charter = []"
    "recompute_issues P (ci_state c) = Inr []" "checkpoint_issues c = []" "binding_issues P c = []"
    "completion_input_hash P c = Inr (ci_hash c)" "parse_time (ci_evaluated c) \<noteq> None"
    "attack_records_issues c = []" "\<forall>d\<in>set (ci_sessions c). validate_discussion_session d (Some (ci_state c)) = []"
    "ci_sessions c \<noteq> []" "rehydration_ok c"
    "validate_cold_review_result P (ci_review c) (ci_packet c) (ci_state c) (Some (ci_report c)) (Some (ci_model c)) None = Inr []"
    "cw_report (ci_packet c) = rp_id (ci_report c)" "formal_issues P (ci_formal c) (ci_state c) (ci_report c) = []"
    "\<exists>claims evidence. expected_claims P c = Inr claims \<and> expected_evidence P c = Inr evidence \<and> snapshot_issues c claims evidence = []"
    "\<exists>families. charter_families (ci_charter c) = Inr families \<and> family_issues c families = []"
    "evaluate_saturation P (ci_ledger c) (ci_claims c) (ci_evidence c) 2 2 (ci_counter c) = Inr sat"
  using assms unfolding validate_completion_input_def Let_def
  by (simp_all add: result_simps) (blast)+

section \<open>The transition\<close>

lemma validate_own_result:
  assumes "evaluate_completion_result P c = Inr r"
  shows "validate_completion_result P r (Some c) ex current = Inr (result_checks r ex current)"
  using assms by (simp add: validate_completion_result_def)

lemma evaluated_result:
  "evaluate_completion_result P c = Inr r \<longleftrightarrow> (\<exists>g i. evaluate_completion_gate P c = Inr g
     \<and> make_event_id P (VStr ''completion_result'') (VStr (ci_project c)) (of_json (JObj
             [(''run_id'', JStr (ci_run c)), (''charter_hash'', JStr (ci_charter_hash c)), (''state_hash'', JStr (ci_state_hash c)),
              (''gate_hash'', JStr (gr_hash g)), (''gate_input_hash'', JStr (gr_input_hash g)),
              (''evaluated_at'', JStr (stamp_text P (ci_evaluated c)))])) = Inr i
     \<and> r = \<lparr>cx_project = ci_project c, cx_run = ci_run c, cx_charter = ci_charter_hash c, cx_state_hash = ci_state_hash c,
        cx_gate = g, cx_evaluated = ci_evaluated c, cx_id = i, cx_schema = ''max-research-completion-result/v1''\<rparr>)"
  by (auto simp: evaluate_completion_result_def make_completion_result_def result_simps)

lemma result_checks_empty:
  "result_checks r unbound (Some s) = [] \<longleftrightarrow> current_state_hash s = Some (cx_state_hash r)
     \<and> is_stable_id (JStr (cx_id r)) (Some ''completion_result'') \<and> parse_time (cx_evaluated r) \<noteq> None
     \<and> gr_hash (cx_gate r) \<noteq> [] \<and> gr_input_hash (cx_gate r) \<noteq> [] \<and> gr_passed (cx_gate r)"
  by (auto simp: result_checks_def unbound_def binds_def)

lemma complete_with_meaning:
  "complete_with P s (Some c) submitted = Inr t \<longleftrightarrow> (\<exists>r. evaluate_completion_result P c = Inr r \<and> fresh_input s c
     \<and> same_result P submitted r \<and> result_checks r unbound (Some s) = []
     \<and> t = \<lparr>new_state = completed_fields s r (ci_checkpoint c), new_consumption = None\<rparr>)"
  by (auto simp: complete_with_def result_simps validate_own_result)

lemma completed_meaning:
  "transition_to_completed P s (Some c) submitted = Inr t \<longleftrightarrow> (\<exists>r. validate_run_state P s = []
     \<and> status s = Running \<and> evaluate_completion_result P c = Inr r \<and> fresh_input s c
     \<and> same_result P submitted r \<and> result_checks r unbound (Some s) = []
     \<and> new_state t = (completed_fields s r (ci_checkpoint c))\<lparr>status := Completed, state_version := state_version s + 1\<rparr>
     \<and> new_consumption t = None \<and> validate_run_state P (new_state t) = [])"
  (is "?lhs \<longleftrightarrow> ?rhs")
proof -
  have "Completed \<in> set (allowed_run_transitions x) \<longleftrightarrow> x = Running" for x by (cases x) auto
  moreover have "t = \<lparr>new_state = u, new_consumption = v\<rparr> \<longleftrightarrow> new_state t = u \<and> new_consumption t = v" for u v
    by (cases t) simp
  ultimately show ?thesis
    by (auto simp: transition_to_completed_def result_simps complete_with_meaning Let_def)
qed

lemma completed_by_view:
  "transition_to_completed P s (Some c) submitted = Inr t \<longleftrightarrow>
     (\<exists>v. view_of P s c submitted = Inr v
        \<and> transition_run_state P s Completed approval now (Some v) research ledger = Inr t)"
proof -
  have "complete_with P s (Some c) submitted = Inr u \<longleftrightarrow>
      (\<exists>v. view_of P s c submitted = Inr v \<and> target_effect P s Completed approval now (Some v) ledger = Inr u)" for u
    by (auto simp: complete_with_meaning view_of_def result_simps validate_own_result target_effect_def complete_run_def
        fresh_input_def completed_fields_def)
  then show ?thesis
    by (auto simp: transition_to_completed_def transition_run_state_def result_simps Let_def)
qed

end
