(* ===== verification/Completion_History.thy ===== *)
theory Completion_History
  imports Control_Work Completion_Laws
begin

text \<open>
  The completion of a run in \<open>max_research/persistence/repository.py\<close>: \<open>_history_for_completion\<close>,
  \<open>_assemble_completion_input\<close>, \<open>evaluate_completion\<close> and \<open>persist_completion\<close>.

  The history is read from the tables of the control database: iterations, outcomes and artifact
  links. \<open>completion_tables\<close> adds the two JSON columns the database record leaves out, the
  charter of a run and its saved research state. What \<open>json.loads\<close> makes of a text and what
  \<open>from_mapping\<close> of a contract type makes of a value are parameters (\<open>completion_readers\<close>), as in
  the columns of \<open>Control_Db\<close>.
\<close>

section \<open>Reading\<close>

record completion_readers =
  rd_loads :: "string \<Rightarrow> json option"
  rd_charter :: "json \<Rightarrow> py_exc + research_charter"
  rd_research :: "json \<Rightarrow> py_exc + research_state"
  rd_ledger :: "json \<Rightarrow> py_exc + coverage_ledger"
  rd_claim :: "json \<Rightarrow> py_exc + claim_snapshot"
  rd_evidence :: "json \<Rightarrow> py_exc + evidence_snapshot"
  rd_attack :: "json \<Rightarrow> py_exc + attack_record"
  rd_session :: "json \<Rightarrow> py_exc + discussion_session"
  rd_rehydration :: "json \<Rightarrow> py_exc + rehydration_output"
  rd_packet :: "json \<Rightarrow> py_exc + cold_packet"
  rd_review :: "json \<Rightarrow> py_exc + cold_result"
  rd_report :: "json \<Rightarrow> py_exc + report_projection"
  rd_formal :: "json \<Rightarrow> py_exc + formal_evidence"
  rd_input :: "json \<Rightarrow> py_exc + completion_input"
  rd_result :: "json \<Rightarrow> py_exc + completion_result"

record completion_tables =
  ct_charters :: "string \<Rightarrow> string"
  ct_states :: "string \<rightharpoonup> string"

definition load_json :: "completion_readers \<Rightarrow> string \<Rightarrow> failure + json" where
  "load_json D text = from_option (Raised (ValueError ''Expecting value'')) (rd_loads D text)"

definition load_model :: "completion_readers \<Rightarrow> (json \<Rightarrow> py_exc + 'a) \<Rightarrow> string \<Rightarrow> failure + 'a" where
  "load_model D read text = andthen (load_json D text) (\<lambda>j. raising (read j))"

text \<open>\<open>try: ... except Exception as exc: raise MaxControlError(m) from exc\<close>.\<close>

definition recovering :: "string \<Rightarrow> failure + 'a \<Rightarrow> failure + 'a" where
  "recovering m x = (case x of Inl e \<Rightarrow> Inl (Max_control m) | Inr y \<Rightarrow> Inr y)"

lemma recovering_eq_Inr [result_simps]: "recovering m x = Inr y \<longleftrightarrow> x = Inr y"
  by (cases x) (simp_all add: recovering_def)

section \<open>The history\<close>

text \<open>\<open>max_iterations JOIN max_iteration_outcomes ... ORDER BY i.sequence_no\<close>.\<close>

definition history_rows :: "control_db \<Rightarrow> string \<Rightarrow> (iteration_row \<times> outcome_row) list" where
  "history_rows db r = concat (map (\<lambda>i. map (Pair i) (filter (\<lambda>out. oc_iteration out = it_id i) (db_outcomes db)))
     (sort_key it_seq (iterations_of db r)))"

definition completed_rows :: "(iteration_row \<times> outcome_row) list \<Rightarrow> (iteration_row \<times> outcome_row) list" where
  "completed_rows rows =
     filter (\<lambda>(i, out). oc_status out = ''completed'' \<and> oc_output out \<noteq> None \<and> oc_output out \<noteq> Some []) rows"

definition stable_rounds :: "string \<Rightarrow> (iteration_row \<times> outcome_row) list \<Rightarrow> bool" where
  "stable_rounds h finished \<longleftrightarrow> 2 \<le> length finished
     \<and> oc_output (snd (finished ! (length finished - 1))) = Some h \<and> oc_output (snd (finished ! (length finished - 2))) = Some h"

type_synonym artifact_log = "(string \<times> json) list"

definition logged :: "string list \<Rightarrow> artifact_log \<Rightarrow> bool" where
  "logged types arts \<longleftrightarrow> list_ex (\<lambda>p. fst p \<in> set types) arts"

definition artifacts_of :: "artifact_log \<Rightarrow> string \<Rightarrow> json list" where
  "artifacts_of arts type = map snd (filter (\<lambda>p. fst p = type) arts)"

definition links_of :: "control_db \<Rightarrow> string \<Rightarrow> string \<Rightarrow> artifact_row list" where
  "links_of db r iid =
     sort_key al_type (sort_key al_artifact (filter (\<lambda>l. al_run l = r \<and> al_iteration l = iid) (db_artifacts db)))"

definition read_link :: "prims \<Rightarrow> completion_readers \<Rightarrow> artifact_row \<Rightarrow> artifact_log \<Rightarrow> failure + artifact_log" where
  "read_link P D l arts = recovering ''persisted completion artifact is invalid'' (
     andthen (load_json D (al_json l)) (\<lambda>j.
     andthen (raising (canonical_sha256 P (of_json j))) (\<lambda>h.
     andthen (require (h = al_hash l) (Raised (ValueError ''artifact hash mismatch''))) (\<lambda>_.
     Inr (arts @ [(al_type l, j)])))))"

definition snapshot_column :: "completion_readers \<Rightarrow> string \<Rightarrow> failure + unit" where
  "snapshot_column D text = andthen (load_json D text) (\<lambda>j.
     require (json_truthy (Some j)) (Max_control ''completion history lacks persisted canonical snapshots''))"

definition round_artifacts :: "string \<Rightarrow> artifact_log \<Rightarrow> failure + unit" where
  "round_artifacts kind arts =
     andthen (require (kind = ''attack'' \<longrightarrow> logged [''attack_record'', ''attack''] arts)
       (Max_control ''attack round lacks a typed AttackRecord'')) (\<lambda>_.
     andthen (require (kind = ''adjudication'' \<longrightarrow> logged [''discussion_session'', ''adjudication''] arts)
       (Max_control ''adjudication round lacks a typed DiscussionSession'')) (\<lambda>_.
     require (kind = ''rehydration'' \<longrightarrow> logged [''rehydration_output''] arts)
       (Max_control ''rehydration round lacks a persisted RehydrationOutput'')))"

definition completed_round ::
    "prims \<Rightarrow> completion_readers \<Rightarrow> control_db \<Rightarrow> string \<Rightarrow> iteration_row \<times> outcome_row \<Rightarrow> artifact_log
     \<Rightarrow> failure + artifact_log" where
  "completed_round P D db r row arts = (case row of (i, out) \<Rightarrow>
     andthen (snapshot_column D (oc_claims out)) (\<lambda>_.
     andthen (snapshot_column D (oc_evidence out)) (\<lambda>_.
     andthen (snapshot_column D (oc_counter out)) (\<lambda>_.
     andthen (recovering ''completion history contains an invalid strategy ledger''
       (load_model D (rd_ledger D) (oc_strategy out))) (\<lambda>ledger.
     andthen (require (cl_strategies ledger \<noteq> [] \<and> cl_required ledger \<noteq> [])
       (Max_control ''completion history lacks a persisted strategy ledger'')) (\<lambda>_.
     andthen (fold_result (read_link P D) (links_of db r (it_id i)) arts) (\<lambda>arts'.
     andthen (round_artifacts (it_round i) arts') (\<lambda>_. Inr arts'))))))))"

record completion_history =
  hi_count :: int
  hi_completed :: int
  hi_rounds :: "string list"
  hi_rows :: "(iteration_row \<times> outcome_row) list"
  hi_log :: artifact_log

definition required_artifacts :: "string list" where
  "required_artifacts = [''cold_review_packet'', ''cold_review_result'', ''final_report'', ''formal_completion_evidence'']"

definition history_for_completion ::
    "prims \<Rightarrow> completion_readers \<Rightarrow> control_db \<Rightarrow> string \<Rightarrow> string \<Rightarrow> failure + completion_history" where
  "history_for_completion P D db r h =
     (let rows = history_rows db r; finished = completed_rows rows;
          sequences = map it_seq (sort_key it_seq (iterations_of db r)); rounds = map (\<lambda>p. it_round (fst p)) finished in
      andthen (require (sequences = [1..int (length sequences)])
        (Max_control ''iteration history is not contiguous'')) (\<lambda>_.
      andthen (require (stable_rounds h finished)
        (Max_control ''completion history does not prove two consecutive stable outcome rounds'')) (\<lambda>_.
      andthen (require ({''attack'', ''adjudication'', ''rehydration''} \<subseteq> set rounds)
        (Max_control ''completion history lacks attack, adjudication, or rehydration rounds'')) (\<lambda>_.
      andthen (fold_result (completed_round P D db r) finished []) (\<lambda>arts.
      andthen (fold_result (\<lambda>type _. require (logged [type] arts)
          (Max_control (''completion history lacks a persisted typed '' @ type))) required_artifacts ()) (\<lambda>_.
      Inr \<lparr>hi_count = int (length sequences), hi_completed = int (length finished), hi_rounds = sorted_set rounds,
        hi_rows = rows, hi_log = arts\<rparr>))))))"

text \<open>The history as \<open>_hash\<close> sees it: a row of the query is a sequence of its columns.\<close>

definition history_row_json :: "prims \<Rightarrow> iteration_row \<times> outcome_row \<Rightarrow> json" where
  "history_row_json P row = (case row of (i, out) \<Rightarrow> JList
     [JInt (it_seq i), JStr (it_id i), JStr (it_round i), JStr (oc_status out), JStr (oc_input out),
      opt_json (oc_output out), JStr (oc_claims out), JStr (oc_evidence out), JStr (oc_counter out),
      JStr (oc_strategy out), JStr (json_text P (JObj (oc_delta out))), JStr (oc_summary out)])"

definition history_json :: "prims \<Rightarrow> completion_history \<Rightarrow> json" where
  "history_json P hist = JObj
     [(''iteration_count'', JInt (hi_count hist)), (''completed_count'', JInt (hi_completed hist)),
      (''round_types'', strings_json (hi_rounds hist)), (''stable_rounds'', JInt 2),
      (''rows'', JList (map (history_row_json P) (hi_rows hist))),
      (''artifacts'', JObj (map (\<lambda>type. (type, JList (artifacts_of (hi_log hist) type))) (remdups (map fst (hi_log hist)))))]"

section \<open>The evaluation input\<close>

definition first_artifacts :: "artifact_log \<Rightarrow> string \<Rightarrow> string \<Rightarrow> json list" where
  "first_artifacts arts a b = (if artifacts_of arts a \<noteq> [] then artifacts_of arts a else artifacts_of arts b)"

definition one_artifact :: "artifact_log \<Rightarrow> string \<Rightarrow> (json \<Rightarrow> py_exc + 'a) \<Rightarrow> failure + 'a" where
  "one_artifact arts name read =
     (let values = artifacts_of arts name in
      andthen (require (values \<noteq> []) (Max_control (''completion artifact is missing: '' @ name))) (\<lambda>_.
      recovering (''completion artifact is not the required typed object: '' @ name) (raising (read (last values)))))"

definition load_snapshots :: "completion_readers \<Rightarrow> (json \<Rightarrow> py_exc + 'a) \<Rightarrow> string \<Rightarrow> failure + 'a list" where
  "load_snapshots D read text =
     andthen (load_json D text) (\<lambda>j. andthen (raising (json_tuple j)) (\<lambda>js. raising (traverse read js)))"

definition empty_ledger :: coverage_ledger where
  "empty_ledger = \<lparr>cl_strategies = [], cl_required = [], cl_allow_empty = False\<rparr>"

record snapshots =
  ss_claims :: "claim_snapshot list"
  ss_evidence :: "evidence_snapshot list"
  ss_counter :: "evidence_snapshot list"
  ss_ledger :: coverage_ledger

definition collect_row ::
    "completion_readers \<Rightarrow> iteration_row \<times> outcome_row \<Rightarrow> snapshots \<Rightarrow> failure + snapshots" where
  "collect_row D row acc = (case row of (i, out) \<Rightarrow>
     if oc_status out \<noteq> ''completed'' then Inr acc else
     andthen (load_snapshots D (rd_claim D) (oc_claims out)) (\<lambda>claims.
     andthen (load_snapshots D (rd_evidence D) (oc_evidence out)) (\<lambda>evidence.
     andthen (load_snapshots D (rd_evidence D) (oc_counter out)) (\<lambda>counter.
     andthen (load_model D (rd_ledger D) (oc_strategy out)) (\<lambda>ledger. Inr
       \<lparr>ss_claims = ss_claims acc @ claims, ss_evidence = ss_evidence acc @ evidence,
        ss_counter = ss_counter acc @ counter,
        ss_ledger = (if cl_strategies ledger \<noteq> [] \<or> cl_required ledger \<noteq> [] then ledger else ss_ledger acc)\<rparr>)))))"

definition collect_snapshots ::
    "completion_readers \<Rightarrow> (iteration_row \<times> outcome_row) list \<Rightarrow> failure + snapshots" where
  "collect_snapshots D rows = fold_result (collect_row D) rows
     \<lparr>ss_claims = [], ss_evidence = [], ss_counter = [], ss_ledger = empty_ledger\<rparr>"

definition state_hash_of :: "max_run_state \<Rightarrow> string" where
  "state_hash_of s = (case current_state_hash s of None \<Rightarrow> [] | Some h \<Rightarrow> h)"

definition saved_state :: "completion_readers \<Rightarrow> completion_tables \<Rightarrow> string \<Rightarrow> max_run_state \<Rightarrow> failure + research_state" where
  "saved_state D T r s =
     andthen (from_option (Max_control ''completion requires a persisted Research State'') (ct_states T r)) (\<lambda>text.
     andthen (load_model D (rd_research D) text) (\<lambda>st.
     andthen (require (Some (rs_hash st) = current_state_hash s)
       (Max_control ''completion Research State is stale'')) (\<lambda>_. Inr st)))"

definition assemble_completion_input ::
    "prims \<Rightarrow> rounding \<Rightarrow> completion_readers \<Rightarrow> completion_tables \<Rightarrow> control_db \<Rightarrow> string
     \<Rightarrow> failure + completion_input \<times> completion_history \<times> balance" where
  "assemble_completion_input P R D T db r =
     andthen (current_run r db) (\<lambda>(row, s).
     andthen (recovering ''stored Charter is invalid'' (load_model D (rd_charter D) (ct_charters T r))) (\<lambda>charter.
     andthen (saved_state D T r s) (\<lambda>st.
     andthen (history_for_completion P D db r (state_hash_of s)) (\<lambda>hist.
     let arts = hi_log hist in
     andthen (raising (traverse (rd_attack D) (first_artifacts arts ''attack_record'' ''attack''))) (\<lambda>attacks.
     andthen (raising (traverse (rd_session D) (first_artifacts arts ''discussion_session'' ''adjudication''))) (\<lambda>sessions.
     andthen (one_artifact arts ''rehydration_output'' (rd_rehydration D)) (\<lambda>rehydration.
     andthen (one_artifact arts ''cold_review_packet'' (rd_packet D)) (\<lambda>packet.
     andthen (one_artifact arts ''cold_review_result'' (rd_review D)) (\<lambda>review.
     andthen (one_artifact arts ''final_report'' (rd_report D)) (\<lambda>report.
     andthen (one_artifact arts ''formal_completion_evidence'' (rd_formal D)) (\<lambda>formal.
     andthen (collect_snapshots D (hi_rows hist)) (\<lambda>snaps.
     andthen (budget_reconstruct P R db r) (\<lambda>b.
     andthen (raising (make_completion_input P
       \<lparr>ci_project = project_id s, ci_run = r, ci_charter_hash = charter_hash s, ci_state_hash = state_hash_of s,
        ci_charter = charter, ci_run_state = s, ci_state = st, ci_ledger = ss_ledger snaps, ci_attacks = attacks,
        ci_sessions = sessions, ci_rehydration = rehydration, ci_packet = packet, ci_review = review,
        ci_report = report, ci_formal = formal, ci_claims = ss_claims snaps, ci_evidence = ss_evidence snaps,
        ci_counter = ss_counter snaps, ci_budget = ch_budget charter, ci_policy = ch_policy charter,
        ci_model = model_identity s, ci_evaluated = rr_updated row, ci_checkpoint = current_checkpoint_id s,
        ci_allow_empty = False, ci_schema = ''max-research-completion-evaluation-input/v1'', ci_hash = []\<rparr>)) (\<lambda>c.
     Inr (c, hist, b)))))))))))))))"

section \<open>evaluate_completion and persist_completion\<close>

definition evaluate_completion ::
    "prims \<Rightarrow> rounding \<Rightarrow> completion_readers \<Rightarrow> completion_tables \<Rightarrow> string \<Rightarrow> actor \<Rightarrow> int \<Rightarrow> readings \<Rightarrow> control_db
     \<Rightarrow> failure + completion_input \<times> completion_result \<times> completion_history \<times> balance" where
  "evaluate_completion P R D T r actor token clk db = public (
     andthen (current_run r db) (\<lambda>(row, s).
     andthen (require (status s = Running) (Max_control ''completion evaluation requires a RUNNING Run'')) (\<lambda>_.
     andthen (assert_fence db r actor (Some token) (now_check clk)) (\<lambda>_.
     andthen (assemble_completion_input P R D T db r) (\<lambda>(c, hist, b).
     andthen (raising (evaluate_completion_result P c)) (\<lambda>result. Inr (c, result, hist, b)))))))"

text \<open>Equality of two projections, as Python compares them: numbers by value, keys in any order.\<close>

fun plain_value :: "json \<Rightarrow> json" where
  "plain_value (JBool b) = JFloat (if b then 1 else 0)"
| "plain_value (JInt i) = JFloat (of_int i)"
| "plain_value (JList js) = JList (map plain_value js)"
| "plain_value (JObj kvs) = JObj (sort_key fst (map (\<lambda>p. (fst p, plain_value (snd p))) kvs))"
| "plain_value j = j"

definition same_projection :: "prims \<Rightarrow> json \<Rightarrow> json \<Rightarrow> failure + bool" where
  "same_projection P a b =
     andthen (stored_json P a) (\<lambda>x. andthen (stored_json P b) (\<lambda>y. Inr (plain_value x = plain_value y)))"

datatype 'a submitted = Typed 'a | Untyped json

definition read_submitted :: "string \<Rightarrow> (json \<Rightarrow> py_exc + 'a) \<Rightarrow> 'a submitted \<Rightarrow> failure + 'a" where
  "read_submitted m read x = recovering m (case x of Typed v \<Rightarrow> Inr v | Untyped j \<Rightarrow> raising (read j))"

definition check_submitted ::
    "prims \<Rightarrow> string \<Rightarrow> string \<Rightarrow> (json \<Rightarrow> py_exc + 'a) \<Rightarrow> ('a \<Rightarrow> json) \<Rightarrow> 'a submitted option \<Rightarrow> 'a \<Rightarrow> failure + unit" where
  "check_submitted P untyped differs read view submitted expected =
     (case submitted of None \<Rightarrow> Inr ()
      | Some x \<Rightarrow>
          andthen (read_submitted untyped read x) (\<lambda>v.
          andthen (same_projection P (view v) (view expected)) (\<lambda>same.
          require same (Max_control differs))))"

definition persisted_events ::
    "completion_result \<Rightarrow> completion_input \<Rightarrow> string \<Rightarrow> int \<Rightarrow> max_run_state \<Rightarrow> max_run_state \<Rightarrow> (string \<times> json) list" where
  "persisted_events expected c history token s s' =
     [(''completion_persisted'', JObj [(''result_id'', JStr (cx_id expected)), (''state_hash'', JStr (cx_state_hash expected)),
         (''input_hash'', JStr (ci_hash c)), (''history_hash'', JStr history), (''fencing_token'', JInt token)]),
      (''run_transition'', JObj (transition_payload s s'))]"

definition persist_completion ::
    "prims \<Rightarrow> rounding \<Rightarrow> completion_readers \<Rightarrow> completion_tables \<Rightarrow> string \<Rightarrow> completion_input submitted option
     \<Rightarrow> completion_result submitted option \<Rightarrow> string option \<Rightarrow> actor \<Rightarrow> int \<Rightarrow> readings \<Rightarrow> control_db
     \<Rightarrow> failure + (max_run_state \<times> transition_row \<times> completion_result \<times> completion_input) \<times> control_db" where
  "persist_completion P R D T r input result expected_hash actor token clk db = public (
     let now = timestamp (now_stamp clk) in
     andthen (current_run r db) (\<lambda>(row, s).
     andthen (require (status s = Running) (Max_control ''completion persistence requires a RUNNING run'')) (\<lambda>_.
     andthen (assert_fence db r actor (Some token) (now_check clk)) (\<lambda>_.
     andthen (assemble_completion_input P R D T db r) (\<lambda>(c, hist, b).
     andthen (require (expected_hash = None \<or> expected_hash = Some (ci_hash c))
       (Max_control ''completion input hash is stale'')) (\<lambda>_.
     andthen (check_submitted P ''submitted completion input is not a valid typed object''
       ''submitted completion input differs from the database assembly'' (rd_input D) (completion_input_json P) input c) (\<lambda>_.
     andthen (raising (evaluate_completion_result P c)) (\<lambda>expected.
     andthen (check_submitted P ''submitted CompletionResult is not typed''
       ''submitted CompletionResult differs from the recomputed result'' (rd_result D) (completion_result_json P)
       result expected) (\<lambda>_.
     andthen (raising (validate_completion_result P expected (Some c) unbound (Some s))) (\<lambda>issues.
     andthen (raising (raise_if_invalid issues)) (\<lambda>_.
     andthen (raising (transition_to_completed P s (Some c) (Some expected))) (\<lambda>t.
     andthen (stored_json P (completion_result_json P expected)) (\<lambda>j.
     andthen (write_result P (Some j) s t actor now db) (\<lambda>(tr, db1).
     andthen (append_event P r ''lease_released'' (JObj [(''reason'', JStr ''run_completed''),
       (''fencing_token'', JInt token)]) actor now (expire_lease r now db1)) (\<lambda>db2.
     andthen (stored_json P (history_json P hist)) (\<lambda>hj.
     andthen (append_events P r (persisted_events expected c (hash_json P hj) token s (new_state t)) actor now db2) (\<lambda>db3.
     Inr ((new_state t, tr, expected, c), db3))))))))))))))))))"

end
