(* ===== verification/Completion_Effect.thy ===== *)
theory Completion_Effect
  imports Completion_History
begin

text \<open>
  The effect of \<open>persist_completion\<close>, in the form of the effects of the other operations: the run
  it moved, the guards that held, the input it judged and what it wrote.
\<close>

lemma completed_moves:
  assumes "transition_to_completed P s (Some c) submitted = Inr t"
  shows "run_id (new_state t) = run_id s" "status (new_state t) = Completed" "new_consumption t = None"
  using assms by (simp_all add: completed_meaning) (auto simp: completed_fields_def)

lemma persist_completion_effect:
  assumes op: "persist_completion P R D T r input result expected_hash actor token clk db = Inr ((s', tr, expected, c), db')"
    and bound: "bound_run db r"
  obtains s t hist b runs trs leases es where
    "db' = db\<lparr>db_runs := runs, db_transitions := trs, db_leases := leases, db_events := es\<rparr>"
    "advance P r s t db db'" "log_extends P (db_events db) (db_events db')" "leases_move r db db'"
    "transition_to_completed P s (Some c) (Some expected) = Inr t" "s' = new_state t"
    "state_of db r = Some s" "status s = Running" "assert_fence db r actor (Some token) (now_check clk) = Inr ()"
    "assemble_completion_input P R D T db r = Inr (c, hist, b)" "evaluate_completion_result P c = Inr expected"
    "expected_hash = None \<or> expected_hash = Some (ci_hash c)"
    "leases r = map_option (\<lambda>row. row\<lparr>ls_expires := Some (timestamp (now_stamp clk)),
       ls_released := Some (timestamp (now_stamp clk))\<rparr>) (db_leases db r)"
proof -
  let ?now = "timestamp (now_stamp clk)"
  from op obtain row s hist b issues t j db1 db2 hj u where
      row: "db_runs db r = Some row" "col_model (rr_state row) = Some s"
    and g: "status s = Running" "assert_fence db r actor (Some token) (now_check clk) = Inr u"
    and a: "assemble_completion_input P R D T db r = Inr (c, hist, b)"
    and x: "expected_hash = None \<or> expected_hash = Some (ci_hash c)"
    and v: "evaluate_completion_result P c = Inr expected"
    and t: "transition_to_completed P s (Some c) (Some expected) = Inr t"
    and w: "write_result P (Some j) s t actor ?now db = Inr (tr, db1)"
    and e1: "append_event P r ''lease_released'' (JObj [(''reason'', JStr ''run_completed''),
       (''fencing_token'', JInt token)]) actor ?now (expire_lease r ?now db1) = Inr db2"
    and e2: "append_events P r (persisted_events expected c (hash_json P hj) token s (new_state t)) actor ?now db2 = Inr db'"
    and s': "new_state t = s'"
    unfolding persist_completion_def Let_def public_eq_Inr andthen_eq_Inr current_run_eq split_paired_Ex
      prod.case require_eq_Inr raising_eq_Inr sum.inject prod.inject by metis
  have sr: "run_id s = r" using bound row by (simp add: bound_run_def state_of_def)
  have tr: "run_id (new_state t) = r" using completed_moves(1) [OF t] sr by simp
  from advance_from_result [OF w refl refl row sr tr]
  obtain runs trs where w1: "db1 = db\<lparr>db_runs := runs, db_transitions := trs\<rparr>"
      and adv: "\<forall>d :: control_db. db_runs d = runs \<and> db_transitions d = trs \<longrightarrow> advance P r s t db d"
    by (elim exE conjE) (rule that)
  obtain leases where l: "expire_lease r ?now db1 = db1\<lparr>db_leases := leases\<rparr>"
      "\<And>q. q \<noteq> r \<Longrightarrow> leases q = db_leases db1 q"
      "leases r = map_option (\<lambda>row. row\<lparr>ls_expires := Some ?now, ls_released := Some ?now\<rparr>) (db_leases db1 r)"
    using expire_lease_frame [of r ?now db1] by metis
  obtain es2 where es2: "db2 = (expire_lease r ?now db1)\<lparr>db_events := es2\<rparr>"
      "log_extends P (db_events (expire_lease r ?now db1)) es2"
    using append_event_log [OF e1] by blast
  obtain es where es: "db' = db2\<lparr>db_events := es\<rparr>" "log_extends P (db_events db2) es"
    using append_events_log [OF e2] by blast
  have shape: "db' = db\<lparr>db_runs := runs, db_transitions := trs, db_leases := leases, db_events := es\<rparr>"
    using w1 l(1) es2(1) es(1) by simp
  have log: "log_extends P (db_events db) (db_events db')"
    using w1 l(1) es2 es by (auto intro: log_extends_trans)
  have lr: "leases r = map_option (\<lambda>row. row\<lparr>ls_expires := Some ?now, ls_released := Some ?now\<rparr>) (db_leases db r)"
    using l(3) w1 by simp
  have lm: "leases_move r db db'"
    using l(2) lr shape w1 lease_moves_times [of "db_leases db r"] by (simp add: leases_move_def)
  have av: "advance P r s t db db'" using adv shape by simp
  have st: "state_of db r = Some s" using row by (simp add: state_of_def)
  show thesis by (rule that [OF shape av log lm t s' [symmetric] st g(1) _ a v x lr]) (use g in simp)
qed

text \<open>The completing transition is one of the transitions of the run machine.\<close>

lemma completed_is_transition:
  assumes "transition_to_completed P s (Some c) submitted = Inr t"
  shows "\<exists>v. transition_run_state P s Completed None 0 (Some v) None None = Inr t"
  using assms by (auto simp: completed_by_view [where approval = None and now = 0 and research = None and ledger = None])

end
