(* ===== verification/Control_Log.thy ===== *)
theory Control_Log
  imports Control_Work
begin

text \<open>
  The two verified histories of a run, one step at a time: the hash chain of the events stays
  intact when the log grows by linked events, and the transition ledger stays intact when a state
  write appends its entry.
\<close>

section \<open>The chain\<close>

definition chained :: "prims \<Rightarrow> event_row list \<Rightarrow> string \<Rightarrow> bool" where
  "chained P es r \<longleftrightarrow> chain_issues P (run_log es r) 1 [] = []"

lemma chain_issues_append:
  "chain_issues P (xs @ [e]) n p = [] \<longleftrightarrow> chain_issues P xs n p = []
     \<and> chain_row_issues P e (n + int (length xs)) (if xs = [] then p else ev_hash (last xs)) = []"
proof (induction xs arbitrary: n p)
  case (Cons x xs)
  then show ?case by (cases "xs = []") (auto simp: algebra_simps)
qed simp

lemma chain_row_clean:
  "chain_row_issues P e n p = [] \<longleftrightarrow> ev_seq e = n \<and> ev_previous e = p \<and> ev_hash e = event_digest P e
     \<and> (\<exists>v. col_value (ev_payload e) = Some v \<and> canonical_sha256 P (of_json v) = Inr (ev_payload_hash e))"
  by (auto simp: chain_row_issues_def split: option.splits sum.splits if_splits)

lemma chain_numbers:
  "chain_issues P xs n p = [] \<Longrightarrow> k < length xs \<Longrightarrow> ev_seq (xs ! k) = n + int k"
proof (induction xs arbitrary: n p k)
  case (Cons x xs)
  then show ?case by (cases k) (auto simp: chain_row_clean)
qed simp

lemma chain_sorted: "chain_issues P xs n p = [] \<Longrightarrow> sort_key ev_seq xs = xs"
proof (rule sort_key_id_if_sorted)
  assume "chain_issues P xs n p = []"
  then show "sorted (map ev_seq xs)"
    by (auto simp: sorted_iff_nth_mono chain_numbers)
qed

lemma chain_last: "chain_issues P xs 1 [] = [] \<Longrightarrow> xs \<noteq> [] \<Longrightarrow> ev_seq (last xs) = int (length xs)"
  using chain_numbers [of P xs 1 "[]" "length xs - 1"]
  by (cases "length xs") (simp_all add: last_conv_nth)

lemma stored_column_clean:
  assumes "wf_json j"
  shows "canonical_sha256 P (of_json (sort_keys j)) = Inr (hash_json P j)"
  using canonical_sha256_of_json [OF wf_sort_keys [OF assms]] json_text_sort_keys [OF assms]
  by (simp add: hash_json_def)

lemma chained_append:
  assumes chain: "\<forall>r. chained P es r" and e: "appended P es e"
  shows "\<forall>r. chained P (es @ [e]) r"
proof
  fix r
  show "chained P (es @ [e]) r"
  proof (cases "r = ev_run e")
    case False
    then have "run_log (es @ [e]) r = run_log es r" by (simp add: run_log_def)
    then show ?thesis using chain by (simp add: chained_def)
  next
    case True
    let ?own = "run_log es r"
    have own: "chain_issues P ?own 1 [] = []" using chain by (simp add: chained_def)
    have s: "sort_key ev_seq ?own = ?own" using own by (rule chain_sorted)
    have new: "run_log (es @ [e]) r = ?own @ [e]" using True by (simp add: run_log_def)
    obtain j where j: "wf_json j" "ev_payload e = json_column P j ()" "ev_payload_hash e = hash_json P j"
      using e by (auto simp: appended_def)
    have "ev_seq e = 1 + int (length ?own)" "ev_previous e = (if ?own = [] then [] else ev_hash (last ?own))"
      "ev_hash e = event_digest P e"
      using e s True chain_last [OF own] by (auto simp: appended_def Let_def)
    moreover have "\<exists>v. col_value (ev_payload e) = Some v \<and> canonical_sha256 P (of_json v) = Inr (ev_payload_hash e)"
      using j stored_column_clean by (simp add: json_column_def)
    ultimately have "chain_row_issues P e (1 + int (length ?own)) (if ?own = [] then [] else ev_hash (last ?own)) = []"
      unfolding chain_row_clean by blast
    then show ?thesis using own new by (simp add: chained_def chain_issues_append)
  qed
qed

lemma chained_extends:
  assumes "log_extends P es es'" and "\<forall>r. chained P es r"
  shows "\<forall>r. chained P es' r"
  using assms by (induction rule: log_extends.induct) (use chained_append in blast)+

lemma events_of_chained: "chained P (db_events db) r \<Longrightarrow> events_of db r = run_log (db_events db) r"
  unfolding chained_def events_of_def run_log_def [symmetric] by (rule chain_sorted)

lemma chained_verifies:
  assumes "chained P (db_events db) r"
  shows "ch_ok (verify_event_chain P db r)"
  using events_of_chained [OF assms] assms by (simp add: verify_event_chain_def chained_def Let_def)

section \<open>The transition ledger\<close>

definition ledger_reaches :: "prims \<Rightarrow> transition_row list \<Rightarrow> string \<Rightarrow> max_run_state \<Rightarrow> bool" where
  "ledger_reaches P trs r s \<longleftrightarrow>
     (let own = filter (\<lambda>x. tr_run x = r) trs in
        ledger_issues P r own 1 ''AWAITING_START_APPROVAL'' = ([], state_version s, status_value (status s))
        \<and> sorted (map tr_resulting own) \<and> list_all (\<lambda>x. tr_resulting x \<le> state_version s) own)"

lemma ledger_issues_append:
  "ledger_issues P r (xs @ [row]) n st =
     (let (issues, v, st') = ledger_issues P r xs n st; (more, last) = ledger_row_issues P r row v st'
      in (issues @ more, tr_resulting row, last))"
  by (induction xs arbitrary: n st) (auto simp: Let_def split: prod.splits)

text \<open>A stored transition has the two fields of the contract type.\<close>

lemma stored_transition_fields:
  assumes "stored_json P (transition_json P t) = Inr j"
  shows "stored_transition (sort_keys j) m = m"
proof -
  obtain a b where "j = JObj [(''new_state'', a), (''approval_consumption'', b)]"
    using assms that unfolding stored_json_def transition_json_def
    by (auto simp: result_simps dict_of_def str_key_def)
  then show ?thesis by (simp add: stored_transition_def dict_has_def)
qed

lemma ledger_row_clean:
  assumes "stored_json P (transition_json P t) = Inr j" "run_id (new_state t) = r"
  shows "ledger_row_issues P r (transition_row_of P tid j s t actor now) (state_version s) (status_value (status s))
     = ([], status_value (status (new_state t)))"
  using stored_column_clean [OF stored_json_wf [OF assms(1)]] stored_transition_fields [OF assms(1)] assms(2)
  by (simp add: ledger_row_issues_def transition_row_of_def json_column_def Let_def)

lemma ledger_reaches_append:
  assumes "ledger_reaches P trs r s" "stored_json P (transition_json P t) = Inr j" "run_id s = r"
    "run_id (new_state t) = r" "state_version (new_state t) = state_version s + 1"
  shows "ledger_reaches P (trs @ [transition_row_of P tid j s t actor now]) r (new_state t)"
proof -
  let ?row = "transition_row_of P tid j s t actor now"
  have row: "tr_run ?row = r" "tr_resulting ?row = state_version s + 1"
    using assms by (simp_all add: transition_row_of_def)
  show ?thesis
    using assms(1,5) ledger_row_clean [OF assms(2,4), of tid s actor now] row
    by (auto simp: ledger_reaches_def Let_def ledger_issues_append sorted_append list_all_iff intro: order_trans)
qed

lemma ledger_reaches_other:
  assumes "tr_run row \<noteq> r"
  shows "ledger_reaches P (trs @ [row]) r s = ledger_reaches P trs r s"
  using assms by (simp add: ledger_reaches_def)

lemma ledger_verifies:
  assumes "ledger_reaches P (db_transitions db) r s" "db_runs db r = Some row"
    "rr_version row = state_version s" "rr_status row = status_value (status s)"
  shows "vr_ok (verify_transition_results P db r)"
proof -
  let ?own = "filter (\<lambda>x. tr_run x = r) (db_transitions db)"
  have "transitions_of db r = ?own"
    using assms(1) by (simp add: transitions_of_def ledger_reaches_def Let_def sort_key_id_if_sorted)
  moreover have "ledger_issues P r ?own 1 ''AWAITING_START_APPROVAL'' = ([], state_version s, status_value (status s))"
    using assms(1) by (simp add: ledger_reaches_def Let_def)
  ultimately show ?thesis using assms(2-4) by (simp add: verify_transition_results_def Let_def)
qed

end
