(* ===== verification/System.thy ===== *)
theory System
  imports Main
begin

text \<open>
  Interfaces of a state-based component, as locales: what a step relation has to satisfy
  (\<open>assumes\<close>) and what follows for whole runs of it. The control plane's own relations and
  tables are the interpretations (in \<open>Control_Step\<close> and \<open>Control_Correct\<close>).

  \<^item> \<open>invariant_system\<close>: an invariant that holds initially and is kept by every step.
  \<^item> \<open>growing_log\<close>: an append-only list; entries keep their place and their content.
  \<^item> \<open>rising_counter\<close>: a counter no step lowers; \<open>fenced_store\<close> extends it with a check that
    passes only for the present value, the fencing discipline of leases.
\<close>

locale invariant_system =
  fixes initial :: "'s \<Rightarrow> bool"
    and step :: "'s \<Rightarrow> 's \<Rightarrow> bool"
    and inv :: "'s \<Rightarrow> bool"
  assumes initial_inv: "initial s \<Longrightarrow> inv s"
    and step_inv: "inv s \<Longrightarrow> step s s' \<Longrightarrow> inv s'"
begin

lemma steps_inv:
  assumes "step\<^sup>*\<^sup>* s s'" and "inv s"
  shows "inv s'"
  using assms by (induction rule: rtranclp_induct) (auto intro: step_inv)

lemma reachable_inv:
  assumes "initial s" and "step\<^sup>*\<^sup>* s s'"
  shows "inv s'"
  using steps_inv [OF assms(2)] initial_inv [OF assms(1)] .

end

locale growing_log =
  fixes step :: "'s \<Rightarrow> 's \<Rightarrow> bool"
    and log :: "'s \<Rightarrow> 'e list"
  assumes step_grows: "step s s' \<Longrightarrow> \<exists>new. log s' = log s @ new"
begin

lemma steps_grow:
  assumes "step\<^sup>*\<^sup>* s s'"
  shows "\<exists>new. log s' = log s @ new"
  using assms
proof (induction rule: rtranclp_induct)
  case (step t u)
  then show ?case using step_grows [of t u] by auto
qed simp

lemma entries_stay:
  assumes "step\<^sup>*\<^sup>* s s'" and "n < length (log s)"
  shows "n < length (log s') \<and> log s' ! n = log s ! n"
  using steps_grow [OF assms(1)] assms(2) by (auto simp: nth_append)

end

locale rising_counter =
  fixes step :: "'s \<Rightarrow> 's \<Rightarrow> bool"
    and counter :: "'s \<Rightarrow> int option"
  assumes step_rises: "step s s' \<Longrightarrow> counter s = Some n \<Longrightarrow> \<exists>m. counter s' = Some m \<and> n \<le> m"
begin

lemma steps_rise:
  assumes "step\<^sup>*\<^sup>* s s'" and "counter s = Some n"
  shows "\<exists>m. counter s' = Some m \<and> n \<le> m"
  using assms
proof (induction rule: rtranclp_induct)
  case (step t u)
  then obtain m where "counter t = Some m" "n \<le> m" by blast
  then show ?case using step_rises [OF step.hyps(2)] order_trans by blast
qed simp

end

locale fenced_store = rising_counter step counter
  for step :: "'s \<Rightarrow> 's \<Rightarrow> bool" and counter :: "'s \<Rightarrow> int option" +
  fixes passes :: "'s \<Rightarrow> int \<Rightarrow> bool"
  assumes passes_current: "passes s n \<Longrightarrow> counter s = Some n"
begin

text \<open>A token that has once been overtaken never passes the check again.\<close>

lemma stale_never_passes:
  assumes "step\<^sup>*\<^sup>* s s'" and "counter s = Some m" and "n < m"
  shows "\<not> passes s' n"
proof
  assume "passes s' n"
  then have "counter s' = Some n" by (rule passes_current)
  with steps_rise [OF assms(1,2)] assms(3) show False by auto
qed

end

end
