(* ===== verification/Control_Step.thy ===== *)
theory Control_Step
  imports Completion_Effect Control_Log System
begin

text \<open>
  The control plane as a transition system: \<open>control_step\<close> is one successful call of one
  operation, by any actor, at any time, with any arguments (a failed call changes nothing);
  \<open>control_effect\<close> classifies what a step did; \<open>coherent\<close> is the invariant of the database.
\<close>

section \<open>Steps\<close>

definition empty_db :: "handoff_tables \<Rightarrow> control_db" where
  "empty_db h = \<lparr>db_runs = Map.empty, db_leases = Map.empty, db_events = [], db_transitions = [],
     db_approvals = [], db_consumptions = [], db_iterations = [], db_open = Map.empty, db_outcomes = [],
     db_artifacts = [], db_cognitive = [], db_budget_links = [], db_ledger = [], db_receipts = [],
     db_handoff = h\<rparr>"

definition fresh_db :: "control_db \<Rightarrow> bool" where
  "fresh_db db \<longleftrightarrow> (\<exists>h. db = empty_db h)"

text \<open>The last rule is a step of the portability layer, which owns the tables \<open>resume\<close> reads.\<close>

inductive control_step :: "prims \<Rightarrow> rounding \<Rightarrow> control_db \<Rightarrow> control_db \<Rightarrow> bool"
  for P :: prims and R :: rounding where
  step_propose: "propose P p actor clk nonce db = Inr (s, db') \<Longrightarrow> control_step P R db db'"
| step_approve: "approve P r charter reason actor ttl clk nonce db = Inr ((c, tr, s), db') \<Longrightarrow> control_step P R db db'"
| step_start: "start P r actor ttl clk db = Inr ((s, tr, g), db') \<Longrightarrow> control_step P R db db'"
| step_pause: "pause P r actor token clk db = Inr ((s, tr, g), db') \<Longrightarrow> control_step P R db db'"
| step_cancel: "cancel P r actor tok clk db = Inr ((s, tr, g), db') \<Longrightarrow> control_step P R db db'"
| step_resume: "resume P r actor ttl ex clk db = Inr ((s, tr, lg), db') \<Longrightarrow> control_step P R db db'"
| step_complete: "persist_completion P R D T r input result h actor token clk db = Inr ((s, tr, res, c), db')
    \<Longrightarrow> control_step P R db db'"
| step_acquire: "acquire_lease P r actor ttl clk db = Inr (lg, db') \<Longrightarrow> control_step P R db db'"
| step_renew: "renew_lease P r actor token ttl clk db = Inr (lg, db') \<Longrightarrow> control_step P R db db'"
| step_release: "release_lease P r actor token clk db = Inr db' \<Longrightarrow> control_step P R db db'"
| step_begin: "begin_iteration P r q actor token clk db = Inr ((it, s), db') \<Longrightarrow> control_step P R db db'"
| step_finish: "finish_iteration P R typed r iid f actor token clk db = Inr ((out, s), db') \<Longrightarrow> control_step P R db db'"
| step_budget: "budget_write P R auth r b actor token clk db = Inr (ans, db') \<Longrightarrow> control_step P R db db'"
| step_handoff: "db' = db\<lparr>db_handoff := h\<rparr> \<Longrightarrow> control_step P R db db'"

inductive_cases control_step_cases: "control_step P R db db'"

section \<open>What a step did\<close>

definition legal :: "prims \<Rightarrow> max_run_state \<Rightarrow> run_transition \<Rightarrow> bool" where
  "legal P s t \<longleftrightarrow> (\<exists>target approval now completion research ledger.
       transition_run_state P s target approval now completion research ledger = Inr t)
     \<or> (counted P s (new_state t) \<and> new_consumption t = None)"

definition consumption_moves :: "string \<Rightarrow> run_transition \<Rightarrow> control_db \<Rightarrow> control_db \<Rightarrow> bool" where
  "consumption_moves r t db db' \<longleftrightarrow>
     (case new_consumption t of
        None \<Rightarrow> db_consumptions db' = db_consumptions db
      | Some c \<Rightarrow> (\<exists>x. db_consumptions db' = db_consumptions db @ [x] \<and> cs_run x = r \<and> cs_consumption x = c))"

definition begun_iteration :: "string \<Rightarrow> control_db \<Rightarrow> control_db \<Rightarrow> bool" where
  "begun_iteration r db db' \<longleftrightarrow>
     (\<exists>row. db_iterations db' = db_iterations db @ [row] \<and> db_open db' = (db_open db)(r \<mapsto> it_id row)
        \<and> db_outcomes db' = db_outcomes db \<and> db_open db r = None \<and> it_run row = r
        \<and> it_seq row = max_sequence (map it_seq (iterations_of db r)) + 1
        \<and> it_id row \<notin> set (map it_id (db_iterations db)))"

definition finished_iteration :: "string \<Rightarrow> control_db \<Rightarrow> control_db \<Rightarrow> bool" where
  "finished_iteration r db db' \<longleftrightarrow>
     (\<exists>out begun. db_outcomes db' = db_outcomes db @ [out] \<and> db_open db' = (db_open db)(r := None)
        \<and> db_iterations db' = db_iterations db \<and> open_iteration db r = Inr begun
        \<and> oc_iteration out = it_id begun \<and> oc_run out = r)"

definition same_iterations :: "control_db \<Rightarrow> control_db \<Rightarrow> bool" where
  "same_iterations db db' \<longleftrightarrow> db_iterations db' = db_iterations db \<and> db_open db' = db_open db
     \<and> db_outcomes db' = db_outcomes db"

definition same_budget :: "control_db \<Rightarrow> control_db \<Rightarrow> bool" where
  "same_budget db db' \<longleftrightarrow> db_ledger db' = db_ledger db \<and> db_receipts db' = db_receipts db"

text \<open>One new ledger entry of run \<open>r\<close>, with which the balance of the run still reconstructs.\<close>

definition charged :: "prims \<Rightarrow> rounding \<Rightarrow> string \<Rightarrow> control_db \<Rightarrow> control_db \<Rightarrow> bool" where
  "charged P R r db db' \<longleftrightarrow>
     (\<exists>row new b. db_ledger db' = db_ledger db @ [row] \<and> lg_run row = r
        \<and> db_receipts db' = db_receipts db @ new \<and> list_all (\<lambda>x. rc_run x = r) new
        \<and> budget_reconstruct P R db' r = Inr b
        \<and> (r, lg_key row) \<notin> set (map (\<lambda>x. (lg_run x, lg_key x)) (db_ledger db))
        \<and> lg_seq row = max_sequence (map lg_seq (ledger_of db r)) + 1)"

inductive control_effect :: "prims \<Rightarrow> rounding \<Rightarrow> control_db \<Rightarrow> control_db \<Rightarrow> bool"
  for P :: prims and R :: rounding where
  effect_proposed: "db_runs db r = None \<Longrightarrow> db_leases db r = None \<Longrightarrow>
    db' = db\<lparr>db_runs := (db_runs db)(r \<mapsto> initial_row P (initial_state P r p limits) column now),
             db_leases := (db_leases db)(r \<mapsto> empty_lease), db_events := es\<rparr> \<Longrightarrow>
    log_extends P (db_events db) es \<Longrightarrow> col_model column = Some (initial_state P r p limits) \<Longrightarrow>
    canonical_limits limits \<Longrightarrow> validate_run_state P (initial_state P r p limits) = [] \<Longrightarrow>
    control_effect P R db db'"
| effect_advanced: "advance P r s t db db' \<Longrightarrow> legal P s t \<Longrightarrow> log_extends P (db_events db) (db_events db') \<Longrightarrow>
    leases_move r db db' \<Longrightarrow> same_budget db db' \<Longrightarrow> consumption_moves r t db db' \<Longrightarrow>
    same_iterations db db' \<or> begun_iteration r db db' \<or> finished_iteration r db db' \<Longrightarrow>
    control_effect P R db db'"
| effect_quiet: "db_runs db' = db_runs db \<Longrightarrow> db_transitions db' = db_transitions db \<Longrightarrow>
    db_consumptions db' = db_consumptions db \<Longrightarrow> log_extends P (db_events db) (db_events db') \<Longrightarrow>
    leases_move r db db' \<Longrightarrow> same_iterations db db' \<Longrightarrow> same_budget db db' \<or> charged P R r db db' \<Longrightarrow>
    control_effect P R db db'"

inductive_cases control_effect_cases: "control_effect P R db db'"

lemma legal_transition:
  "transition_run_state P s target approval now completion research ledger = Inr t \<Longrightarrow> legal P s t"
  unfolding legal_def by blast

lemma leases_move_refl [simp]: "leases_move r db db"
  by (simp add: leases_move_def)

lemma transition_has_effect:
  assumes op: "control_transition P r target actor token ttl clk db = Inr ((s', tr, g), db')"
    and "target \<noteq> Approved" "bound_run db r"
  shows "control_effect P R db db'"
proof (rule transition_effect [OF op assms(3)])
  fix s t runs trs leases es
  assume shape: "db' = db\<lparr>db_runs := runs, db_transitions := trs, db_leases := leases, db_events := es\<rparr>"
    and e: "advance P r s t db db'" "log_extends P (db_events db) (db_events db')" "leases_move r db db'"
    and t: "transition_run_state P s target None (now_dt clk) None None None = Inr t"
  have "new_consumption t = None"
    using transition_consumption [OF t] assms(2) by (auto split: option.splits)
  then have "consumption_moves r t db db'" using shape by (simp add: consumption_moves_def)
  moreover have "same_iterations db db'" "same_budget db db'" using shape by (simp_all add: same_iterations_def same_budget_def)
  ultimately show ?thesis using effect_advanced [OF e(1) legal_transition [OF t] e(2,3)] by blast
qed

lemma approve_has_effect:
  assumes op: "approve P r charter reason actor ttl clk nonce db = Inr ((c, tr, s'), db')" and "bound_run db r"
  shows "control_effect P R db db'"
proof (rule approve_effect [OF assms])
  fix s t aid expires runs trs aps cons es
  assume shape: "db' = db\<lparr>db_runs := runs, db_transitions := trs, db_approvals := aps, db_consumptions := cons, db_events := es\<rparr>"
    and e: "advance P r s t db db'" "log_extends P (db_events db) (db_events db')"
    and t: "transition_run_state P s Approved
       (Some (bound_approval r s aid actor (timestamp (now_stamp clk)) (timestamp expires)))
       (now_dt clk) None None (Some (consumptions_of db r)) = Inr t"
    and c: "new_consumption t = Some c"
      "cons = db_consumptions db @ [\<lparr>cs_run = r, cs_consumption = c, cs_hash = hash_json P (consumption_json P c),
         cs_actor = actor_id actor\<rparr>]"
  have "consumption_moves r t db db'" using shape c by (simp add: consumption_moves_def)
  moreover have "same_iterations db db'" "same_budget db db'" "leases_move r db db'"
    using shape by (simp_all add: same_iterations_def same_budget_def leases_move_def)
  ultimately show ?thesis using effect_advanced [OF e(1) legal_transition [OF t] e(2)] by blast
qed

lemma resume_has_effect:
  assumes op: "resume P r actor ttl ex clk db = Inr ((s', tr, lg), db')" and "bound_run db r"
  shows "control_effect P R db db'"
proof (rule resume_effect [OF assms])
  fix s t runs trs leases es
  assume shape: "db' = db\<lparr>db_runs := runs, db_transitions := trs, db_leases := leases, db_events := es\<rparr>"
    and e: "advance P r s t db db'" "log_extends P (db_events db) (db_events db')" "leases_move r db db'"
    and t: "transition_run_state P s Running None (now_dt clk) None None None = Inr t"
  have "new_consumption t = None" using transition_consumption [OF t] by (auto split: option.splits)
  then have "consumption_moves r t db db'" using shape by (simp add: consumption_moves_def)
  moreover have "same_iterations db db'" "same_budget db db'" using shape by (simp_all add: same_iterations_def same_budget_def)
  ultimately show ?thesis using effect_advanced [OF e(1) legal_transition [OF t] e(2,3)] by blast
qed

lemma complete_has_effect:
  assumes op: "persist_completion P R' D T r input result h actor token clk db = Inr ((s', tr, res, c), db')" and "bound_run db r"
  shows "control_effect P R db db'"
proof (rule persist_completion_effect [OF assms])
  fix s t runs trs leases es
  assume shape: "db' = db\<lparr>db_runs := runs, db_transitions := trs, db_leases := leases, db_events := es\<rparr>"
    and e: "advance P r s t db db'" "log_extends P (db_events db) (db_events db')" "leases_move r db db'"
    and t: "transition_to_completed P s (Some c) (Some res) = Inr t"
  have "consumption_moves r t db db'" using shape completed_moves(3) [OF t] by (simp add: consumption_moves_def)
  moreover have "same_iterations db db'" "same_budget db db'" using shape by (simp_all add: same_iterations_def same_budget_def)
  moreover have "legal P s t" using completed_is_transition [OF t] legal_transition by blast
  ultimately show ?thesis using effect_advanced [OF e(1) _ e(2,3)] by blast
qed

lemma counted_effect:
  assumes "advance P r s \<lparr>new_state = s', new_consumption = None\<rparr> db db'" "log_extends P (db_events db) (db_events db')"
    "counted P s s'" "db_leases db' = db_leases db" "same_budget db db'" "db_consumptions db' = db_consumptions db"
    "begun_iteration r db db' \<or> finished_iteration r db db'"
  shows "control_effect P R db db'"
proof -
  have "legal P s \<lparr>new_state = s', new_consumption = None\<rparr>" using assms(3) by (simp add: legal_def)
  moreover have "consumption_moves r \<lparr>new_state = s', new_consumption = None\<rparr> db db'"
    using assms(6) by (simp add: consumption_moves_def)
  moreover have "leases_move r db db'" using assms(4) by (simp add: leases_move_def)
  ultimately show ?thesis using effect_advanced [OF assms(1)] assms(2,5,7) by blast
qed

lemma begin_has_effect:
  assumes op: "begin_iteration P r q actor token clk db = Inr ((row, s'), db')" and "bound_run db r"
  shows "control_effect P R db db'"
proof (rule begin_iteration_effect [OF assms])
  fix s runs trs es
  assume shape: "db' = db\<lparr>db_runs := runs, db_transitions := trs, db_events := es,
       db_iterations := db_iterations db @ [row], db_open := (db_open db)(r \<mapsto> it_id row)\<rparr>"
    and e: "advance P r s \<lparr>new_state = s', new_consumption = None\<rparr> db db'" "log_extends P (db_events db) (db_events db')"
      "counted P s s'"
    and it: "db_open db r = None" "it_run row = r" "it_seq row = max_sequence (map it_seq (iterations_of db r)) + 1"
      "it_id row \<notin> set (map it_id (db_iterations db))"
  have "begun_iteration r db db'" using shape it by (simp add: begun_iteration_def)
  then show ?thesis using shape by (intro counted_effect [OF e]) (simp_all add: same_budget_def)
qed

lemma finish_has_effect:
  assumes op: "finish_iteration P R' typed r iid f actor token clk db = Inr ((out, s'), db')" and "bound_run db r"
  shows "control_effect P R db db'"
proof (rule finish_iteration_effect [OF assms])
  fix s begun actual runs trs es a c l
  assume shape: "db' = db\<lparr>db_runs := runs, db_transitions := trs, db_events := es, db_artifacts := a, db_cognitive := c,
       db_budget_links := l, db_outcomes := db_outcomes db @ [out], db_open := (db_open db)(r := None)\<rparr>"
    and e: "advance P r s \<lparr>new_state = s', new_consumption = None\<rparr> db db'" "log_extends P (db_events db) (db_events db')"
      "counted P s s'"
    and it: "open_iteration db r = Inr begun" "it_id begun = iid" "oc_iteration out = iid" "oc_run out = r"
  have "finished_iteration r db db'" using shape it by (simp add: finished_iteration_def)
  then show ?thesis using shape by (intro counted_effect [OF e]) (simp_all add: same_budget_def)
qed

lemma budget_has_effect:
  assumes "budget_write P R auth r b actor token clk db = Inr (ans, db')"
  shows "control_effect P R db db'"
proof -
  have retry: "control_effect P R db db'" if "retry_answer P R db r e a = Inr (ans, db')" for e a
    using that by (intro effect_quiet [where r = r])
      (simp_all add: retry_answer_eq same_iterations_def same_budget_def log_refl)
  have entry: "control_effect P R db db'"
    if "append_entry P R r project b iid a u provenance actor token now db = Inr (ans, db')" for project iid a u provenance now
  proof (rule append_entry_effect [OF that])
    fix row es new
    assume shape: "db' = db\<lparr>db_receipts := db_receipts db @ new, db_ledger := db_ledger db @ [row], db_events := es\<rparr>"
      and new: "list_all (\<lambda>x. rc_run x = r) new"
      and log: "log_extends P (db_events db) (db_events db')"
      and b: "budget_reconstruct P R db' r = Inr (ba_balance ans)" "lg_run row = r"
        "lg_seq row = max_sequence (map lg_seq (ledger_of db r)) + 1"
        "(r, lg_key row) \<notin> set (map (\<lambda>x. (lg_run x, lg_key x)) (db_ledger db))"
    have "charged P R r db db'" using shape new b by (auto simp: charged_def)
    then show "control_effect P R db db'"
      using shape log by (intro effect_quiet [where r = r]) (simp_all add: same_iterations_def leases_move_def)
  qed
  show ?thesis
    using assms by (elim budget_write_effect) (use retry entry in blast)
qed

lemma step_has_effect:
  assumes "control_step P R db db'" and bound: "\<forall>r. bound_run db r"
  shows "control_effect P R db db'"
  using assms(1)
proof cases
  case (step_propose p actor clk nonce s)
  then show ?thesis by (rule propose_effect) (rule effect_proposed, simp_all)
next
  case (step_approve r charter reason actor ttl clk nonce c tr s)
  then show ?thesis using bound approve_has_effect by blast
next
  case (step_start r actor ttl clk s tr g)
  then show ?thesis unfolding start_def using bound transition_has_effect by blast
next
  case (step_pause r actor token clk s tr g)
  then show ?thesis unfolding pause_def using bound transition_has_effect by blast
next
  case (step_cancel r actor tok clk s tr g)
  then show ?thesis unfolding cancel_def using bound transition_has_effect by blast
next
  case (step_resume r actor ttl ex clk s tr lg)
  then show ?thesis using bound resume_has_effect by blast
next
  case (step_complete D T r input result h actor token clk s tr res c)
  then show ?thesis using bound complete_has_effect by blast
next
  case (step_acquire r actor ttl clk lg)
  then show ?thesis
    by (rule acquire_lease_effect) (rule effect_quiet [where r = r], simp_all add: same_iterations_def same_budget_def)
next
  case (step_renew r actor token ttl clk lg)
  then show ?thesis
    by (rule renew_lease_effect) (rule effect_quiet [where r = r], simp_all add: same_iterations_def same_budget_def)
next
  case (step_release r actor token clk)
  then show ?thesis
    by (rule release_lease_effect) (rule effect_quiet [where r = r], simp_all add: same_iterations_def same_budget_def)
next
  case (step_begin r q actor token clk it s)
  then show ?thesis using bound begin_has_effect by blast
next
  case (step_finish typed r iid f actor token clk out s)
  then show ?thesis using bound finish_has_effect by blast
next
  case (step_budget auth r b actor token clk ans)
  then show ?thesis by (rule budget_has_effect)
next
  case (step_handoff h)
  then show ?thesis
    by (intro effect_quiet [where r = "[]"]) (simp_all add: same_iterations_def same_budget_def log_refl leases_move_def)
qed

end
