(* ===== verification/Control_Coherent.thy ===== *)
theory Control_Coherent
  imports Control_Step
begin

text \<open>
  The invariant of the control database: every stored run is sound (its columns agree with its
  state, its state is valid, its transition ledger reaches it, exactly the approvals its status
  calls for are consumed, its budget reconstructs), a run that is not stored has left no rows,
  and the event log of every run is an intact hash chain. Every effect of a step keeps it.
\<close>

section \<open>The invariant\<close>

text \<open>What the balance needs of rounding to the nearest double: it is monotone and keeps zero.\<close>

definition sane_rounding :: "rounding \<Rightarrow> bool" where
  "sane_rounding R \<longleftrightarrow> mono R \<and> R 0 = 0"

lemma rounded_nonneg: "sane_rounding R \<Longrightarrow> 0 \<le> x \<Longrightarrow> 0 \<le> R x"
  using monoD [of R 0 x] by (simp add: sane_rounding_def)

definition columns_agree :: "prims \<Rightarrow> string \<Rightarrow> run_row \<Rightarrow> max_run_state \<Rightarrow> bool" where
  "columns_agree P r row s \<longleftrightarrow> col_model (rr_state row) = Some s \<and> run_id s = r
     \<and> rr_status row = status_value (status s) \<and> rr_version row = state_version s
     \<and> rr_iteration row = iteration_index s \<and> rr_project row = project_id s
     \<and> rr_charter_hash row = charter_hash s \<and> rr_budget_policy row = JObj (budget s)
     \<and> rr_budget_hash row = hash_json P (JObj (budget s))"

definition bounded_budget :: "max_run_state \<Rightarrow> bool" where
  "bounded_budget s \<longleftrightarrow> (\<exists>limits. canonical_limits limits \<and> budget s = stored_budget limits)"

definition sound_run :: "prims \<Rightarrow> rounding \<Rightarrow> control_db \<Rightarrow> string \<Rightarrow> run_row \<Rightarrow> bool" where
  "sound_run P R db r row \<longleftrightarrow>
     (\<exists>s. columns_agree P r row s \<and> validate_run_state P s = [] \<and> bounded_budget s
        \<and> ledger_reaches P (db_transitions db) r s \<and> approval_inv s (consumptions_of db r))
     \<and> (\<exists>b. budget_reconstruct P R db r = Inr b) \<and> db_leases db r \<noteq> None"

definition absent_run :: "control_db \<Rightarrow> string \<Rightarrow> bool" where
  "absent_run db r \<longleftrightarrow> db_leases db r = None \<and> filter (\<lambda>x. tr_run x = r) (db_transitions db) = []
     \<and> consumptions_of db r = [] \<and> ledger_of db r = []"

definition coherent :: "prims \<Rightarrow> rounding \<Rightarrow> control_db \<Rightarrow> bool" where
  "coherent P R db \<longleftrightarrow> (\<forall>r. chained P (db_events db) r)
     \<and> (\<forall>r. case db_runs db r of None \<Rightarrow> absent_run db r | Some row \<Rightarrow> sound_run P R db r row)"

lemma coherent_run: "coherent P R db \<Longrightarrow> db_runs db r = Some row \<Longrightarrow> sound_run P R db r row"
  unfolding coherent_def by (metis option.simps(5))

lemma coherent_absent: "coherent P R db \<Longrightarrow> db_runs db r = None \<Longrightarrow> absent_run db r"
  unfolding coherent_def by (metis option.simps(4))

lemma coherent_bound: "coherent P R db \<Longrightarrow> bound_run db r"
  using coherent_run [of P R db r]
  by (auto simp: bound_run_def state_of_def sound_run_def columns_agree_def split: option.splits)

lemma coherent_fresh: "fresh_db db \<Longrightarrow> coherent P R db"
  by (auto simp: fresh_db_def empty_db_def coherent_def absent_run_def consumptions_of_def ledger_of_def
      chained_def run_log_def)

section \<open>The balance of a run depends on its own rows\<close>

lemma find_append: "List.find Q xs = Some x \<Longrightarrow> List.find Q (xs @ ys) = Some x"
  by (induction xs) auto

text \<open>What the reconstruction reads: the policy of the run, its ledger rows and the receipts.\<close>

lemma check_usage_row_more:
  assumes "check_usage_row R db r row a = Inr u" "db_receipts db' = db_receipts db @ new"
  shows "check_usage_row R db' r row a = Inr u"
proof -
  have find: "List.find Q (db_receipts db') = Some x" if "List.find Q (db_receipts db) = Some x" for Q x
    using that assms(2) by (simp add: find_append)
  then show ?thesis
    using assms(1) unfolding check_usage_row_def Let_def
    by (auto simp: result_simps split: if_splits)
qed

lemma balance_row_more:
  assumes "balance_row P R db r row b = Inr b'" "db_receipts db' = db_receipts db @ new"
  shows "balance_row P R db' r row b = Inr b'"
  using assms check_usage_row_more [OF _ assms(2)] unfolding balance_row_def
  by (auto simp: result_simps split: if_splits)

lemma fold_balance_more:
  assumes "fold_result (balance_row P R db r) rows b = Inr b'" "db_receipts db' = db_receipts db @ new"
  shows "fold_result (balance_row P R db' r) rows b = Inr b'"
  using assms(1) by (induction rows arbitrary: b) (auto simp: result_simps balance_row_more [OF _ assms(2)])

lemma reconstruct_more:
  assumes "budget_reconstruct P R db r = Inr b" "db_receipts db' = db_receipts db @ new"
    and "ledger_of db' r = ledger_of db r"
    and "map_option rr_budget_policy (db_runs db' r) = map_option rr_budget_policy (db_runs db r)"
  shows "budget_reconstruct P R db' r = Inr b"
proof -
  from assms(1) obtain row limits where row: "db_runs db r = Some row"
      and b: "normalize_budget_limits (rr_budget_policy row) = Inr limits"
        "fold_result (balance_row P R db r) (ledger_of db r) (starting_balance limits) = Inr b"
        "list_all (\<lambda>p. Whole 0 \<le> available R b p) limits"
    unfolding budget_reconstruct_def run_row_def by (auto simp: result_simps)
  obtain row' where row': "db_runs db' r = Some row'" "rr_budget_policy row' = rr_budget_policy row"
    using assms(4) row by (cases "db_runs db' r") auto
  show ?thesis
    using b(1,3) fold_balance_more [OF b(2) assms(2)] assms(3) row'
    unfolding budget_reconstruct_def run_row_def by (auto simp: result_simps)
qed

lemma limit_nonneg: "canonical_limits limits \<Longrightarrow> p \<in> set limits \<Longrightarrow> 0 \<le> worth (snd p)"
  by (cases "snd p") (auto simp: canonical_limits_def list_all_iff read_quantity_def split: if_splits)

lemma full_availability:
  assumes "sane_rounding R" "0 \<le> worth (snd p)"
  shows "Whole 0 \<le> sub_q R (sub_q R (snd p) (Whole 0)) (Whole 0)"
  using assms rounded_nonneg [OF assms(1)] by (cases "snd p") (simp_all add: less_eq_quantity_def sane_rounding_def)

lemma reconstruct_empty:
  assumes "sane_rounding R" "db_runs db r = Some row" "rr_budget_policy row = JObj (stored_budget limits)"
    and "canonical_limits limits" "ledger_of db r = []"
  shows "\<exists>b. budget_reconstruct P R db r = Inr b"
proof -
  have limits: "normalize_budget_limits (rr_budget_policy row) = Inr limits"
    using stored_limits_read [OF assms(4)] assms(3) by (simp add: amount_json_def stored_budget_def)
  have "quantity_at (map_of (map (\<lambda>p. (fst p, Whole 0)) limits)) u = Whole 0" for u
    by (auto simp: quantity_at_def split: option.splits dest: map_of_SomeD)
  then have "Whole 0 \<le> available R (starting_balance limits) p" if "p \<in> set limits" for p
    using full_availability [OF assms(1) limit_nonneg [OF assms(4) that]] by (simp add: available_def starting_balance_def)
  then have "budget_reconstruct P R db r = Inr (starting_balance limits)"
    using limits assms(2,5) by (simp add: budget_reconstruct_def run_row_def list_all_iff)
  then show ?thesis by blast
qed

section \<open>Every effect keeps it\<close>

text \<open>A run none of whose rows changed.\<close>

lemma sound_run_frame:
  assumes "sound_run P R db q row" "db_runs db q = Some row" "db_runs db' q = Some row"
    and "filter (\<lambda>x. tr_run x = q) (db_transitions db') = filter (\<lambda>x. tr_run x = q) (db_transitions db)"
    and "consumptions_of db' q = consumptions_of db q" "ledger_of db' q = ledger_of db q"
    and "db_receipts db' = db_receipts db @ new" "db_leases db' q \<noteq> None"
  shows "sound_run P R db' q row"
proof -
  have "ledger_reaches P (db_transitions db') q s = ledger_reaches P (db_transitions db) q s" for s
    using assms(4) by (simp add: ledger_reaches_def)
  moreover have "\<exists>b. budget_reconstruct P R db' q = Inr b"
    using assms(1-3,6,7) reconstruct_more [of P R db q _ db' new] by (auto simp: sound_run_def)
  ultimately show ?thesis using assms(1,5,8) by (simp add: sound_run_def)
qed

lemma absent_run_frame:
  assumes "absent_run db q" "db_leases db' q = db_leases db q"
    and "filter (\<lambda>x. tr_run x = q) (db_transitions db') = filter (\<lambda>x. tr_run x = q) (db_transitions db)"
    and "consumptions_of db' q = consumptions_of db q" "ledger_of db' q = ledger_of db q"
  shows "absent_run db' q"
  using assms by (simp add: absent_run_def)

lemma leases_move_other: "leases_move r db db' \<Longrightarrow> q \<noteq> r \<Longrightarrow> db_leases db' q = db_leases db q"
  by (simp add: leases_move_def)

lemma leases_move_present: "leases_move r db db' \<Longrightarrow> (db_leases db' q = None) = (db_leases db q = None)"
  by (cases "q = r") (auto simp: leases_move_def lease_moves_def)

lemma leases_move_absent: "leases_move r db db' \<Longrightarrow> db_leases db q = None \<Longrightarrow> db_leases db' q = None"
  using leases_move_present by blast

lemma consumption_moves_other:
  "consumption_moves r t db db' \<Longrightarrow> q \<noteq> r \<Longrightarrow> consumptions_of db' q = consumptions_of db q"
  by (auto simp: consumption_moves_def consumptions_of_def split: option.splits)

lemma consumption_moves_own:
  "consumption_moves r t db db' \<Longrightarrow>
     consumptions_of db' r = consumptions_of db r @ (case new_consumption t of None \<Rightarrow> [] | Some c \<Rightarrow> [c])"
  by (auto simp: consumption_moves_def consumptions_of_def split: option.splits)

lemma counted_valid: "counted P s s' \<Longrightarrow> validate_run_state P s' = []"
  by (simp add: counted_def)

lemma legal_facts:
  assumes "legal P s t"
  shows "validate_run_state P (new_state t) = []" "budget (new_state t) = budget s"
    "project_id (new_state t) = project_id s" "charter_hash (new_state t) = charter_hash s"
  using assms transition_edge(5) transition_same_run unfolding legal_def counted_def same_run_def
  by fastforce+

lemma legal_approval_inv:
  assumes "legal P s t" "approval_inv s cs"
  shows "approval_inv (new_state t) (cs @ (case new_consumption t of None \<Rightarrow> [] | Some c \<Rightarrow> [c]))"
  using assms(1) unfolding legal_def
proof
  assume "counted P s (new_state t) \<and> new_consumption t = None"
  then show ?thesis using assms(2) by (auto simp: counted_def approval_inv_def)
qed (use approval_inv_step assms(2) in blast)

lemma advance_other:
  assumes "advance P r s t db db'" "q \<noteq> r"
  shows "db_runs db' q = db_runs db q"
    "filter (\<lambda>x. tr_run x = q) (db_transitions db') = filter (\<lambda>x. tr_run x = q) (db_transitions db)"
  using assms by (auto simp: advance_def transition_row_of_def)

lemma advanced_row:
  assumes "columns_agree P r row s" "legal P s t" "col_model column = Some (new_state t)" "run_id (new_state t) = r"
  shows "columns_agree P r (written_row P (new_state t) column now completion row) (new_state t)"
  using assms legal_facts [OF assms(2)] by (simp add: columns_agree_def written_row_def)

lemma advanced_run:
  assumes sound: "sound_run P R db r row" and "db_runs db r = Some row"
    and adv: "advance P r s t db db'" and "legal P s t" "leases_move r db db'" "same_budget db db'"
    and "consumption_moves r t db db'"
  obtains row' where "db_runs db' r = Some row'" "sound_run P R db' r row'"
proof -
  from adv obtain column completion tid j actor now where a: "col_model (rr_state row) = Some s" "run_id s = r"
      "run_id (new_state t) = r"
      "db_runs db' = (db_runs db)(r \<mapsto> written_row P (new_state t) column now completion row)"
      "col_model column = Some (new_state t)"
      "db_transitions db' = db_transitions db @ [transition_row_of P tid j s t actor now]"
      "stored_json P (transition_json P t) = Inr j" "state_version (new_state t) = state_version s + 1"
    using assms(2) unfolding advance_def by auto
  have s: "columns_agree P r row s" "bounded_budget s" "ledger_reaches P (db_transitions db) r s"
      "approval_inv s (consumptions_of db r)" and b: "\<exists>b. budget_reconstruct P R db r = Inr b"
    using sound a(1) by (auto simp: sound_run_def columns_agree_def)
  let ?row = "written_row P (new_state t) column now completion row"
  have "columns_agree P r ?row (new_state t)" using advanced_row [OF s(1) assms(4) a(5,3)] .
  moreover have "bounded_budget (new_state t)" using s(2) legal_facts(2) [OF assms(4)] by (simp add: bounded_budget_def)
  moreover have "ledger_reaches P (db_transitions db') r (new_state t)"
    using ledger_reaches_append [OF s(3) a(7,2,3,8)] a(6) by simp
  moreover have "approval_inv (new_state t) (consumptions_of db' r)"
    using legal_approval_inv [OF assms(4) s(4)] consumption_moves_own [OF assms(7)] by simp
  moreover have "\<exists>b. budget_reconstruct P R db' r = Inr b"
  proof -
    have "db_receipts db' = db_receipts db @ []" "ledger_of db' r = ledger_of db r"
      using assms(6) by (simp_all add: same_budget_def ledger_of_def)
    moreover have "map_option rr_budget_policy (db_runs db' r) = map_option rr_budget_policy (db_runs db r)"
      using a(4) assms(2) by (simp add: written_row_def)
    ultimately show ?thesis using b reconstruct_more by blast
  qed
  moreover have "db_leases db' r \<noteq> None"
    using sound leases_move_present [OF assms(5), of r] by (simp add: sound_run_def)
  ultimately have "sound_run P R db' r ?row"
    using legal_facts(1) [OF assms(4)] unfolding sound_run_def by blast
  then show thesis using a(4) by (intro that [of ?row]) simp_all
qed

lemma proposed_run:
  assumes "sane_rounding R" "absent_run db r" "canonical_limits limits"
    and "validate_run_state P (initial_state P r p limits) = []" "col_model column = Some (initial_state P r p limits)"
    and db': "db_runs db' r = Some (initial_row P (initial_state P r p limits) column now)" "db_leases db' r \<noteq> None"
      "db_transitions db' = db_transitions db" "db_consumptions db' = db_consumptions db" "db_ledger db' = db_ledger db"
  shows "sound_run P R db' r (initial_row P (initial_state P r p limits) column now)"
proof -
  let ?s = "initial_state P r p limits" and ?row = "initial_row P (initial_state P r p limits) column now"
  have "columns_agree P r ?row ?s"
    using assms(5) by (simp add: columns_agree_def initial_row_def initial_state_def)
  moreover have "bounded_budget ?s" using assms(3) by (auto simp: bounded_budget_def initial_state_def)
  moreover have "ledger_reaches P (db_transitions db') r ?s"
    using assms(2) db'(3) by (simp add: absent_run_def ledger_reaches_def initial_state_def)
  moreover have "approval_inv ?s (consumptions_of db' r)"
    using assms(2) db'(4) by (simp add: absent_run_def consumptions_of_def approval_inv_def initial_state_def past_approval_def)
  moreover have "\<exists>b. budget_reconstruct P R db' r = Inr b"
    using assms(2) db'(5)
    by (intro reconstruct_empty [OF assms(1) db'(1) _ assms(3)])
      (simp_all add: initial_row_def initial_state_def absent_run_def ledger_of_def)
  ultimately show ?thesis using assms(4) db'(2) unfolding sound_run_def by blast
qed

lemma coherent_effect:
  assumes R: "sane_rounding R" and inv: "coherent P R db" and eff: "control_effect P R db db'"
  shows "coherent P R db'"
proof -
  have chain: "\<forall>r. chained P (db_events db') r"
    using eff
  proof cases
    case effect_proposed
    then show ?thesis using chained_extends inv by (simp add: coherent_def)
  qed (use chained_extends inv in \<open>simp_all add: coherent_def\<close>)
  have "case db_runs db' q of None \<Rightarrow> absent_run db' q | Some row \<Rightarrow> sound_run P R db' q row" for q
    using eff
  proof cases
    case (effect_proposed r es p limits column now)
    have same: "consumptions_of db' q = consumptions_of db q" "ledger_of db' q = ledger_of db q"
      using effect_proposed by (simp_all add: consumptions_of_def ledger_of_def)
    show ?thesis
    proof (cases "q = r")
      case True
      then show ?thesis
        using proposed_run [OF R coherent_absent [OF inv effect_proposed(1)] effect_proposed(6,7,5), of db' now]
          effect_proposed(3) by simp
    next
      case False
      then have q: "db_runs db' q = db_runs db q" "db_leases db' q = db_leases db q" using effect_proposed by simp_all
      show ?thesis
        using sound_run_frame [of P R db q _ db' "[]"] absent_run_frame [of db q db'] coherent_run [OF inv]
          coherent_absent [OF inv] q same effect_proposed(3)
        by (cases "db_runs db q") (auto simp: sound_run_def)
    qed
  next
    case (effect_advanced r s t)
    have budget: "ledger_of db' q = ledger_of db q" "db_receipts db' = db_receipts db @ []"
      using effect_advanced(5) by (simp_all add: same_budget_def ledger_of_def)
    show ?thesis
    proof (cases "q = r")
      case True
      obtain row where row: "db_runs db r = Some row" using effect_advanced(1) by (auto simp: advance_def)
      obtain row' where "db_runs db' r = Some row'" "sound_run P R db' r row'"
        using advanced_run [OF coherent_run [OF inv row] row effect_advanced(1,2,4,5,6)] .
      then show ?thesis using True by simp
    next
      case False
      note other = advance_other [OF effect_advanced(1) False] consumption_moves_other [OF effect_advanced(6) False]
        leases_move_other [OF effect_advanced(4) False] budget
      show ?thesis
      proof (cases "db_runs db q")
        case None
        then show ?thesis using absent_run_frame [OF coherent_absent [OF inv None] other(4,2,3,5)] other(1) by simp
      next
        case (Some row)
        then have "db_leases db q \<noteq> None" using coherent_run [OF inv Some] by (simp add: sound_run_def)
        then show ?thesis
          using sound_run_frame [OF coherent_run [OF inv Some] Some _ other(2,3,5,6)] other(1,4) Some by simp
      qed
    qed
  next
    case (effect_quiet r)
    have same: "db_runs db' q = db_runs db q" "consumptions_of db' q = consumptions_of db q"
      "filter (\<lambda>x. tr_run x = q) (db_transitions db') = filter (\<lambda>x. tr_run x = q) (db_transitions db)"
      using effect_quiet(1-3) by (simp_all add: consumptions_of_def)
    have lease: "(db_leases db' q = None) = (db_leases db q = None)" using leases_move_present [OF effect_quiet(5)] .
    obtain new where receipts: "db_receipts db' = db_receipts db @ new"
      using effect_quiet(7) by (auto simp: same_budget_def charged_def)
    have charge: "ledger_of db' q = ledger_of db q \<or> (q = r \<and> (\<exists>b. budget_reconstruct P R db' q = Inr b))"
    proof (cases "q = r")
      case True
      then show ?thesis using effect_quiet(7) by (auto simp: same_budget_def charged_def ledger_of_def)
    next
      case False
      then show ?thesis using effect_quiet(7) by (auto simp: same_budget_def charged_def ledger_of_def)
    qed
    show ?thesis
    proof (cases "db_runs db q")
      case None
      then have "ledger_of db' q = ledger_of db q"
        using charge same(1) by (auto simp: budget_reconstruct_def run_row_def)
      then show ?thesis
        using absent_run_frame [OF coherent_absent [OF inv None] _ same(3,2)] lease same(1) None
          coherent_absent [OF inv None] by (simp add: absent_run_def)
    next
      case (Some row)
      note sound = coherent_run [OF inv Some]
      have l: "db_leases db' q \<noteq> None" using sound lease by (simp add: sound_run_def)
      show ?thesis using charge
      proof
        assume "ledger_of db' q = ledger_of db q"
        then show ?thesis using sound_run_frame [OF sound Some _ same(3,2) _ receipts l] same(1) Some by simp
      next
        assume b: "q = r \<and> (\<exists>b. budget_reconstruct P R db' q = Inr b)"
        have "ledger_reaches P (db_transitions db') q s = ledger_reaches P (db_transitions db) q s" for s
          using same(3) by (simp add: ledger_reaches_def)
        then show ?thesis using sound conjunct2 [OF b] l same(1,2) Some by (simp add: sound_run_def)
      qed
    qed
  qed
  then show ?thesis using chain by (simp add: coherent_def)
qed

lemma coherent_step:
  assumes "sane_rounding R" "coherent P R db" "control_step P R db db'"
  shows "coherent P R db'"
  using coherent_effect [OF assms(1,2)] step_has_effect [OF assms(3)] coherent_bound [OF assms(2)] by blast

end
