(* ===== verification/Run_Machine.thy ===== *)
theory Run_Machine
  imports Control_Coherent
begin

text \<open>
  The abstract specification of the control plane: a table of runs, each with a status, a version
  and the number of approvals it has consumed. \<open>machine_step\<close> is the whole contract; every
  operation of the repository, by anyone and at any time, takes one of its steps or changes
  nothing of it (\<open>step_refines\<close>).
\<close>

record machine_run =
  mc_status :: run_status
  mc_version :: int
  mc_approvals :: nat

definition proposed_run :: machine_run where
  "proposed_run = \<lparr>mc_status = Awaiting_start_approval, mc_version = 1, mc_approvals = 0\<rparr>"

definition moved_run :: "run_status \<Rightarrow> machine_run \<Rightarrow> machine_run" where
  "moved_run target x = \<lparr>mc_status = target, mc_version = mc_version x + 1,
     mc_approvals = mc_approvals x + (if target = Approved then 1 else 0)\<rparr>"

inductive machine_step :: "(string \<rightharpoonup> machine_run) \<Rightarrow> (string \<rightharpoonup> machine_run) \<Rightarrow> bool" where
  machine_propose: "m r = None \<Longrightarrow> machine_step m (m(r \<mapsto> proposed_run))"
| machine_move: "m r = Some x \<Longrightarrow> target \<in> set (allowed_run_transitions (mc_status x))
    \<Longrightarrow> machine_step m (m(r \<mapsto> moved_run target x))"
| machine_work: "m r = Some x \<Longrightarrow> mc_status x = Running
    \<Longrightarrow> machine_step m (m(r \<mapsto> x\<lparr>mc_version := mc_version x + 1\<rparr>))"

inductive_cases machine_step_cases: "machine_step m m'"

definition machine_of :: "control_db \<Rightarrow> string \<rightharpoonup> machine_run" where
  "machine_of db r = map_option (\<lambda>s. \<lparr>mc_status = status s, mc_version = state_version s,
     mc_approvals = length (consumptions_of db r)\<rparr>) (state_of db r)"

lemma machine_of_other:
  assumes "db_runs db' q = db_runs db q" "consumptions_of db' q = consumptions_of db q"
  shows "machine_of db' q = machine_of db q"
  using assms by (simp add: machine_of_def state_of_def)

lemma legal_machine:
  assumes "legal P s t"
  obtains (move) "status (new_state t) \<in> set (allowed_run_transitions (status s))"
      "(status (new_state t) = Approved) = (new_consumption t \<noteq> None)"
  | (work) "status s = Running" "status (new_state t) = Running" "new_consumption t = None"
proof -
  from assms consider
      (t) target approval now completion research ledger
      where "transition_run_state P s target approval now completion research ledger = Inr t"
    | (c) "counted P s (new_state t)" "new_consumption t = None"
    by (auto simp: legal_def)
  then show thesis
  proof cases
    case t
    then show ?thesis
      using move transition_edge [OF t] transition_consumption [OF t] by (auto split: option.splits)
  next
    case c
    then show ?thesis using work by (auto simp: counted_def)
  qed
qed

lemma effect_refines:
  assumes inv: "coherent P R db" and eff: "control_effect P R db db'"
  shows "machine_of db' = machine_of db \<or> machine_step (machine_of db) (machine_of db')"
  using eff
proof cases
  case (effect_proposed r es p limits column now)
  have none: "consumptions_of db r = []"
    using coherent_absent [OF inv effect_proposed(1)] by (simp add: absent_run_def)
  have "machine_of db' = (machine_of db)(r \<mapsto> proposed_run)"
  proof
    fix q
    have "consumptions_of db' q = consumptions_of db q" using effect_proposed(3) by (simp add: consumptions_of_def)
    then show "machine_of db' q = ((machine_of db)(r \<mapsto> proposed_run)) q"
      using effect_proposed(3,5) none
      by (cases "q = r") (simp_all add: machine_of_def state_of_def initial_row_def initial_state_def proposed_run_def)
  qed
  moreover have "machine_of db r = None" using effect_proposed(1) by (simp add: machine_of_def state_of_def)
  ultimately show ?thesis using machine_propose by simp
next
  case (effect_advanced r s t)
  from effect_advanced(1) obtain row column completion now where a: "db_runs db r = Some row" "col_model (rr_state row) = Some s"
      "db_runs db' = (db_runs db)(r \<mapsto> written_row P (new_state t) column now completion row)"
      "col_model column = Some (new_state t)" "state_version (new_state t) = state_version s + 1"
    unfolding advance_def by blast
  let ?x = "\<lparr>mc_status = status s, mc_version = state_version s, mc_approvals = length (consumptions_of db r)\<rparr>"
  have old: "machine_of db r = Some ?x" using a by (simp add: machine_of_def state_of_def)
  have new: "machine_of db' = (machine_of db)(r \<mapsto> \<lparr>mc_status = status (new_state t), mc_version = state_version s + 1,
      mc_approvals = length (consumptions_of db r) + (if new_consumption t = None then 0 else 1)\<rparr>)"
  proof
    fix q
    show "machine_of db' q = ((machine_of db)(r \<mapsto> \<lparr>mc_status = status (new_state t), mc_version = state_version s + 1,
      mc_approvals = length (consumptions_of db r) + (if new_consumption t = None then 0 else 1)\<rparr>)) q"
    proof (cases "q = r")
      case True
      then show ?thesis using a consumption_moves_own [OF effect_advanced(6)]
        by (auto simp: machine_of_def state_of_def written_row_def split: option.splits)
    next
      case False
      then show ?thesis
        using machine_of_other [OF advance_other(1) [OF effect_advanced(1) False]
            consumption_moves_other [OF effect_advanced(6) False]] by simp
    qed
  qed
  from effect_advanced(2) have "machine_step (machine_of db) (machine_of db')"
  proof (cases rule: legal_machine)
    case move
    then have "machine_of db' = (machine_of db)(r \<mapsto> moved_run (status (new_state t)) ?x)"
      using new by (auto simp: moved_run_def)
    then show ?thesis using machine_move [of "machine_of db" r, OF old] move by simp
  next
    case work
    then have "machine_of db' = (machine_of db)(r \<mapsto> ?x\<lparr>mc_version := mc_version ?x + 1\<rparr>)"
      using new by simp
    then show ?thesis using machine_work [of "machine_of db" r, OF old] work by simp
  qed
  then show ?thesis ..
next
  case (effect_quiet r)
  then show ?thesis by (intro disjI1 ext machine_of_other) (simp_all add: consumptions_of_def)
qed

lemma step_refines:
  assumes "coherent P R db" "control_step P R db db'"
  shows "machine_of db' = machine_of db \<or> machine_step (machine_of db) (machine_of db')"
  using effect_refines [OF assms(1) step_has_effect [OF assms(2)]] coherent_bound [OF assms(1)] by blast

text \<open>What holds of every run of the abstract machine.\<close>

definition machine_ok :: "machine_run \<Rightarrow> bool" where
  "machine_ok x \<longleftrightarrow> 1 \<le> mc_version x \<and> mc_approvals x \<le> 1
     \<and> (mc_status x = Awaiting_start_approval \<longrightarrow> mc_approvals x = 0)
     \<and> (past_approval (mc_status x) \<longrightarrow> mc_approvals x = 1)"

lemma moved_ok:
  assumes "machine_ok x" "target \<in> set (allowed_run_transitions (mc_status x))"
  shows "machine_ok (moved_run target x)"
  using assms
  by (cases "mc_status x"; cases target) (simp_all add: machine_ok_def moved_run_def past_approval_def)

lemma worked_ok: "machine_ok x \<Longrightarrow> machine_ok (x\<lparr>mc_version := mc_version x + 1\<rparr>)"
  by (simp add: machine_ok_def)

lemma proposed_ok: "machine_ok proposed_run"
  by (simp add: machine_ok_def proposed_run_def past_approval_def)

definition machine_inv :: "(string \<rightharpoonup> machine_run) \<Rightarrow> bool" where
  "machine_inv m \<longleftrightarrow> (\<forall>r x. m r = Some x \<longrightarrow> machine_ok x)"

interpretation machine: invariant_system "\<lambda>m. m = Map.empty" machine_step machine_inv
proof
  fix m m' :: "string \<rightharpoonup> machine_run"
  assume inv: "machine_inv m" and step: "machine_step m m'"
  from step show "machine_inv m'"
  proof cases
    case (machine_move r x target)
    then show ?thesis using inv moved_ok [of x target] by (simp add: machine_inv_def)
  qed (use inv worked_ok proposed_ok in \<open>auto simp: machine_inv_def\<close>)
qed (simp add: machine_inv_def)

end
