(* ===== verification/Control_Correct.thy ===== *)
theory Control_Correct
  imports Run_Machine
begin

text \<open>
  What the repository promises of every database it can produce: \<open>reachable\<close> is any number of
  modelled operations from an empty database. The interpretations of \<open>invariant_system\<close>,
  \<open>growing_log\<close> and \<open>fenced_store\<close> on the control plane give the properties.
\<close>

section \<open>Reachable databases\<close>

definition reachable :: "prims \<Rightarrow> rounding \<Rightarrow> control_db \<Rightarrow> bool" where
  "reachable P R db \<longleftrightarrow> (\<exists>db0. fresh_db db0 \<and> (control_step P R)\<^sup>*\<^sup>* db0 db)"

interpretation control: invariant_system fresh_db "control_step P R" "\<lambda>db. sane_rounding R \<longrightarrow> coherent P R db"
  for P R
  by unfold_locales (use coherent_fresh coherent_step in blast)+

lemma reachable_coherent: "sane_rounding R \<Longrightarrow> reachable P R db \<Longrightarrow> coherent P R db"
  unfolding reachable_def using control.reachable_inv by blast

lemma reachable_steps: "reachable P R db \<Longrightarrow> (control_step P R)\<^sup>*\<^sup>* db db' \<Longrightarrow> reachable P R db'"
  unfolding reachable_def using rtranclp_trans by fastforce

lemma reachable_run:
  assumes "sane_rounding R" "reachable P R db" "db_runs db r = Some row"
  obtains s where "columns_agree P r row s" "validate_run_state P s = []" "bounded_budget s"
    "ledger_reaches P (db_transitions db) r s" "approval_inv s (consumptions_of db r)"
  using coherent_run [OF reachable_coherent [OF assms(1,2)] assms(3)] by (auto simp: sound_run_def)

text \<open>A step taken from a coherent database.\<close>

definition live_step :: "prims \<Rightarrow> rounding \<Rightarrow> control_db \<Rightarrow> control_db \<Rightarrow> bool" where
  "live_step P R db db' \<longleftrightarrow> coherent P R db \<and> control_step P R db db'"

lemma live_effect: "live_step P R db db' \<Longrightarrow> control_effect P R db db'"
  unfolding live_step_def using step_has_effect coherent_bound by blast

lemma live_steps:
  assumes "sane_rounding R" "coherent P R db" "(control_step P R)\<^sup>*\<^sup>* db db'"
  shows "(live_step P R)\<^sup>*\<^sup>* db db'"
  using assms(3)
proof (induction rule: rtranclp_induct)
  case (step y z)
  have "coherent P R y" using control.steps_inv [OF step.hyps(1)] assms(1,2) by blast
  then show ?case using step by (simp add: live_step_def rtranclp.rtrancl_into_rtrancl)
qed simp

section \<open>Histories\<close>

lemma log_extends_grows: "log_extends P es es' \<Longrightarrow> \<exists>new. es' = es @ new"
  using log_extends_prefix .

interpretation events: growing_log "live_step P R" db_events for P R
proof
  fix db db' assume "live_step P R db db'"
  then show "\<exists>new. db_events db' = db_events db @ new"
    by (cases rule: control_effect_cases [OF live_effect]) (use log_extends_grows in auto)
qed

interpretation transitions: growing_log "live_step P R" db_transitions for P R
proof
  fix db db' assume "live_step P R db db'"
  then show "\<exists>new. db_transitions db' = db_transitions db @ new"
    by (cases rule: control_effect_cases [OF live_effect]) (auto simp: advance_def)
qed

interpretation consumptions: growing_log "live_step P R" db_consumptions for P R
proof
  fix db db' assume "live_step P R db db'"
  then show "\<exists>new. db_consumptions db' = db_consumptions db @ new"
    by (cases rule: control_effect_cases [OF live_effect]) (auto simp: consumption_moves_def split: option.splits)
qed

interpretation outcomes: growing_log "live_step P R" db_outcomes for P R
proof
  fix db db' assume "live_step P R db db'"
  then show "\<exists>new. db_outcomes db' = db_outcomes db @ new"
    by (cases rule: control_effect_cases [OF live_effect])
      (auto simp: same_iterations_def begun_iteration_def finished_iteration_def)
qed

interpretation ledger: growing_log "live_step P R" db_ledger for P R
proof
  fix db db' assume "live_step P R db db'"
  then show "\<exists>new. db_ledger db' = db_ledger db @ new"
    by (cases rule: control_effect_cases [OF live_effect]) (auto simp: same_budget_def charged_def)
qed

section \<open>Fencing\<close>

definition token_of :: "string \<Rightarrow> control_db \<Rightarrow> int option" where
  "token_of r db = map_option ls_token (db_leases db r)"

definition fence_passes :: "string \<Rightarrow> control_db \<Rightarrow> int \<Rightarrow> bool" where
  "fence_passes r db n \<longleftrightarrow> (\<exists>actor now. assert_fence db r actor (Some n) now = Inr ())"

lemma leases_move_token:
  "leases_move q db db' \<Longrightarrow> token_of r db = Some n \<Longrightarrow> \<exists>m. token_of r db' = Some m \<and> n \<le> m"
  by (cases "r = q") (auto simp: leases_move_def lease_moves_def token_of_def)

interpretation lease: fenced_store "live_step P R" "token_of r" "fence_passes r" for P R r
proof
  fix db db' n assume step: "live_step P R db db'" and n: "token_of r db = Some n"
  from live_effect [OF step] show "\<exists>m. token_of r db' = Some m \<and> n \<le> m"
  proof cases
    case (effect_proposed q es p limits column now)
    then show ?thesis using n by (auto simp: token_of_def)
  qed (use n leases_move_token in blast)+
next
  fix db n assume "fence_passes r db n"
  then show "token_of r db = Some n" by (auto simp: fence_passes_def assert_fence_passes token_of_def)
qed

end
