(* ===== verification/Budget_Correct.thy ===== *)
theory Budget_Correct
  imports Control_Correct
begin

text \<open>
  What the budget ledger guarantees when every quantity is a whole number (iterations, tokens,
  bytes and requests are; sums of floats are only as good as their rounding): the balance is the
  signed sum of the ledger, unit by unit, and never leaves its limits. An idempotency key is
  written once and for all.
\<close>

section \<open>Whole quantities\<close>

fun is_whole :: "quantity \<Rightarrow> bool" where
  "is_whole (Whole i) = True"
| "is_whole (Double x) = False"

fun to_int :: "quantity \<Rightarrow> int" where
  "to_int (Whole i) = i"
| "to_int (Double x) = 0"

lemma is_whole_eq: "is_whole q \<longleftrightarrow> q = Whole (to_int q)"
  by (cases q) auto

definition whole_amount :: "amount \<Rightarrow> bool" where
  "whole_amount a \<longleftrightarrow> list_all (\<lambda>p. is_whole (snd p)) a"

definition read_whole :: "failure + amount \<Rightarrow> bool" where
  "read_whole m \<longleftrightarrow> (case m of Inl _ \<Rightarrow> True | Inr a \<Rightarrow> whole_amount a)"

definition amount_at :: "amount \<Rightarrow> string \<Rightarrow> int" where
  "amount_at a u = (case map_of a u of None \<Rightarrow> 0 | Some q \<Rightarrow> to_int q)"

definition row_amount :: "rounding \<Rightarrow> ledger_row \<Rightarrow> string \<Rightarrow> int" where
  "row_amount R row u = (case normalize_budget_amount R (lg_amount row) True of Inl _ \<Rightarrow> 0 | Inr a \<Rightarrow> amount_at a u)"

text \<open>The limits of the run and every entry of its ledger are whole.\<close>

definition whole_budget :: "rounding \<Rightarrow> control_db \<Rightarrow> string \<Rightarrow> bool" where
  "whole_budget R db r \<longleftrightarrow>
     list_all (\<lambda>row. read_whole (normalize_budget_amount R (lg_amount row) True)) (ledger_of db r)
     \<and> (case db_runs db r of None \<Rightarrow> True | Some row \<Rightarrow> read_whole (normalize_budget_limits (rr_budget_policy row)))"

section \<open>The specification: signed sums of the ledger\<close>

definition used_sign :: "string \<Rightarrow> int" where
  "used_sign op = (if op = ''commit'' \<or> op = ''usage'' then 1 else if op = ''refund'' then - 1 else 0)"

definition reserved_sign :: "string \<Rightarrow> int" where
  "reserved_sign op = (if op = ''reserve'' then 1 else if op = ''commit'' \<or> op = ''release'' then - 1 else 0)"

definition ledger_used :: "rounding \<Rightarrow> ledger_row list \<Rightarrow> string \<Rightarrow> int" where
  "ledger_used R rows u = sum_list (map (\<lambda>row. used_sign (lg_operation row) * row_amount R row u) rows)"

definition ledger_reserved :: "rounding \<Rightarrow> ledger_row list \<Rightarrow> string \<Rightarrow> int" where
  "ledger_reserved R rows u = sum_list (map (\<lambda>row. reserved_sign (lg_operation row) * row_amount R row u) rows)"

section \<open>The balance\<close>

definition used_at :: "balance \<Rightarrow> string \<Rightarrow> int" where
  "used_at b u = to_int (quantity_at (bal_used b) u)"

definition reserved_at :: "balance \<Rightarrow> string \<Rightarrow> int" where
  "reserved_at b u = to_int (quantity_at (bal_reserved b) u)"

definition whole_balance :: "balance \<Rightarrow> bool" where
  "whole_balance b \<longleftrightarrow> (\<forall>u. is_whole (quantity_at (bal_used b) u) \<and> is_whole (quantity_at (bal_reserved b) u))
     \<and> whole_amount (bal_limits b)"

definition within_limits :: "balance \<Rightarrow> bool" where
  "within_limits b \<longleftrightarrow> (\<forall>u l. map_of (bal_limits b) u = Some l \<longrightarrow>
     0 \<le> used_at b u \<and> 0 \<le> reserved_at b u \<and> used_at b u + reserved_at b u \<le> to_int l)"

lemma whole_limit: "whole_amount a \<Longrightarrow> map_of a u = Some l \<Longrightarrow> is_whole l"
  using map_of_SomeD [of a u l] by (force simp: whole_amount_def list_all_iff)

lemma quantity_at_put [simp]: "quantity_at (m(u \<mapsto> q)) w = (if w = u then q else quantity_at m w)"
  by (simp add: quantity_at_def)

lemma balance_unit_whole:
  assumes "balance_unit R op (u, Whole v) b = Inr b'" "whole_balance b" "within_limits b" "0 \<le> v"
    and "op \<in> {''reserve'', ''commit'', ''release'', ''usage'', ''refund''}"
  shows "whole_balance b' \<and> within_limits b' \<and> bal_limits b' = bal_limits b
    \<and> (\<forall>w. used_at b' w = used_at b w + (if w = u then used_sign op * v else 0))
    \<and> (\<forall>w. reserved_at b' w = reserved_at b w + (if w = u then reserved_sign op * v else 0))"
proof -
  obtain x y where x: "quantity_at (bal_used b) u = Whole x" "quantity_at (bal_reserved b) u = Whole y"
    using assms(2) by (auto simp: whole_balance_def is_whole_eq)
  obtain l where l: "map_of (bal_limits b) u = Some (Whole l)"
    using assms(1,2) whole_limit [of "bal_limits b" u]
    by (auto simp: balance_unit_def whole_balance_def is_whole_eq result_simps)
  have lim: "0 \<le> x" "0 \<le> y" "x + y \<le> l"
    using assms(3) [unfolded within_limits_def, rule_format, OF l] x by (simp_all add: used_at_def reserved_at_def)
  consider (reserve) "op = ''reserve''" "x + y + v \<le> l" "b' = b\<lparr>bal_reserved := (bal_reserved b)(u \<mapsto> Whole (y + v))\<rparr>"
    | (commit) "op = ''commit''" "v \<le> y" "b' = b\<lparr>bal_reserved := (bal_reserved b)(u \<mapsto> Whole (y - v)),
        bal_used := (bal_used b)(u \<mapsto> Whole (x + v))\<rparr>"
    | (release) "op = ''release''" "v \<le> y" "b' = b\<lparr>bal_reserved := (bal_reserved b)(u \<mapsto> Whole (y - v))\<rparr>"
    | (usage) "op = ''usage''" "x + v + y \<le> l" "b' = b\<lparr>bal_used := (bal_used b)(u \<mapsto> Whole (x + v))\<rparr>"
    | (refund) "op = ''refund''" "v \<le> x" "b' = b\<lparr>bal_used := (bal_used b)(u \<mapsto> Whole (x - v))\<rparr>"
    using assms(1,5) l x by (auto simp: balance_unit_def Let_def result_simps)
  then show ?thesis
    by cases (use assms(2,3,4) l x lim in \<open>auto simp: whole_balance_def within_limits_def used_at_def
        reserved_at_def used_sign_def reserved_sign_def\<close>)
qed

lemma amount_at_Cons: "amount_at ((u, q) # a) w = (if w = u then to_int q else amount_at a w)"
  by (simp add: amount_at_def)

lemma amount_at_fresh: "u \<notin> fst ` set a \<Longrightarrow> amount_at a u = 0"
  using map_of_eq_None_iff [of a u] by (simp add: amount_at_def)

lemma fold_units_whole:
  assumes "fold_result (balance_unit R op) a b = Inr b'" "whole_balance b" "within_limits b"
    and "whole_amount a" "list_all (\<lambda>p. 0 \<le> to_int (snd p)) a" "distinct (map fst a)"
    and "op \<in> {''reserve'', ''commit'', ''release'', ''usage'', ''refund''}"
  shows "whole_balance b' \<and> within_limits b' \<and> bal_limits b' = bal_limits b
    \<and> (\<forall>w. used_at b' w = used_at b w + used_sign op * amount_at a w)
    \<and> (\<forall>w. reserved_at b' w = reserved_at b w + reserved_sign op * amount_at a w)"
  using assms(1-6)
proof (induction a arbitrary: b)
  case Nil
  then show ?case by (simp add: amount_at_def)
next
  case (Cons p a)
  obtain u q where p: "p = (u, q)" by (cases p)
  obtain v where q: "q = Whole v" "0 \<le> v" using Cons.prems(4,5) p by (cases q) (auto simp: whole_amount_def)
  obtain b1 where b1: "balance_unit R op (u, Whole v) b = Inr b1" "fold_result (balance_unit R op) a b1 = Inr b'"
    using Cons.prems(1) p q by (auto simp: result_simps)
  note step = balance_unit_whole [OF b1(1) Cons.prems(2,3) q(2) assms(7)]
  have rest: "whole_amount a" "list_all (\<lambda>p. 0 \<le> to_int (snd p)) a" "distinct (map fst a)"
    using Cons.prems(4-6) by (simp_all add: whole_amount_def)
  note ih = Cons.IH [OF b1(2) _ _ rest]
  show ?case using step ih Cons.prems(6) amount_at_fresh [of u a] p q(1)
    by (auto simp: amount_at_Cons)
qed

text \<open>A read amount has distinct units, none negative.\<close>

lemma read_quantity_nonneg: "read_quantity m j = Inr q \<Longrightarrow> 0 \<le> worth q"
  by (auto simp: read_quantity_def split: json.splits if_splits)

lemma worth_to_int: "0 \<le> worth q \<Longrightarrow> 0 \<le> to_int q"
  by (cases q) auto

lemma add_q_whole: "is_whole (add_q R x y) \<Longrightarrow> add_q R x y = Whole (to_int x + to_int y)"
  by (cases x; cases y) auto

definition clean_amount :: "amount \<Rightarrow> bool" where
  "clean_amount a \<longleftrightarrow> distinct (map fst a) \<and> list_all (\<lambda>p. 0 \<le> to_int (snd p)) a"

lemma add_to_int: "0 \<le> to_int x \<Longrightarrow> 0 \<le> to_int y \<Longrightarrow> 0 \<le> to_int (add_q R x y)"
  by (cases x; cases y) auto

lemma put_all: "list_all Q d \<Longrightarrow> Q (k, x) \<Longrightarrow> list_all Q (dict_put k x d)"
  by (induction k x d rule: dict_put.induct) auto

lemma normalized_clean:
  assumes "normalize_budget_amount R v e = Inr a"
  shows "clean_amount a"
proof -
  from assms obtain kvs acc where v: "fold_result (add_amount R) kvs [] = Inr acc" "a = sort_key fst acc"
    unfolding normalize_budget_amount_def by (auto simp: result_simps split: json.splits)
  have "clean_amount acc"
  proof (rule fold_result_invariant [OF v(1)])
    show "clean_amount []" by (simp add: clean_amount_def)
    fix x u w assume u: "clean_amount u" and w: "add_amount R x u = Inr w"
    from w obtain unit q m where q: "read_quantity m (snd x) = Inr q"
        "w = (if worth q = 0 then u else dict_put unit (case map_of u unit of None \<Rightarrow> q | Some q' \<Rightarrow> add_q R q' q) u)"
      by (auto simp: add_amount_def result_simps)
    have q0: "0 \<le> to_int q" using read_quantity_nonneg [OF q(1)] by (rule worth_to_int)
    have "0 \<le> to_int q'" if "map_of u unit = Some q'" for q'
      using u map_of_SomeD [OF that] by (auto simp: clean_amount_def list_all_iff)
    then have "0 \<le> to_int (case map_of u unit of None \<Rightarrow> q | Some q' \<Rightarrow> add_q R q' q)"
      using q0 add_to_int by (auto split: option.splits)
    then show "clean_amount w"
      using u q(2) put_all [of "\<lambda>p. 0 \<le> to_int (snd p)" u] by (simp add: clean_amount_def distinct_dict_put)
  qed
  then show ?thesis using v(2) by (simp add: clean_amount_def list_all_iff distinct_map)
qed

lemma balance_row_whole:
  assumes "balance_row P R db r row b = Inr b'" "whole_balance b" "within_limits b"
    and "read_whole (normalize_budget_amount R (lg_amount row) True)"
  shows "whole_balance b' \<and> within_limits b' \<and> bal_limits b' = bal_limits b
    \<and> (\<forall>w. used_at b' w = used_at b w + used_sign (lg_operation row) * row_amount R row w)
    \<and> (\<forall>w. reserved_at b' w = reserved_at b w + reserved_sign (lg_operation row) * row_amount R row w)"
proof -
  from assms(1) obtain a where a: "normalize_budget_amount R (lg_amount row) True = Inr a"
      "lg_operation row \<in> {''reserve'', ''commit'', ''release'', ''usage'', ''refund''}"
      "fold_result (balance_unit R (lg_operation row)) a b = Inr b'"
    unfolding balance_row_def andthen_eq_Inr require_eq_Inr by blast
  have "whole_amount a" using assms(4) a(1) by (simp add: read_whole_def)
  moreover have "distinct (map fst a)" "list_all (\<lambda>p. 0 \<le> to_int (snd p)) a"
    using normalized_clean [OF a(1)] by (simp_all add: clean_amount_def)
  moreover have "row_amount R row w = amount_at a w" for w using a(1) by (simp add: row_amount_def)
  ultimately show ?thesis using fold_units_whole [OF a(3) assms(2,3)] a(2) by simp
qed

lemma fold_rows_whole:
  assumes "fold_result (balance_row P R db r) rows b = Inr b'" "whole_balance b" "within_limits b"
    and "list_all (\<lambda>row. read_whole (normalize_budget_amount R (lg_amount row) True)) rows"
  shows "within_limits b' \<and> bal_limits b' = bal_limits b
    \<and> (\<forall>w. used_at b' w = used_at b w + ledger_used R rows w)
    \<and> (\<forall>w. reserved_at b' w = reserved_at b w + ledger_reserved R rows w)"
  using assms
proof (induction rows arbitrary: b)
  case Nil
  then show ?case by (simp add: ledger_used_def ledger_reserved_def)
next
  case (Cons row rows)
  obtain b1 where b1: "balance_row P R db r row b = Inr b1" "fold_result (balance_row P R db r) rows b1 = Inr b'"
    using Cons.prems(1) by (auto simp: result_simps)
  have whole: "read_whole (normalize_budget_amount R (lg_amount row) True)" using Cons.prems(4) by simp
  note step = balance_row_whole [OF b1(1) Cons.prems(2,3) whole]
  show ?case using step Cons.IH [OF b1(2)] Cons.prems(4)
    by (simp add: ledger_used_def ledger_reserved_def)
qed

lemma starting_quantity: "quantity_at (map_of (map (\<lambda>p. (fst p, Whole 0)) limits)) u = Whole 0"
  by (auto simp: quantity_at_def split: option.splits dest: map_of_SomeD)

lemma add_limit_nonneg:
  assumes "fold_result add_limit kvs [] = Inr limits"
  shows "list_all (\<lambda>p. 0 \<le> to_int (snd p)) limits"
  using assms
proof (rule fold_result_invariant)
  fix x u w assume "list_all (\<lambda>p. 0 \<le> to_int (snd p)) u" "add_limit x u = Inr w"
  then show "list_all (\<lambda>p. 0 \<le> to_int (snd p)) w"
    using read_quantity_nonneg worth_to_int by (auto simp: add_limit_def result_simps intro!: put_all)
qed simp

lemma limits_nonneg:
  assumes "normalize_budget_limits v = Inr limits" "map_of limits u = Some l"
  shows "0 \<le> to_int l"
proof -
  from assms(1) obtain kvs acc where "fold_result add_limit kvs [] = Inr acc" "limits = sort_key fst acc"
    unfolding normalize_budget_limits_def
    by (auto simp: andthen_eq_Inr simp del: fold_result.simps split: json.splits list.splits)
  then have "list_all (\<lambda>p. 0 \<le> to_int (snd p)) limits"
    using add_limit_nonneg by (simp add: list_all_iff)
  then show ?thesis using map_of_SomeD [OF assms(2)] by (auto simp: list_all_iff)
qed

lemma reconstruct_whole:
  assumes "budget_reconstruct P R db r = Inr b" "whole_budget R db r"
  shows "within_limits b \<and> used_at b u = ledger_used R (ledger_of db r) u
    \<and> reserved_at b u = ledger_reserved R (ledger_of db r) u"
proof -
  from assms(1) obtain row limits where row: "db_runs db r = Some row"
      and limits: "normalize_budget_limits (rr_budget_policy row) = Inr limits"
      and fold: "fold_result (balance_row P R db r) (ledger_of db r) (starting_balance limits) = Inr b"
    unfolding budget_reconstruct_def run_row_def by (auto simp: result_simps)
  have rows: "list_all (\<lambda>row. read_whole (normalize_budget_amount R (lg_amount row) True)) (ledger_of db r)"
    and whole: "whole_amount limits"
    using assms(2) row limits by (simp_all add: whole_budget_def read_whole_def)
  have "whole_balance (starting_balance limits)"
    using whole by (simp add: whole_balance_def starting_balance_def starting_quantity)
  moreover have "within_limits (starting_balance limits)"
    using limits_nonneg [OF limits]
    by (simp add: within_limits_def starting_balance_def used_at_def reserved_at_def starting_quantity)
  ultimately show ?thesis
    using fold_rows_whole [OF fold _ _ rows]
    by (simp add: starting_balance_def used_at_def reserved_at_def starting_quantity)
qed

section \<open>The delta of an iteration\<close>

definition delta_sign :: "string \<Rightarrow> int" where
  "delta_sign op = (if op = ''release'' \<or> op = ''refund'' then - 1 else 1)"

definition ledger_committed :: "rounding \<Rightarrow> ledger_row list \<Rightarrow> string \<Rightarrow> int" where
  "ledger_committed R rows u = sum_list (map (\<lambda>row. if lg_operation row = ''commit'' then row_amount R row u else 0) rows)"

lemma amount_at_put: "amount_at (dict_put k q d) u = (if u = k then to_int q else amount_at d u)"
  by (simp add: amount_at_def map_of_dict_put)

lemma add_delta_whole:
  assumes "whole_amount d" "is_whole q"
  shows "whole_amount (add_delta R neg (k, q) d)
    \<and> amount_at (add_delta R neg (k, q) d) u = amount_at d u + (if u = k then (if neg then - to_int q else to_int q) else 0)"
proof -
  obtain v where q: "q = Whole v" using assms(2) by (cases q) auto
  let ?old = "case map_of d k of None \<Rightarrow> Whole 0 | Some q \<Rightarrow> q"
  have old: "?old = Whole (amount_at d k)"
    using whole_limit [OF assms(1), of k] by (auto simp: amount_at_def is_whole_eq split: option.splits)
  then have "add_delta R neg (k, q) d = dict_put k (Whole (amount_at d k + (if neg then - v else v))) d"
    by (simp add: add_delta_def q negate_q_def)
  moreover have "whole_amount (dict_put k (Whole i) d)" for i
    using assms(1) by (simp add: whole_amount_def put_all)
  ultimately show ?thesis by (simp add: amount_at_put q)
qed

lemma fold_delta_whole:
  assumes "whole_amount a" "whole_amount d" "distinct (map fst a)"
  shows "whole_amount (fold (add_delta R neg) a d)
    \<and> amount_at (fold (add_delta R neg) a d) u = amount_at d u + (if neg then - 1 else 1) * amount_at a u"
  using assms
proof (induction a arbitrary: d)
  case Nil
  then show ?case by (simp add: amount_at_def)
next
  case (Cons p a)
  obtain k q where p: "p = (k, q)" by (cases p)
  have q: "is_whole q" "whole_amount a" "distinct (map fst a)" "k \<notin> fst ` set a"
    using Cons.prems p by (auto simp: whole_amount_def)
  note step = add_delta_whole [OF Cons.prems(2) q(1), of R neg k]
  show ?case using Cons.IH [OF q(2) _ q(3), of "add_delta R neg (k, q) d"] step p amount_at_fresh [OF q(4)]
    by (cases "u = k") (simp_all add: amount_at_Cons)
qed

lemma delta_step_whole:
  assumes "delta_step R row d = Inr d'" "whole_amount d" "read_whole (normalize_budget_amount R (lg_amount row) True)"
  shows "whole_amount d' \<and> amount_at d' u = amount_at d u + delta_sign (lg_operation row) * row_amount R row u"
proof -
  from assms(1) obtain a where a: "normalize_budget_amount R (lg_amount row) True = Inr a"
      "d' = fold (add_delta R (lg_operation row \<in> {''release'', ''refund''})) a d"
    by (auto simp: delta_step_def result_simps)
  have "whole_amount a" "distinct (map fst a)"
    using assms(3) normalized_clean [OF a(1)] a(1) by (simp_all add: read_whole_def clean_amount_def)
  then show ?thesis
    using fold_delta_whole [of a d R "lg_operation row \<in> {''release'', ''refund''}" u] assms(2) a
    by (simp add: row_amount_def delta_sign_def)
qed

lemma fold_delta_rows:
  assumes "fold_result (delta_step R) rows d = Inr d'" "whole_amount d"
    and "list_all (\<lambda>row. read_whole (normalize_budget_amount R (lg_amount row) True)) rows"
  shows "whole_amount d' \<and> amount_at d' u =
    amount_at d u + sum_list (map (\<lambda>row. delta_sign (lg_operation row) * row_amount R row u) rows)"
  using assms
proof (induction rows arbitrary: d)
  case (Cons row rows)
  then obtain d1 where d1: "delta_step R row d = Inr d1" "fold_result (delta_step R) rows d1 = Inr d'"
    by (auto simp: result_simps)
  show ?case using Cons.IH [OF d1(2)] delta_step_whole [OF d1(1) Cons.prems(2)] Cons.prems(3) by simp
qed simp

lemma fold_delta_distinct:
  assumes "fold_result (delta_step R) rows d = Inr d'" "distinct (map fst d)"
  shows "distinct (map fst d')"
  using assms(1)
proof (rule fold_result_invariant [where I = "\<lambda>d. distinct (map fst d)"])
  fix row u v assume "distinct (map fst u)" "delta_step R row u = Inr v"
  moreover have "distinct (map fst (fold (add_delta R neg) a u))" if "distinct (map fst u)" for neg a and u :: amount
    using that by (induction a arbitrary: u) (simp_all add: add_delta_def distinct_dict_put)
  ultimately show "distinct (map fst v)" by (auto simp: delta_step_def result_simps)
qed (rule assms(2))

lemma amount_at_nonzero:
  assumes "distinct (map fst d)" "whole_amount d"
  shows "amount_at (filter (\<lambda>p. worth (snd p) \<noteq> 0) (sort_key fst d)) u = amount_at d u"
proof -
  have perm: "map_of (sort_key fst d) = map_of d"
    using assms(1) by (intro map_of_inject_set [THEN iffD2]) (simp_all add: distinct_map)
  have "amount_at (filter (\<lambda>p. worth (snd p) \<noteq> 0) e) u = amount_at e u"
    if "distinct (map fst e)" "whole_amount e" for e
    using that
  proof (induction e)
    case (Cons p e)
    obtain k v where p: "p = (k, Whole v)" using Cons.prems(2) by (cases p; cases "snd p") (auto simp: whole_amount_def)
    have "k \<notin> fst ` set (filter (\<lambda>p. worth (snd p) \<noteq> 0) e)" using Cons.prems(1) p by auto
    then show ?case using Cons p amount_at_fresh [of k "filter (\<lambda>p. worth (snd p) \<noteq> 0) e"]
      by (auto simp: amount_at_Cons whole_amount_def amount_at_fresh)
  qed simp
  from this [of "sort_key fst d"] show ?thesis
    using assms perm by (simp add: amount_at_def whole_amount_def list_all_iff distinct_map)
qed

lemma delta_is_signed_sum:
  assumes "budget_delta_for_iteration R db r iid = Inr delta" "whole_budget R db r"
  shows "amount_at delta u = sum_list (map (\<lambda>row. delta_sign (lg_operation row) * row_amount R row u)
    (filter (\<lambda>x. lg_iteration x = Some iid) (ledger_of db r)))"
proof -
  let ?rows = "filter (\<lambda>x. lg_iteration x = Some iid) (ledger_of db r)"
  from assms(1) obtain d where d: "fold_result (delta_step R) ?rows [] = Inr d"
      "delta = filter (\<lambda>p. worth (snd p) \<noteq> 0) (sort_key fst d)"
    by (auto simp: budget_delta_for_iteration_def result_simps)
  have "list_all (\<lambda>row. read_whole (normalize_budget_amount R (lg_amount row) True)) ?rows"
    using assms(2) by (auto simp: whole_budget_def list_all_iff)
  then have "whole_amount d" "amount_at d u = sum_list (map (\<lambda>row. delta_sign (lg_operation row) * row_amount R row u) ?rows)"
    using fold_delta_rows [OF d(1), of u] by (simp_all add: whole_amount_def amount_at_def)
  then show ?thesis using amount_at_nonzero [OF fold_delta_distinct [OF d(1)]] d(2) by simp
qed

end
