(* ===== verification/Control_Promises.thy ===== *)
theory Control_Promises
  imports Control_Correct
begin

text \<open>
  The promises of the repository over its reachable databases: verified histories, the refinement
  of the abstract run machine, one human approval, append-only audit tables, and fencing.
\<close>

section \<open>Stored histories\<close>

lemma reachable_get_run:
  assumes "columns_agree P r row s" "db_runs db r = Some row"
  shows "get_run P r db = Inr (run_summary P s)"
  using assms by (simp add: get_run_def run_row_def run_state_def columns_agree_def)

text \<open>
  C2. Whatever sequence of operations produced a database: the event chain of every run
  verifies, and every stored run can be read, its transition ledger verifies up to its present
  status and version, and its budget reconstructs from the ledger.
\<close>

theorem reachable_database_verifies:
  assumes "sane_rounding R" "reachable P R db"
  shows "ch_ok (verify_event_chain P db r)
    \<and> (case db_runs db r of None \<Rightarrow> True
       | Some row \<Rightarrow> vr_ok (verify_transition_results P db r) \<and> \<not> isl (get_run P r db)
           \<and> \<not> isl (budget_reconstruct P R db r))"
proof -
  note coh = reachable_coherent [OF assms]
  have chain: "ch_ok (verify_event_chain P db r)" using coh chained_verifies by (simp add: coherent_def)
  show ?thesis
  proof (cases "db_runs db r")
    case (Some row)
    obtain s where s: "columns_agree P r row s" "ledger_reaches P (db_transitions db) r s"
      using reachable_run [OF assms Some] .
    have "vr_ok (verify_transition_results P db r)"
      using ledger_verifies [OF s(2) Some] s(1) by (simp add: columns_agree_def)
    moreover have "\<not> isl (get_run P r db)" using reachable_get_run [OF s(1) Some] by simp
    moreover have "\<not> isl (budget_reconstruct P R db r)"
      using coherent_run [OF coh Some] by (auto simp: sound_run_def)
    ultimately show ?thesis using chain Some by simp
  qed (simp add: chain)
qed

text \<open>
  C1. Refinement: from any reachable database, every successful operation is one step of the
  abstract run machine (a proposal, a move along the transition table that raises the version by
  one and consumes an approval exactly when it approves, or work of a running run) or leaves the
  machine as it is.
\<close>

theorem operations_refine_run_machine:
  assumes "sane_rounding R" "reachable P R db" "control_step P R db db'"
  shows "machine_of db' = machine_of db \<or> machine_step (machine_of db) (machine_of db')"
  using step_refines [OF reachable_coherent [OF assms(1,2)] assms(3)] .

lemma machine_of_steps:
  assumes "(live_step P R)\<^sup>*\<^sup>* db db'"
  shows "machine_step\<^sup>*\<^sup>* (machine_of db) (machine_of db')"
  using assms
proof (induction rule: rtranclp_induct)
  case (step y z)
  then show ?case using step_refines [of P R y z] by (auto simp: live_step_def intro: rtranclp.rtrancl_into_rtrancl)
qed simp

text \<open>
  C14. A stored run that is approved, running, paused or completed has exactly one recorded
  consumption, of the approval its state names; a run awaiting approval has none; no run ever
  has two.
\<close>

theorem stored_run_has_its_approval:
  assumes "sane_rounding R" "reachable P R db" "state_of db r = Some s"
  shows "length (consumptions_of db r) \<le> 1
    \<and> (status s = Awaiting_start_approval \<longrightarrow> consumptions_of db r = [])
    \<and> (status s \<in> {Approved, Running, Paused, Completed} \<longrightarrow>
         (\<exists>c. consumptions_of db r = [c] \<and> approval_consumption_id s = Some (ac_consumption_id c)
            \<and> approval_id s = Some (ac_approval_id c)))"
proof -
  obtain row where row: "db_runs db r = Some row" "col_model (rr_state row) = Some s"
    using assms(3) by (auto simp: state_of_def split: option.splits)
  obtain s' where "columns_agree P r row s'" "approval_inv s' (consumptions_of db r)"
    using reachable_run [OF assms(1,2) row(1)] .
  then have "approval_inv s (consumptions_of db r)" using row(2) by (simp add: columns_agree_def)
  then show ?thesis by (auto simp: approval_inv_def past_approval_def)
qed

text \<open>
  C19. The audit tables are append-only: from any coherent database (every reachable one is,
  \<open>reachable_coherent\<close>), whatever happens after, an event, a state transition,
  an approval consumption, an iteration outcome and a budget entry keep their place and content.
\<close>

theorem audit_tables_append_only:
  assumes "sane_rounding R" "coherent P R db" "(control_step P R)\<^sup>*\<^sup>* db db'"
  shows "take (length (db_events db)) (db_events db') = db_events db
    \<and> take (length (db_transitions db)) (db_transitions db') = db_transitions db
    \<and> take (length (db_consumptions db)) (db_consumptions db') = db_consumptions db
    \<and> take (length (db_outcomes db)) (db_outcomes db') = db_outcomes db
    \<and> take (length (db_ledger db)) (db_ledger db') = db_ledger db"
proof -
  note live = live_steps [OF assms(1,2,3)]
  show ?thesis
    using events.steps_grow [OF live] transitions.steps_grow [OF live] consumptions.steps_grow [OF live]
      outcomes.steps_grow [OF live] ledger.steps_grow [OF live] by auto
qed

section \<open>Fencing\<close>


lemma isl_if_never_Inr: "(\<And>y. x = Inr y \<Longrightarrow> False) \<Longrightarrow> isl x"
  by (cases x) auto




text \<open>
  C13. A granted lease excludes everyone else: its token is one above the last, it lasts at most a
  day, only the owner passes the fence, only with that token and only before the expiry, and until
  then no other session can acquire the lease of the run, for whatever operation it asks.
\<close>

theorem granted_lease_excludes_others:
  assumes "acquire_lease_connection r a ttl clk allowed db = Inr (g, db')" "actor_id a \<noteq> []"
    and "expiry = stamp_floor (now_grant clk + ttl * 1000000)"
  shows "token_of r db = Some (lr_token g - 1) \<and> token_of r db' = Some (lr_token g)
    \<and> expiry \<le> now_grant clk + 86400000000
    \<and> (assert_fence db' r b (Some n) now = Inr () \<longleftrightarrow>
         actor_id b = actor_id a \<and> session_id b = session_id a \<and> n = lr_token g \<and> now < expiry)
    \<and> ((actor_id b, session_id b) \<noteq> (actor_id a, session_id a) \<and> now_check clk' < expiry \<longrightarrow>
         isl (acquire_lease_connection r b ttl' clk' allowed' db'))"
proof -
  obtain row e where row: "db_leases db r = Some row" "1 \<le> ttl" "ttl \<le> 86400"
      "add_seconds (now_grant clk) ttl = Inr e" "g = grant_of row a e"
      "db' = db\<lparr>db_leases := (db_leases db)(r \<mapsto> granted_row row a e (timestamp (now_stamp clk)))\<rparr>"
    using assms(1) by (auto simp: acquire_lease_connection_def result_simps)
  have e: "e = now_grant clk + ttl * 1000000" using row(4) by (auto simp: add_seconds_def Let_def split: if_splits)
  let ?row = "granted_row row a e (timestamp (now_stamp clk))"
  have own: "db_leases db' r = Some ?row" using row(6) by simp
  have expires: "parse_timestamp (ls_expires ?row) = Some expiry"
    using e assms(3) by (simp add: granted_row_def parse_timestamp_def timestamp_def)
  have held: "held_by_other ?row b (now_check clk')"
    if "(actor_id b, session_id b) \<noteq> (actor_id a, session_id a)" "now_check clk' < expiry"
    using that expires assms(2)
    by (auto simp: held_by_other_def granted_row_def str_truthy_def stamp_truthy_def split: list.splits)
  have "isl (acquire_lease_connection r b ttl' clk' allowed' db')"
    if "(actor_id b, session_id b) \<noteq> (actor_id a, session_id a)" "now_check clk' < expiry"
    using held [OF that] own
    by (intro isl_if_never_Inr) (auto simp: acquire_lease_connection_def result_simps)
  moreover have "expiry \<le> now_grant clk + 86400000000"
    using assms(3) row(3) by (simp add: stamp_floor_def)
  moreover have "token_of r db = Some (lr_token g - 1)" "token_of r db' = Some (lr_token g)"
    using row(1,5) own by (simp_all add: token_of_def grant_of_def granted_row_def)
  moreover have "assert_fence db' r b (Some n) now = Inr () \<longleftrightarrow>
      actor_id b = actor_id a \<and> session_id b = session_id a \<and> n = lr_token g \<and> now < expiry"
    using own expires row(5) by (auto simp: assert_fence_passes grant_of_def granted_row_def)
  ultimately show ?thesis by blast
qed

end
