(* ===== verification/Run_Correct.thy ===== *)
theory Run_Correct
  imports Run_Laws
begin

text \<open>
  What the run lifecycle promises: legal edges with a version per step and immutable bindings,
  exactly one human approval before anything runs, and transitions that must be available
  (approval with a valid decision, cancellation) are.
\<close>

section \<open>Legal edges\<close>

text \<open>
  C34. A successful transition goes along an edge of the transition table, raises the state version
  by one, keeps the identity of the run and everything the approval was given for (project,
  charter, model, budget, source policy), and ends in a valid state.
\<close>

theorem run_transition_sound:
  assumes "transition_run_state P s target approval now completion research ledger = Inr t"
  shows "target \<in> set (allowed_run_transitions (status s)) \<and> status (new_state t) = target
    \<and> state_version (new_state t) = state_version s + 1
    \<and> run_id (new_state t) = run_id s \<and> project_id (new_state t) = project_id s
    \<and> charter_hash (new_state t) = charter_hash s \<and> model_identity (new_state t) = model_identity s
    \<and> budget (new_state t) = budget s \<and> source_policy_hash (new_state t) = source_policy_hash s
    \<and> validate_run_state P (new_state t) = []"
  using transition_edge [OF assms] transition_same_run [OF assms] by (simp add: same_run_def)

text \<open>
  C33. A run is approved only by an unexpired, unconsumed human decision that is bound to this
  run, charter, model, source policy and budget and was never consumed before; the consumption
  it produces names this approval and the two adjacent state versions.
\<close>

theorem approval_requires_bound_human_decision:
  assumes "transition_run_state P s Approved approval now completion research ledger = Inr t"
  shows "\<exists>a led c. approval = Some a \<and> ledger = Some led \<and> new_consumption t = Some c
    \<and> status s = Awaiting_start_approval
    \<and> ap_decision a = ''approved'' \<and> ap_decision_authority a = ''human'' \<and> ap_consumed_at a = None
    \<and> (case ap_expires_at a of None \<Rightarrow> True | Some e \<Rightarrow> (\<exists>u. parse_time e = Some u \<and> now < u))
    \<and> ap_run_id a = run_id s \<and> ap_project_id a = project_id s \<and> ap_charter_hash a = charter_hash s
    \<and> ap_model_identity a = model_identity s \<and> ap_source_policy_hash a = source_policy_hash s
    \<and> hash_json P (JObj (ap_budget a)) = hash_json P (JObj (budget s))
    \<and> \<not> list_ex (\<lambda>c. ac_approval_id c = ap_approval_id a) led
    \<and> ac_approval_id c = ap_approval_id a
    \<and> ac_prior_state_version c = state_version s \<and> ac_resulting_state_version c = state_version (new_state t)"
proof -
  obtain t0 h where e: "target_effect P s Approved approval now completion ledger = Inr t0"
    and c: "new_consumption t = new_consumption t0"
    using assms by (elim transition_elim)
  from e have "consume_approval P s approval now ledger = Inr t0" by (simp add: target_effect_def)
  then obtain a led k where a: "approval = Some a" "ledger = Some led"
      "validate_start_approval P a (run_expectation s) now True = []"
      "\<not> list_ex (\<lambda>c. ac_approval_id c = ap_approval_id a) led"
      "make_consumption P (ap_approval_id a) (project_id s) (run_id s) (charter_hash s)
         (state_version s) (Iso now) (state_version s + 1) = Inr k"
      "new_consumption t0 = Some k"
    by (rule consume_approval_Inr)
  have k: "ac_approval_id k = ap_approval_id a" "ac_prior_state_version k = state_version s"
      "ac_resulting_state_version k = state_version s + 1"
    using a(5) by (auto simp: make_consumption_def result_simps)
  have "status s = Awaiting_start_approval"
    using transition_edge(1) [OF assms] allowed_predecessor by blast
  then show ?thesis
    using a k c transition_edge(3) [OF assms] a(3) [unfolded validate_start_approval_def run_expectation_def]
    by (auto simp: binds_def split: option.splits)
qed

text \<open>
  C6. Over every history of transitions from an awaiting state, at most one approval is consumed,
  and a state that is approved, running, paused or completed carries the identifiers of exactly
  that approval and its consumption: no run gets past approval without a human decision.
\<close>

theorem history_consumes_one_approval:
  assumes "run_history P s0 s cs" "status s0 = Awaiting_start_approval"
  shows "length cs \<le> 1 \<and> (status s \<in> {Approved, Running, Paused, Completed} \<longrightarrow>
    (\<exists>c. cs = [c] \<and> approval_consumption_id s = Some (ac_consumption_id c)
       \<and> approval_id s = Some (ac_approval_id c)))"
  using history_approval_inv [OF assms] by (auto simp: approval_inv_def past_approval_def)

section \<open>Available transitions\<close>

lemma cancelled_valid:
  "validate_run_state P s = [] \<Longrightarrow> validate_run_state P (s\<lparr>status := Cancelled, state_version := state_version s + 1\<rparr>) = []"
  by (simp add: validate_run_state_def required_text_def required_mapping_def)

text \<open>A valid run that is not terminal can always be cancelled.\<close>

theorem cancellation_available:
  assumes "validate_run_state P s = []" "status s \<notin> {Completed, Failed, Cancelled}"
  shows "\<exists>t. transition_run_state P s Cancelled None now None None None = Inr t
    \<and> status (new_state t) = Cancelled \<and> new_consumption t = None"
proof -
  have edge: "Cancelled \<in> set (allowed_run_transitions (status s))"
    using assms by (cases "status s") (simp_all add: validate_run_state_def)
  have "target_effect P s Cancelled None now None None = Inr \<lparr>new_state = s, new_consumption = None\<rparr>"
    by (simp add: target_effect_def)
  then have "transition_run_state P s Cancelled None now None None None
      = Inr \<lparr>new_state = s\<lparr>status := Cancelled, state_version := state_version s + 1\<rparr>, new_consumption = None\<rparr>"
    unfolding transition_run_state_def Let_def using edge cancelled_valid [OF assms(1)] assms(1)
    by (simp add: raise_if_invalid_def result_ok_def)
  then show ?thesis by simp
qed

lemma make_consumption_total:
  assumes "digest_ok P"
  shows "\<exists>c. make_consumption P a p r ch v st v' = Inr c
    \<and> is_stable_id (JStr (ac_consumption_id c)) (Some ''approval_consumption'')"
proof -
  let ?j = "JObj [(''approval_id'', JStr a), (''run_id'', JStr r), (''charter_hash'', JStr ch),
    (''prior_state_version'', JInt v), (''consumed_at'', JStr (stamp_text P st)),
    (''resulting_state_version'', JInt v')]"
  have kind: "kind_key ''approval_consumption'' = ''approval_consumption''"
    "is_kind ''approval_consumption''" by code_simp+
  then obtain s where "make_event_id P (VStr ''approval_consumption'') (VStr p) (of_json ?j) = Inr s"
      "is_stable_id (JStr s) (Some ''approval_consumption'')"
    using make_event_id_stable [OF assms, of "''approval_consumption''" ?j p] by auto
  then show ?thesis by (simp add: make_consumption_def)
qed

lemma approved_valid:
  assumes "validate_run_state P s = []" "is_stable_id (JStr a) (Some ''start_approval'')"
    "is_stable_id (JStr c) (Some ''approval_consumption'')"
  shows "validate_run_state P (s\<lparr>approval_id := Some a, approval_consumed_at := Some (Iso now),
     approval_consumption_id := Some c, budget_snapshot_hash := Some (hash_json P (JObj (budget s))),
     status := Approved, state_version := state_version s + 1, current_state_hash := h\<rparr>) = []"
  using assms by (simp add: validate_run_state_def required_text_def required_mapping_def stable_of_kind_def)

text \<open>
  C35. A valid human decision suffices: an awaiting run with a valid, bound approval that was not
  consumed before is approved, and the produced consumption passes its own validator.
\<close>

theorem valid_approval_suffices:
  assumes "digest_ok P" "validate_run_state P s = []" "status s = Awaiting_start_approval"
    and "validate_start_approval P a (run_expectation s) now True = []"
    and "\<not> list_ex (\<lambda>c. ac_approval_id c = ap_approval_id a) led"
  shows "\<exists>t c. transition_run_state P s Approved (Some a) now None None (Some led) = Inr t
    \<and> new_consumption t = Some c
    \<and> validate_approval_consumption c (Some (project_id s)) (Some (run_id s)) (Some (charter_hash s))
        (Some (ap_approval_id a)) = []"
proof -
  obtain c where c: "make_consumption P (ap_approval_id a) (project_id s) (run_id s) (charter_hash s)
      (state_version s) (Iso now) (state_version s + 1) = Inr c"
      "is_stable_id (JStr (ac_consumption_id c)) (Some ''approval_consumption'')"
    using make_consumption_total [OF assms(1)] by blast
  have cf: "ac_approval_id c = ap_approval_id a" "ac_project_id c = project_id s" "ac_run_id c = run_id s"
      "ac_charter_hash c = charter_hash s" "ac_prior_state_version c = state_version s"
      "ac_consumed_at c = Iso now" "ac_resulting_state_version c = state_version s + 1"
    using c(1) by (auto simp: make_consumption_def result_simps)
  let ?s' = "s\<lparr>approval_id := Some (ap_approval_id a), approval_consumed_at := Some (Iso now),
     approval_consumption_id := Some (ac_consumption_id c),
     budget_snapshot_hash := Some (hash_json P (JObj (budget s)))\<rparr>"
  have aid: "is_stable_id (JStr (ap_approval_id a)) (Some ''start_approval'')"
    using assms(4) by (simp add: validate_start_approval_def)
  have eff: "target_effect P s Approved (Some a) now None (Some led)
      = Inr \<lparr>new_state = ?s', new_consumption = Some c\<rparr>"
    using assms(4,5) c(1)
    by (simp add: target_effect_def consume_approval_def raise_if_invalid_def result_ok_def)
  have valid: "validate_run_state P (?s'\<lparr>status := Approved, state_version := state_version s + 1,
      current_state_hash := current_state_hash s\<rparr>) = []"
    by (rule approved_valid [OF assms(2) aid c(2)])
  have t: "transition_run_state P s Approved (Some a) now None None (Some led)
      = Inr \<lparr>new_state = ?s'\<lparr>status := Approved, state_version := state_version s + 1,
          current_state_hash := current_state_hash s\<rparr>, new_consumption = Some c\<rparr>"
    unfolding transition_run_state_def Let_def eff
    using assms(2,3) valid by (simp add: raise_if_invalid_def result_ok_def)
  have facts: "is_project_id (JStr (project_id s))" "1 \<le> state_version s"
    using assms(2) by (simp_all add: validate_run_state_def)
  then have "validate_approval_consumption c (Some (project_id s)) (Some (run_id s))
      (Some (charter_hash s)) (Some (ap_approval_id a)) = []"
    using c(2) cf aid by (simp add: validate_approval_consumption_def binds_def)
  with t show ?thesis by simp
qed

section \<open>Instances\<close>

definition zeros :: string where
  "zeros = replicate 64 (CHR ''0'')"

definition zero_prims :: prims where
  "zero_prims = \<lparr>sha256 = (\<lambda>_. zeros), float_repr = (\<lambda>_. []), iso_stamp = (\<lambda>_. ''t''),
     isoformat = (\<lambda>_. ''t''), py_repr = (\<lambda>_. [])\<rparr>"

definition sample_run :: max_run_state where
  "sample_run =
     \<lparr>run_id = ''r'', project_id = ''p'', status = Awaiting_start_approval, charter_hash = ''c'',
      model_identity = ''m'', budget = [(''iteration_count'', JInt 3)], source_policy_hash = ''s'',
      approval_id = None, iteration_index = 0, state_version = 1, approval_consumed_at = None,
      completion_result_id = None, completion_state_hash = None,
      run_schema = ''max-research-run-state/v1'', current_state_hash = Some ''h'',
      current_checkpoint_id = None, approval_consumption_id = None, budget_snapshot_hash = None\<rparr>"

definition sample_approval :: start_approval where
  "sample_approval =
     \<lparr>ap_run_id = ''r'', ap_project_id = ''p'', ap_charter_hash = ''c'', ap_model_identity = ''m'',
      ap_budget = [(''iteration_count'', JInt 3)], ap_source_policy_hash = ''s'',
      ap_approval_id = ''mr1:start_approval:a'', ap_decision = ''approved'', ap_approved_by = ''u'',
      ap_approved_at = Stamp 0, ap_decision_authority = ''human'', ap_expires_at = Some (Stamp 1000),
      ap_consumed_at = None, ap_schema = ''max-research-start-approval/v1''\<rparr>"

lemma zero_digest_ok: "digest_ok zero_prims"
proof -
  have "is_hex64 zeros" by code_simp
  then show ?thesis by (simp add: digest_ok_def zero_prims_def)
qed

lemma sample_run_valid: "validate_run_state zero_prims sample_run = []"
  by code_simp

lemma sample_approval_valid:
  "validate_start_approval zero_prims sample_approval (run_expectation sample_run) 10 True = []"
  by code_simp

lemma sample_edge: "status sample_run = Awaiting_start_approval"
  by (simp add: sample_run_def)

lemma sample_cancel:
  "transition_run_state zero_prims sample_run Cancelled None 0 None None None
     = Inr \<lparr>new_state = sample_run\<lparr>status := Cancelled, state_version := 2\<rparr>, new_consumption = None\<rparr>"
  by code_simp

lemma run_transition_sound_witness:
  "state_version (sample_run\<lparr>status := Cancelled, state_version := 2\<rparr>) = state_version sample_run + 1"
  using run_transition_sound [OF sample_cancel] by simp

definition approved_sample :: run_transition where
  "approved_sample =
     (case transition_run_state zero_prims sample_run Approved (Some sample_approval) 10 None None (Some []) of
        Inr t \<Rightarrow> t | Inl _ \<Rightarrow> \<lparr>new_state = sample_run, new_consumption = None\<rparr>)"

lemma sample_approved:
  "transition_run_state zero_prims sample_run Approved (Some sample_approval) 10 None None (Some [])
     = Inr approved_sample"
proof -
  have "\<not> isl (transition_run_state zero_prims sample_run Approved (Some sample_approval) 10 None None (Some []))"
    by code_simp
  then show ?thesis by (auto simp: approved_sample_def split: sum.splits)
qed

lemma approval_requires_bound_human_decision_witness:
  "ap_decision_authority sample_approval = ''human'' \<and> new_consumption approved_sample \<noteq> None"
  using approval_requires_bound_human_decision [OF sample_approved] by auto

lemma sample_history:
  "run_history zero_prims sample_run (new_state approved_sample)
     (case new_consumption approved_sample of None \<Rightarrow> [] | Some c \<Rightarrow> [c])"
  using step_history [OF begin_history sample_approved] by simp

lemma history_consumes_one_approval_witness:
  "length (case new_consumption approved_sample of None \<Rightarrow> [] | Some c \<Rightarrow> [c]) \<le> 1"
  using history_consumes_one_approval [OF sample_history sample_edge] by blast

lemma cancellation_available_witness:
  "\<exists>t. transition_run_state zero_prims sample_run Cancelled None 5 None None None = Inr t
     \<and> status (new_state t) = Cancelled"
  using cancellation_available [OF sample_run_valid, of 5] sample_edge by auto

lemma valid_approval_suffices_witness:
  "\<exists>t. transition_run_state zero_prims sample_run Approved (Some sample_approval) 10 None None (Some []) = Inr t"
  using valid_approval_suffices [OF zero_digest_ok sample_run_valid sample_edge sample_approval_valid, of "[]"]
  by auto

end
