(* ===== verification/Sample_Digest.thy ===== *)
theory Sample_Digest
  imports Contract_Correct Payload_Guard
begin

text \<open>
  Digests for the concrete examples. \<open>toy_digest\<close> reads fourteen characters of a text, enough to
  tell the identifiers of events of different types apart; \<open>event_text\<close> recognises the texts event
  identifiers are taken from.
\<close>

definition hex_of :: "char \<Rightarrow> char" where
  "hex_of c = (if is_hex_char c then c else if c = CHR ''m'' then CHR ''b'' else CHR ''0'')"

definition toy_digest :: "string \<Rightarrow> string" where
  "toy_digest s = take 64 (map hex_of (take 14 (drop 38 s)) @ replicate 64 (CHR ''0''))"

lemma toy_hex: "is_hex64 (toy_digest s)"
proof -
  have "is_hex_char (CHR ''0'')" "is_hex_char (CHR ''b'')" by code_simp+
  then have "is_hex_char (hex_of c)" "is_hex_char (CHR ''0'')" for c by (simp_all add: hex_of_def)
  then show ?thesis by (auto simp: toy_digest_def is_hex64_def list_all_iff dest!: in_set_takeD)
qed

text \<open>The kind a project-local identity record ends with.\<close>

definition event_text :: "string \<Rightarrow> bool" where
  "event_text t \<longleftrightarrow> takeWhile (\<lambda>c. c \<noteq> CHR 0x22) (drop 30 (rev t)) = rev ''event''"

lemma kind_chars: "is_kind k \<Longrightarrow> list_all is_kind_char k"
  by (auto simp: is_kind_def is_kind_char_def split: list.splits)

lemma kind_char_plain: "is_kind_char c \<Longrightarrow> escape_char c = [c] \<and> c \<noteq> CHR 0x22"
  by (auto simp: is_kind_char_def is_lower_def is_digit_def Let_def intro!: escape_char_plain)

lemma kind_quote:
  assumes "is_kind k"
  shows "quote k = CHR 0x22 # k @ [CHR 0x22]" "CHR 0x22 \<notin> set k"
proof -
  have "concat (map escape_char k) = k \<and> CHR 0x22 \<notin> set k"
    using kind_chars [OF assms] kind_char_plain by (induction k) auto
  then show "quote k = CHR 0x22 # k @ [CHR 0x22]" "CHR 0x22 \<notin> set k" by (simp_all add: quote_def)
qed

lemma identity_text:
  "\<exists>x. json_text P (identity_record k j) = x @ '',\"kind\":'' @ quote k @ '',\"namespace\":''
     @ quote (if k \<in> set global_kinds then ''global'' else ''project_local'') @ ''}''"
proof -
  let ?ns = "if k \<in> set global_kinds then ''global'' else ''project_local''"
  have sorted: "sort_keys (identity_record k j)
      = JObj [(''identity'', sort_keys j), (''kind'', JStr k), (''namespace'', JStr ?ns)]"
    by (simp add: identity_record_def)
  have words: "quote ''kind'' = ''\"kind\"''" "quote ''namespace'' = ''\"namespace\"''" by code_simp+
  show ?thesis unfolding json_text_def sorted by (simp add: words)
qed

lemma event_text_kind:
  assumes "is_kind k"
  shows "event_text (json_text P (identity_record k j)) \<longleftrightarrow> k = ''event''"
proof -
  have names: "quote ''global'' = ''\"global\"''" "quote ''project_local'' = ''\"project_local\"''" by code_simp+
  obtain x where x: "json_text P (identity_record k j) = x @ '',\"kind\":'' @ quote k @ '',\"namespace\":''
     @ quote (if k \<in> set global_kinds then ''global'' else ''project_local'') @ ''}''"
    using identity_text by blast
  show ?thesis
  proof (cases "k \<in> set global_kinds")
    case True
    then have k: "k = ''source'' \<or> k = ''document''" by (simp add: global_kinds_def)
    have "quote ''source'' = ''\"source\"''" "quote ''document'' = ''\"document\"''" by code_simp+
    then show ?thesis using k True by (auto simp: event_text_def x names)
  next
    case False
    have "takeWhile (\<lambda>c. c \<noteq> CHR 0x22) (rev k @ y) = rev k @ takeWhile (\<lambda>c. c \<noteq> CHR 0x22) y" for y
      using kind_quote(2) [OF assms] by (induction k arbitrary: y rule: rev_induct) auto
    then have "event_text (json_text P (identity_record k j)) \<longleftrightarrow> rev k = rev ''event''"
      using False by (simp add: event_text_def x names kind_quote(1) [OF assms])
    then show ?thesis by (metis rev_rev_ident)
  qed
qed

section \<open>Hexadecimal texts pass the payload guard\<close>

lemma lower_hex: "is_hex_char c \<Longrightarrow> lower_char c = c"
  by (auto simp: is_hex_char_def is_digit_def lower_char_def Let_def)

lemma hex_harmless:
  assumes "is_hex64 s"
  shows "harmless (JStr s)"
proof -
  have hex: "list_all is_hex_char s" "length s = 64" using assms by (simp_all add: is_hex64_def)
  have away: "c \<notin> set s" if "\<not> is_hex_char c" for c using hex(1) that by (auto simp: list_all_iff)
  have "\<not> is_hex_char (CHR ''/'')" "\<not> is_hex_char (CHR '':'')" "\<not> is_hex_char (CHR 0x5C)" "\<not> is_hex_char (CHR ''r'')"
    "\<not> is_hex_char (CHR ''s'')" "\<not> is_hex_char (CHR ''p'')"
    by code_simp+
  then have no: "CHR ''/'' \<notin> set s" "CHR '':'' \<notin> set s" "CHR 0x5C \<notin> set s" "CHR ''r'' \<notin> set s" "CHR ''s'' \<notin> set s" "CHR ''p'' \<notin> set s"
    using away by blast+
  have "\<not> absolute_path s" using no by (auto simp: absolute_path_def split: list.splits)
  moreover have "\<not> search_at secret_here t" if "CHR ''r'' \<notin> set t" "CHR ''s'' \<notin> set t" "CHR ''p'' \<notin> set t" for t
    using that
  proof (induction t)
    case Nil
    show ?case by code_simp
  next
    case (Cons c t)
    have "has_prefix p u \<Longrightarrow> set p \<subseteq> set u" for p u by (induction p u rule: has_prefix.induct) auto
    then have "\<not> has_prefix ''bearer'' (c # t)" "\<not> has_prefix ''sk-'' (c # t)" "\<not> has_prefix ''api'' (c # t)"
        "\<not> has_prefix ''secret'' (c # t)"
      using Cons.prems by (metis insert_subset list.set(2))+
    then have "\<not> secret_here (c # t)" unfolding secret_here_def by blast
    then show ?case using Cons by simp
  qed
  moreover have "lower s = s"
    using hex(1) lower_hex by (simp add: lower_def map_idI list_all_iff)
  ultimately show ?thesis using no hex(2) by (simp add: secret_value_def)
qed

end
