(* ===== verification/Control_Samples.thy ===== *)
theory Control_Samples
  imports Control_Promises Contract_Correct Run_Correct Sample_Digest
begin

text \<open>
  Concrete databases the properties of the control plane are applied to: \<open>proposed_db\<close>, which one
  call of \<open>propose\<close> produces from the empty database, and \<open>running_db\<close>, with a running run that
  holds a lease. The digest of \<open>toy_prims\<close> reads fourteen characters of the text, enough to keep the
  identifiers of the four events of a proposal apart.
\<close>

section \<open>Appending an event succeeds\<close>

lemma stored_json_ok: "wf_json j \<Longrightarrow> stored_json P j = Inr j"
  by (simp add: stored_json_def model_to_dict_of_json)

definition event_json :: "event_row \<Rightarrow> json" where
  "event_json e = JObj [(''run_id'', JStr (ev_run e)), (''sequence_no'', JInt (ev_seq e)),
     (''event_type'', JStr (ev_type e)), (''payload_hash'', JStr (ev_payload_hash e)),
     (''previous_event_hash'', JStr (ev_previous e))]"

definition event_id_text :: "prims \<Rightarrow> string \<Rightarrow> event_row \<Rightarrow> string" where
  "event_id_text P project e = json_text P (identity_record ''event''
     (JObj [(''project_id'', JStr project), (''identity'', event_json e)]))"

lemma kind_key_event: "kind_key ''event'' = ''event''" "is_kind ''event''"
  by code_simp+

lemma event_id_ok:
  assumes "digest_ok P"
  shows "make_event_id P (VStr ''event'') (VStr project) (VDict
     [(KStr ''run_id'', VStr (ev_run e)), (KStr ''sequence_no'', VInt (ev_seq e)),
      (KStr ''event_type'', VStr (ev_type e)), (KStr ''payload_hash'', VStr (ev_payload_hash e)),
      (KStr ''previous_event_hash'', VStr (ev_previous e))])
    = Inr (''mr1:event:'' @ take 48 (sha256 P (event_id_text P project e)))"
  using make_event_id_json [of "event_json e" "''event''" P project] assms
  by (simp add: event_json_def kind_key_event event_id_text_def hash_json_def)

text \<open>The next event of a run: its number is fresh because the chain is intact.\<close>

definition next_event :: "prims \<Rightarrow> control_db \<Rightarrow> string \<Rightarrow> string \<Rightarrow> string \<Rightarrow> json \<Rightarrow> actor \<Rightarrow> stamp \<Rightarrow> event_row" where
  "next_event P db project r type payload actor now =
     (let draft = new_event P (run_log (db_events db) r) r type payload actor now;
          e = draft\<lparr>ev_id := ''mr1:event:'' @ take 48 (sha256 P (event_id_text P project draft))\<rparr>
      in e\<lparr>ev_hash := event_digest P e\<rparr>)"

lemma append_event_succeeds:
  assumes P: "digest_ok P" and chain: "chained P (db_events db) r"
    and payload: "reject_untrusted_payload payload = Inr ()" "wf_json payload"
    and row: "db_runs db r = Some row"
    and fresh: "ev_id (next_event P db (rr_project row) r type payload actor now) \<notin> set (map ev_id (db_events db))"
  shows "append_event P r type payload actor now db
    = Inr (db\<lparr>db_events := db_events db @ [next_event P db (rr_project row) r type payload actor now]\<rparr>)"
proof -
  let ?own = "run_log (db_events db) r"
  let ?draft = "new_event P ?own r type payload actor now"
  have own: "events_of db r = ?own" using events_of_chained [OF chain] .
  have seq: "ev_seq ?draft = int (length ?own) + 1"
    using chain_last [OF chain [unfolded chained_def]] by (simp add: new_event_def)
  have other: "ev_seq e \<noteq> ev_seq ?draft" if "e \<in> set (db_events db)" "ev_run e = r" for e
  proof -
    have "e \<in> set ?own" using that by (simp add: run_log_def)
    then obtain k where "k < length ?own" "e = ?own ! k" by (metis in_set_conv_nth)
    then show ?thesis using chain_numbers [OF chain [unfolded chained_def], of k] seq by simp
  qed
  have number: "(r, ev_seq ?draft) \<notin> set (map (\<lambda>x. (ev_run x, ev_seq x)) (db_events db))"
  proof
    assume "(r, ev_seq ?draft) \<in> set (map (\<lambda>x. (ev_run x, ev_seq x)) (db_events db))"
    then obtain x where "x \<in> set (db_events db)" "ev_run x = r" "ev_seq x = ev_seq ?draft" by auto
    then show False using other by blast
  qed
  define d where "d = ?draft"
  define i where "i = ''mr1:event:'' @ take 48 (sha256 P (event_id_text P (rr_project row) d))"
  have d: "ev_run d = r" "ev_type d = type" "1 \<le> ev_seq d" using seq by (simp_all add: d_def new_event_def)
  have eid: "make_event_id P (VStr ''event'') (VStr (rr_project row)) (VDict
       [(KStr ''run_id'', VStr r), (KStr ''sequence_no'', VInt (ev_seq d)),
        (KStr ''event_type'', VStr type), (KStr ''payload_hash'', VStr (ev_payload_hash d)),
        (KStr ''previous_event_hash'', VStr (ev_previous d))]) = Inr i"
    using event_id_ok [OF P, of "rr_project row" d] d by (simp add: i_def)
  have new: "next_event P db (rr_project row) r type payload actor now
      = d\<lparr>ev_id := i, ev_hash := event_digest P (d\<lparr>ev_id := i\<rparr>)\<rparr>"
    by (simp add: next_event_def Let_def d_def i_def)
  have "i \<notin> set (map ev_id (db_events db))" using fresh unfolding new by simp
  moreover have "(r, ev_seq d) \<notin> set (map (\<lambda>x. (ev_run x, ev_seq x)) (db_events db))" using number by (simp add: d_def)
  ultimately show ?thesis
    unfolding append_event_def Let_def own payload andthen_simps stored_json_ok [OF payload(2)] d_def [symmetric] new
    using d row eid by simp
qed

section \<open>A digest\<close>

definition toy_prims :: prims where
  "toy_prims = \<lparr>sha256 = toy_digest, float_repr = (\<lambda>_. []), iso_stamp = (\<lambda>_. ''t''), isoformat = (\<lambda>_. ''t''),
     py_repr = (\<lambda>_. [])\<rparr>"

lemma toy_digest_ok: "digest_ok toy_prims"
  by (simp add: digest_ok_def toy_prims_def toy_hex)

text \<open>The identity text of an event starts with its type.\<close>

lemma event_id_text_type:
  "\<exists>rest. event_id_text P project e = ''{\"identity\":{\"identity\":{\"event_type\":'' @ quote (ev_type e) @ rest"
proof -
  have sorted: "sort_keys (identity_record ''event'' (JObj [(''project_id'', JStr project), (''identity'', event_json e)]))
    = JObj [(''identity'', JObj [(''identity'', JObj [(''event_type'', JStr (ev_type e)),
         (''payload_hash'', JStr (ev_payload_hash e)), (''previous_event_hash'', JStr (ev_previous e)),
         (''run_id'', JStr (ev_run e)), (''sequence_no'', JInt (ev_seq e))]), (''project_id'', JStr project)]),
       (''kind'', JStr ''event''), (''namespace'', JStr ''project_local'')]"
    by (simp add: identity_record_def event_json_def global_kinds_def)
  have words: "quote ''identity'' = ''\"identity\"''" "quote ''event_type'' = ''\"event_type\"''" by code_simp+
  show ?thesis unfolding event_id_text_def json_text_def sorted by (simp add: words)
qed

text \<open>The identifier the digest gives an event of a type of at least twelve characters.\<close>

definition toy_id :: "string \<Rightarrow> string" where
  "toy_id type = ''mr1:event:'' @ map hex_of (take 14 (quote type)) @ replicate 34 (CHR ''0'')"

definition toy_events :: "prims \<Rightarrow> bool" where
  "toy_events P \<longleftrightarrow> digest_ok P
     \<and> (\<forall>project e. sha256 P (event_id_text P project e) = toy_digest (event_id_text P project e))"

lemma toy_prims_events: "toy_events toy_prims"
  using toy_digest_ok by (simp add: toy_events_def) (simp add: toy_prims_def)

lemma toy_event_id:
  assumes "14 \<le> length (quote (ev_type e))" "toy_events P"
  shows "''mr1:event:'' @ take 48 (sha256 P (event_id_text P project e)) = toy_id (ev_type e)"
proof -
  obtain rest where "event_id_text P project e
      = ''{\"identity\":{\"identity\":{\"event_type\":'' @ quote (ev_type e) @ rest"
    using event_id_text_type by blast
  then have "drop 38 (event_id_text P project e) = quote (ev_type e) @ rest" by simp
  moreover have "take 14 (quote (ev_type e) @ rest) = take 14 (quote (ev_type e))" using assms by simp
  moreover have "take 48 (take 64 (x @ replicate 64 c)) = x @ replicate 34 c" if "length x = 14" for x and c :: char
    using that by simp
  moreover have "length (map hex_of (take 14 (quote (ev_type e)))) = 14" using assms by simp
  ultimately have "take 48 (toy_digest (event_id_text P project e))
      = map hex_of (take 14 (quote (ev_type e))) @ replicate 34 (CHR ''0'')"
    unfolding toy_digest_def by metis
  then show ?thesis using assms(2) by (simp add: toy_events_def toy_id_def)
qed

definition toy_event :: "string \<times> json \<Rightarrow> bool" where
  "toy_event tp \<longleftrightarrow> 14 \<le> length (quote (fst tp)) \<and> wf_json (snd tp) \<and> reject_untrusted_payload (snd tp) = Inr ()"

lemma append_events_toy:
  assumes P: "toy_events P" and "\<forall>r. chained P (db_events db) r" "db_runs db r = Some row" "list_all toy_event evs"
    and "distinct (map ev_id (db_events db) @ map (\<lambda>tp. toy_id (fst tp)) evs)"
  shows "\<exists>es. append_events P r evs actor now db = Inr (db\<lparr>db_events := es\<rparr>)
    \<and> map ev_id es = map ev_id (db_events db) @ map (\<lambda>tp. toy_id (fst tp)) evs"
  using assms(2-)
proof (induction evs arbitrary: db)
  case Nil
  then show ?case by (intro exI [of _ "db_events db"]) (simp add: append_events_def)
next
  case (Cons tp evs)
  obtain t p where tp: "tp = (t, p)" by (cases tp)
  have digest: "digest_ok P" using P by (simp add: toy_events_def)
  let ?e = "next_event P db (rr_project row) r t p actor now"
  have ok: "14 \<le> length (quote t)" "wf_json p" "reject_untrusted_payload p = Inr ()"
    using Cons.prems(3) tp by (simp_all add: toy_event_def)
  have eid: "ev_id ?e = toy_id t"
    using ok(1) P toy_event_id [of "new_event P (run_log (db_events db) r) r t p actor now" P "rr_project row"]
    by (simp add: next_event_def Let_def new_event_def)
  have fresh: "ev_id ?e \<notin> set (map ev_id (db_events db))"
    unfolding eid using Cons.prems(4) tp by auto
  have step: "append_event P r t p actor now db = Inr (db\<lparr>db_events := db_events db @ [?e]\<rparr>)"
    using append_event_succeeds [OF digest _ ok(3,2) Cons.prems(2) fresh] Cons.prems(1) by blast
  have chain: "\<forall>r. chained P (db_events db @ [?e]) r"
  proof -
    obtain es where "db\<lparr>db_events := db_events db @ [?e]\<rparr> = db\<lparr>db_events := es\<rparr>" "log_extends P (db_events db) es"
      using append_event_log [OF step] by blast
    moreover have "db_events (db\<lparr>db_events := db_events db @ [?e]\<rparr>) = db_events (db\<lparr>db_events := es\<rparr>)"
      using calculation(1) by (rule arg_cong)
    ultimately have "log_extends P (db_events db) (db_events db @ [?e])" by simp
    then show ?thesis using chained_extends Cons.prems(1) by blast
  qed
  let ?db1 = "db\<lparr>db_events := db_events db @ [?e]\<rparr>"
  have distinct: "distinct (map ev_id (db_events ?db1) @ map (\<lambda>tp. toy_id (fst tp)) evs)"
    using Cons.prems(4) tp eid by auto
  have "db_runs ?db1 r = Some row" "list_all toy_event evs" "\<forall>r. chained P (db_events ?db1) r"
    using Cons.prems(2,3) chain by simp_all
  from Cons.IH [OF this(3,1,2) distinct]
  obtain es where "append_events P r evs actor now ?db1 = Inr (?db1\<lparr>db_events := es\<rparr>)"
      "map ev_id es = map ev_id (db_events ?db1) @ map (\<lambda>tp. toy_id (fst tp)) evs" by blast
  then show ?case
    using step tp eid by (intro exI [of _ es]) (simp add: append_events_def)
qed

section \<open>A proposed run\<close>

definition sample_actor :: actor where
  "sample_actor = \<lparr>actor_id = ''u'', session_id = ''s'', actor_kind = ''user'', actor_role = ''admin'',
     actor_framework = ''f'', actor_model = None\<rparr>"

definition sample_clock :: readings where
  "sample_clock = \<lparr>now_dt = 1000000, now_stamp = 1000000, now_check = 1000000, now_grant = 1000000\<rparr>"

definition sample_proposal :: proposal where
  "sample_proposal = \<lparr>pp_project = ''p'', pp_charter_hash = ''c'', pp_model = ''m'', pp_policy_hash = ''q'',
     pp_budget = JObj [(''iterations'', JInt 9)], pp_state_hash = ''h'', pp_checkpoint = ''k'',
     pp_question_version = ''v'', pp_question_id = ''i''\<rparr>"

definition sample_tables :: handoff_tables where
  "sample_tables = \<lparr>ht_packets = None, ht_acks = [], ht_target_acks = None, ht_bindings = Map.empty,
     ht_handoffs = Map.empty\<rparr>"

definition sample_id :: string where
  "sample_id = (case make_event_id toy_prims (VStr ''run'') (VStr ''p'') (VDict
     [(KStr ''charter_hash'', VStr ''c''), (KStr ''model_identity'', VStr ''m''),
      (KStr ''created_at'', VStr ''t''), (KStr ''nonce'', VStr ''n'')]) of Inr x \<Rightarrow> x | Inl _ \<Rightarrow> [])"

lemma sample_id_made:
  "make_event_id toy_prims (VStr ''run'') (VStr ''p'') (VDict
     [(KStr ''charter_hash'', VStr ''c''), (KStr ''model_identity'', VStr ''m''),
      (KStr ''created_at'', VStr ''t''), (KStr ''nonce'', VStr ''n'')]) = Inr sample_id"
  "\<exists>x. sample_id = CHR ''m'' # x"
proof -
  let ?j = "JObj [(''charter_hash'', JStr ''c''), (''model_identity'', JStr ''m''), (''created_at'', JStr ''t''),
    (''nonce'', JStr ''n'')]"
  have "kind_key ''run'' = ''run''" "is_kind ''run''" by code_simp+
  then obtain x where "make_event_id toy_prims (VStr ''run'') (VStr ''p'') (of_json ?j) = Inr (''mr1:'' @ x)"
    using make_event_id_json [of ?j "''run''" toy_prims "''p''"] toy_digest_ok by simp
  then show "make_event_id toy_prims (VStr ''run'') (VStr ''p'') (VDict
     [(KStr ''charter_hash'', VStr ''c''), (KStr ''model_identity'', VStr ''m''),
      (KStr ''created_at'', VStr ''t''), (KStr ''nonce'', VStr ''n'')]) = Inr sample_id"
    "\<exists>x. sample_id = CHR ''m'' # x"
    by (simp_all add: sample_id_def)
qed

definition sample_limits :: amount where
  "sample_limits = [(''iteration_count'', Whole 9)]"

definition sample_initial :: max_run_state where
  "sample_initial = initial_state toy_prims sample_id sample_proposal sample_limits"

definition proposal_events :: "(string \<times> json) list" where
  "proposal_events =
     [(''run_proposed'', JObj [(''project_id'', JStr ''p''), (''charter_hash'', JStr ''c''),
         (''model_identity'', JStr ''m''), (''state_hash'', JStr ''h'')]),
      (''canonical_version_appended'', JObj [(''version_id'', JStr ''v''),
         (''stable_id'', JStr ''i''), (''kind'', JStr ''research_question'')]),
      (''canonical_membership_added'', JObj [(''version_id'', JStr ''v''),
         (''membership_kind'', JStr ''object''), (''reason'', JStr ''run_proposal'')]),
      (''checkpoint_created'', JObj [(''checkpoint_id'', JStr ''k''),
         (''checkpoint_version'', JInt 1), (''state_hash'', JStr ''h'')])]"

lemma proposal_payloads:
  "list_all (\<lambda>tp. reject_untrusted_payload (snd tp) = Inr ()) proposal_events"
  by code_simp

lemma proposal_events_ok: "list_all toy_event proposal_events"
proof -
  have "list_all (\<lambda>tp. 14 \<le> length (quote (fst tp)) \<and> wf_json (snd tp)) proposal_events" by code_simp
  with proposal_payloads show ?thesis by (auto simp: toy_event_def list_all_iff)
qed

lemma proposal_ids: "distinct (map (\<lambda>tp. toy_id (fst tp)) proposal_events)"
  by code_simp

lemma sample_limits_read: "normalize_budget_limits (pp_budget sample_proposal) = Inr sample_limits"
  by code_simp

lemma nonblank_m: "nonblank (CHR ''m'' # x)"
proof -
  have "\<not> is_py_space (CHR ''m'')" by code_simp
  then show ?thesis by (auto simp: nonblank_def strip_def dropWhile_eq_Nil_conv)
qed

lemma sample_initial_valid: "validate_run_state toy_prims sample_initial = []"
proof -
  have "is_project_id (JStr ''p'')" "nonblank ''c''" "nonblank ''m''" "nonblank ''q''" by code_simp+
  moreover have "nonblank sample_id" proof -
    obtain x where "sample_id = CHR ''m'' # x" using sample_id_made(2) by blast
    then show ?thesis using nonblank_m [of x] by (rule ssubst)
  qed
  ultimately show ?thesis
    by (auto simp: sample_initial_def initial_state_def sample_proposal_def validate_run_state_def
        required_text_def required_mapping_def stored_budget_def sample_limits_def)
qed

lemma sample_state_wf: "wf_json (run_state_json toy_prims sample_initial)"
  by (simp add: run_state_json_def sample_initial_def initial_state_def stored_budget_def sample_limits_def opt_json_def
      opt_stamp_def)

lemma sample_column:
  "state_column toy_prims sample_initial
     = Inr (json_column toy_prims (run_state_json toy_prims sample_initial) sample_initial)"
  by (simp add: state_column_def stored_json_ok sample_state_wf)

definition sample_row :: run_row where
  "sample_row = initial_row toy_prims sample_initial
     (json_column toy_prims (run_state_json toy_prims sample_initial) sample_initial) (timestamp 1000000)"

lemma sample_propose:
  "\<exists>es. propose toy_prims sample_proposal sample_actor sample_clock ''n'' (empty_db sample_tables)
     = Inr (sample_initial, (empty_db sample_tables)\<lparr>db_runs := [sample_id \<mapsto> sample_row],
         db_leases := [sample_id \<mapsto> empty_lease], db_events := es\<rparr>)"
proof -
  let ?db = "(empty_db sample_tables)\<lparr>db_runs := [sample_id \<mapsto> sample_row], db_leases := [sample_id \<mapsto> empty_lease]\<rparr>"
  have "\<forall>r. chained toy_prims (db_events ?db) r" by (simp add: empty_db_def chained_def run_log_def)
  moreover have "distinct (map ev_id (db_events ?db) @ map (\<lambda>tp. toy_id (fst tp)) proposal_events)"
    using proposal_ids by (simp add: empty_db_def)
  ultimately obtain es where es: "append_events toy_prims sample_id proposal_events sample_actor (timestamp 1000000) ?db
      = Inr (?db\<lparr>db_events := es\<rparr>)"
    using append_events_toy [OF toy_prims_events, of ?db sample_id sample_row proposal_events sample_actor "timestamp 1000000"]
      proposal_events_ok by auto
  have row: "initial_row toy_prims sample_initial
     (json_column toy_prims (run_state_json toy_prims sample_initial) sample_initial) (timestamp 1000000) = sample_row"
    by (simp add: sample_row_def)
  have project: "is_project_id (JStr ''p'')" by code_simp
  have stamp: "stamp_text toy_prims (timestamp 1000000) = ''t''" by (simp add: timestamp_def toy_prims_def)
  have fields: "pp_project sample_proposal = ''p''" "pp_charter_hash sample_proposal = ''c''"
    "pp_model sample_proposal = ''m''" "pp_state_hash sample_proposal = ''h''" "pp_checkpoint sample_proposal = ''k''"
    "pp_question_version sample_proposal = ''v''" "pp_question_id sample_proposal = ''i''"
    "now_stamp sample_clock = 1000000"
    by (simp_all add: sample_proposal_def sample_clock_def)
  show ?thesis
    using es project
    unfolding propose_def Let_def fields stamp sample_limits_read sample_id_made(1) public_simps raising_simps andthen_simps
    by (simp add: sample_initial_def [symmetric] sample_initial_valid sample_column row proposal_events_def
        raise_if_invalid_def result_ok_def) (simp add: empty_db_def)
qed

definition proposed_db :: control_db where
  "proposed_db = snd (projr (propose toy_prims sample_proposal sample_actor sample_clock ''n'' (empty_db sample_tables)))"

lemma proposed_db:
  "propose toy_prims sample_proposal sample_actor sample_clock ''n'' (empty_db sample_tables) = Inr (sample_initial, proposed_db)"
  "db_runs proposed_db = [sample_id \<mapsto> sample_row]"
  using sample_propose by (auto simp: proposed_db_def)

lemma fresh_sample: "fresh_db (empty_db h)"
  by (auto simp: fresh_db_def)

lemma exact_rounding: "sane_rounding (\<lambda>x. x)"
  by (simp add: sane_rounding_def mono_def)

lemma proposed_step: "control_step toy_prims R (empty_db sample_tables) proposed_db"
  using proposed_db(1) by (rule step_propose)

lemma proposed_reachable: "reachable toy_prims R proposed_db"
  unfolding reachable_def using fresh_sample proposed_step by blast

lemma empty_reachable: "reachable P R (empty_db h)"
  unfolding reachable_def using fresh_sample by blast

lemma proposed_state: "state_of proposed_db sample_id = Some sample_initial"
  by (simp add: state_of_def proposed_db sample_row_def initial_row_def json_column_def)

section \<open>A running run\<close>

text \<open>
  Run \<open>r\<close> of the instances of \<open>Run_Correct\<close>, approved and started, with a lease at token 2 and
  a ledger that reserved two iterations and committed them.
\<close>

definition running_sample :: run_transition where
  "running_sample =
     (case transition_run_state zero_prims (new_state approved_sample) Running None 20 None None None of
        Inr t \<Rightarrow> t | Inl _ \<Rightarrow> approved_sample)"

lemma sample_running:
  "transition_run_state zero_prims (new_state approved_sample) Running None 20 None None None = Inr running_sample"
proof -
  have "\<not> isl (transition_run_state zero_prims (new_state approved_sample) Running None 20 None None None)"
    by code_simp
  then show ?thesis by (auto simp: running_sample_def split: sum.splits)
qed

definition sample_consumption :: approval_consumption where
  "sample_consumption = the (new_consumption approved_sample)"

definition sample_entry :: "int \<Rightarrow> string \<Rightarrow> string \<Rightarrow> string \<Rightarrow> ledger_row" where
  "sample_entry n operation key reservation =
     \<lparr>lg_entry = key, lg_run = ''r'', lg_seq = n, lg_operation = operation, lg_key = key,
      lg_amount = JObj [(''iteration_count'', JInt 2)], lg_provenance = JObj [], lg_reservation = Some reservation,
      lg_created = Stamp 0, lg_actor = ''u'', lg_session = ''s'', lg_request_hash = None, lg_iteration = Some ''i''\<rparr>"

definition running_lease :: lease_row where
  "running_lease = \<lparr>ls_owner = Some ''u'', ls_session = Some ''s'', ls_token = 2, ls_expires = Some (Stamp 5000000),
     ls_acquired = Some (Stamp 0), ls_renewed = Some (Stamp 0), ls_released = None\<rparr>"

definition running_row :: run_row where
  "running_row = initial_row zero_prims (new_state running_sample)
     (json_column zero_prims (run_state_json zero_prims (new_state running_sample)) (new_state running_sample)) (Stamp 0)"

definition running_db :: control_db where
  "running_db = (empty_db sample_tables)
     \<lparr>db_runs := [''r'' \<mapsto> running_row], db_leases := [''r'' \<mapsto> running_lease],
      db_transitions :=
        [transition_row_of zero_prims ''t1'' (transition_json zero_prims approved_sample) sample_run approved_sample
           sample_actor (Stamp 0),
         transition_row_of zero_prims ''t2'' (transition_json zero_prims running_sample) (new_state approved_sample)
           running_sample sample_actor (Stamp 0)],
      db_consumptions := [\<lparr>cs_run = ''r'', cs_consumption = sample_consumption, cs_hash = [], cs_actor = ''u''\<rparr>],
      db_ledger := [sample_entry 1 ''reserve'' ''e1'' ''e1'', sample_entry 2 ''commit'' ''e2'' ''e1'']\<rparr>"

lemma running_states:
  "run_id sample_run = ''r''" "state_version sample_run = 1" "status sample_run = Awaiting_start_approval"
  "run_id (new_state approved_sample) = ''r''" "state_version (new_state approved_sample) = 2"
  "status (new_state approved_sample) = Approved" "budget (new_state approved_sample) = [(''iteration_count'', JInt 3)]"
  "run_id (new_state running_sample) = ''r''" "state_version (new_state running_sample) = 3"
  "status (new_state running_sample) = Running" "budget (new_state running_sample) = [(''iteration_count'', JInt 3)]"
  using transition_edge [OF sample_approved] transition_edge [OF sample_running]
    transition_same_run [OF sample_approved] transition_same_run [OF sample_running]
  by (simp_all add: sample_run_def same_run_def)

lemma opt_wf [simp]: "wf_json (opt_json m)" "wf_json (opt_stamp P m')"
  by (simp_all add: opt_json_def opt_stamp_def split: option.splits)

lemma state_json_wf: "wf_json (JObj (budget s)) \<Longrightarrow> wf_json (run_state_json P s)"
  by (simp add: run_state_json_def)

lemma transition_json_wf:
  assumes "wf_json (JObj (budget (new_state t)))"
  shows "wf_json (transition_json P t)"
  using state_json_wf [OF assms] by (simp add: transition_json_def consumption_json_def split: option.splits)

lemma running_json: "wf_json (transition_json zero_prims approved_sample)" "wf_json (transition_json zero_prims running_sample)"
  by (rule transition_json_wf; simp add: running_states)+

lemma running_ledger: "ledger_reaches zero_prims (db_transitions running_db) ''r'' (new_state running_sample)"
proof -
  have "ledger_reaches zero_prims [] ''r'' sample_run"
    by (simp add: ledger_reaches_def running_states)
  from ledger_reaches_append [OF this stored_json_ok [OF running_json(1)]]
  have "ledger_reaches zero_prims
      [transition_row_of zero_prims ''t1'' (transition_json zero_prims approved_sample) sample_run approved_sample
         sample_actor (Stamp 0)] ''r'' (new_state approved_sample)"
    by (simp add: running_states)
  from ledger_reaches_append [OF this stored_json_ok [OF running_json(2)]]
  show ?thesis by (simp add: running_states running_db_def empty_db_def)
qed

lemma running_approval: "approval_inv (new_state running_sample) (consumptions_of running_db ''r'')"
proof -
  have c: "new_consumption approved_sample = Some sample_consumption"
    using transition_consumption [OF sample_approved] by (auto simp: sample_consumption_def split: option.splits)
  have "approval_inv sample_run []" by (simp add: approval_inv_def running_states past_approval_def)
  from approval_inv_step [OF this sample_approved]
  have "approval_inv (new_state approved_sample) [sample_consumption]" using c by simp
  from approval_inv_step [OF this sample_running]
  show ?thesis using transition_consumption [OF sample_running]
    by (simp add: running_db_def empty_db_def consumptions_of_def split: option.splits)
qed

lemma running_ledger_of:
  "ledger_of running_db ''r'' = [sample_entry 1 ''reserve'' ''e1'' ''e1'', sample_entry 2 ''commit'' ''e2'' ''e1'']"
  by (simp add: ledger_of_def running_db_def empty_db_def sample_entry_def)

definition running_balance :: balance where
  "running_balance = (case budget_reconstruct zero_prims (\<lambda>x. x) running_db ''r'' of Inr b \<Rightarrow> b
     | Inl _ \<Rightarrow> starting_balance [])"

lemma entry_reads:
  "normalize_budget_amount R (lg_amount (sample_entry n op key res)) True = Inr [(''iteration_count'', Whole 2)]"
  using stored_amount_reads [of "[(''iteration_count'', Whole 2)]" R]
  by (simp add: sample_entry_def amount_json_def canonical_amount_def budget_unit_def budget_aliases_def
      int_to_float_overflows_def)

lemma entry_fields:
  "lg_operation (sample_entry n op key res) = op" "lg_provenance (sample_entry n op key res) = JObj []"
  "lg_request_hash (sample_entry n op key res) = None" "lg_iteration (sample_entry n op key res) = Some ''i''"
  "lg_run (sample_entry n op key res) = ''r''" "lg_seq (sample_entry n op key res) = n"
  "lg_entry (sample_entry n op key res) = key" "lg_key (sample_entry n op key res) = key"
  "lg_reservation (sample_entry n op key res) = Some res"
  by (simp_all add: sample_entry_def)

lemma andthen_fold_empty: "andthen m (fold_result f []) = m"
  by (cases m) simp_all

lemma entry_balances:
  assumes "op \<in> {''reserve'', ''commit''}"
  shows "balance_row P R db r (sample_entry n op key res) b = balance_unit R op (''iteration_count'', Whole 2) b"
proof -
  have "op \<noteq> ''usage''" using assms by auto
  then show ?thesis using assms
    unfolding balance_row_def entry_reads entry_fields check_request_hash_def
    by (auto simp: str_truthy_def andthen_fold_empty)
qed

lemma running_reconstructs: "budget_reconstruct zero_prims (\<lambda>x. x) running_db ''r'' = Inr running_balance"
proof -
  have limits: "normalize_budget_limits (rr_budget_policy running_row) = Inr [(''iteration_count'', Whole 3)]"
    using stored_limits_read [of "[(''iteration_count'', Whole 3)]"]
    by (simp add: running_row_def initial_row_def running_states amount_json_def canonical_limits_def budget_aliases_def
        read_quantity_def int_to_float_overflows_def)
  have row: "run_row running_db ''r'' = Inr running_row" by (simp add: run_row_def running_db_def)
  have "\<exists>b. budget_reconstruct zero_prims (\<lambda>x. x) running_db ''r'' = Inr b"
    unfolding budget_reconstruct_def running_ledger_of
    by (simp add: row limits entry_balances balance_unit_def Let_def starting_balance_def quantity_at_def available_def)
  then show ?thesis by (auto simp: running_balance_def)
qed

lemma running_coherent: "coherent zero_prims (\<lambda>x. x) running_db"
  unfolding coherent_def
proof (intro conjI allI)
  fix r
  show "chained zero_prims (db_events running_db) r" by (simp add: running_db_def empty_db_def chained_def run_log_def)
  show "case db_runs running_db r of None \<Rightarrow> absent_run running_db r
    | Some row \<Rightarrow> sound_run zero_prims (\<lambda>x. x) running_db r row"
  proof (cases "r = ''r''")
    case True
    have "columns_agree zero_prims ''r'' running_row (new_state running_sample)"
      by (simp add: columns_agree_def running_row_def initial_row_def json_column_def running_states)
    moreover have "bounded_budget (new_state running_sample)"
      unfolding bounded_budget_def running_states
      by (rule exI [of _ "[(''iteration_count'', Whole 3)]"])
        (simp add: stored_budget_def canonical_limits_def budget_aliases_def read_quantity_def int_to_float_overflows_def)
    moreover have "validate_run_state zero_prims (new_state running_sample) = []"
      using transition_edge(5) [OF sample_running] .
    ultimately have "sound_run zero_prims (\<lambda>x. x) running_db ''r'' running_row"
      using running_ledger running_approval running_reconstructs unfolding sound_run_def
      by (auto simp: running_db_def)
    then show ?thesis using True by (simp add: running_db_def)
  next
    case False
    then show ?thesis
      by (simp add: running_db_def empty_db_def absent_run_def transition_row_of_def running_states consumptions_of_def
          ledger_of_def sample_entry_def)
  qed
qed

end
