(* ===== verification/Budget_Promises.thy ===== *)
theory Budget_Promises
  imports Budget_Correct Control_Samples
begin

text \<open>
  The promises of the budget ledger over coherent and reachable databases, with instances on the
  running run of \<open>Control_Samples\<close>: it is never overdrawn, the balance is the signed sum of its
  entries, an idempotency key is written once. Two theorems show how the delta of an iteration
  counts: a commit of a reservation is counted twice, and while it is negative no report matches it.
\<close>

section \<open>Balance\<close>

text \<open>
  C9. As long as the quantities of a run are whole numbers its budget is never overdrawn: in every
  coherent database the ledger of a stored run reconstructs, and unit by unit what is used and
  reserved is non-negative and at most the limit.
\<close>

theorem budget_never_overdrawn:
  assumes "coherent P R db" "db_runs db r = Some row" "whole_budget R db r"
  shows "\<exists>b. budget_reconstruct P R db r = Inr b \<and> within_limits b"
proof -
  obtain b where b: "budget_reconstruct P R db r = Inr b"
    using coherent_run [OF assms(1,2)] by (auto simp: sound_run_def)
  then show ?thesis using reconstruct_whole [OF b assms(3)] by blast
qed

text \<open>
  C23. For whole quantities the balance is what the ledger says: used is the sum of the commits and usage charges less
  the refunds, reserved is the sum of the reservations less the commits and releases, unit by unit.
\<close>

theorem balance_is_ledger_sum:
  assumes "budget_reconstruct P R db r = Inr b" "whole_budget R db r"
  shows "used_at b u = ledger_used R (ledger_of db r) u \<and> reserved_at b u = ledger_reserved R (ledger_of db r) u"
  using reconstruct_whole [OF assms] by blast

section \<open>The delta of an iteration\<close>

lemma delta_split: "delta_sign op * v = (used_sign op + reserved_sign op) * v + (if op = ''commit'' then v else 0)"
  if "op \<in> {''reserve'', ''commit'', ''release'', ''usage'', ''refund''}" for v
  using that by (auto simp: delta_sign_def used_sign_def reserved_sign_def)

lemma fold_rows_supported:
  assumes "fold_result (balance_row P R db r) rows b0 = Inr b"
  shows "list_all (\<lambda>row. lg_operation row \<in> {''reserve'', ''commit'', ''release'', ''usage'', ''refund''}) rows"
  using assms
proof (induction rows arbitrary: b0)
  case (Cons row rows)
  then obtain b1 where b1: "balance_row P R db r row b0 = Inr b1" "fold_result (balance_row P R db r) rows b1 = Inr b"
    by (auto simp: result_simps)
  have "lg_operation row \<in> {''reserve'', ''commit'', ''release'', ''usage'', ''refund''}"
    using b1(1) unfolding balance_row_def andthen_eq_Inr require_eq_Inr by blast
  then show ?case using Cons.IH [OF b1(2)] by simp
qed simp

text \<open>
  C29. For whole quantities the delta a finished iteration must report counts every committed reservation twice, once
  when it is reserved and once when it is committed: unit by unit it is the change of the used and
  reserved amounts plus what the iteration committed.
\<close>

theorem iteration_delta_counts_commits_twice:
  assumes "budget_delta_for_iteration R db r iid = Inr delta" "whole_budget R db r"
    and "budget_reconstruct P R db r = Inr b"
    and "rows = filter (\<lambda>x. lg_iteration x = Some iid) (ledger_of db r)"
  shows "amount_at delta u = ledger_used R rows u + ledger_reserved R rows u + ledger_committed R rows u"
proof -
  obtain b0 where "fold_result (balance_row P R db r) (ledger_of db r) b0 = Inr b"
    using assms(3) unfolding budget_reconstruct_def by (auto simp: result_simps)
  note ops = fold_rows_supported [OF this]
  have "sum_list (map (\<lambda>row. delta_sign (lg_operation row) * row_amount R row u) xs)
      = ledger_used R xs u + ledger_reserved R xs u + ledger_committed R xs u"
    if "set xs \<subseteq> set (ledger_of db r)" for xs
    using that
  proof (induction xs)
    case (Cons x xs)
    then have "lg_operation x \<in> {''reserve'', ''commit'', ''release'', ''usage'', ''refund''}"
      using ops unfolding list_all_iff by auto
    from delta_split [OF this, of "row_amount R x u"] show ?case using Cons
      by (simp add: ledger_used_def ledger_reserved_def ledger_committed_def algebra_simps)
  qed (simp add: ledger_used_def ledger_reserved_def ledger_committed_def)
  then show ?thesis using delta_is_signed_sum [OF assms(1,2), of u] assms(4) by auto
qed

lemma normalized_nonneg:
  assumes "sane_rounding R" "normalize_budget_amount R v e = Inr a"
  shows "list_all (\<lambda>p. 0 \<le> worth (snd p)) a"
proof -
  from assms(2) obtain kvs acc where v: "fold_result (add_amount R) kvs [] = Inr acc" "a = sort_key fst acc"
    unfolding normalize_budget_amount_def by (auto simp: result_simps split: json.splits)
  have "list_all (\<lambda>p. 0 \<le> worth (snd p)) acc"
  proof (rule fold_result_invariant [OF v(1)])
    fix x u w assume u: "list_all (\<lambda>p. 0 \<le> worth (snd p)) u" and w: "add_amount R x u = Inr w"
    from w obtain unit q m where q: "read_quantity m (snd x) = Inr q"
        "w = (if worth q = 0 then u else dict_put unit (case map_of u unit of None \<Rightarrow> q | Some q' \<Rightarrow> add_q R q' q) u)"
      by (auto simp: add_amount_def result_simps)
    have "0 \<le> worth (add_q R q' q)" if "0 \<le> worth q'" for q'
      using that read_quantity_nonneg [OF q(1)] rounded_nonneg [OF assms(1)] by (cases q'; cases q) auto
    then have "0 \<le> worth (case map_of u unit of None \<Rightarrow> q | Some q' \<Rightarrow> add_q R q' q)"
      using read_quantity_nonneg [OF q(1)] u map_of_SomeD [of u unit]
      by (fastforce simp: list_all_iff split: option.splits)
    then show "list_all (\<lambda>p. 0 \<le> worth (snd p)) w" using u q(2) by (simp add: put_all)
  qed simp
  then show ?thesis using v(2) by (simp add: list_all_iff)
qed

lemma reported_differs:
  assumes "read_finish R q = Inr requested" "sane_rounding R" "list_ex (\<lambda>p. worth (snd p) < 0) delta"
  shows "\<not> same_amount requested delta"
proof
  assume "same_amount requested delta"
  then have "map (\<lambda>p. worth (snd p)) requested = map (\<lambda>p. worth (snd p)) delta"
    unfolding same_amount_def by (metis (mono_tags, lifting) map_eq_conv map_map comp_apply snd_conv)
  moreover have "list_all (\<lambda>p. 0 \<le> worth (snd p)) requested"
    using assms(1) normalized_nonneg [OF assms(2)] by (auto simp: read_finish_def result_simps)
  ultimately have "list_all (\<lambda>p. 0 \<le> worth (snd p)) delta"
    unfolding list_all_iff by (metis (mono_tags, lifting) image_eqI image_iff list.set_map)
  then show False using assms(3) by (auto simp: list_all_iff list_ex_iff)
qed

text \<open>
  C30. While the ledger delta of the open iteration of a run is negative in some unit, as after
  releasing in it what an earlier iteration reserved, no report finishes it: whatever the holder of
  the lease reports, a report that can be read and passes every earlier check is rejected at the
  comparison with the ledger, because it is read as an amount, which cannot be negative.
\<close>

theorem negative_delta_rejects_every_report:
  assumes "read_finish R q = Inr requested" "current_run r db = Inr (row, s)" "status s = Running"
    and "assert_fence db r actor (Some token) (now_check clk) = Inr ()"
    and "open_iteration db r = Inr begun" "it_id begun = iid"
    and "budget_delta_for_iteration R db r iid = Inr delta" "list_ex (\<lambda>p. worth (snd p) < 0) delta" "sane_rounding R"
  shows "finish_iteration P R typed r iid q actor token clk db
     = Inl (Max_control ''iteration budget delta is not reconstructed from the ledger'')"
  using reported_differs [OF assms(1,9,8)] assms(2-7)
  unfolding finish_iteration_def assms(1) by simp

section \<open>Idempotency\<close>

lemma by_key_grows:
  "by_key db r key = Some e \<Longrightarrow> \<exists>new. db_ledger db' = db_ledger db @ new \<Longrightarrow> by_key db' r key = Some e"
  by (auto simp: by_key_def find_append)

lemma find_append_none: "List.find Q xs = None \<Longrightarrow> List.find Q (xs @ ys) = List.find Q ys"
  by (induction xs) (auto split: if_splits)

lemma by_key_strip: "strip key = strip key' \<Longrightarrow> by_key db r key = by_key db r key'"
  by (simp add: by_key_def)

lemma budget_write_answers:
  assumes "budget_write P R auth r q actor token clk db = Inr (ans, db')"
  shows "(\<exists>e. by_key db r (bq_key q) = Some e \<and> db' = db \<and> ba_entry ans = lg_entry e \<and> ba_retry ans)
    \<or> (by_key db r (bq_key q) = None \<and> \<not> ba_retry ans
        \<and> (\<exists>e. by_key db' r (bq_key q) = Some e \<and> ba_entry ans = lg_entry e))"
  using assms
proof (rule budget_write_effect)
  fix s :: max_run_state
  assume "(\<exists>e a. by_key db r (bq_key q) = Some e \<and> retry_answer P R db r e a = Inr (ans, db') \<and> lg_operation e = bq_operation q
        \<and> settles (bq_operation q))
     \<or> (\<exists>e. by_key db r (bq_key q) = Some e \<and> retry_answer P R db r e (lg_amount e) = Inr (ans, db')
          \<and> \<not> settles (bq_operation q))
     \<or> (\<exists>begun a u provenance requested. open_iteration db r = Inr begun \<and> bq_iteration q = Some (it_id begun)
          \<and> requested_amount R q = Inr requested \<and> settled_amount R db r q requested = Inr a
          \<and> append_entry P R r (project_id s) q (it_id begun) a u provenance actor token
               (timestamp (now_stamp clk)) db = Inr (ans, db'))"
  then consider (retry) e a where "by_key db r (bq_key q) = Some e" "retry_answer P R db r e a = Inr (ans, db')"
    | (entry) iid a u provenance where "append_entry P R r (project_id s) q iid a u provenance actor token
               (timestamp (now_stamp clk)) db = Inr (ans, db')"
    by blast
  then show ?thesis
  proof cases
    case retry
    then show ?thesis by (metis (no_types, lifting) retry_answer_eq budget_answer.select_convs(1,6))
  next
    case entry
    then show ?thesis
      by (rule append_entry_effect) (auto simp: by_key_def find_append_none)
  qed
qed

text \<open>
  C24. A budget key is spent once: after a successful write, whatever happens in between, every
  later successful write of the run under that key (up to surrounding white space) answers with the
  same entry, marked as a retry, and changes nothing.
\<close>

theorem budget_key_written_once:
  assumes "sane_rounding R" "coherent P R db" "budget_write P R auth r q actor token clk db = Inr (ans, db')"
    and "(control_step P R)\<^sup>*\<^sup>* db' db''" "strip (bq_key q') = strip (bq_key q)"
    and "budget_write P R auth' r q' actor' token' clk' db'' = Inr (ans', db3)"
  shows "db3 = db'' \<and> ba_entry ans' = ba_entry ans \<and> ba_retry ans'"
proof -
  have step: "control_step P R db db'" using assms(3) by (rule step_budget)
  have "coherent P R db'" using control.steps_inv [OF r_into_rtranclp [of "control_step P R", OF step]] assms(1,2) by blast
  note live = live_steps [OF assms(1) this assms(4)]
  obtain e where e: "by_key db' r (bq_key q) = Some e" "ba_entry ans = lg_entry e"
    using budget_write_answers [OF assms(3)] by metis
  have "by_key db'' r (bq_key q') = Some e"
    using by_key_grows [OF e(1) ledger.steps_grow [OF live]] by_key_strip [OF assms(5)] by simp
  then show ?thesis using budget_write_answers [OF assms(6)] e(2) by auto
qed

section \<open>Instances\<close>

lemma entry_amount: "row_amount R (sample_entry n op key res) u = (if u = ''iteration_count'' then 2 else 0)"
  by (simp add: row_amount_def entry_reads amount_at_def)

lemma running_limits: "normalize_budget_limits (rr_budget_policy running_row) = Inr [(''iteration_count'', Whole 3)]"
  using stored_limits_read [of "[(''iteration_count'', Whole 3)]"]
  by (simp add: running_row_def initial_row_def running_states amount_json_def canonical_limits_def budget_aliases_def
      read_quantity_def int_to_float_overflows_def)

lemma running_whole: "whole_budget R running_db ''r''" "db_runs running_db ''r'' = Some running_row"
proof -
  show row: "db_runs running_db ''r'' = Some running_row" by (simp add: running_db_def)
  show "whole_budget R running_db ''r''"
    by (simp add: whole_budget_def running_ledger_of entry_reads read_whole_def whole_amount_def row running_limits)
qed

lemma running_delta:
  "budget_delta_for_iteration R running_db ''r'' ''i'' = Inr [(''iteration_count'', Whole 4)]"
proof -
  have "filter (\<lambda>x. lg_iteration x = Some ''i'') (ledger_of running_db ''r'') = ledger_of running_db ''r''"
    by (simp add: running_ledger_of) (simp add: sample_entry_def)
  then show ?thesis
    unfolding budget_delta_for_iteration_def running_ledger_of
    by (simp add: delta_step_def entry_reads) (simp add: sample_entry_def add_delta_def)
qed

theorem budget_never_overdrawn_witness:
  "\<exists>b. budget_reconstruct zero_prims (\<lambda>x. x) running_db ''r'' = Inr b \<and> within_limits b"
  using budget_never_overdrawn [OF running_coherent running_whole(2,1)] .

theorem balance_is_ledger_sum_witness:
  "used_at running_balance ''iteration_count'' = 2 \<and> reserved_at running_balance ''iteration_count'' = 0"
  using balance_is_ledger_sum [OF running_reconstructs running_whole(1), of "''iteration_count''"]
  by (simp add: running_ledger_of ledger_used_def ledger_reserved_def entry_amount)
    (simp add: sample_entry_def used_sign_def reserved_sign_def)

theorem iteration_delta_counts_commits_twice_witness:
  "\<exists>delta. budget_delta_for_iteration (\<lambda>x. x) running_db ''r'' ''i'' = Inr delta
     \<and> amount_at delta ''iteration_count'' = used_at running_balance ''iteration_count'' + 2"
proof -
  let ?rows = "filter (\<lambda>x. lg_iteration x = Some ''i'') (ledger_of running_db ''r'')"
  have "?rows = ledger_of running_db ''r''"
    by (simp add: running_ledger_of) (simp add: sample_entry_def)
  then have "ledger_used (\<lambda>x. x) ?rows ''iteration_count'' = 2" "ledger_reserved (\<lambda>x. x) ?rows ''iteration_count'' = 0"
      "ledger_committed (\<lambda>x. x) ?rows ''iteration_count'' = 2"
    by (simp_all add: running_ledger_of ledger_used_def ledger_reserved_def ledger_committed_def entry_amount)
      (simp_all add: sample_entry_def used_sign_def reserved_sign_def)
  moreover have "used_at running_balance ''iteration_count'' = 2"
    using reconstruct_whole [OF running_reconstructs running_whole(1), of "''iteration_count''"]
    by (simp add: running_ledger_of ledger_used_def entry_amount) (simp add: sample_entry_def used_sign_def)
  ultimately show ?thesis
    using iteration_delta_counts_commits_twice [OF running_delta running_whole(1) running_reconstructs refl,
        of "''iteration_count''"] running_delta by simp
qed

text \<open>
  \<open>running_db\<close> with a second iteration \<open>j\<close> open, in which the reservation of the first is released.
\<close>

definition second_iteration :: iteration_row where
  "second_iteration = \<lparr>it_id = ''j'', it_run = ''r'', it_project = ''p'', it_seq = 2, it_round = ''attack'',
     it_status = ''started'', it_input = ''h'', it_json = [], it_token = 2, it_started = Stamp 0, it_actor = ''u''\<rparr>"

definition released_db :: control_db where
  "released_db = running_db\<lparr>db_ledger := [sample_entry 1 ''reserve'' ''e1'' ''e1'',
     (sample_entry 2 ''release'' ''e2'' ''e1'')\<lparr>lg_iteration := Some ''j''\<rparr>],
     db_iterations := [second_iteration], db_open := [''r'' \<mapsto> ''j'']\<rparr>"

lemma released_delta:
  "budget_delta_for_iteration R released_db ''r'' ''j'' = Inr [(''iteration_count'', Whole (- 2))]"
proof -
  have "filter (\<lambda>x. lg_iteration x = Some ''j'') (ledger_of released_db ''r'')
      = [(sample_entry 2 ''release'' ''e2'' ''e1'')\<lparr>lg_iteration := Some ''j''\<rparr>]"
    by (simp add: ledger_of_def released_db_def sample_entry_def)
  moreover have "normalize_budget_amount R (lg_amount ((sample_entry 2 ''release'' ''e2'' ''e1'')\<lparr>lg_iteration := Some ''j''\<rparr>)) True
      = Inr [(''iteration_count'', Whole 2)]"
    using entry_reads [of R 2 "''release''" "''e2''" "''e1''"] by (simp add: sample_entry_def)
  ultimately show ?thesis
    by (simp add: budget_delta_for_iteration_def delta_step_def) (simp add: sample_entry_def add_delta_def negate_q_def)
qed

lemma released_guards:
  "current_run ''r'' released_db = Inr (running_row, new_state running_sample)"
  "assert_fence released_db ''r'' sample_actor (Some 2) (now_check sample_clock) = Inr ()"
  "open_iteration released_db ''r'' = Inr second_iteration"
proof -
  show "current_run ''r'' released_db = Inr (running_row, new_state running_sample)"
    by (simp add: current_run_eq released_db_def running_db_def running_row_def initial_row_def json_column_def)
  show "open_iteration released_db ''r'' = Inr second_iteration"
    by (simp add: open_iteration_def released_db_def running_db_def empty_db_def) (simp add: second_iteration_def)
  show "assert_fence released_db ''r'' sample_actor (Some 2) (now_check sample_clock) = Inr ()"
    by (simp add: assert_fence_def released_db_def running_db_def running_lease_def sample_actor_def sample_clock_def parse_timestamp_def)
qed

definition empty_report :: finish_request where
  "empty_report = \<lparr>fr_status = ''completed'', fr_output = None, fr_parsed = Inr (), fr_snapshots = Inr (), fr_claims = JList [],
     fr_evidence = JList [], fr_counter = JList [], fr_strategy = JList [], fr_refs = [], fr_artifacts = [],
     fr_delta = JObj [], fr_metadata = []\<rparr>"

theorem negative_delta_rejects_every_report_witness:
  "finish_iteration zero_prims (\<lambda>x. x) (\<lambda>_ _. Inr ()) ''r'' ''j'' empty_report sample_actor 2 sample_clock released_db
     = Inl (Max_control ''iteration budget delta is not reconstructed from the ledger'')"
proof -
  have "read_finish (\<lambda>x. x) empty_report = Inr []"
    by (simp add: read_finish_def empty_report_def normalize_budget_amount_def)
  then show ?thesis
    by (rule negative_delta_rejects_every_report [OF _ released_guards(1) _ released_guards(2,3) _ released_delta])
      (simp_all add: running_states second_iteration_def exact_rounding)
qed

text \<open>The commit of \<open>running_db\<close> repeated under its key.\<close>

definition repeated_commit :: budget_request where
  "repeated_commit = plain_request ''commit'' None ''e2'' (Some ''e1'') (Some ''i'')"

lemma running_retry:
  "\<exists>ans. budget_write zero_prims (\<lambda>x. x) None ''r'' repeated_commit sample_actor 2 sample_clock running_db
     = Inr (ans, running_db)"
proof -
  have strip: "strip ''e2'' = ''e2''" "nonblank ''e2''" by code_simp+
  have key: "by_key running_db ''r'' ''e2'' = Some (sample_entry 2 ''commit'' ''e2'' ''e1'')"
    by (simp add: by_key_def strip) (simp add: running_db_def sample_entry_def)
  have run: "current_run ''r'' running_db = Inr (running_row, new_state running_sample)"
    by (simp add: current_run_def run_row_def run_state_def running_db_def running_row_def initial_row_def json_column_def)
  have fence: "assert_fence running_db ''r'' sample_actor (Some 2) (now_check sample_clock) = Inr ()"
    by (simp add: assert_fence_passes running_db_def running_lease_def sample_actor_def sample_clock_def parse_timestamp_def)
  show ?thesis
    unfolding budget_write_def repeated_commit_def plain_request_def
    by (simp add: strip run running_states fence requested_amount_def settles_def key settle_retry_def entry_fields
        entry_reads retry_answer_def running_reconstructs)
qed

theorem budget_key_written_once_witness:
  "\<exists>ans. budget_write zero_prims (\<lambda>x. x) None ''r'' repeated_commit sample_actor 2 sample_clock running_db
     = Inr (ans, running_db) \<and> ba_retry ans"
  using running_retry budget_key_written_once [OF exact_rounding running_coherent _ rtranclp.rtrancl_refl refl] by blast

end
