(* ===== verification/Checkpoint_Correct.thy ===== *)
theory Checkpoint_Correct
  imports Research_Checkpoint
begin

text \<open>
  An accepted checkpoint lineage is one chain: ordered by iteration, every checkpoint names the one
  before it, the first names none, and a budget figure does not grow from one checkpoint to the
  next. The figure may disappear and come back larger: the comparison skips missing keys.
\<close>

lemma pair_issues_empty:
  "pair_issues cs = [] \<longleftrightarrow> (\<forall>k. Suc k < length cs \<longrightarrow>
     ck_supersedes (cs ! Suc k) = Some (ck_id (cs ! k))
     \<and> (\<forall>(key, old)\<in>set (ck_budget (cs ! k)). \<not> budget_increased old (map_of (ck_budget (cs ! Suc k)) key)))"
proof (induction cs rule: pair_issues.induct)
  case (1 a b cs)
  have "(\<forall>k. Suc k < length (a # b # cs) \<longrightarrow> Q (a # b # cs) k) \<longleftrightarrow>
      Q (a # b # cs) 0 \<and> (\<forall>k. Suc k < length (b # cs) \<longrightarrow> Q (a # b # cs) (Suc k))" for Q
    by (auto simp: less_Suc_eq_0_disj)
  from this [of "\<lambda>cs k. ck_supersedes (cs ! Suc k) = Some (ck_id (cs ! k))
     \<and> (\<forall>(key, old)\<in>set (ck_budget (cs ! k)). \<not> budget_increased old (map_of (ck_budget (cs ! Suc k)) key))"]
  show ?case unfolding pair_issues.simps append_is_Nil_conv check_eq_Nil 1 by (auto simp: Ball_def)
qed auto

lemma lineage_rows_clean:
  assumes "lineage_rows P all n seen cs = Inr []"
  shows "distinct (map ck_id cs) \<and> set seen \<inter> ck_id ` set cs = {}
    \<and> list_all (\<lambda>c. validate_checkpoint P c None None None = Inr []
        \<and> (case predecessor c of None \<Rightarrow> True | Some p \<Rightarrow> p \<in> set (map ck_id all) \<and> p \<noteq> ck_id c)) cs"
  using assms
proof (induction cs arbitrary: n seen)
  case (Cons c cs)
  then obtain more where "lineage_rows P all (n + 1) (ck_id c # seen) cs = Inr more" "more = []"
      "validate_checkpoint P c None None None = Inr []" "ck_id c \<notin> set seen"
      "case predecessor c of None \<Rightarrow> True | Some p \<Rightarrow> p \<in> set (map ck_id all) \<and> p \<noteq> ck_id c"
    by (auto simp: result_simps split: option.splits)
  then show ?case using Cons.IH [of "n + 1" "ck_id c # seen"] by auto
qed simp

lemma increasing_pairs:
  "list_all (\<lambda>(a, b). a < (b :: int)) (zip ns (tl ns)) \<Longrightarrow> sorted_wrt (<) ns"
proof (induction ns)
  case (Cons n ns)
  then show ?case
  proof (cases ns)
    case (Cons m ms)
    then have "n < m" "sorted_wrt (<) (m # ms)" using Cons.prems Cons.IH by simp_all
    then show ?thesis using Cons by auto
  qed simp
qed simp

definition lineage_chain :: "checkpoint list \<Rightarrow> bool" where
  "lineage_chain cs \<longleftrightarrow> (\<forall>k. Suc k < length cs \<longrightarrow> predecessor (cs ! Suc k) = Some (ck_id (cs ! k)))
     \<and> (cs \<noteq> [] \<longrightarrow> predecessor (hd cs) = None)"

lemma stable_id_nonempty: "\<not> is_stable_id (JStr []) k"
  by (simp add: is_stable_id_def parse_stable_id_def)

text \<open>
  C20. An accepted lineage is a single chain. Ordered by iteration, its iterations increase, its
  checkpoints belong to one project and run, each names the one before it and the first names
  none; and a budget figure present in two neighbours does not grow.
\<close>

theorem accepted_lineage_is_a_chain:
  assumes "validate_checkpoint_lineage P cs = Inr []" "ordered = sort_key ck_iteration cs"
  shows "sorted_wrt (<) (map ck_iteration ordered) \<and> lineage_chain ordered
    \<and> list_all (\<lambda>c. ck_project c = ck_project (hd ordered) \<and> ck_run c = ck_run (hd ordered)) ordered
    \<and> (\<forall>k. Suc k < length ordered \<longrightarrow> (\<forall>(key, old)\<in>set (ck_budget (ordered ! k)).
         \<not> budget_increased old (map_of (ck_budget (ordered ! Suc k)) key)))"
proof (cases "cs = []")
  case True
  then show ?thesis using assms(2) by (simp add: lineage_chain_def)
next
  case False
  have rows: "lineage_rows P cs 0 [] cs = Inr []" and issues: "lineage_issues cs = []"
    using assms(1) by (auto simp: validate_checkpoint_lineage_def result_simps)
  have binding: "list_all (\<lambda>c. ck_project c = ck_project (hd ordered) \<and> ck_run c = ck_run (hd ordered)) (tl ordered)"
    and incr: "list_all (\<lambda>(a, b). a < b) (zip (map ck_iteration ordered) (tl (map ck_iteration ordered)))"
    and pairs: "pair_issues ordered = []" and one: "length (current_records cs) = 1"
    and single: "\<forall>p\<in>set (predecessors cs). length (children_of cs p) \<le> 1"
    using issues False by (simp_all add: lineage_issues_def Let_def assms(2) map_tl)
  have set: "set ordered = set cs" by (simp add: assms(2))
  have valid: "is_stable_id (JStr (ck_id c)) (Some ''checkpoint'')" if "c \<in> set cs" for c
    using lineage_rows_clean [OF rows] that by (auto simp: list_all_iff validate_checkpoint_def result_simps)
  then have nonempty: "ck_id c \<noteq> []" if "c \<in> set cs" for c
    using that stable_id_nonempty by fastforce
  have follow: "predecessor (ordered ! Suc k) = Some (ck_id (ordered ! k))" if "Suc k < length ordered" for k
  proof -
    have "ordered ! k \<in> set cs" using that set by (metis Suc_lessD nth_mem)
    then show ?thesis using pairs that nonempty unfolding pair_issues_empty
      by (auto simp: predecessor_def split: option.splits list.splits)
  qed
  text \<open>All but the first have a predecessor, and the record counted as current has none.\<close>
  obtain c where c: "current_records cs = [c]" using one by (cases "current_records cs") auto
  have "c \<in> set cs" "predecessor c = None"
  proof -
    have "c \<in> set (current_records cs)" by (simp add: c)
    then have c': "c \<in> set cs" "\<not> list_ex (\<lambda>p. ck_id c \<in> set (children_of cs p)) (predecessors cs)"
      by (simp_all add: current_records_def)
    show "c \<in> set cs" by (rule c'(1))
    show "predecessor c = None"
    proof (rule ccontr)
      assume "predecessor c \<noteq> None"
      then obtain p where "predecessor c = Some p" by auto
      then have "p \<in> set (predecessors cs)" "ck_id c \<in> set (children_of cs p)"
        using c'(1) by (force simp: predecessors_def children_of_def)+
      then show False using c'(2) by (auto simp: list_ex_iff)
    qed
  qed
  then obtain k where k: "k < length ordered" "c = ordered ! k" using set by (metis in_set_conv_nth)
  have "k = 0" using follow [of "k - 1"] k \<open>predecessor c = None\<close> by (cases k) auto
  then have "predecessor (hd ordered) = None" using k \<open>predecessor c = None\<close> by (cases ordered) auto
  then have "lineage_chain ordered" using follow by (simp add: lineage_chain_def)
  moreover have "list_all (\<lambda>c. ck_project c = ck_project (hd ordered) \<and> ck_run c = ck_run (hd ordered)) ordered"
    using binding by (cases ordered) auto
  ultimately show ?thesis using increasing_pairs [OF incr] pairs unfolding pair_issues_empty by blast
qed

end
