(* ===== verification/Graph_Laws.thy ===== *)
theory Graph_Laws
  imports Research_Graph
begin

text \<open>
  Laws of the look-up tables and the meaning of the validators: an identifier table holds objects
  of the list under their own keys, the highest version wins, and a validator reports nothing
  exactly when a condition on the sets of objects and relations holds.
\<close>

section \<open>Look-up tables\<close>

lemma sort_objects_set [simp]: "set (sort_objects xs) = set xs"
  by (simp add: sort_objects_def)

lemma mset_sort_objects [simp]: "mset (sort_objects xs) = mset xs"
  by (simp add: sort_objects_def)

lemma fold_put_lookup:
  "map_of (fold (\<lambda>x. dict_put (key x) x) xs d) v =
     (case List.find (\<lambda>x. key x = v) (rev xs) of Some x \<Rightarrow> Some x | None \<Rightarrow> map_of d v)"
proof (induction xs rule: rev_induct)
  case (snoc x xs)
  then show ?case by simp
qed simp

lemma by_version_eq: "by_version xs v = List.find (\<lambda>x. co_version_id x = v) (rev (sort_objects xs))"
  by (simp add: by_version_def index_objects_def fold_put_lookup split: option.splits)

lemma by_version_Some: "by_version xs v = Some x \<Longrightarrow> x \<in> set xs \<and> co_version_id x = v"
  by (auto simp: by_version_eq find_Some_iff) (metis nth_mem set_rev sort_objects_set length_rev)

lemma by_version_None: "by_version xs v = None \<longleftrightarrow> v \<notin> co_version_id ` set xs"
  by (auto simp: by_version_eq find_None_iff)

lemma by_version_unique:
  assumes "inj_on co_version_id (set xs)"
  shows "by_version xs v = Some x \<longleftrightarrow> x \<in> set xs \<and> co_version_id x = v"
proof
  assume x: "x \<in> set xs \<and> co_version_id x = v"
  then obtain y where "by_version xs v = Some y" using by_version_None [of xs v] by (cases "by_version xs v") auto
  then show "by_version xs v = Some x" using by_version_Some inj_onD [OF assms, of y x] x by fastforce
qed (rule by_version_Some)

lemma index_identity_fold:
  assumes "map_of (fold index_identity xs []) sid = m"
  shows "case m of None \<Rightarrow> sid \<notin> co_stable ` set xs
    | Some x \<Rightarrow> x \<in> set xs \<and> co_stable x = sid \<and> (\<forall>y\<in>set xs. co_stable y = sid \<longrightarrow> co_version y \<le> co_version x)"
  using assms
proof (induction xs arbitrary: m rule: rev_induct)
  case Nil
  then show ?case by auto
next
  case (snoc z xs)
  define d where "d = fold index_identity xs []"
  define m' where "m' = map_of d sid"
  have ih: "case m' of None \<Rightarrow> sid \<notin> co_stable ` set xs
    | Some x \<Rightarrow> x \<in> set xs \<and> co_stable x = sid \<and> (\<forall>y\<in>set xs. co_stable y = sid \<longrightarrow> co_version y \<le> co_version x)"
    using snoc.IH [of m'] m'_def d_def by simp
  have m: "m = map_of (index_identity z d) sid" using snoc.prems d_def by simp
  show ?case
  proof (cases "co_stable z = sid")
    case False
    then have "m = m'" unfolding m m'_def index_identity_def by (auto split: option.splits)
    then show ?thesis using ih False by (auto split: option.splits)
  next
    case True
    show ?thesis
    proof (cases m')
      case None
      then have "m = Some z" unfolding m index_identity_def using True m'_def by simp
      moreover have "\<forall>y\<in>set xs. co_stable y \<noteq> sid" using ih None by auto
      ultimately show ?thesis using True by auto
    next
      case (Some y)
      then have "m = (if co_version y < co_version z then Some z else Some y)"
        unfolding m index_identity_def using True m'_def by simp
      then show ?thesis using ih Some True by auto
    qed
  qed
qed

lemma by_identity_Some:
  assumes "by_identity xs sid = Some x"
  shows "x \<in> set xs \<and> co_stable x = sid \<and> (\<forall>y\<in>set xs. co_stable y = sid \<longrightarrow> co_version y \<le> co_version x)"
  using index_identity_fold [of "sort_objects xs" sid] assms
  by (simp add: by_identity_def index_objects_def)

lemma by_identity_None: "by_identity xs sid = None \<longleftrightarrow> sid \<notin> co_stable ` set xs"
  using index_identity_fold [of "sort_objects xs" sid, OF refl]
  by (auto simp: by_identity_def index_objects_def split: option.splits)

lemma by_identity_unique:
  assumes "inj_on (\<lambda>x. (co_stable x, co_version x)) (set xs)"
  shows "by_identity xs sid = Some x \<longleftrightarrow>
    x \<in> set xs \<and> co_stable x = sid \<and> (\<forall>y\<in>set xs. co_stable y = sid \<longrightarrow> co_version y \<le> co_version x)"
proof
  assume x: "x \<in> set xs \<and> co_stable x = sid \<and> (\<forall>y\<in>set xs. co_stable y = sid \<longrightarrow> co_version y \<le> co_version x)"
  then obtain y where y: "by_identity xs sid = Some y" using by_identity_None [of xs sid] by (cases "by_identity xs sid") auto
  have "co_version x = co_version y" using by_identity_Some [OF y] x by force
  then show "by_identity xs sid = Some x"
    using y by_identity_Some [OF y] x inj_onD [OF assms, of y x] by auto
qed (rule by_identity_Some)

lemma relation_target_Some:
  "relation_target xs rel = Some x \<longleftrightarrow>
     (\<exists>v. cr_target_version rel = Some v \<and> by_version xs v = Some x \<and> co_stable x = cr_target rel)"
  by (auto simp: relation_target_def split: option.splits if_splits)

lemma resolve_object_Some: "resolve_object xs ref = Some x \<Longrightarrow> x \<in> set xs \<and> (co_version_id x = ref \<or> co_stable x = ref)"
  by (auto simp: resolve_object_def split: option.splits dest: by_version_Some by_identity_Some)

section \<open>The meaning of the trace\<close>

text \<open>Relation \<open>rel\<close> leads from this version of \<open>x\<close>, by \<open>name\<close>, to this version of \<open>y\<close>.\<close>

definition leads :: "canonical_relation \<Rightarrow> canonical_object \<Rightarrow> string \<Rightarrow> canonical_object \<Rightarrow> bool" where
  "leads rel x name y \<longleftrightarrow> cr_source rel = co_stable x \<and> cr_source_version rel = Some (co_version_id x)
     \<and> cr_relation rel = name \<and> cr_target rel = co_stable y \<and> cr_target_version rel = Some (co_version_id y)"

definition out_relations :: "canonical_relation set \<Rightarrow> canonical_object \<Rightarrow> string \<Rightarrow> canonical_relation set" where
  "out_relations rels x name = {rel \<in> rels. cr_source rel = co_stable x
     \<and> cr_source_version rel = Some (co_version_id x) \<and> cr_relation rel = name}"

lemma live_relations_set: "set (live_relations x rels name) = out_relations (set rels) x name"
  by (auto simp: live_relations_def out_relations_def)

lemma out_relation_leads:
  "rel \<in> out_relations (set rels) x name \<Longrightarrow> relation_target xs rel = Some y \<Longrightarrow>
     rel \<in> set rels \<and> leads rel x name y \<and> y \<in> set xs"
  by (auto simp: out_relations_def leads_def relation_target_Some dest: by_version_Some)

definition passage_grounded ::
    "canonical_object list \<Rightarrow> canonical_relation set \<Rightarrow> canonical_object \<Rightarrow> canonical_object \<Rightarrow> bool" where
  "passage_grounded xs rels e p \<longleftrightarrow> co_kind p = ''passage''
     \<and> (\<exists>rel\<in>out_relations rels p ''located_in''. has_kind ''document_version'' (relation_target xs rel))
     \<and> (\<forall>rel\<in>out_relations rels p ''located_in''. \<forall>d. relation_target xs rel = Some d \<longrightarrow> is_final_evidence e \<longrightarrow>
          payload_get e ''verified_source_version_id'' = JStr (co_version_id d))"

definition verified :: "canonical_object list \<Rightarrow> canonical_object \<Rightarrow> bool" where
  "verified xs e \<longleftrightarrow>
     (\<exists>s. payload_get e ''verification_record_id'' = JStr s \<and> is_stable_id (JStr s) (Some ''verification_record'')
        \<and> resolve_object xs s \<noteq> None)
     \<and> is_stable_id (payload_get e ''verified_source_version_id'') (Some ''document_version-version'')"

definition evidence_grounded ::
    "canonical_object list \<Rightarrow> canonical_relation set \<Rightarrow> canonical_object \<Rightarrow> canonical_object \<Rightarrow> bool" where
  "evidence_grounded xs rels claim e \<longleftrightarrow> co_kind e = ''evidence'' \<and> has_status e
     \<and> status_word e \<in> set evidence_statuses \<and> (is_final_evidence e \<longrightarrow> verified xs e)
     \<and> (is_final_claim claim \<longrightarrow> is_final_evidence e)
     \<and> out_relations rels e ''derived_from'' \<noteq> {}
     \<and> (\<forall>rel\<in>out_relations rels e ''derived_from''. \<exists>p. relation_target xs rel = Some p \<and> passage_grounded xs rels e p)"

definition link_grounded ::
    "canonical_object list \<Rightarrow> canonical_relation set \<Rightarrow> canonical_object \<Rightarrow> canonical_object \<Rightarrow> bool" where
  "link_grounded xs rels claim link \<longleftrightarrow> co_kind link = ''evidence_link'' \<and> \<not> has_direct_key link
     \<and> out_relations rels link ''links_evidence'' \<noteq> {}
     \<and> (\<forall>rel\<in>out_relations rels link ''links_evidence''.
          \<exists>e. relation_target xs rel = Some e \<and> evidence_grounded xs rels claim e)"

definition link_refs :: "canonical_relation set \<Rightarrow> canonical_object \<Rightarrow> string set" where
  "link_refs rels claim = set (payload_ids (co_payload claim) link_keys)
     \<union> cr_target ` out_relations rels claim ''has_evidence_link''"

definition claim_grounded :: "canonical_object list \<Rightarrow> canonical_relation set \<Rightarrow> canonical_object \<Rightarrow> bool" where
  "claim_grounded xs rels claim \<longleftrightarrow> co_kind claim = ''claim''
     \<and> \<not> json_truthy (map_of (co_payload claim) ''inherited_from_summary'')
     \<and> \<not> json_truthy (map_of (co_payload claim) ''summary_only'') \<and> \<not> has_direct_key claim
     \<and> link_refs rels claim \<noteq> {}
     \<and> (\<forall>lid\<in>link_refs rels claim. \<exists>link. resolve_object xs lid = Some link \<and> link_grounded xs rels claim link)"

lemma concat_empty: "concat (map f xs) = [] \<longleftrightarrow> (\<forall>x\<in>set xs. f x = [])"
  by auto

lemma live_empty: "live_relations x rels name = [] \<longleftrightarrow> out_relations (set rels) x name = {}"
  using live_relations_set [of x rels name] by (metis set_empty)

lemma passage_issues_empty:
  "passage_issues xs rels e rel = [] \<longleftrightarrow>
     (\<exists>p. relation_target xs rel = Some p \<and> passage_grounded xs (set rels) e p)"
proof (cases "relation_target xs rel")
  case (Some p)
  have doc: "document_issues xs e r = [] \<longleftrightarrow> (\<forall>d. relation_target xs r = Some d \<longrightarrow> is_final_evidence e \<longrightarrow>
      payload_get e ''verified_source_version_id'' = JStr (co_version_id d))" for r
    by (auto simp: document_issues_def split: option.splits)
  have "(\<exists>r\<in>out_relations (set rels) p ''located_in''. B r) \<Longrightarrow> live_relations p rels ''located_in'' \<noteq> []" for B
    by (auto simp: live_empty)
  then show ?thesis using Some
    by (auto simp: passage_issues_def Let_def doc list_ex_iff live_relations_set passage_grounded_def)
qed (simp add: passage_issues_def)

lemma stable_id_string: "is_stable_id j k \<Longrightarrow> \<exists>s. j = JStr s"
  by (cases j) (auto simp: is_stable_id_def parse_stable_id_def)

lemma verification_issues_empty: "verification_issues xs e = [] \<longleftrightarrow> verified xs e"
proof (cases "payload_get e ''verification_record_id''")
  case (JStr s)
  have "by_identity xs s \<noteq> None \<or> by_version xs s \<noteq> None \<longleftrightarrow> resolve_object xs s \<noteq> None"
    by (auto simp: resolve_object_def split: option.splits)
  then show ?thesis using JStr by (simp add: verification_issues_def verified_def Let_def)
qed (simp_all add: verification_issues_def verified_def Let_def is_stable_id_def parse_stable_id_def)

lemma evidence_issues_empty:
  assumes "co_kind e = ''evidence''"
  shows "evidence_issues xs rels claim e = [] \<longleftrightarrow> evidence_grounded xs (set rels) claim e"
  using assms
  by (auto simp: evidence_issues_def evidence_grounded_def Let_def verification_issues_empty live_empty
      passage_issues_empty live_relations_set)

lemma link_target_issues:
  "(case relation_target xs rel of
      Some e \<Rightarrow> if co_kind e = ''evidence'' then evidence_issues xs rels claim e else [i]
    | None \<Rightarrow> [i]) = [] \<longleftrightarrow>
   (\<exists>e. relation_target xs rel = Some e \<and> evidence_grounded xs (set rels) claim e)"
  by (auto simp: evidence_issues_empty split: option.splits) (auto simp: evidence_grounded_def)

lemma link_issues_empty:
  "link_issues xs rels claim lid = [] \<longleftrightarrow>
     (\<exists>link. resolve_object xs lid = Some link \<and> link_grounded xs (set rels) claim link)"
  by (auto simp: link_issues_def link_grounded_def Let_def live_empty link_target_issues live_relations_set
      split: option.splits)

lemma sorted_set_set [simp]: "set (sorted_set xs) = set xs"
  by (simp add: sorted_set_def)

lemma claim_links_set: "set (claim_links rels claim) = link_refs (set rels) claim"
  by (auto simp: claim_links_def link_refs_def live_relations_set)

lemma claim_links_empty: "claim_links rels claim = [] \<longleftrightarrow> link_refs (set rels) claim = {}"
  using claim_links_set by (metis set_empty)

lemma direct_ids_need_key: "\<not> has_direct_key x \<Longrightarrow> payload_ids (co_payload x) direct_evidence_keys = []"
  by (force simp: has_direct_key_def payload_ids_def list_ex_iff dict_has_def)

lemma grounded_link_evidence:
  assumes "resolve_object xs lid = Some link" "link_grounded xs (set rels) claim link"
  shows "link_evidence xs rels lid \<noteq> []"
proof -
  obtain rel where rel: "rel \<in> out_relations (set rels) link ''links_evidence''"
    using assms(2) by (auto simp: link_grounded_def)
  then obtain e where "relation_target xs rel = Some e" "co_kind e = ''evidence''"
    using assms(2) by (auto simp: link_grounded_def evidence_grounded_def)
  then have "co_stable e \<in> set (link_evidence xs rels lid)"
    using assms rel unfolding link_evidence_def link_grounded_def
    by (auto simp: live_relations_set intro!: bexI [of _ rel])
  then show ?thesis by auto
qed

lemma trace_meaning:
  "validate_claim_evidence_trace claim xs rels = [] \<longleftrightarrow> claim_grounded xs (set rels) claim"
proof (cases "co_kind claim = ''claim''")
  case True
  let ?links = "claim_links rels claim" and ?good = "\<lambda>lid. \<exists>link. resolve_object xs lid = Some link \<and> link_grounded xs (set rels) claim link"
  have issues: "concat (map (link_issues xs rels claim) ?links) = [] \<longleftrightarrow> (\<forall>lid\<in>link_refs (set rels) claim. ?good lid)"
    by (simp add: link_issues_empty claim_links_set)
  have reached: "concat (map (link_evidence xs rels) ?links) \<noteq> []"
    if some: "?links \<noteq> []" and good: "\<forall>lid\<in>link_refs (set rels) claim. ?good lid"
  proof -
    obtain lid where lid: "lid \<in> set ?links" using some by (cases ?links) auto
    then have "link_evidence xs rels lid \<noteq> []" using good grounded_link_evidence claim_links_set by blast
    then show ?thesis using lid by auto
  qed
  have "validate_claim_evidence_trace claim xs rels = [] \<longleftrightarrow>
      (\<not> json_truthy (map_of (co_payload claim) ''inherited_from_summary'')
        \<and> \<not> json_truthy (map_of (co_payload claim) ''summary_only''))
      \<and> (payload_ids (co_payload claim) direct_evidence_keys = [] \<and> \<not> has_direct_key claim)
      \<and> ?links \<noteq> [] \<and> concat (map (link_issues xs rels claim) ?links) = []
      \<and> \<not> (?links \<noteq> [] \<and> concat (map (link_evidence xs rels) ?links) = [])"
    using True by (simp only: validate_claim_evidence_trace_def Let_def if_False if_True append_is_Nil_conv check_eq_Nil
        not_True_eq_False de_Morgan_disj) simp
  then show ?thesis
    unfolding issues claim_grounded_def claim_links_empty
    using True reached direct_ids_need_key [of claim] claim_links_empty [of rels claim] by blast
qed (simp add: validate_claim_evidence_trace_def claim_grounded_def)

end
