(* ===== verification/Graph_Correct.thy ===== *)
theory Graph_Correct
  imports Graph_Laws
begin

text \<open>
  What a rebuilt Research State guarantees: contiguous version chains, relations whose both ends
  are objects of the state, claims with a complete evidence trace, and independence of the order
  in which objects and relations are given.
\<close>

section \<open>Version chains\<close>

lemma stable_ids_set [simp]: "set (stable_ids xs) = co_stable ` set xs" "distinct (stable_ids xs)"
  by (simp_all add: stable_ids_def)

lemma duplicate_version_ids_empty:
  "duplicate_version_ids seen xs = [] \<longleftrightarrow> distinct (map co_version_id xs) \<and> set seen \<inter> co_version_id ` set xs = {}"
  by (induction xs arbitrary: seen) auto

lemma supersedes_issues_empty:
  "supersedes_issues path ys = [] \<longleftrightarrow>
     (\<forall>k. Suc k < length ys \<longrightarrow> co_supersedes (ys ! Suc k) = Some (co_version_id (ys ! k)))"
proof (induction path ys rule: supersedes_issues.induct)
  case (1 path x y xs)
  show ?case unfolding supersedes_issues.simps append_is_Nil_conv check_eq_Nil 1
    by (auto simp: less_Suc_eq_0_disj nth_Cons split: nat.splits)
qed auto

definition version_chain :: "canonical_object list \<Rightarrow> bool" where
  "version_chain ys \<longleftrightarrow> map co_version ys = map int [1..<length ys + 1]
     \<and> (\<forall>k. Suc k < length ys \<longrightarrow> co_supersedes (ys ! Suc k) = Some (co_version_id (ys ! k)))"

lemma chain_issues_of_empty: "chain_issues_of sid ys = [] \<longleftrightarrow> version_chain ys"
proof -
  have "distinct (map co_version ys)" if "map co_version ys = map int [1..<length ys + 1]"
    unfolding that by (simp add: distinct_map)
  then show ?thesis by (auto simp: chain_issues_of_def version_chain_def Let_def supersedes_issues_empty)
qed

lemma versions_of_set: "set (versions_of xs sid) = {x \<in> set xs. co_stable x = sid}"
  by (auto simp: versions_of_def)

lemma latest_lookup:
  "map_of (fst (latest_objects xs)) sid
     = (if sid \<in> co_stable ` set xs then Some (last (versions_of xs sid)) else None)"
  by (simp add: latest_objects_def map_of_map_restrict restrict_map_def)

lemma latest_version:
  assumes "x \<in> set xs" "co_stable x = sid"
  shows "last (versions_of xs sid) \<in> set xs \<and> co_stable (last (versions_of xs sid)) = sid
    \<and> co_version x \<le> co_version (last (versions_of xs sid))"
proof -
  let ?ys = "versions_of xs sid"
  have x: "x \<in> set ?ys" using assms by (simp add: versions_of_set)
  then have "last ?ys \<in> set ?ys" by (intro last_in_set) auto
  then have last: "last ?ys \<in> set xs \<and> co_stable (last ?ys) = sid" by (simp add: versions_of_set)
  obtain k where k: "k < length ?ys" "x = ?ys ! k" using x by (metis in_set_conv_nth)
  have "sorted (map co_version ?ys)" by (simp add: versions_of_def)
  from sorted_nth_mono [OF this, of k "length ?ys - 1"] k
  have "co_version x \<le> co_version (?ys ! (length ?ys - 1))" by simp
  then show ?thesis using last k by (cases ?ys rule: rev_cases) (auto simp: nth_append)
qed

definition version_chains :: "canonical_object list \<Rightarrow> bool" where
  "version_chains xs \<longleftrightarrow> distinct (map co_version_id xs) \<and> (\<forall>sid. version_chain (versions_of xs sid))"

lemma latest_objects_issues: "snd (latest_objects xs) = [] \<longleftrightarrow> version_chains xs"
proof -
  have none: "version_chain (versions_of xs sid)" if "sid \<notin> co_stable ` set xs" for sid
  proof -
    have "set (versions_of xs sid) = {}" using that by (auto simp: versions_of_set)
    then have "versions_of xs sid = []" by (simp only: set_empty)
    then show ?thesis by (simp add: version_chain_def)
  qed
  have "(\<forall>sid\<in>co_stable ` set xs. version_chain (versions_of xs sid)) \<longleftrightarrow> (\<forall>sid. version_chain (versions_of xs sid))"
    using none by blast
  then show ?thesis
    by (simp add: latest_objects_def version_chains_def duplicate_version_ids_empty chain_issues_of_empty)
qed

lemma chains_inj:
  assumes "version_chains xs"
  shows "inj_on co_version_id (set xs)" "inj_on (\<lambda>x. (co_stable x, co_version x)) (set xs)" "distinct xs"
proof -
  show "inj_on co_version_id (set xs)" "distinct xs" using assms by (simp_all add: version_chains_def distinct_map)
  show "inj_on (\<lambda>x. (co_stable x, co_version x)) (set xs)"
  proof (rule inj_onI)
    fix x y assume xy: "x \<in> set xs" "y \<in> set xs" "(co_stable x, co_version x) = (co_stable y, co_version y)"
    let ?ys = "versions_of xs (co_stable x)"
    have "map co_version ?ys = map int [1..<length ?ys + 1]" using assms by (simp add: version_chains_def version_chain_def)
    then have "distinct (map co_version ?ys)" by (metis distinct_map distinct_upt inj_on_of_nat)
    moreover have "x \<in> set ?ys" "y \<in> set ?ys" using xy by (simp_all add: versions_of_set)
    ultimately show "x = y" using xy(3) by (auto simp: distinct_map dest: inj_onD)
  qed
qed

text \<open>\<open>_latest_objects\<close> and \<open>_index_objects\<close> agree.\<close>

lemma latest_is_identity:
  assumes "version_chains xs"
  shows "map_of (fst (latest_objects xs)) = by_identity xs"
proof
  fix sid
  show "map_of (fst (latest_objects xs)) sid = by_identity xs sid"
  proof (cases "sid \<in> co_stable ` set xs")
    case True
    then obtain x where "x \<in> set xs" "co_stable x = sid" by auto
    then have "by_identity xs sid = Some (last (versions_of xs sid))"
      unfolding by_identity_unique [OF chains_inj(2) [OF assms]] using latest_version by blast
    then show ?thesis using True by (simp add: latest_lookup)
  next
    case False
    then show ?thesis using by_identity_None [of xs sid] by (simp add: latest_lookup)
  qed
qed

section \<open>The rebuilt state\<close>

definition endpoints_exist :: "canonical_object list \<Rightarrow> canonical_relation \<Rightarrow> bool" where
  "endpoints_exist xs rel \<longleftrightarrow>
     (\<exists>x\<in>set xs. \<exists>y\<in>set xs. leads rel x (cr_relation rel) y \<and> co_project x = cr_project rel \<and> co_project y = cr_project rel)"

lemma endpoint_issues_empty:
  "endpoint_issues xs project field sid version path = [] \<longleftrightarrow>
     (\<exists>v x. version = Some v \<and> by_version xs v = Some x \<and> co_stable x = sid \<and> co_project x = project)"
  by (auto simp: endpoint_issues_def by_identity_None split: option.splits dest: by_version_Some)

lemma relation_endpoint_issues_empty:
  assumes "inj_on co_version_id (set xs)"
  shows "relation_endpoint_issues rel xs path = [] \<longleftrightarrow> endpoints_exist xs rel"
proof
  assume "relation_endpoint_issues rel xs path = []"
  then obtain v x w y where "cr_source_version rel = Some v" "by_version xs v = Some x" "co_stable x = cr_source rel"
      "co_project x = cr_project rel" "cr_target_version rel = Some w" "by_version xs w = Some y"
      "co_stable y = cr_target rel" "co_project y = cr_project rel"
    unfolding relation_endpoint_issues_def append_is_Nil_conv endpoint_issues_empty by blast
  moreover from this have "x \<in> set xs" "co_version_id x = v" "y \<in> set xs" "co_version_id y = w"
    using by_version_Some by blast+
  ultimately show "endpoints_exist xs rel"
    unfolding endpoints_exist_def leads_def by (intro bexI [of _ x] bexI [of _ y]) simp_all
next
  assume "endpoints_exist xs rel"
  then obtain x y where "x \<in> set xs" "y \<in> set xs" "leads rel x (cr_relation rel) y" "co_project x = cr_project rel"
      "co_project y = cr_project rel"
    by (auto simp: endpoints_exist_def)
  moreover have "by_version xs (co_version_id x) = Some x" "by_version xs (co_version_id y) = Some y"
    using \<open>x \<in> set xs\<close> \<open>y \<in> set xs\<close> by (simp_all add: by_version_unique [OF assms])
  ultimately show "relation_endpoint_issues rel xs path = []"
    unfolding relation_endpoint_issues_def append_is_Nil_conv endpoint_issues_empty leads_def by simp
qed

definition is_leading :: "canonical_object \<Rightarrow> bool" where
  "is_leading x \<longleftrightarrow> co_kind x = ''hypothesis''
     \<and> (json_truthy (map_of (co_payload x) ''is_leading'') \<or> json_truthy (map_of (co_payload x) ''leading''))
     \<and> dict_get ''status'' (JStr ''active'') (co_payload x) \<notin> {JStr ''rejected'', JStr ''weakened''}"

definition leading_readable :: "canonical_object \<Rightarrow> bool" where
  "leading_readable x \<longleftrightarrow> co_kind x = ''hypothesis''
     \<and> (json_truthy (map_of (co_payload x) ''is_leading'') \<or> json_truthy (map_of (co_payload x) ''leading'')) \<longrightarrow>
     hashable (dict_get ''status'' (JStr ''active'') (co_payload x))"

lemma fold_leading:
  "fold_result add_leading xs acc = Inr l \<longleftrightarrow>
     (\<forall>x\<in>set xs. leading_readable x) \<and> l = acc @ map co_stable (filter is_leading xs)"
proof (induction xs arbitrary: acc)
  case (Cons x xs)
  have "add_leading x acc = Inr b \<longleftrightarrow> leading_readable x \<and> b = acc @ (if is_leading x then [co_stable x] else [])" for b
    by (auto simp: add_leading_def leading_readable_def is_leading_def Let_def result_simps)
  then show ?case using Cons by (auto simp: result_simps)
qed auto

definition latest_values :: "canonical_object list \<Rightarrow> canonical_object list" where
  "latest_values xs = map (\<lambda>sid. last (versions_of xs sid)) (stable_ids xs)"

text \<open>What the validation of a rebuild amounts to, without the order of the lists.\<close>

definition graph_ok :: "prims \<Rightarrow> string \<Rightarrow> canonical_object list \<Rightarrow> canonical_relation list \<Rightarrow> bool" where
  "graph_ok P project xs rels \<longleftrightarrow> is_project_id (JStr project)
     \<and> (\<forall>x\<in>set xs. validate_canonical_object P x = [] \<and> co_project x = project)
     \<and> (\<forall>rel\<in>set rels. validate_canonical_relation P rel = Inr [] \<and> cr_project rel = project \<and> endpoints_exist xs rel)
     \<and> version_chains xs
     \<and> (\<forall>x\<in>set (latest_values xs). leading_readable x \<and> (co_kind x = ''claim'' \<longrightarrow> claim_grounded xs (set rels) x))
     \<and> length (filter is_leading (latest_values xs)) \<le> 1"

lemma traverse_clean: "traverse f xs = Inr ys \<Longrightarrow> \<forall>y\<in>set ys. y = [] \<Longrightarrow> \<forall>x\<in>set xs. f x = Inr []"
  by (induction xs arbitrary: ys) (auto simp: result_simps)

lemma traverse_all_clean: "\<forall>x\<in>set xs. f x = Inr [] \<Longrightarrow> traverse f xs = Inr (map (\<lambda>_. []) xs)"
  by (induction xs) auto

lemma enumerate_member: "x \<in> set xs \<Longrightarrow> \<exists>n. (n, x) \<in> set (enumerate k xs)"
  by (induction xs arbitrary: k) auto

lemma enumerate_snd: "nx \<in> set (enumerate k xs) \<Longrightarrow> snd nx \<in> set xs"
  by (induction xs arbitrary: k) auto

lemma relation_rows:
  assumes "inj_on co_version_id (set xs)"
  shows "relation_row_issues P project xs nr = Inr [] \<longleftrightarrow> validate_canonical_relation P (snd nr) = Inr []
    \<and> cr_project (snd nr) = project \<and> endpoints_exist xs (snd nr)"
  by (auto simp: relation_row_issues_def result_simps relation_endpoint_issues_empty [OF assms])

lemma set_latest_objects: "set (map snd (fst (latest_objects xs))) = set (latest_values xs)"
  "map snd (fst (latest_objects xs)) = latest_values xs"
  by (simp_all add: latest_objects_def latest_values_def image_image comp_def)

lemma claim_issues_empty:
  "claim_issues xs rels (fst (latest_objects xs)) = [] \<longleftrightarrow>
     (\<forall>x\<in>set (latest_values xs). co_kind x = ''claim'' \<longrightarrow> claim_grounded xs (set rels) x)"
proof -
  have "claim_issues xs rels (fst (latest_objects xs)) = [] \<longleftrightarrow>
      (\<forall>x\<in>snd ` set (fst (latest_objects xs)). co_kind x = ''claim'' \<longrightarrow> claim_grounded xs (set rels) x)"
    unfolding claim_issues_def concat_empty by (simp add: trace_meaning)
  then show ?thesis by (simp add: set_latest_objects(1) [symmetric])
qed

definition leading_of :: "canonical_object list \<Rightarrow> string option" where
  "leading_of xs = (case filter is_leading (latest_values xs) of [] \<Rightarrow> None | x # _ \<Rightarrow> Some (co_stable x))"

lemma rebuild_meaning:
  "rebuild_research_state P xs rels project run = Inr st \<longleftrightarrow>
     graph_ok P project xs rels
     \<and> (\<exists>h. canonical_sha256 P (of_json (state_json project run (sort_objects xs) (sort_key cr_id rels))) = Inr h
        \<and> st = \<lparr>rs_project = project, rs_run = run, rs_objects = sort_objects xs, rs_relations = sort_key cr_id rels,
             rs_latest = fst (latest_objects xs), rs_leading = leading_of xs, rs_hash = h\<rparr>)"
  (is "?lhs \<longleftrightarrow> ?rhs")
proof
  assume ?lhs
  then obtain issues leading h where
      rows: "traverse (relation_row_issues P project xs) (enumerate 0 rels) = Inr issues"
    and lead: "fold_result add_leading (latest_values xs) [] = Inr leading"
    and clean: "is_project_id (JStr project)" "\<forall>nx\<in>set (enumerate 0 xs). object_row_issues P project nx = []"
      "\<forall>i\<in>set issues. i = []" "snd (latest_objects xs) = []" "claim_issues xs rels (fst (latest_objects xs)) = []"
      "length leading \<le> 1"
    and h: "canonical_sha256 P (of_json (state_json project run (sort_objects xs) (sort_key cr_id rels))) = Inr h"
      "st = \<lparr>rs_project = project, rs_run = run, rs_objects = sort_objects xs, rs_relations = sort_key cr_id rels,
             rs_latest = fst (latest_objects xs), rs_leading = (case leading of [] \<Rightarrow> None | x # _ \<Rightarrow> Some x), rs_hash = h\<rparr>"
    unfolding rebuild_research_state_def Let_def
    by (auto simp: result_simps set_latest_objects case_prod_beta)
  have chains: "version_chains xs" using clean(4) latest_objects_issues by blast
  have objects: "\<forall>x\<in>set xs. validate_canonical_object P x = [] \<and> co_project x = project"
  proof
    fix x assume "x \<in> set xs"
    then obtain n where "(n, x) \<in> set (enumerate 0 xs)" using enumerate_member [of x xs 0] by auto
    then show "validate_canonical_object P x = [] \<and> co_project x = project"
      using clean(2) by (auto simp: object_row_issues_def)
  qed
  have "\<forall>nr\<in>set (enumerate 0 rels). relation_row_issues P project xs nr = Inr []"
    using traverse_clean [OF rows] clean(3) by blast
  then have rel: "\<forall>rel\<in>set rels. validate_canonical_relation P rel = Inr [] \<and> cr_project rel = project \<and> endpoints_exist xs rel"
    unfolding relation_rows [OF chains_inj(1) [OF chains]]
    using enumerate_member [of _ rels 0] by fastforce
  have "leading = map co_stable (filter is_leading (latest_values xs))" "\<forall>x\<in>set (latest_values xs). leading_readable x"
    using lead by (simp_all add: fold_leading)
  then show ?rhs
    using clean(1,5,6) chains objects rel h
    by (auto simp: graph_ok_def claim_issues_empty leading_of_def split: list.splits)
next
  assume ?rhs
  then obtain h where ok: "graph_ok P project xs rels"
    and h: "canonical_sha256 P (of_json (state_json project run (sort_objects xs) (sort_key cr_id rels))) = Inr h"
      "st = \<lparr>rs_project = project, rs_run = run, rs_objects = sort_objects xs, rs_relations = sort_key cr_id rels,
             rs_latest = fst (latest_objects xs), rs_leading = leading_of xs, rs_hash = h\<rparr>"
    by blast
  have chains: "version_chains xs" using ok by (simp add: graph_ok_def)
  have "\<forall>nr\<in>set (enumerate 0 rels). relation_row_issues P project xs nr = Inr []"
    unfolding relation_rows [OF chains_inj(1) [OF chains]] using ok
    by (auto simp: graph_ok_def dest!: enumerate_snd)
  then have rows: "traverse (relation_row_issues P project xs) (enumerate 0 rels) = Inr (map (\<lambda>_. []) (enumerate 0 rels))"
    by (rule traverse_all_clean)
  have "\<forall>nx\<in>set (enumerate 0 xs). object_row_issues P project nx = []"
    using ok by (auto simp: graph_ok_def object_row_issues_def dest!: enumerate_snd)
  moreover have lead: "fold_result add_leading (latest_values xs) [] = Inr (map co_stable (filter is_leading (latest_values xs)))"
    using ok by (simp add: graph_ok_def fold_leading)
  ultimately show ?lhs
    using ok h rows chains latest_objects_issues [of xs] claim_issues_empty [of xs rels]
    unfolding rebuild_research_state_def Let_def
    by (auto simp: set_latest_objects graph_ok_def raise_if_invalid_def result_ok_def leading_of_def
        case_prod_beta split: list.splits)
qed

section \<open>Order does not matter\<close>

lemma option_eqI: "(\<And>x. m = Some x \<longleftrightarrow> n = Some x) \<Longrightarrow> m = n"
  by (cases m; cases n) auto

lemma lookups_perm:
  assumes "version_chains xs" "version_chains ys" "set xs = set ys"
  shows "by_version xs = by_version ys" "by_identity xs = by_identity ys"
    "relation_target xs = relation_target ys" "resolve_object xs = resolve_object ys"
proof -
  have v: "by_version xs v = by_version ys v" for v
    by (rule option_eqI) (simp only: by_version_unique [OF chains_inj(1) [OF assms(1)]]
        by_version_unique [OF chains_inj(1) [OF assms(2)]] assms(3))
  have i: "by_identity xs sid = by_identity ys sid" for sid
    by (rule option_eqI) (simp only: by_identity_unique [OF chains_inj(2) [OF assms(1)]]
        by_identity_unique [OF chains_inj(2) [OF assms(2)]] assms(3))
  show "by_version xs = by_version ys" "by_identity xs = by_identity ys" using v i by auto
  show "relation_target xs = relation_target ys" "resolve_object xs = resolve_object ys"
    unfolding relation_target_def resolve_object_def fun_eq_iff v i by simp_all
qed

lemma grounded_perm:
  assumes "version_chains xs" "version_chains ys" "set xs = set ys"
  shows "claim_grounded xs rels claim = claim_grounded ys rels claim"
  unfolding claim_grounded_def link_grounded_def evidence_grounded_def passage_grounded_def verified_def
    lookups_perm(3,4) [OF assms] ..

lemma versions_of_perm:
  assumes "version_chains xs" "mset xs = mset ys"
  shows "versions_of xs sid = versions_of ys sid"
  unfolding versions_of_def
proof (rule sort_key_mset_eq)
  show "mset (filter (\<lambda>x. co_stable x = sid) xs) = mset (filter (\<lambda>x. co_stable x = sid) ys)"
    using assms(2) by (simp add: mset_filter)
  show "inj_on co_version (set (filter (\<lambda>x. co_stable x = sid) xs))"
    using chains_inj(2) [OF assms(1)] by (auto simp: inj_on_def)
qed

lemma version_chains_perm:
  assumes "version_chains xs" "mset xs = mset ys"
  shows "version_chains ys"
proof -
  have "mset (map co_version_id xs) = mset (map co_version_id ys)" using assms(2) by simp
  then have "distinct (map co_version_id ys)"
    using assms(1) mset_eq_imp_distinct_iff by (simp add: version_chains_def del: mset_map) blast
  then show ?thesis using assms(1) versions_of_perm [OF assms] by (simp add: version_chains_def)
qed

lemma latest_values_perm:
  assumes "version_chains xs" "mset xs = mset ys"
  shows "mset (latest_values xs) = mset (latest_values ys)"
proof -
  have "set xs = set ys" using assms(2) by (rule mset_eq_setD)
  then have "mset (stable_ids xs) = mset (stable_ids ys)"
    using set_eq_iff_mset_eq_distinct [of "stable_ids xs" "stable_ids ys"] by simp
  then show ?thesis unfolding latest_values_def versions_of_perm [OF assms] by simp
qed

lemma sort_objects_perm:
  assumes "version_chains xs" "mset xs = mset ys"
  shows "sort_objects xs = sort_objects ys"
  unfolding sort_objects_def
proof (rule properties_for_sort_key [symmetric])
  fix k
  have same: "(\<lambda>x. co_stable k = co_stable x) = (\<lambda>x. co_stable x = co_stable k)" by auto
  have "filter (\<lambda>x. co_stable k = co_stable x) (sort_key co_stable (sort_key co_version xs))
      = filter (\<lambda>x. co_stable k = co_stable x) (sort_key co_version xs)"
    unfolding same by (rule sort_key_stable)
  also have "\<dots> = filter (\<lambda>x. co_stable k = co_stable x) (sort_key co_version ys)"
    using versions_of_perm [OF assms, of "co_stable k"]
    unfolding same by (simp add: filter_sort versions_of_def)
  finally show "filter (\<lambda>x. co_stable k = co_stable x) (sort_key co_stable (sort_key co_version xs))
      = filter (\<lambda>x. co_stable k = co_stable x) (sort_key co_version ys)" .
qed (simp_all add: assms(2))

lemma graph_ok_perm:
  assumes "graph_ok P project xs rels" "mset xs = mset ys" "mset rels = mset rels'"
  shows "graph_ok P project ys rels'"
proof -
  have chains: "version_chains xs" "version_chains ys"
    using assms(1) version_chains_perm [OF _ assms(2)] by (simp_all add: graph_ok_def)
  have sets: "set xs = set ys" "set rels = set rels'" using assms(2,3) by (auto dest: mset_eq_setD)
  note latest = latest_values_perm [OF chains(1) assms(2)]
  have "mset (filter is_leading (latest_values xs)) = mset (filter is_leading (latest_values ys))"
    using latest by (simp add: mset_filter)
  from mset_eq_length [OF this] show ?thesis
    using assms(1) chains(2) unfolding graph_ok_def endpoints_exist_def grounded_perm [OF chains sets(1)] sets
      mset_eq_setD [OF latest] by metis
qed

lemma short_perm: "mset xs = mset ys \<Longrightarrow> length xs \<le> 1 \<Longrightarrow> xs = ys"
  by (cases xs) (auto dest: mset_eq_length)

text \<open>
  C21. Rebuilding does not depend on the order in which the objects and the relations are given:
  if the identifiers of the relations are distinct and one order rebuilds, every other rebuilds
  to the same objects, relations, latest versions, leading hypothesis and state hash.
\<close>

theorem rebuild_ignores_order:
  assumes "rebuild_research_state P xs rels project run = Inr st" "distinct (map cr_id rels)"
    and "mset xs = mset ys" "mset rels = mset rels'"
  shows "\<exists>latest. rebuild_research_state P ys rels' project run = Inr (st\<lparr>rs_latest := latest\<rparr>)
    \<and> map_of latest = map_of (rs_latest st)"
proof -
  obtain h where ok: "graph_ok P project xs rels"
    and h: "canonical_sha256 P (of_json (state_json project run (sort_objects xs) (sort_key cr_id rels))) = Inr h"
      "st = \<lparr>rs_project = project, rs_run = run, rs_objects = sort_objects xs, rs_relations = sort_key cr_id rels,
             rs_latest = fst (latest_objects xs), rs_leading = leading_of xs, rs_hash = h\<rparr>"
    using assms(1) unfolding rebuild_meaning by blast
  have chains: "version_chains xs" "version_chains ys"
    using ok graph_ok_perm [OF ok assms(3,4)] by (simp_all add: graph_ok_def)
  have "inj_on cr_id (set rels)" using assms(2) by (simp add: distinct_map)
  from sort_key_mset_eq [OF assms(4) this] have rels: "sort_key cr_id rels = sort_key cr_id rels'" .
  note objects = sort_objects_perm [OF chains(1) assms(3)]
  have "filter is_leading (latest_values xs) = filter is_leading (latest_values ys)"
    using latest_values_perm [OF chains(1) assms(3)] ok
    by (intro short_perm) (simp_all add: mset_filter graph_ok_def)
  then have "leading_of xs = leading_of ys" by (simp add: leading_of_def)
  moreover have "map_of (fst (latest_objects ys)) = map_of (fst (latest_objects xs))"
    using latest_is_identity [OF chains(1)] latest_is_identity [OF chains(2)]
      lookups_perm(2) [OF chains mset_eq_setD [OF assms(3)]] by simp
  ultimately show ?thesis
    using graph_ok_perm [OF ok assms(3,4)] h rels objects unfolding rebuild_meaning by auto
qed

section \<open>What a rebuilt state is\<close>

lemma sort_objects_idem:
  assumes "version_chains xs"
  shows "sort_objects (sort_objects xs) = sort_objects xs"
  using sort_objects_perm [OF assms, of "sort_objects xs"] by simp

lemma rebuilt_ok:
  assumes "rebuild_research_state P xs rels project run = Inr st"
  shows "graph_ok P project (rs_objects st) (rs_relations st)"
    "map_of (rs_latest st) = by_identity (rs_objects st)"
    "mset (rs_objects st) = mset xs" "mset (rs_relations st) = mset rels" "rs_project st = project" "rs_run st = run"
proof -
  obtain h where ok: "graph_ok P project xs rels"
    and st: "st = \<lparr>rs_project = project, rs_run = run, rs_objects = sort_objects xs, rs_relations = sort_key cr_id rels,
             rs_latest = fst (latest_objects xs), rs_leading = leading_of xs, rs_hash = h\<rparr>"
    using assms unfolding rebuild_meaning by blast
  show ok': "graph_ok P project (rs_objects st) (rs_relations st)"
    using graph_ok_perm [OF ok, of "sort_objects xs" "sort_key cr_id rels"] by (simp add: st)
  have chains: "version_chains xs" "version_chains (sort_objects xs)"
    using ok ok' by (simp_all add: graph_ok_def st)
  show "map_of (rs_latest st) = by_identity (rs_objects st)"
    using latest_is_identity [OF chains(1)] lookups_perm(2) [OF chains] by (simp add: st)
qed (use assms in \<open>auto simp: rebuild_meaning\<close>)

text \<open>
  C22. In a rebuilt state the versions of every object are 1, 2, ..., n, each naming the one
  before as the version it supersedes, no version identifier is used twice, and the latest version
  recorded for an identifier is its highest one.
\<close>

theorem rebuilt_versions_are_chains:
  assumes "rebuild_research_state P xs rels project run = Inr st"
  shows "version_chain (versions_of (rs_objects st) sid)
    \<and> distinct (map co_version_id (rs_objects st))
    \<and> map_of (rs_latest st) sid = (if versions_of (rs_objects st) sid = [] then None
        else Some (last (versions_of (rs_objects st) sid)))"
proof -
  note ok = rebuilt_ok [OF assms]
  have chains: "version_chains (rs_objects st)" using ok(1) by (simp add: graph_ok_def)
  have "versions_of (rs_objects st) sid = [] \<longleftrightarrow> sid \<notin> co_stable ` set (rs_objects st)"
    using versions_of_set [of "rs_objects st" sid] by (auto simp flip: set_empty)
  then show ?thesis
    using chains ok(2) latest_is_identity [OF chains] latest_lookup [of "rs_objects st" sid]
    by (simp add: version_chains_def)
qed

text \<open>
  C27. Every relation of a rebuilt state joins two objects of the state, by stable identifier and
  by exact version, within the project of the state.
\<close>

theorem rebuilt_relations_resolve:
  assumes "rebuild_research_state P xs rels project run = Inr st" "rel \<in> set (rs_relations st)"
  shows "\<exists>x y. x \<in> set (rs_objects st) \<and> y \<in> set (rs_objects st) \<and> leads rel x (cr_relation rel) y
    \<and> co_project x = project \<and> co_project y = project \<and> cr_relation rel \<in> set relation_kinds"
proof -
  have ok: "validate_canonical_relation P rel = Inr []" "cr_project rel = project" "endpoints_exist (rs_objects st) rel"
    using rebuilt_ok(1) [OF assms(1)] assms(2) by (simp_all add: graph_ok_def)
  have "cr_relation rel \<in> set relation_kinds"
    using ok(1) by (auto simp: validate_canonical_relation_def result_simps)
  then show ?thesis using ok(2,3) by (auto simp: endpoints_exist_def)
qed

section \<open>Evidence\<close>

text \<open>Claim - evidence link - evidence - passage - document version, each step at exact versions.\<close>

definition evidence_chain ::
    "canonical_object list \<Rightarrow> canonical_relation list \<Rightarrow> canonical_object \<Rightarrow> canonical_object \<Rightarrow> canonical_object
     \<Rightarrow> canonical_object \<Rightarrow> canonical_object \<Rightarrow> bool" where
  "evidence_chain xs rels claim link e p d \<longleftrightarrow>
     (\<exists>lid\<in>link_refs (set rels) claim. resolve_object xs lid = Some link)
     \<and> {link, e, p, d} \<subseteq> set xs \<and> co_kind link = ''evidence_link'' \<and> co_kind e = ''evidence''
     \<and> co_kind p = ''passage'' \<and> co_kind d = ''document_version''
     \<and> (\<exists>r\<in>set rels. leads r link ''links_evidence'' e) \<and> (\<exists>r\<in>set rels. leads r e ''derived_from'' p)
     \<and> (\<exists>r\<in>set rels. leads r p ''located_in'' d)"

lemma leads_target:
  assumes "leads r x name y" "r \<in> rels" "y \<in> set xs" "inj_on co_version_id (set xs)"
  shows "r \<in> out_relations rels x name \<and> relation_target xs r = Some y"
  using assms by (auto simp: leads_def out_relations_def relation_target_Some by_version_unique)

lemma chain_of_grounded:
  assumes "claim_grounded xs (set rels) claim"
  shows "\<exists>link e p d. evidence_chain xs rels claim link e p d"
proof -
  obtain lid where lid: "lid \<in> link_refs (set rels) claim"
    using assms by (auto simp: claim_grounded_def)
  then obtain link where link: "lid \<in> link_refs (set rels) claim" "resolve_object xs lid = Some link"
      "link_grounded xs (set rels) claim link"
    using assms unfolding claim_grounded_def by blast
  obtain r e where e: "r \<in> out_relations (set rels) link ''links_evidence''" "relation_target xs r = Some e"
      "evidence_grounded xs (set rels) claim e"
    using link(3) by (fastforce simp: link_grounded_def)
  obtain r' p where p: "r' \<in> out_relations (set rels) e ''derived_from''" "relation_target xs r' = Some p"
      "passage_grounded xs (set rels) e p"
    using e(3) by (fastforce simp: evidence_grounded_def)
  obtain r'' d where d: "r'' \<in> out_relations (set rels) p ''located_in''" "relation_target xs r'' = Some d"
      "co_kind d = ''document_version''"
    using p(3) by (auto simp: passage_grounded_def has_kind_def split: option.splits)
  have "evidence_chain xs rels claim link e p d"
    using link e p d out_relation_leads [OF e(1,2)] out_relation_leads [OF p(1,2)] out_relation_leads [OF d(1,2)]
      resolve_object_Some [OF link(2)]
    by (auto simp: evidence_chain_def link_grounded_def evidence_grounded_def passage_grounded_def)
  then show ?thesis by blast
qed

lemma grounded_chain_final:
  assumes "claim_grounded xs (set rels) claim" "evidence_chain xs rels claim link e p d" "is_final_claim claim"
    and "inj_on co_version_id (set xs)"
  shows "is_final_evidence e \<and> verified xs e \<and> payload_get e ''verified_source_version_id'' = JStr (co_version_id d)"
proof -
  from assms(2) obtain lid r r' r'' where
      lid: "lid \<in> link_refs (set rels) claim" "resolve_object xs lid = Some link"
    and r: "r \<in> set rels" "leads r link ''links_evidence'' e" "e \<in> set xs"
    and r': "r' \<in> set rels" "leads r' e ''derived_from'' p" "p \<in> set xs"
    and r'': "r'' \<in> set rels" "leads r'' p ''located_in'' d" "d \<in> set xs"
    by (auto simp: evidence_chain_def)
  have link: "link_grounded xs (set rels) claim link" using assms(1) lid by (fastforce simp: claim_grounded_def)
  have e: "evidence_grounded xs (set rels) claim e"
    using link leads_target [OF r(2,1,3) assms(4)] by (fastforce simp: link_grounded_def)
  have p: "passage_grounded xs (set rels) e p"
    using e leads_target [OF r'(2,1,3) assms(4)] by (fastforce simp: evidence_grounded_def)
  show ?thesis
    using e p leads_target [OF r''(2,1,3) assms(4)] assms(3)
    unfolding evidence_grounded_def passage_grounded_def by blast
qed

text \<open>
  C10. In a rebuilt state every claim rests on evidence: its latest version has a chain through an
  evidence link, evidence and a passage to a document version. If the claim is final, the evidence
  at the end of every such chain is verified, with a verification record in the state, for exactly
  the document version of the chain.
\<close>

theorem rebuilt_claims_rest_on_evidence:
  assumes "rebuild_research_state P xs rels project run = Inr st"
    and "map_of (rs_latest st) cid = Some claim" "co_kind claim = ''claim''"
  shows "(\<exists>link e p d. evidence_chain (rs_objects st) (rs_relations st) claim link e p d)
    \<and> (is_final_claim claim \<longrightarrow> (\<forall>link e p d. evidence_chain (rs_objects st) (rs_relations st) claim link e p d \<longrightarrow>
         is_final_evidence e \<and> verified (rs_objects st) e
         \<and> payload_get e ''verified_source_version_id'' = JStr (co_version_id d)))"
proof -
  note ok = rebuilt_ok [OF assms(1)]
  have chains: "version_chains (rs_objects st)" using ok(1) by (simp add: graph_ok_def)
  have "claim \<in> set (latest_values (rs_objects st))"
    using assms(2) ok(2) latest_is_identity [OF chains] set_latest_objects(1) [of "rs_objects st"] map_of_SomeD
    by (metis image_eqI image_set snd_conv)
  then have "claim_grounded (rs_objects st) (set (rs_relations st)) claim"
    using ok(1) assms(3) by (simp add: graph_ok_def)
  then show ?thesis using chain_of_grounded grounded_chain_final chains_inj(1) [OF chains] by blast
qed

end
