(* ===== verification/Report_Correct.thy ===== *)
theory Report_Correct
  imports Research_Report Graph_Correct
begin

text \<open>
  What an accepted report says: its claims are final claims of the state, and its evidence and
  source links are exactly the evidence chains of those claims.
\<close>

lemma targets_of_set:
  assumes "inj_on co_version_id (set xs)"
  shows "y \<in> set (targets_of xs rels x name kind) \<longleftrightarrow>
    y \<in> set xs \<and> co_kind y = kind \<and> (\<exists>r\<in>set rels. leads r x name y)"
proof -
  have "y \<in> set (targets_of xs rels x name kind) \<longleftrightarrow>
      (\<exists>r\<in>out_relations (set rels) x name. relation_target xs r = Some y) \<and> co_kind y = kind"
  proof
    assume "y \<in> set (targets_of xs rels x name kind)"
    then show "(\<exists>r\<in>out_relations (set rels) x name. relation_target xs r = Some y) \<and> co_kind y = kind"
      by (auto simp: targets_of_def live_relations_set split: option.splits if_splits)
  next
    assume "(\<exists>r\<in>out_relations (set rels) x name. relation_target xs r = Some y) \<and> co_kind y = kind"
    then obtain r where "r \<in> out_relations (set rels) x name" "relation_target xs r = Some y" "co_kind y = kind"
      by blast
    then show "y \<in> set (targets_of xs rels x name kind)"
      by (auto simp: targets_of_def live_relations_set intro!: bexI [of _ r])
  qed
  then show ?thesis
    using out_relation_leads [of _ rels x name xs y] leads_target [OF _ _ _ assms, of _ x name y "set rels"] by blast
qed

lemma report_links_set:
  assumes "\<forall>rel\<in>set (rs_relations st). endpoints_exist (rs_objects st) rel"
    and "inj_on co_version_id (set (rs_objects st))"
  shows "set (report_links st claim) = link_refs (set (rs_relations st)) claim"
proof -
  have "(\<exists>y. relation_target (rs_objects st) rel = Some y \<and> co_stable y = cr_target rel)" if "rel \<in> set (rs_relations st)" for rel
  proof -
    obtain x y where y: "y \<in> set (rs_objects st)" "leads rel x (cr_relation rel) y"
      using assms(1) \<open>rel \<in> set (rs_relations st)\<close> by (auto simp: endpoints_exist_def)
    then have "relation_target (rs_objects st) rel = Some y"
      using leads_target [OF y(2) that y(1) assms(2)] by blast
    then show ?thesis using y(2) by (auto simp: leads_def)
  qed
  then have "(\<Union>rel\<in>out_relations (set (rs_relations st)) claim ''has_evidence_link''.
      set (case relation_target (rs_objects st) rel of Some y \<Rightarrow> [co_stable y] | None \<Rightarrow> []))
      = cr_target ` out_relations (set (rs_relations st)) claim ''has_evidence_link''"
    by (fastforce simp: out_relations_def split: option.splits)
  then show ?thesis by (simp add: report_links_def link_refs_def live_relations_set)
qed

text \<open>The source links of a claim are its evidence chains.\<close>

lemma links_of_claim_set:
  assumes "\<forall>rel\<in>set (rs_relations st). endpoints_exist (rs_objects st) rel"
    and "inj_on co_version_id (set (rs_objects st))"
  shows "sl \<in> set (links_of_claim st cid) \<longleftrightarrow>
    (\<exists>claim link e p d. map_of (rs_latest st) cid = Some claim
       \<and> evidence_chain (rs_objects st) (rs_relations st) claim link e p d
       \<and> sl = source_link_of (rs_project st) cid link e p d)"
proof (cases "map_of (rs_latest st) cid")
  case (Some claim)
  let ?link = "\<lambda>link. \<Union>e\<in>set (targets_of (rs_objects st) (rs_relations st) link ''links_evidence'' ''evidence'').
      \<Union>p\<in>set (targets_of (rs_objects st) (rs_relations st) e ''derived_from'' ''passage'').
      source_link_of (rs_project st) cid link e p `
        set (targets_of (rs_objects st) (rs_relations st) p ''located_in'' ''document_version'')"
  have pick: "set (case m of None \<Rightarrow> []
      | Some link \<Rightarrow>
          if co_kind link \<noteq> ''evidence_link'' then []
          else concat (map (\<lambda>e. concat (map (\<lambda>p. map (\<lambda>d. source_link_of (rs_project st) cid link e p d)
                 (targets_of (rs_objects st) (rs_relations st) p ''located_in'' ''document_version''))
               (targets_of (rs_objects st) (rs_relations st) e ''derived_from'' ''passage'')))
             (targets_of (rs_objects st) (rs_relations st) link ''links_evidence'' ''evidence'')))
    = (case m of None \<Rightarrow> {} | Some link \<Rightarrow> if co_kind link \<noteq> ''evidence_link'' then {} else ?link link)" for m
    by (cases m) simp_all
  have "set (links_of_claim st cid) = (\<Union>lid\<in>link_refs (set (rs_relations st)) claim.
      case resolve_object (rs_objects st) lid of None \<Rightarrow> {}
      | Some link \<Rightarrow> if co_kind link \<noteq> ''evidence_link'' then {} else ?link link)"
    unfolding links_of_claim_def Some option.case set_concat set_map report_links_set [OF assms] image_image pick ..
  moreover have "sl \<in> (case m of None \<Rightarrow> {} | Some link \<Rightarrow> if co_kind link \<noteq> ''evidence_link'' then {} else ?link link)
      \<longleftrightarrow> (\<exists>link. m = Some link \<and> co_kind link = ''evidence_link'' \<and> sl \<in> ?link link)" for m
    by (cases m) simp_all
  ultimately have "sl \<in> set (links_of_claim st cid) \<longleftrightarrow>
      (\<exists>lid\<in>link_refs (set (rs_relations st)) claim. \<exists>link. resolve_object (rs_objects st) lid = Some link
         \<and> co_kind link = ''evidence_link'' \<and> sl \<in> ?link link)"
    by (simp only: UN_iff)
  then show ?thesis
    using resolve_object_Some [of "rs_objects st"]
    unfolding Some UN_iff image_iff Bex_def targets_of_set [OF assms(2)] evidence_chain_def option.inject by blast
qed (simp add: links_of_claim_def)

lemma expected_links_set: "set (expected_source_links st cids) = (\<Union>cid\<in>set cids. set (links_of_claim st cid))"
  by (simp add: expected_source_links_def)

lemma accepted_report:
  assumes "validate_report_projection P rp st = Inr []"
  shows "rp_project rp = rs_project st" "rp_state_hash rp = rs_hash st"
    "\<forall>cid\<in>set (rp_claims rp). report_claim_issues st cid = []"
    "set (rp_evidence rp) = sl_evidence ` set (expected_source_links st (rp_claims rp))"
    "canonical_sha256 P (of_json (JList (rp_links rp)))
       = canonical_sha256 P (of_json (JList (map link_json (expected_source_links st (rp_claims rp)))))"
  using assms by (auto simp: validate_report_projection_def Let_def result_simps)

text \<open>
  A grounded report: its claims are final claims of the state, its evidence identifiers are those
  its claims' chains end in, and the evidence of every such chain is verified for the document
  version of the chain.
\<close>

definition report_grounded :: "research_state \<Rightarrow> report_projection \<Rightarrow> bool" where
  "report_grounded st rp \<longleftrightarrow> (\<forall>cid\<in>set (rp_claims rp). \<exists>claim. map_of (rs_latest st) cid = Some claim \<and> co_kind claim = ''claim'' \<and> is_final_claim claim)
     \<and> (\<forall>eid. eid \<in> set (rp_evidence rp) \<longleftrightarrow> (\<exists>cid\<in>set (rp_claims rp). \<exists>claim link e p d.
         map_of (rs_latest st) cid = Some claim \<and> evidence_chain (rs_objects st) (rs_relations st) claim link e p d
         \<and> co_stable e = eid))
     \<and> (\<forall>cid\<in>set (rp_claims rp). \<forall>claim link e p d. map_of (rs_latest st) cid = Some claim \<longrightarrow>
         evidence_chain (rs_objects st) (rs_relations st) claim link e p d \<longrightarrow>
         is_final_evidence e \<and> payload_get e ''verified_source_version_id'' = JStr (co_version_id d))"

lemma graph_report_grounded:
  assumes "graph_ok P project (rs_objects st) (rs_relations st)" "validate_report_projection P rp st = Inr []"
  shows "report_grounded st rp"
proof -
  from assms(1) have ends: "\<forall>rel\<in>set (rs_relations st). endpoints_exist (rs_objects st) rel"
    and inj: "inj_on co_version_id (set (rs_objects st))"
    using chains_inj(1) [of "rs_objects st"] by (simp_all add: graph_ok_def)
  note rp = accepted_report [OF assms(2)]
  have claim: "\<exists>claim. map_of (rs_latest st) cid = Some claim \<and> is_final_claim claim
      \<and> claim_grounded (rs_objects st) (set (rs_relations st)) claim" if "cid \<in> set (rp_claims rp)" for cid
    using rp(3) that by (fastforce simp: report_claim_issues_def trace_meaning split: option.splits)
  have "eid \<in> set (rp_evidence rp) \<longleftrightarrow> (\<exists>cid\<in>set (rp_claims rp). \<exists>claim link e p d.
         map_of (rs_latest st) cid = Some claim \<and> evidence_chain (rs_objects st) (rs_relations st) claim link e p d
         \<and> co_stable e = eid)" for eid
  proof
    assume "eid \<in> set (rp_evidence rp)"
    then obtain cid sl where sl: "cid \<in> set (rp_claims rp)" "sl \<in> set (links_of_claim st cid)" "eid = sl_evidence sl"
      using rp(4) by (auto simp: expected_links_set)
    then obtain claim link e p d where chain: "map_of (rs_latest st) cid = Some claim"
        "evidence_chain (rs_objects st) (rs_relations st) claim link e p d"
        "sl = source_link_of (rs_project st) cid link e p d"
      using links_of_claim_set [OF ends inj] by blast
    have "co_stable e = eid" using sl(3) chain(3) by (simp add: source_link_of_def)
    then show "\<exists>cid\<in>set (rp_claims rp). \<exists>claim link e p d. map_of (rs_latest st) cid = Some claim
        \<and> evidence_chain (rs_objects st) (rs_relations st) claim link e p d \<and> co_stable e = eid"
      using sl(1) chain(1,2) by blast
  next
    assume "\<exists>cid\<in>set (rp_claims rp). \<exists>claim link e p d. map_of (rs_latest st) cid = Some claim
        \<and> evidence_chain (rs_objects st) (rs_relations st) claim link e p d \<and> co_stable e = eid"
    then obtain cid claim link e p d where c: "cid \<in> set (rp_claims rp)" "map_of (rs_latest st) cid = Some claim"
        "evidence_chain (rs_objects st) (rs_relations st) claim link e p d" "co_stable e = eid"
      by blast
    from c(2,3) have "source_link_of (rs_project st) cid link e p d \<in> set (links_of_claim st cid)"
      unfolding links_of_claim_set [OF ends inj] by (intro exI conjI) (assumption, assumption, rule refl)
    then have "source_link_of (rs_project st) cid link e p d \<in> set (expected_source_links st (rp_claims rp))"
      unfolding expected_links_set using c(1) by (rule UN_I [rotated])
    then have "sl_evidence (source_link_of (rs_project st) cid link e p d)
        \<in> sl_evidence ` set (expected_source_links st (rp_claims rp))" by (rule imageI)
    then show "eid \<in> set (rp_evidence rp)"
      using c(4) unfolding rp(4) by (simp only: source_link_of_def source_link.select_convs)
  qed
  moreover have "\<forall>cid\<in>set (rp_claims rp). \<exists>claim. map_of (rs_latest st) cid = Some claim \<and> co_kind claim = ''claim''
      \<and> is_final_claim claim"
    using claim by (auto simp: claim_grounded_def)
  moreover have "is_final_evidence e \<and> payload_get e ''verified_source_version_id'' = JStr (co_version_id d)"
    if "cid \<in> set (rp_claims rp)" "map_of (rs_latest st) cid = Some claim"
      "evidence_chain (rs_objects st) (rs_relations st) claim link e p d" for cid claim link e p d
    using claim [OF that(1)] that(2) grounded_chain_final [OF _ that(3) _ inj] by auto
  ultimately show ?thesis unfolding report_grounded_def by blast
qed

text \<open>
  C17. An accepted report of a rebuilt state is grounded: its claims are final claims of the state;
  an evidence identifier is in the report exactly when some chain of one of its claims ends in that
  evidence; and the evidence of every such chain is verified for the document version of the chain.
\<close>

theorem accepted_report_is_grounded:
  assumes "rebuild_research_state P xs rels project run = Inr st" "validate_report_projection P rp st = Inr []"
  shows "(\<forall>cid\<in>set (rp_claims rp). \<exists>claim. map_of (rs_latest st) cid = Some claim \<and> co_kind claim = ''claim'' \<and> is_final_claim claim)
    \<and> (\<forall>eid. eid \<in> set (rp_evidence rp) \<longleftrightarrow> (\<exists>cid\<in>set (rp_claims rp). \<exists>claim link e p d.
         map_of (rs_latest st) cid = Some claim \<and> evidence_chain (rs_objects st) (rs_relations st) claim link e p d
         \<and> co_stable e = eid))
    \<and> (\<forall>cid\<in>set (rp_claims rp). \<forall>claim link e p d. map_of (rs_latest st) cid = Some claim \<longrightarrow>
         evidence_chain (rs_objects st) (rs_relations st) claim link e p d \<longrightarrow>
         is_final_evidence e \<and> payload_get e ''verified_source_version_id'' = JStr (co_version_id d))"
  using graph_report_grounded [OF rebuilt_ok(1) [OF assms(1)] assms(2)] unfolding report_grounded_def .

end
