(* ===== verification/Completion_Correct.thy ===== *)
theory Completion_Correct
  imports Completion_Laws Report_Correct Run_Correct
begin

text \<open>
  What completing a run establishes: the report it is completed on is grounded in the evidence of
  the bound research state, and every review has passed; the completing transition is the one of
  the run machine; and a passing gate suffices.
\<close>

section \<open>What completion establishes\<close>

lemma completed_gate:
  assumes "transition_to_completed P s (Some c) submitted = Inr t"
  obtains g where "evaluate_completion_gate P c = Inr g" "gr_passed g"
  using assms by (auto simp: completed_meaning evaluated_result result_checks_empty)

lemma passed_gate_context:
  assumes "evaluate_completion_gate P c = Inr g" "gr_passed g"
  shows "rs_project (ci_state c) = ci_project c" "rs_hash (ci_state c) = ci_state_hash c"
    "charter_digest P (ci_charter c) = Inr (ci_charter_hash c)"
    "current_state_hash (ci_run_state c) = Some (ci_state_hash c)"
    "graph_ok P (ci_project c) (rs_objects (ci_state c)) (rs_relations (ci_state c))"
proof -
  obtain sat where v: "validate_completion_input P c = Inr (True, [], sat)"
    using assms gate_meaning [of P c g] by auto
  from valid_input_parts(1) [OF v] obtain charter where "charter_digest P (ci_charter c) = Inr charter"
      "context_issues c charter = []" by blast
  then show "rs_project (ci_state c) = ci_project c" "rs_hash (ci_state c) = ci_state_hash c"
      "charter_digest P (ci_charter c) = Inr (ci_charter_hash c)" "current_state_hash (ci_run_state c) = Some (ci_state_hash c)"
    by (auto simp: context_issues_def Let_def)
  then show "graph_ok P (ci_project c) (rs_objects (ci_state c)) (rs_relations (ci_state c))"
    using valid_input_parts(2) [OF v] by (auto simp: recompute_clean rebuild_meaning)
qed

lemma completed_report_grounded:
  assumes "transition_to_completed P s (Some c) submitted = Inr t"
  shows "report_grounded (ci_state c) (ci_report c)"
proof -
  obtain g where g: "evaluate_completion_gate P c = Inr g" "gr_passed g" using completed_gate [OF assms] .
  then have "validate_report_projection P (ci_report c) (ci_state c) = Inr []" using gate_meaning [of P c g] by auto
  then show ?thesis by (rule graph_report_grounded [OF passed_gate_context(5) [OF g]])
qed

text \<open>
  C4. A run is completed only on a grounded report: the new state is \<open>COMPLETED\<close> and bound to the
  research state of the input, which is the current one of the run; that state's objects and
  relations pass the rebuild and give its hash; and every claim of the final report is final and
  rests on evidence verified for the documents its chains end in.
\<close>

theorem completed_run_is_grounded:
  assumes "transition_to_completed P s (Some c) submitted = Inr t"
  shows "status s = Running \<and> status (new_state t) = Completed
    \<and> current_state_hash s = Some (rs_hash (ci_state c))
    \<and> completion_state_hash (new_state t) = Some (rs_hash (ci_state c))
    \<and> (\<exists>st. rebuild_research_state P (rs_objects (ci_state c)) (rs_relations (ci_state c)) (rs_project (ci_state c))
          (rs_run (ci_state c)) = Inr st \<and> rs_hash st = rs_hash (ci_state c))
    \<and> rp_state_hash (ci_report c) = rs_hash (ci_state c)
    \<and> report_grounded (ci_state c) (ci_report c)"
proof -
  obtain g where g: "evaluate_completion_gate P c = Inr g" "gr_passed g" using completed_gate [OF assms] .
  then obtain sat where v: "validate_completion_input P c = Inr (True, [], sat)"
      and report: "validate_report_projection P (ci_report c) (ci_state c) = Inr []"
    using gate_meaning [of P c g] by auto
  have "status s = Running \<and> status (new_state t) = Completed \<and> current_state_hash s = Some (rs_hash (ci_state c))
      \<and> completion_state_hash (new_state t) = Some (rs_hash (ci_state c))"
    using assms passed_gate_context(2) [OF g] by (auto simp: completed_meaning evaluated_result completed_fields_def fresh_input_def)
  then show ?thesis
    using valid_input_parts(2) [OF v] accepted_report(2) [OF report] completed_report_grounded [OF assms]
    by (simp add: recompute_clean)
qed

text \<open>
  C7. A passed gate has been through every review. The cold review passed without blocking
  findings, by the model of the run, on the packet of the final report of this state, which
  withholds exactly the working context; an attack names a claim or hypothesis of the state by
  exact version; a discussion of this state holds two distinct isolated roles, a cross-examination
  and passed audits; the rehydration was accepted for this state; the charter hashes to the
  charter hash; and every saturation criterion is met.
\<close>

theorem passed_gate_was_reviewed:
  assumes "evaluate_completion_gate P c = Inr g" "gr_passed g"
  shows "cr_passed (ci_review c) \<and> cr_blocking (ci_review c) = [] \<and> list_all (\<lambda>p. audit_ok (snd p)) (result_audits (ci_review c))
    \<and> cr_packet_id (ci_review c) = cw_id (ci_packet c) \<and> cr_packet_hash (ci_review c) = cw_hash (ci_packet c)
    \<and> cr_report (ci_review c) = rp_id (ci_report c) \<and> cr_state_hash (ci_review c) = ci_state_hash c
    \<and> cr_model (ci_review c) = model_identity (ci_run_state c)
    \<and> set (cw_excluded (ci_packet c)) = set required_exclusions
    \<and> (\<exists>a\<in>set (ci_attacks c). \<exists>x\<in>set (rs_objects (ci_state c)). co_version_id x = ak_target_version a
         \<and> co_stable x = ak_target a \<and> co_kind x \<in> {''claim'', ''hypothesis''})
    \<and> (\<exists>d\<in>set (ci_sessions c). validate_discussion_session d (Some (ci_state c)) = [])
    \<and> ro_accepted (ci_rehydration c) \<and> (\<exists>st. ro_state (ci_rehydration c) = Some st \<and> rs_hash st = ci_state_hash c)
    \<and> charter_digest P (ci_charter c) = Inr (ci_charter_hash c)
    \<and> (\<exists>sat. evaluate_saturation P (ci_ledger c) (ci_claims c) (ci_evidence c) 2 2 (ci_counter c) = Inr sat
         \<and> sat_strategy sat \<and> sat_evidence sat \<and> sat_counter sat \<and> sat_claim sat)"
proof -
  obtain sat where v: "validate_completion_input P c = Inr (True, [], sat)" and sat: "saturated sat"
      and parts: "ci_attacks c \<noteq> []" "ro_accepted (ci_rehydration c)" "cr_passed (ci_review c)" "cr_blocking (ci_review c) = []"
    using assms gate_meaning [of P c g] by auto
  note f = valid_input_parts [OF v]
  have review: "list_all (\<lambda>p. audit_ok (snd p)) (result_audits (ci_review c)) \<and> result_binding_issues (ci_review c) (ci_packet c) (ci_state c) = []
      \<and> cr_model (ci_review c) = ci_model c"
    using f(11) by (auto simp: validate_cold_review_result_def result_simps binds_def list_all_iff)
  have packet: "set (cw_excluded (ci_packet c)) = set required_exclusions"
    using assms gate_meaning [of P c g] by (auto simp: validate_cold_review_packet_def result_simps Let_def)
  have model: "ci_model c = model_identity (ci_run_state c)" using f(4) unfolding binding_issues_def Let_def append_is_Nil_conv check_eq_Nil by blast
  obtain a as where a: "ci_attacks c = a # as" using parts(1) by (cases "ci_attacks c") auto
  then have "\<exists>path. attack_state_issues (ci_state c) path a = []"
    using f(7) by (auto simp: attack_records_issues_def indexed_def attack_issues_def)
  then obtain x where x: "by_version (rs_objects (ci_state c)) (ak_target_version a) = Some x" "co_stable x = ak_target a"
      "co_kind x \<in> {''claim'', ''hypothesis''}"
    by (auto simp: attack_state_issues_def Let_def split: option.splits if_splits)
  have "\<exists>d\<in>set (ci_sessions c). validate_discussion_session d (Some (ci_state c)) = []"
    using f(8,9) by (cases "ci_sessions c") auto
  moreover have "\<exists>a\<in>set (ci_attacks c). \<exists>x\<in>set (rs_objects (ci_state c)). co_version_id x = ak_target_version a
         \<and> co_stable x = ak_target a \<and> co_kind x \<in> {''claim'', ''hypothesis''}"
    using a x by_version_Some [OF x(1)] by auto
  moreover have "\<exists>st. ro_state (ci_rehydration c) = Some st \<and> rs_hash st = ci_state_hash c"
    using f(10) by (auto simp: rehydration_ok_def split: option.splits)
  ultimately show ?thesis
    using parts review packet model f(12,16) sat passed_gate_context(2,3) [OF assms]
    unfolding saturated_def result_binding_issues_def by simp
qed

section \<open>The completing transition\<close>

text \<open>The hashes in the result of an evaluation are digests.\<close>

lemma digest_not_empty: "digest_ok P \<Longrightarrow> canonical_sha256 P v = Inr h \<Longrightarrow> h \<noteq> []"
  unfolding canonical_sha256_def digest_ok_def is_hex64_def andthen_eq_Inr
  by (metis Inr_inject length_0_conv zero_neq_numeral)

lemma passed_result:
  assumes "digest_ok P" "evaluate_completion_gate P c = Inr g" "gr_passed g"
    and "current_state_hash s = Some (ci_state_hash c)"
  shows "\<exists>r. evaluate_completion_result P c = Inr r \<and> result_checks r unbound (Some s) = []
    \<and> is_stable_id (JStr (cx_id r)) (Some ''completion_result'') \<and> cx_state_hash r = ci_state_hash c"
proof -
  obtain sat h where v: "validate_completion_input P c = Inr (True, [], sat)"
      and h: "canonical_sha256 P (of_json (gate_payload P c (gate_checks c True [] [] sat) [])) = Inr h"
      and g: "gr_hash g = h" "gr_input_hash g = ci_hash c" "gr_passed g"
    using assms(2,3) gate_meaning [of P c g] by auto
  have hashes: "h \<noteq> []" "ci_hash c \<noteq> []" "parse_time (ci_evaluated c) \<noteq> None"
    using digest_not_empty [OF assms(1)] h valid_input_parts(5,6) [OF v] by (auto simp: completion_input_hash_def)
  let ?j = "JObj
     [(''run_id'', JStr (ci_run c)), (''charter_hash'', JStr (ci_charter_hash c)), (''state_hash'', JStr (ci_state_hash c)),
      (''gate_hash'', JStr (gr_hash g)), (''gate_input_hash'', JStr (gr_input_hash g)),
      (''evaluated_at'', JStr (stamp_text P (ci_evaluated c)))]"
  have "is_kind (kind_key ''completion_result'')" by code_simp
  moreover have "wf_json ?j" by simp
  ultimately obtain i where "make_event_id P (VStr ''completion_result'') (VStr (ci_project c)) (of_json ?j) = Inr i"
      "is_stable_id (JStr i) (Some ''completion_result'')"
    using make_event_id_stable [OF assms(1), of "''completion_result''" ?j "ci_project c"] by blast
  then show ?thesis
    using assms(2,4) hashes g by (auto simp: evaluated_result result_checks_empty)
qed

lemma completed_valid:
  assumes "validate_run_state P s = []" "status s = Running" "current_state_hash s = Some (cx_state_hash r)"
    and "is_stable_id (JStr (cx_id r)) (Some ''completion_result'')"
    and "case checkpoint of None \<Rightarrow> True | Some i \<Rightarrow> current_checkpoint_id s = Some i"
  shows "validate_run_state P ((completed_fields s r checkpoint)\<lparr>status := Completed, state_version := state_version s + 1\<rparr>) = []"
  using assms by (auto simp: validate_run_state_def completed_fields_def required_text_def stable_of_kind_def required_mapping_def
      split: option.splits)

text \<open>
  C18. A passing gate suffices: a valid running run that is the run state of an input whose gate
  passes is completed by it, with the result the evaluation gives.
\<close>

theorem passing_gate_completes:
  assumes "digest_ok P" "validate_run_state P s = []" "status s = Running" "ci_run_state c = s"
    and "evaluate_completion_gate P c = Inr g" "gr_passed g"
  shows "\<exists>t. transition_to_completed P s (Some c) None = Inr t \<and> status (new_state t) = Completed
    \<and> state_version (new_state t) = state_version s + 1"
proof -
  note ctx = passed_gate_context [OF assms(5,6)]
  have cur: "current_state_hash s = Some (ci_state_hash c)" using ctx(4) assms(4) by simp
  obtain r where r: "evaluate_completion_result P c = Inr r" "result_checks r unbound (Some s) = []"
      "is_stable_id (JStr (cx_id r)) (Some ''completion_result'')" "cx_state_hash r = ci_state_hash c"
    using passed_result [OF assms(1,5,6) cur] by blast
  obtain sat where "validate_completion_input P c = Inr (True, [], sat)"
    using assms(5,6) gate_meaning [of P c g] by auto
  from valid_input_parts(3) [OF this]
  have "case ci_checkpoint c of None \<Rightarrow> True | Some i \<Rightarrow> current_checkpoint_id s = Some i"
    unfolding checkpoint_issues_def check_eq_Nil assms(4) .
  then have valid: "validate_run_state P
      ((completed_fields s r (ci_checkpoint c))\<lparr>status := Completed, state_version := state_version s + 1\<rparr>) = []"
    using completed_valid [OF assms(2,3)] cur r by simp
  have "fresh_input s c" using assms(4) cur ctx(2) by (simp add: fresh_input_def)
  then have "transition_to_completed P s (Some c) None = Inr \<lparr>new_state =
      (completed_fields s r (ci_checkpoint c))\<lparr>status := Completed, state_version := state_version s + 1\<rparr>, new_consumption = None\<rparr>"
    using assms(2,3) r valid by (simp add: completed_meaning same_result_def)
  then show ?thesis by (simp add: completed_fields_def)
qed

text \<open>
  C31. The completing transition does not compare the run with the charter or the model of the
  input: a run with any other charter hash and model completes on the same input, with the same
  result. Only the state hash is compared.
\<close>

theorem completion_ignores_charter_of_run:
  assumes "transition_to_completed P s (Some c) submitted = Inr t" "nonblank charter" "nonblank model"
  shows "\<exists>t'. transition_to_completed P (s\<lparr>charter_hash := charter, model_identity := model\<rparr>) (Some c) submitted = Inr t'
    \<and> status (new_state t') = Completed \<and> charter_hash (new_state t') = charter
    \<and> completion_result_id (new_state t') = completion_result_id (new_state t)"
proof -
  have valid: "validate_run_state P (u\<lparr>charter_hash := charter, model_identity := model\<rparr>) = []"
    if "validate_run_state P u = []" for u
  proof -
    have "nonblank (charter_hash u)" "nonblank (model_identity u)"
      using that by (simp_all add: validate_run_state_def required_text_def)
    then have "validate_run_state P (u\<lparr>charter_hash := charter, model_identity := model\<rparr>) = validate_run_state P u"
      using assms(2,3) by (simp add: validate_run_state_def required_text_def check_def cong: option.case_cong)
    then show ?thesis using that by simp
  qed
  obtain r where r: "validate_run_state P s = []" "status s = Running" "evaluate_completion_result P c = Inr r" "fresh_input s c"
      "same_result P submitted r" "result_checks r unbound (Some s) = []" "validate_run_state P (new_state t) = []"
      "new_state t = (completed_fields s r (ci_checkpoint c))\<lparr>status := Completed, state_version := state_version s + 1\<rparr>"
    using assms(1) unfolding completed_meaning by blast
  let ?t = "t\<lparr>new_state := (new_state t)\<lparr>charter_hash := charter, model_identity := model\<rparr>\<rparr>"
  have fields: "completed_fields (s\<lparr>charter_hash := charter, model_identity := model\<rparr>) r (ci_checkpoint c)
      = (completed_fields s r (ci_checkpoint c))\<lparr>charter_hash := charter, model_identity := model\<rparr>"
    by (cases "ci_checkpoint c") (simp_all add: completed_fields_def)
  have "transition_to_completed P (s\<lparr>charter_hash := charter, model_identity := model\<rparr>) (Some c) submitted = Inr ?t"
    unfolding completed_meaning using valid [OF r(1)] valid [OF r(7)] r(2-6) assms(1)
    by (intro exI [of _ r]) (simp add: fresh_input_def result_checks_empty completed_meaning r(8) fields)
  then show ?thesis by (intro exI [of _ ?t]) (simp add: r(8) completed_fields_def)
qed

end
