(* ===== verification/Completion_Json.thy ===== *)
theory Completion_Json
  imports Completion_Laws Contract_Correct
begin

text \<open>
  The JSON projections of the parts of a completion input have distinct keys whatever their texts
  are, so a typed input has a hash as soon as the JSON values it carries are well formed.
\<close>

lemma opt_json_wf [simp]: "wf_json (opt_json m)"
  by (simp add: opt_json_def split: option.splits)

lemma strings_json_wf [simp]: "wf_json (strings_json ss)"
  by (simp add: strings_json_def list_all_iff)

lemma opt_stamp_wf [simp]: "wf_json (opt_stamp P m)"
  by (simp add: opt_stamp_def split: option.splits)

lemma wf_map [simp]: "list_all wf_json (map f xs) \<longleftrightarrow> (\<forall>x\<in>set xs. wf_json (f x))"
  by (auto simp: list_all_iff)

lemma discussion_json_wf:
  "wf_json (position_json p)" "wf_json (packet_json k)" "wf_json (examination_json x)" "wf_json (correction_json y)"
  "wf_json (audit_json a)" "wf_json (minority_json m)" "wf_json (adjudication_json b)"
proof -
  have "wf_json (opt_bool_json v)" for v by (simp add: opt_bool_json_def split: option.splits)
  then show "wf_json (audit_json a)" by (simp add: audit_json_def)
qed (simp_all add: position_json_def packet_json_def examination_json_def correction_json_def minority_json_def adjudication_json_def)

lemma session_json_wf [simp]: "wf_json (session_json d)"
  by (simp add: session_json_def discussion_json_wf split: option.splits)

lemma snapshot_json_wf [simp]:
  "wf_json (claim_snapshot_json s)" "wf_json (evidence_snapshot_json e)" "wf_json (attack_json a)"
  by (simp_all add: claim_snapshot_json_def evidence_snapshot_json_def attack_json_def)

lemma formal_json_wf [simp]: "wf_json (formal_json f) \<longleftrightarrow> wf_json (JList (fe_links f))"
  by (simp add: formal_json_def)

lemma packet_json_wf [simp]: "wf_json (cold_packet_json k) \<longleftrightarrow> wf_json (JList (cw_links k))"
  "wf_json (packet_payload k) \<longleftrightarrow> wf_json (JList (cw_links k))"
  by (simp_all add: cold_packet_json_def packet_payload_def)

lemma review_json_wf [simp]:
  "wf_json (cold_result_json P r) \<longleftrightarrow>
     wf_json (JObj (cr_claim_audit r)) \<and> wf_json (JObj (cr_evidence_audit r)) \<and> wf_json (JObj (cr_citation_audit r))"
  by (simp add: cold_result_json_def)

lemma report_json_wf [simp]: "wf_json (report_json rp) \<longleftrightarrow> wf_json (JList (rp_links rp))"
  by (simp add: report_json_def)

lemma strategy_json_wf [simp]: "wf_json (strategy_json s) \<longleftrightarrow> wf_json (JObj (st_filters s))"
  by (simp add: strategy_json_def)

lemma ledger_json_wf [simp]: "wf_json (ledger_json l) \<longleftrightarrow> (\<forall>s\<in>set (cl_strategies l). wf_json (JObj (st_filters s)))"
  by (simp add: ledger_json_def list_all_iff)

lemma run_json_wf [simp]: "wf_json (run_state_json P s) \<longleftrightarrow> wf_json (JObj (budget s))"
  by (simp add: run_state_json_def)

lemma charter_json_wf [simp]: "wf_json (charter_json ch) \<longleftrightarrow>
    wf_json (ch_scope ch) \<and> wf_json (JObj (ch_budget ch)) \<and> wf_json (JObj (ch_policy ch)) \<and> wf_json (JObj (ch_gates ch))"
  by (auto simp: charter_json_def)

definition state_wf :: "research_state \<Rightarrow> bool" where
  "state_wf st \<longleftrightarrow> distinct (map fst (rs_latest st))
     \<and> (\<forall>x\<in>set (rs_objects st) \<union> snd ` set (rs_latest st). wf_json (JObj (co_payload x)))
     \<and> (\<forall>r\<in>set (rs_relations st). wf_json (JObj (cr_metadata r)))"

lemma research_json_wf:
  assumes "state_wf st"
  shows "wf_json (research_state_json st)"
proof -
  have "wf_json (object_json x) = wf_json (JObj (co_payload x))" for x by (simp add: object_json_def)
  moreover have "wf_json (relation_json r) = wf_json (JObj (cr_metadata r))" for r by (simp add: relation_json_def)
  moreover have "map fst (map (\<lambda>(k, x). (k, object_json x)) (rs_latest st)) = map fst (rs_latest st)" by auto
  ultimately show ?thesis
    using assms by (auto simp: research_state_json_def state_wf_def list_all_iff comp_def case_prod_beta)
qed

lemma rehydration_json_wf: "(\<forall>st. ro_state r = Some st \<longrightarrow> state_wf st) \<Longrightarrow> list_all wf_json (ro_issues r) \<Longrightarrow> wf_json (rehydration_json r)"
  by (auto simp: rehydration_json_def research_json_wf split: option.splits)

lemma completion_input_json_wf:
  assumes "wf_json (charter_json (ci_charter c))" "wf_json (run_state_json P (ci_run_state c))" "state_wf (ci_state c)"
    and "wf_json (ledger_json (ci_ledger c))" "wf_json (rehydration_json (ci_rehydration c))"
    and "list_all wf_json (cw_links (ci_packet c))" "wf_json (cold_result_json P (ci_review c))"
    and "list_all wf_json (rp_links (ci_report c))" "list_all wf_json (fe_links (ci_formal c))"
    and "wf_json (JObj (ci_budget c))" "wf_json (JObj (ci_policy c))"
  shows "wf_json (completion_input_json P c)"
proof -
  note state = research_json_wf [OF assms(3)]
  have "list_all (\<lambda>p. wf_json (snd p)) kvs" if "completion_input_json P c = JObj kvs" for kvs
  proof -
    have "kvs = (case completion_input_json P c of JObj kvs \<Rightarrow> kvs | _ \<Rightarrow> [])" by (simp add: that)
    then show ?thesis
      using assms(1,2,4-11) state unfolding completion_input_json_def json.case
      by (simp del: charter_json_wf run_json_wf ledger_json_wf review_json_wf)
  qed
  moreover have "distinct (map fst kvs)" if "completion_input_json P c = JObj kvs" for kvs
    using that unfolding completion_input_json_def json.inject by (elim subst) simp
  ultimately show ?thesis unfolding completion_input_json_def by simp
qed

lemma gate_payload_wf: "distinct (map fst checks) \<Longrightarrow> wf_json (gate_payload P c checks reasons)"
  by (auto simp: gate_payload_def checks_json_def list_all_iff comp_def case_prod_beta)

end
