(* ===== verification/Graph_Samples.thy ===== *)
theory Graph_Samples
  imports Report_Correct Checkpoint_Correct Contract_Correct
begin

text \<open>
  A small research graph on which the properties of the rebuilt state and of the report hold: a
  final claim, its evidence link, verified evidence, the passage, the document version and the
  verification record. The digest of the examples is constant.
\<close>

definition graph_prims :: prims where
  "graph_prims = \<lparr>sha256 = (\<lambda>_. replicate 64 (CHR ''0'')), float_repr = (\<lambda>_. []),
     iso_stamp = (\<lambda>_. []), isoformat = (\<lambda>_. []), py_repr = (\<lambda>_. [])\<rparr>"

definition sample_digits :: string where
  "sample_digits = replicate 48 (CHR ''0'')"

definition sample_version :: "string \<Rightarrow> string" where
  "sample_version kind = ''mr1:'' @ kind @ ''-version:'' @ sample_digits"

definition sample_object :: "string \<Rightarrow> (string \<times> json) list \<Rightarrow> canonical_object" where
  "sample_object kind payload =
     \<lparr>co_stable = ''mr1:'' @ kind @ '':a'', co_kind = kind, co_project = ''p'', co_version = 1,
      co_version_id = sample_version kind, co_payload = payload, co_supersedes = None,
      co_schema = ''max-research-canonical-object/v1''\<rparr>"

definition sample_relation :: "string \<Rightarrow> canonical_object \<Rightarrow> canonical_object \<Rightarrow> canonical_relation" where
  "sample_relation name x y =
     \<lparr>cr_source = co_stable x, cr_target = co_stable y, cr_relation = name, cr_project = ''p'',
      cr_id = ''mr1:relation:'' @ sample_digits, cr_source_version = Some (co_version_id x),
      cr_target_version = Some (co_version_id y), cr_metadata = [], cr_schema = ''max-research-relation/v1''\<rparr>"

definition sample_claim :: canonical_object where
  "sample_claim = sample_object ''claim'' [(''status'', JStr ''final'')]"

definition sample_link :: canonical_object where
  "sample_link = sample_object ''evidence_link'' []"

definition sample_document :: canonical_object where
  "sample_document = sample_object ''document_version'' []"

definition sample_record :: canonical_object where
  "sample_record = sample_object ''verification_record'' []"

definition sample_evidence :: canonical_object where
  "sample_evidence = sample_object ''evidence''
     [(''status'', JStr ''verified''), (''verification_record_id'', JStr (co_stable sample_record)),
      (''verified_source_version_id'', JStr (co_version_id sample_document))]"

definition sample_passage :: canonical_object where
  "sample_passage = sample_object ''passage'' []"

definition sample_objects :: "canonical_object list" where
  "sample_objects = [sample_claim, sample_link, sample_evidence, sample_passage, sample_document, sample_record]"

definition sample_relations :: "canonical_relation list" where
  "sample_relations =
     [sample_relation ''has_evidence_link'' sample_claim sample_link,
      sample_relation ''links_evidence'' sample_link sample_evidence,
      sample_relation ''derived_from'' sample_evidence sample_passage,
      sample_relation ''located_in'' sample_passage sample_document]"

section \<open>The sample graph is valid\<close>

definition sample_kinds :: "string list" where
  "sample_kinds = [''claim'', ''evidence_link'', ''evidence'', ''passage'', ''document_version'', ''verification_record'']"

lemma sample_kinds_ok:
  "list_all (\<lambda>k. k \<noteq> ''event'' \<and> kind_key k = k \<and> is_kind k \<and> kind_key (k @ ''-version'') = k @ ''-version'' \<and> is_kind (k @ ''-version''))
     sample_kinds"
  by code_simp

lemma sample_opaque: "is_opaque (sample_digits)" "is_opaque ''a''"
  by code_simp+

lemma rendered_stable:
  "kind_key k = k \<Longrightarrow> is_kind k \<Longrightarrow> is_opaque u \<Longrightarrow> is_stable_id (JStr (''mr1:'' @ k @ CHR '':'' # u)) (Some k)"
  using parse_rendered [of k u] by (simp add: is_stable_id_def)

lemma sample_ids:
  assumes "k \<in> set sample_kinds"
  shows "is_stable_id (JStr (''mr1:'' @ k @ '':a'')) (Some k)"
    "is_stable_id (JStr (sample_version k)) (Some (k @ ''-version''))"
  using assms sample_kinds_ok sample_opaque rendered_stable [of k "''a''"]
    rendered_stable [of "k @ ''-version''" "sample_digits"]
  by (auto simp: list_all_iff sample_version_def)

text \<open>
  The examples use a digest through the first 48 digits of an identity record's, which are zeros
  (but for events, whose identifiers have to differ).
\<close>

definition short_digest :: "prims \<Rightarrow> bool" where
  "short_digest P \<longleftrightarrow> (\<forall>k j. is_kind k \<and> k \<noteq> ''event'' \<longrightarrow> take 48 (hash_json P (identity_record k j)) = sample_digits)"

lemma graph_short: "short_digest graph_prims"
  by (simp add: short_digest_def graph_prims_def sample_digits_def hash_json_def)

lemma short_digits:
  "short_digest P \<Longrightarrow> is_kind k \<Longrightarrow> k \<noteq> ''event'' \<Longrightarrow> take 48 (hash_json P (identity_record k j)) = sample_digits"
  by (simp add: short_digest_def)

lemma sample_version_id:
  assumes "short_digest P" "k \<in> set sample_kinds"
  shows "make_version_id P (VStr k) (VStr ''p'') (VStr sid) (VInt 1) = Inr (sample_version k)"
proof -
  have k: "k \<noteq> ''event''" "kind_key k = k" "is_kind k" "kind_key (k @ ''-version'') = k @ ''-version''" "is_kind (k @ ''-version'')"
    using sample_kinds_ok assms(2) by (auto simp: list_all_iff)
  have "semantic_opaque P (VStr k)
      (of_json (JObj [(''project_id'', JStr ''p''), (''stable_id'', JStr sid), (''version'', JInt 1)]))
      = Inr (sample_digits)"
    by (subst semantic_opaque_json) (simp_all add: short_digits [OF assms(1)] k)
  then show ?thesis using k sample_opaque by (simp add: make_version_id_def result_simps sample_version_def)
qed

lemma sample_object_valid:
  assumes "short_digest P" "k \<in> set sample_kinds" "payload_refs ''p'' ''$.payload'' (JObj payload) = []"
  shows "validate_canonical_object P (sample_object k payload) = []"
proof -
  have k: "kind_key k = k" "is_kind k" using sample_kinds_ok assms(2) by (auto simp: list_all_iff)
  have "is_project_id (JStr ''p'')" by code_simp
  then show ?thesis
    using k assms(3) sample_ids [OF assms(2)] sample_version_id [OF assms(1,2)]
    by (simp add: validate_canonical_object_def Let_def sample_object_def expected_version_id_def)
qed

lemma sample_relation_id:
  assumes "short_digest P"
  shows "relation_id_of P (sample_relation name (sample_object k pl) (sample_object k' pl'))
     = Inr (''mr1:relation:'' @ sample_digits)"
proof -
  have k: "kind_key ''relation'' = ''relation''" "is_kind ''relation''" by code_simp+
  have "semantic_opaque P (VStr ''relation'') (of_json (JObj
      [(''project_id'', JStr p), (''source_id'', JStr a), (''target_id'', JStr b), (''relation'', JStr r),
       (''source_version_id'', JStr v), (''target_version_id'', JStr w)])) = Inr (sample_digits)" for p a b r v w
    by (subst semantic_opaque_json) (simp_all add: short_digits [OF assms] k)
  then show ?thesis using k sample_opaque
    by (simp add: relation_id_of_def make_relation_id_def opt_value_def sample_relation_def sample_object_def result_simps)
qed

lemma any_stable_id: "is_stable_id j (Some k) \<Longrightarrow> is_stable_id j None"
  by (auto simp: is_stable_id_def split: option.splits)

lemma sample_relation_valid:
  assumes "short_digest P" "k \<in> set sample_kinds" "k' \<in> set sample_kinds" "k \<noteq> k'" "name \<in> set relation_kinds"
  shows "validate_canonical_relation P (sample_relation name (sample_object k pl) (sample_object k' pl')) = Inr []"
proof -
  have "is_project_id (JStr ''p'')" by code_simp
  then show ?thesis
    using sample_ids [OF assms(2), THEN any_stable_id] sample_ids [OF assms(3), THEN any_stable_id] assms(4,5)
      sample_relation_id [OF assms(1), of name k pl k' pl']
    by (simp add: validate_canonical_relation_def result_simps sample_relation_def sample_object_def opt_json_def)
qed

lemmas sample_defs = sample_claim_def sample_link_def sample_document_def sample_record_def sample_evidence_def
  sample_passage_def

lemma sample_objects_valid:
  assumes "short_digest P"
  shows "\<forall>x\<in>set sample_objects. validate_canonical_object P x = [] \<and> co_project x = ''p''"
proof -
  have "co_project (sample_object k pl) = ''p''" for k pl by (simp add: sample_object_def)
  then show ?thesis
    by (simp add: sample_objects_def sample_defs sample_object_valid [OF assms] sample_kinds_def reference_issues_def)
qed

lemma sample_relations_valid:
  assumes "short_digest P"
  shows "\<forall>rel\<in>set sample_relations. validate_canonical_relation P rel = Inr [] \<and> cr_project rel = ''p''"
proof -
  have "cr_project (sample_relation name x y) = ''p''" for name x y by (simp add: sample_relation_def)
  then show ?thesis
    by (simp add: sample_relations_def sample_defs sample_relation_valid [OF assms] sample_kinds_def relation_kinds_def)
qed

lemma sample_leads: "leads (sample_relation name x y) x name y"
  by (simp add: leads_def sample_relation_def)

lemma sample_endpoints: "\<forall>rel\<in>set sample_relations. endpoints_exist sample_objects rel"
proof -
  have "endpoints_exist sample_objects (sample_relation name x y)" if "x \<in> set sample_objects" "y \<in> set sample_objects" for name x y
    using that sample_leads [of name x y] sample_objects_valid [OF graph_short]
    unfolding endpoints_exist_def by (intro bexI [of _ x] bexI [of _ y]) (auto simp: sample_relation_def)
  then show ?thesis by (simp add: sample_relations_def) (simp add: sample_objects_def)
qed

lemma first_versions_chain:
  assumes "distinct (map co_version_id xs)" "distinct (map co_stable xs)" "\<forall>x\<in>set xs. co_version x = 1"
  shows "version_chains xs"
proof -
  have "version_chain (versions_of xs sid)" for sid
  proof -
    let ?ys = "filter (\<lambda>x. co_stable x = sid) xs"
    have "?ys = [] \<or> (\<exists>x\<in>set xs. ?ys = [x])"
      using assms(2) by (induction xs) (auto simp: filter_empty_conv image_iff)
    then show ?thesis using assms(3) by (auto simp: versions_of_def version_chain_def)
  qed
  then show ?thesis using assms(1) by (simp add: version_chains_def)
qed

lemma sample_chains: "version_chains sample_objects"
proof (rule first_versions_chain)
  show "distinct (map co_version_id sample_objects)" "distinct (map co_stable sample_objects)"
    by (simp_all add: sample_objects_def sample_defs sample_object_def sample_version_def)
  show "\<forall>x\<in>set sample_objects. co_version x = 1"
    by (simp add: sample_objects_def sample_defs sample_object_def)
qed

lemma sample_targets:
  assumes "y \<in> set sample_objects"
  shows "relation_target sample_objects (sample_relation name x y) = Some y"
  using assms leads_target [OF sample_leads, of name x y "{sample_relation name x y}" sample_objects]
    chains_inj(1) [OF sample_chains] by simp

lemma sample_out:
  "out_relations (set sample_relations) sample_claim ''has_evidence_link'' = {sample_relation ''has_evidence_link'' sample_claim sample_link}"
  "out_relations (set sample_relations) sample_link ''links_evidence'' = {sample_relation ''links_evidence'' sample_link sample_evidence}"
  "out_relations (set sample_relations) sample_evidence ''derived_from'' = {sample_relation ''derived_from'' sample_evidence sample_passage}"
  "out_relations (set sample_relations) sample_passage ''located_in'' = {sample_relation ''located_in'' sample_passage sample_document}"
  by (auto simp: out_relations_def sample_relations_def sample_relation_def)

end
