(* ===== verification/Graph_Witness.thy ===== *)
theory Graph_Witness
  imports Graph_Samples
begin

text \<open>
  The properties of the rebuilt state and of the report at the sample graph, and of the checkpoint
  lineage at two checkpoints.
\<close>

section \<open>The sample graph rebuilds\<close>

lemma sample_kind_of: "co_kind (sample_object k payload) = k" "co_payload (sample_object k payload) = payload"
    "co_stable (sample_object k payload) = ''mr1:'' @ k @ '':a''" "co_version_id (sample_object k payload) = sample_version k"
  by (simp_all add: sample_object_def)

lemma sample_statuses:
  "is_final_claim sample_claim" "is_final_evidence sample_evidence" "has_status sample_evidence"
  "status_word sample_evidence \<in> set evidence_statuses"
  by code_simp+

lemma sample_verified: "verified sample_objects sample_evidence"
proof -
  have rec: "is_stable_id (JStr (co_stable sample_record)) (Some ''verification_record'')"
    and doc: "is_stable_id (JStr (co_version_id sample_document)) (Some ''document_version-version'')"
    using sample_ids [of "''verification_record''"] sample_ids [of "''document_version''"]
    by (simp_all add: sample_kinds_def sample_defs sample_kind_of)
  have "by_identity sample_objects (co_stable sample_record) \<noteq> None"
    unfolding by_identity_None by (simp add: sample_objects_def)
  then have "resolve_object sample_objects (co_stable sample_record) \<noteq> None"
    by (auto simp: resolve_object_def split: option.splits)
  moreover have "payload_get sample_evidence ''verification_record_id'' = JStr (co_stable sample_record)"
      "payload_get sample_evidence ''verified_source_version_id'' = JStr (co_version_id sample_document)"
    unfolding payload_get_def sample_evidence_def sample_kind_of by simp_all
  ultimately show ?thesis using rec doc by (simp add: verified_def)
qed

lemma sample_kinds_of:
  "co_kind sample_claim = ''claim''" "co_kind sample_link = ''evidence_link''" "co_kind sample_evidence = ''evidence''"
  "co_kind sample_passage = ''passage''" "co_kind sample_document = ''document_version''"
  "co_kind sample_record = ''verification_record''"
  unfolding sample_defs sample_kind_of by (rule refl)+

lemma sample_members: "{sample_claim, sample_link, sample_evidence, sample_passage, sample_document, sample_record} = set sample_objects"
  by (simp add: sample_objects_def)

lemma sample_passage_grounded: "passage_grounded sample_objects (set sample_relations) sample_evidence sample_passage"
proof -
  have "payload_get sample_evidence ''verified_source_version_id'' = JStr (co_version_id sample_document)"
    unfolding payload_get_def sample_evidence_def sample_kind_of by simp
  moreover have "relation_target sample_objects (sample_relation ''located_in'' sample_passage sample_document) = Some sample_document"
    by (rule sample_targets) (simp add: sample_objects_def)
  ultimately show ?thesis unfolding passage_grounded_def sample_out by (simp add: sample_kinds_of has_kind_def)
qed

lemma sample_evidence_grounded: "evidence_grounded sample_objects (set sample_relations) sample_claim sample_evidence"
proof -
  have "relation_target sample_objects (sample_relation ''derived_from'' sample_evidence sample_passage) = Some sample_passage"
    by (rule sample_targets) (simp add: sample_objects_def)
  then show ?thesis unfolding evidence_grounded_def sample_out
    using sample_statuses sample_verified sample_passage_grounded by (simp add: sample_kinds_of)
qed

lemma sample_link_ref: "link_refs (set sample_relations) sample_claim = {co_stable sample_link}"
proof -
  have "payload_ids (co_payload sample_claim) link_keys = []"
    unfolding sample_claim_def sample_kind_of by (simp add: payload_ids_def link_keys_def)
  then show ?thesis unfolding link_refs_def sample_out by (simp add: sample_relation_def)
qed

lemma sample_resolves: "resolve_object sample_objects (co_stable sample_link) = Some sample_link"
proof -
  have "list_all (\<lambda>x. co_version_id x \<noteq> co_stable sample_link) sample_objects"
    by (simp add: sample_objects_def sample_defs sample_kind_of sample_version_def)
  then have "by_version sample_objects (co_stable sample_link) = None" unfolding by_version_None by (auto simp: list_all_iff)
  moreover have "\<forall>x\<in>set sample_objects. co_version x = 1" "co_version sample_link = 1"
    by (simp_all add: sample_objects_def sample_defs sample_object_def)
  then have "by_identity sample_objects (co_stable sample_link) = Some sample_link"
    unfolding by_identity_unique [OF chains_inj(2) [OF sample_chains]] using sample_members by auto
  ultimately show ?thesis by (simp add: resolve_object_def)
qed

lemma sample_claim_grounded: "claim_grounded sample_objects (set sample_relations) sample_claim"
proof -
  have "relation_target sample_objects (sample_relation ''links_evidence'' sample_link sample_evidence) = Some sample_evidence"
    by (rule sample_targets) (simp add: sample_objects_def)
  moreover have "\<not> has_direct_key sample_link" "\<not> has_direct_key sample_claim"
    unfolding sample_defs has_direct_key_def sample_kind_of by (simp_all add: direct_evidence_keys_def dict_has_def)
  moreover have "\<not> json_truthy (map_of (co_payload sample_claim) k)" if "k \<noteq> ''status''" for k
    unfolding sample_defs sample_kind_of using that by (simp add: json_truthy_def)
  ultimately show ?thesis unfolding claim_grounded_def sample_link_ref link_grounded_def
    using sample_resolves sample_evidence_grounded by (simp add: sample_kinds_of sample_out)
qed

lemma latest_values_members: "x \<in> set (latest_values xs) \<Longrightarrow> x \<in> set xs"
  using latest_version by (fastforce simp: latest_values_def)

lemma sample_stable_inj: "inj_on co_stable (set sample_objects)"
proof -
  have "distinct (map co_stable sample_objects)" by (simp add: sample_objects_def sample_defs sample_kind_of)
  then show ?thesis by (simp add: distinct_map)
qed

lemma sample_graph_ok:
  assumes "short_digest P"
  shows "graph_ok P ''p'' sample_objects sample_relations"
proof -
  have not_leading: "co_kind x \<noteq> ''hypothesis''" if "x \<in> set (latest_values sample_objects)" for x
    using latest_values_members [OF that] sample_kinds_of unfolding sample_members [symmetric] by auto
  then have "filter is_leading (latest_values sample_objects) = []"
    by (auto simp: filter_empty_conv is_leading_def)
  moreover have "x = sample_claim" if "x \<in> set (latest_values sample_objects)" "co_kind x = ''claim''" for x
    using latest_values_members [OF that(1)] that(2) sample_kinds_of unfolding sample_members [symmetric] by auto
  moreover have "is_project_id (JStr ''p'')" by code_simp
  ultimately show ?thesis
    using sample_objects_valid [OF assms] sample_relations_valid [OF assms] sample_endpoints sample_chains not_leading sample_claim_grounded
    unfolding graph_ok_def leading_readable_def by (metis le0 list.size(3))
qed

definition sample_state :: research_state where
  "sample_state = \<lparr>rs_project = ''p'', rs_run = None, rs_objects = sort_objects sample_objects,
     rs_relations = sort_key cr_id sample_relations, rs_latest = fst (latest_objects sample_objects),
     rs_leading = leading_of sample_objects, rs_hash = replicate 64 (CHR ''0'')\<rparr>"

lemma graph_digest: "wf_json j \<Longrightarrow> canonical_sha256 graph_prims (of_json j) = Inr (replicate 64 (CHR ''0''))"
  by (simp add: canonical_sha256_of_json hash_json_def graph_prims_def)

lemma graph_json_wf:
  assumes "\<forall>x\<in>set xs. wf_json (JObj (co_payload x))" "\<forall>r\<in>set rels. wf_json (JObj (cr_metadata r))"
  shows "wf_json (state_json project run xs rels)"
  using assms by (auto simp: state_json_def object_json_def relation_json_def opt_json_def list_all_iff split: option.splits)

lemma sample_payloads_wf:
  "\<forall>x\<in>set sample_objects. wf_json (JObj (co_payload x))" "\<forall>r\<in>set sample_relations. wf_json (JObj (cr_metadata r))"
  unfolding sample_objects_def sample_relations_def by (simp_all add: sample_defs sample_kind_of sample_relation_def)

lemma sample_rebuilds: "rebuild_research_state graph_prims sample_objects sample_relations ''p'' None = Inr sample_state"
proof -
  have "wf_json (state_json ''p'' None (sort_objects sample_objects) (sort_key cr_id sample_relations))"
    using sample_payloads_wf by (intro graph_json_wf) simp_all
  then show ?thesis using sample_graph_ok [OF graph_short]
    unfolding rebuild_meaning sample_state_def by (intro conjI exI [where x = "replicate 64 (CHR ''0'')"] graph_digest refl)
qed

lemma sample_latest: "map_of (rs_latest sample_state) (co_stable sample_claim) = Some sample_claim"
proof -
  have "\<forall>x\<in>set sample_objects. co_version x = 1" "co_version sample_claim = 1"
    by (simp_all add: sample_objects_def sample_defs sample_object_def)
  then have "by_identity sample_objects (co_stable sample_claim) = Some sample_claim"
    unfolding by_identity_unique [OF chains_inj(2) [OF sample_chains]] using sample_members by auto
  then show ?thesis using latest_is_identity [OF sample_chains] by (simp add: sample_state_def)
qed

section \<open>The properties at the sample\<close>

lemma rebuilt_versions_are_chains_witness:
  "version_chain (versions_of (rs_objects sample_state) (co_stable sample_claim))"
  using rebuilt_versions_are_chains [OF sample_rebuilds] by blast

lemma rebuilt_relations_resolve_witness:
  "\<exists>x y. x \<in> set (rs_objects sample_state) \<and> y \<in> set (rs_objects sample_state)
     \<and> leads (sample_relation ''located_in'' sample_passage sample_document) x ''located_in'' y"
proof -
  let ?r = "sample_relation ''located_in'' sample_passage sample_document"
  have "?r \<in> set (rs_relations sample_state)" by (simp add: sample_state_def sample_relations_def)
  moreover have "cr_relation ?r = ''located_in''" by (simp add: sample_relation_def)
  ultimately show ?thesis using rebuilt_relations_resolve [OF sample_rebuilds, of ?r] by (metis (no_types))
qed

lemma rebuilt_claims_rest_on_evidence_witness:
  "\<exists>link e p d. evidence_chain (rs_objects sample_state) (rs_relations sample_state) sample_claim link e p d
     \<and> is_final_evidence e \<and> verified (rs_objects sample_state) e"
  using rebuilt_claims_rest_on_evidence [OF sample_rebuilds sample_latest sample_kinds_of(1)] sample_statuses(1) by blast

lemma rebuild_ignores_order_witness:
  "\<exists>st. rebuild_research_state graph_prims [sample_passage, sample_document]
       [sample_relation ''located_in'' sample_passage sample_document] ''p'' None = Inr st
     \<and> (\<exists>latest. rebuild_research_state graph_prims [sample_document, sample_passage]
          [sample_relation ''located_in'' sample_passage sample_document] ''p'' None = Inr (st\<lparr>rs_latest := latest\<rparr>))"
proof -
  let ?xs = "[sample_passage, sample_document]" and ?rels = "[sample_relation ''located_in'' sample_passage sample_document]"
  have xs: "set ?xs \<subseteq> set sample_objects" "set ?rels \<subseteq> set sample_relations"
    by (simp_all add: sample_objects_def sample_relations_def)
  have chains: "version_chains ?xs"
    by (rule first_versions_chain) (simp_all add: sample_defs sample_object_def sample_version_def)
  have kinds: "co_kind x \<noteq> ''hypothesis'' \<and> co_kind x \<noteq> ''claim''" if "x \<in> set (latest_values ?xs)" for x
    using latest_values_members [OF that] sample_kinds_of by auto
  then have "filter is_leading (latest_values ?xs) = []"
    by (auto simp: filter_empty_conv is_leading_def)
  moreover have "endpoints_exist ?xs (hd ?rels)"
    unfolding endpoints_exist_def using sample_leads [of "''located_in''" sample_passage sample_document] sample_objects_valid [OF graph_short] xs
    by (intro bexI [of _ sample_passage] bexI [of _ sample_document]) (auto simp: sample_relation_def)
  moreover have "is_project_id (JStr ''p'')" by code_simp
  ultimately have "graph_ok graph_prims ''p'' ?xs ?rels"
    unfolding graph_ok_def leading_readable_def
    using sample_objects_valid [OF graph_short] sample_relations_valid [OF graph_short] xs chains kinds by auto
  moreover have "wf_json (state_json ''p'' None (sort_objects ?xs) (sort_key cr_id ?rels))"
    using sample_payloads_wf xs by (intro graph_json_wf) auto
  ultimately obtain st where st: "rebuild_research_state graph_prims ?xs ?rels ''p'' None = Inr st"
    using graph_digest unfolding rebuild_meaning by blast
  have "\<exists>latest. rebuild_research_state graph_prims [sample_document, sample_passage] ?rels ''p'' None
      = Inr (st\<lparr>rs_latest := latest\<rparr>) \<and> map_of latest = map_of (rs_latest st)"
    by (rule rebuild_ignores_order [OF st]) simp_all
  then show ?thesis using st by blast
qed

section \<open>Reports on the sample\<close>

definition sample_report_on :: "research_state \<Rightarrow> string \<Rightarrow> report_projection" where
  "sample_report_on st cid = \<lparr>rp_project = ''p'', rp_state_hash = rs_hash st, rp_claims = [cid],
     rp_evidence = [co_stable sample_evidence], rp_links = map link_json (expected_source_links st [cid]),
     rp_summary = [], rp_id = ''mr1:report:a''\<rparr>"

definition sample_report :: report_projection where
  "sample_report = sample_report_on sample_state (co_stable sample_claim)"

lemma sample_state_sets:
  "set (rs_objects sample_state) = set sample_objects" "set (rs_relations sample_state) = set sample_relations"
  by (simp_all add: sample_state_def)

lemma sample_state_ok:
  "graph_ok graph_prims ''p'' (rs_objects sample_state) (rs_relations sample_state)"
  "map_of (rs_latest sample_state) = by_identity (rs_objects sample_state)"
  using rebuilt_ok [OF sample_rebuilds] by blast+

lemma sample_state_grounds:
  "claim_grounded sample_objects (set sample_relations) claim \<Longrightarrow>
     claim_grounded (rs_objects sample_state) (set (rs_relations sample_state)) claim"
  using grounded_perm [OF sample_chains, of "rs_objects sample_state"] sample_state_ok(1)
  by (simp add: sample_state_sets graph_ok_def)

lemma only_evidence: "e \<in> set sample_objects \<Longrightarrow> co_kind e = ''evidence'' \<Longrightarrow> e = sample_evidence"
  using sample_kinds_of unfolding sample_members [symmetric] by auto

text \<open>A state with the graph of the sample and a grounded claim among its latest objects.\<close>

definition on_sample :: "research_state \<Rightarrow> string \<Rightarrow> canonical_object \<Rightarrow> bool" where
  "on_sample st cid claim \<longleftrightarrow> rs_project st = ''p'' \<and> rs_objects st = rs_objects sample_state
     \<and> rs_relations st = rs_relations sample_state \<and> map_of (rs_latest st) cid = Some claim
     \<and> claim_grounded (rs_objects st) (set (rs_relations st)) claim"

lemma on_sample_graph:
  assumes "on_sample st cid claim"
  shows "\<forall>rel\<in>set (rs_relations st). endpoints_exist (rs_objects st) rel" "inj_on co_version_id (set (rs_objects st))"
  using assms sample_state_ok(1) chains_inj(1) by (simp_all add: graph_ok_def on_sample_def)

lemma sample_expected:
  assumes "on_sample st cid claim" "l \<in> set (expected_source_links st [cid])"
  shows "\<exists>link p d. l = source_link_of ''p'' cid link sample_evidence p d"
proof -
  obtain claim link e p d where "evidence_chain (rs_objects st) (rs_relations st) claim link e p d"
      "l = source_link_of (rs_project st) cid link e p d"
    using assms(2) links_of_claim_set [OF on_sample_graph [OF assms(1)]] by (auto simp: expected_links_set)
  moreover from this have "e = sample_evidence"
    using assms(1) by (intro only_evidence) (simp_all add: evidence_chain_def sample_state_sets on_sample_def)
  ultimately show ?thesis using assms(1) by (auto simp: on_sample_def)
qed

lemma sample_expected_some:
  assumes "on_sample st cid claim"
  shows "expected_source_links st [cid] \<noteq> []"
proof -
  obtain link e p d where "evidence_chain (rs_objects st) (rs_relations st) claim link e p d"
    using chain_of_grounded [of "rs_objects st" "rs_relations st" claim] assms by (auto simp: on_sample_def)
  then have "source_link_of (rs_project st) cid link e p d \<in> set (links_of_claim st cid)"
    using assms unfolding links_of_claim_set [OF on_sample_graph [OF assms]] on_sample_def
    by (intro exI conjI) (blast, assumption, rule refl)
  then have "set (links_of_claim st cid) \<noteq> {}" by (intro notI) simp
  then have "set (expected_source_links st [cid]) \<noteq> {}" unfolding expected_links_set by simp
  then show ?thesis by (metis set_empty)
qed

lemma sample_links:
  assumes "on_sample st cid claim"
  shows "\<forall>l\<in>set (expected_source_links st [cid]). sl_evidence l = co_stable sample_evidence \<and> sl_citations l = []"
    "sl_evidence ` set (expected_source_links st [cid]) = {co_stable sample_evidence}"
    "wf_json (JList (map link_json (expected_source_links st [cid])))"
proof -
  have "citations_of sample_evidence = []" unfolding citations_of_def sample_evidence_def sample_kind_of by simp
  then show evidence: "\<forall>l\<in>set (expected_source_links st [cid]). sl_evidence l = co_stable sample_evidence \<and> sl_citations l = []"
    using sample_expected [OF assms] by (fastforce simp: source_link_of_def)
  then show "sl_evidence ` set (expected_source_links st [cid]) = {co_stable sample_evidence}"
    using sample_expected_some [OF assms] by (auto simp: image_iff) (metis list.set_sel(1))
  show "wf_json (JList (map link_json (expected_source_links st [cid])))"
    using evidence by (auto simp: link_json_def list_all_iff)
qed

lemma sample_report_at:
  assumes "on_sample st cid claim" "is_final_claim claim" "is_stable_id (JStr cid) (Some ''claim'')"
  shows "validate_report_projection P (sample_report_on st cid) st = Inr []"
proof -
  let ?links = "expected_source_links st [cid]"
  note links = sample_links [OF assms(1)]
  have "report_link_issues st nl = []" if "nl \<in> set (enumerate 0 ?links)" for nl
  proof -
    have "by_identity (rs_objects st) (co_stable sample_evidence) \<noteq> None"
      using assms(1) unfolding by_identity_None by (simp add: sample_state_sets sample_members [symmetric] on_sample_def)
    then obtain e where e: "by_identity (rs_objects st) (co_stable sample_evidence) = Some e" by auto
    have "e = sample_evidence"
      using by_identity_Some [OF e] inj_onD [OF sample_stable_inj] sample_members assms(1)
      by (auto simp: sample_state_sets on_sample_def)
    moreover have "is_stable_id (payload_get sample_evidence ''verification_record_id'') (Some ''verification_record'')"
      using sample_verified by (auto simp: verified_def)
    ultimately show ?thesis using e sample_statuses(2) links(1) enumerate_snd [OF that] by (simp add: report_link_issues_def)
  qed
  then have "concat (map (report_link_issues st) (enumerate 0 ?links)) = []" by simp
  moreover have "report_claim_issues st cid = []"
    using assms(1,2) by (auto simp: report_claim_issues_def trace_meaning on_sample_def)
  moreover note canonical_sha256_of_json [OF links(3), of P]
  moreover have "is_stable_id (JStr (co_stable sample_evidence)) (Some ''evidence'')"
    using sample_ids(1) [of "''evidence''"] by (simp add: sample_kinds_def sample_evidence_def sample_kind_of)
  moreover have "is_stable_id (JStr ''mr1:report:a'') (Some ''report'')" by code_simp
  moreover have "rs_project st = ''p''" using assms(1) by (simp add: on_sample_def)
  ultimately show ?thesis using assms(3) links(2)
    by (simp add: validate_report_projection_def Let_def sample_report_on_def result_simps id_sequence_def id_issues.simps)
qed

lemma sample_on_itself: "on_sample sample_state (co_stable sample_claim) sample_claim"
  using sample_latest sample_state_grounds [OF sample_claim_grounded] by (simp add: on_sample_def) (simp add: sample_state_def)

lemma sample_claim_id: "is_stable_id (JStr (co_stable sample_claim)) (Some ''claim'')"
  using sample_ids(1) [of "''claim''"] by (simp add: sample_kinds_def sample_claim_def sample_kind_of)

lemma sample_report_accepted: "validate_report_projection graph_prims sample_report sample_state = Inr []"
  unfolding sample_report_def by (rule sample_report_at [OF sample_on_itself sample_statuses(1) sample_claim_id])

lemma accepted_report_is_grounded_witness:
  "\<exists>link e p d. evidence_chain (rs_objects sample_state) (rs_relations sample_state) sample_claim link e p d
     \<and> co_stable e = co_stable sample_evidence"
proof -
  have "co_stable sample_evidence \<in> set (rp_evidence sample_report)" "rp_claims sample_report = [co_stable sample_claim]"
    by (simp_all add: sample_report_def sample_report_on_def)
  then show ?thesis
    using accepted_report_is_grounded [OF sample_rebuilds sample_report_accepted] sample_latest by fastforce
qed

end
