(* ===== verification/Completion_Samples.thy ===== *)
theory Completion_Samples
  imports Completion_Correct Completion_Json Graph_Witness Sample_Digest
begin

text \<open>
  A completion input that passes the gate: the sample graph, a report on its claim, two distinct
  searches for counterevidence, an attack, a discussion, a cold review and a rehydration. The
  digest of the examples writes zeros, but for the fingerprint of the first search, whose last
  digits are ones, so that the two searches differ, and for the identifiers of events.
\<close>

section \<open>The digest\<close>

definition search_json :: "string \<Rightarrow> json" where
  "search_json q = JObj [(''family'', JStr ''counter''), (''query'', JStr q), (''target_ids'', JList []), (''filters'', JObj [])]"

definition split_prims :: prims where
  "split_prims = graph_prims\<lparr>sha256 := (\<lambda>t. if event_text t then toy_digest t else sample_digits
     @ replicate 16 (if t = json_text graph_prims (search_json ''a'') then CHR ''1'' else CHR ''0''))\<rparr>"

lemma sample_digits_length: "length sample_digits = 48"
  by (simp add: sample_digits_def)

lemma split_short: "short_digest split_prims"
  by (simp add: short_digest_def split_prims_def sample_digits_length hash_json_def event_text_kind)

lemma split_ok: "digest_ok split_prims"
proof -
  have "is_hex64 (sample_digits @ replicate 16 (CHR ''1''))" "is_hex64 (sample_digits @ replicate 16 (CHR ''0''))"
    by code_simp+
  then show ?thesis using toy_hex by (simp add: digest_ok_def split_prims_def)
qed

lemma hex_nonblank:
  assumes "is_hex64 s"
  shows "nonblank s"
proof -
  obtain c cs where s: "s = c # cs" "is_hex_char c" using assms by (cases s) (auto simp: is_hex64_def)
  then have "\<not> is_py_space c" by (auto simp: is_hex_char_def is_digit_def is_py_space_def Let_def)
  then show ?thesis by (auto simp: s nonblank_def strip_def dropWhile_eq_Nil_conv)
qed

lemma split_nonblank: "nonblank (hash_json split_prims j)"
  using split_ok hex_nonblank by (simp add: hash_json_def digest_ok_def)

lemma dumps_split: "dumps split_prims isep ksep j = dumps graph_prims isep ksep j"
proof (induction j)
  case (JList js)
  then show ?case by (simp cong: map_cong)
next
  case (JObj kvs)
  then have "map (\<lambda>p. quote (fst p) @ ksep @ dumps split_prims isep ksep (snd p)) kvs
      = map (\<lambda>p. quote (fst p) @ ksep @ dumps graph_prims isep ksep (snd p)) kvs"
    by (intro map_cong refl) (auto simp: snds.simps)
  then show ?case by (simp only: dumps.simps)
qed (simp_all add: split_prims_def)

lemma searches_differ: "hash_json split_prims (search_json ''a'') \<noteq> hash_json split_prims (search_json ''b'')"
proof -
  have "sort_keys (search_json ''a'') \<noteq> sort_keys (search_json ''b'')" by code_simp
  moreover have "plain (search_json q)" for q by (simp add: search_json_def)
  ultimately have "json_text graph_prims (search_json ''b'') \<noteq> json_text graph_prims (search_json ''a'')"
    using json_text_inject by metis
  moreover have "json_text split_prims j = json_text graph_prims j" for j by (simp add: json_text_def dumps_split)
  moreover have "\<not> event_text (json_text graph_prims (search_json ''a''))" "\<not> event_text (json_text graph_prims (search_json ''b''))"
    by code_simp+
  ultimately show ?thesis by (simp add: hash_json_def split_prims_def)
qed

lemma split_event_id:
  assumes "wf_json j" "kind_key k = k" "is_kind k" "k \<noteq> ''event''"
  shows "make_event_id split_prims (VStr k) (VStr p) (of_json j) = Inr (''mr1:'' @ k @ CHR '':'' # sample_digits)"
  using make_event_id_json [OF assms(1) _ split_ok, of k p] assms(2-4) short_digits [OF split_short] by simp

section \<open>The state\<close>

definition sample_state_hash :: string where
  "sample_state_hash = hash_json split_prims
     (state_json ''p'' (Some ''r'') (sort_objects sample_objects) (sort_key cr_id sample_relations))"

definition done_state :: research_state where
  "done_state = sample_state\<lparr>rs_run := Some ''r'', rs_hash := sample_state_hash\<rparr>"

lemma done_fields:
  "rs_project done_state = ''p''" "rs_run done_state = Some ''r''" "rs_hash done_state = sample_state_hash"
  "rs_objects done_state = sort_objects sample_objects" "rs_relations done_state = sort_key cr_id sample_relations"
  "rs_latest done_state = rs_latest sample_state"
  by (simp_all add: done_state_def sample_state_def)

lemma done_recomputes: "recompute_issues split_prims done_state = Inr []"
proof -
  have "graph_ok split_prims ''p'' (sort_objects sample_objects) (sort_key cr_id sample_relations)"
    using graph_ok_perm [OF sample_graph_ok [OF split_short], of "sort_objects sample_objects" "sort_key cr_id sample_relations"]
    by simp
  moreover have "wf_json (state_json ''p'' (Some ''r'') (sort_objects sample_objects) (sort_key cr_id sample_relations))"
    using sample_payloads_wf by (intro graph_json_wf) simp_all
  then have "canonical_sha256 split_prims (of_json (state_json ''p'' (Some ''r'') (sort_objects sample_objects)
      (sort_key cr_id sample_relations))) = Inr sample_state_hash"
    by (simp add: canonical_sha256_of_json sample_state_hash_def)
  moreover have "sort_objects (sort_objects sample_objects) = sort_objects sample_objects"
    by (rule sort_objects_idem [OF sample_chains])
  moreover have "sort_key cr_id (sort_key cr_id sample_relations) = sort_key cr_id sample_relations"
    by (rule sort_key_id_if_sorted) simp
  ultimately show ?thesis
    unfolding recompute_clean done_fields rebuild_meaning by (simp add: done_fields)
qed

lemma done_on_sample: "on_sample done_state (co_stable sample_claim) sample_claim"
  using sample_on_itself by (simp add: on_sample_def done_state_def)

section \<open>The parts of the input\<close>

definition done_claim :: string where
  "done_claim = co_stable sample_claim"

definition done_charter :: research_charter where
  "done_charter =
     \<lparr>ch_question = ''q'', ch_scope = JStr ''s'', ch_invariants = [''i''], ch_non_goals = [''n''], ch_deliverables = [''d''],
      ch_model = ''m'', ch_budget = [(''iteration_count'', JInt 3)], ch_policy = [(''p'', JStr ''x'')],
      ch_gates = [(''required_strategy_families'', JList [JStr ''counter''])], ch_protocol = ''max-research/v1'',
      ch_schema = ''max-research-charter/v1''\<rparr>"

definition done_charter_hash :: string where
  "done_charter_hash = hash_json split_prims (charter_json done_charter)"

definition done_run :: max_run_state where
  "done_run = sample_run\<lparr>status := Running, charter_hash := done_charter_hash,
     source_policy_hash := hash_json split_prims (JObj (ch_policy done_charter)), approval_id := Some ''mr1:start_approval:a'',
     state_version := 3, approval_consumed_at := Some (Stamp 0), approval_consumption_id := Some ''mr1:approval_consumption:a'',
     current_state_hash := Some sample_state_hash\<rparr>"

definition done_search :: "string \<Rightarrow> search_strategy" where
  "done_search q =
     \<lparr>st_project = ''p'', st_family = ''counter'', st_query = q, st_targets = [], st_filters = [], st_results = [],
      st_new_evidence = [], st_coverage = [], st_id = ''mr1:iteration:a'', st_run = ''r''\<rparr>"

definition done_ledger :: coverage_ledger where
  "done_ledger = \<lparr>cl_strategies = [done_search ''a'', done_search ''b''], cl_required = [''counter''], cl_allow_empty = False\<rparr>"

definition done_attack :: attack_record where
  "done_attack =
     \<lparr>ak_project = ''p'', ak_run = ''r'', ak_charter = done_charter_hash, ak_state_hash = sample_state_hash,
      ak_iteration = ''mr1:iteration:a'', ak_target = done_claim, ak_target_version = co_version_id sample_claim,
      ak_objections = [], ak_counter = [], ak_outcome = ''o'', ak_rationale = ''w'', ak_id = ''mr1:attack:a'',
      ak_schema = ''max-research-attack-record/v1''\<rparr>"

definition done_position :: "string \<Rightarrow> role_position" where
  "done_position role = \<lparr>po_role = role, po_position = ''x'', po_claims = [], po_evidence = [], po_rationale = []\<rparr>"

definition done_packet :: "string \<Rightarrow> role_packet" where
  "done_packet role =
     \<lparr>dk_project = ''p'', dk_run = ''r'', dk_state_hash = sample_state_hash, dk_target = done_claim, dk_role = role,
      dk_allowed = [], dk_model = ''m'', dk_inference = ''i'', dk_forbidden = [], dk_sees_others = False,
      dk_id = ''mr1:role_packet:a''\<rparr>"

definition done_session :: discussion_session where
  "done_session =
     \<lparr>ds_project = ''p'', ds_run = ''r'', ds_target = done_claim, ds_positions = [done_position ''a'', done_position ''b''],
      ds_examinations = [\<lparr>ce_examiner = ''a'', ce_respondent = ''b'', ce_question = ''x'', ce_answer = ''y'', ce_claims = []\<rparr>],
      ds_corrections = [],
      ds_audits = [\<lparr>va_auditor = ''c'', va_passed = True, va_findings = [], va_claims = [], va_facts = Some True,
        va_normative = Some True, va_expression = Some True, va_fidelity = Some True, va_rationale = ''w''\<rparr>],
      ds_adjudication = Some \<lparr>ad_value = ''reasoned_consensus'', ad_rationale = ''w'', ad_rivals = [done_claim],
        ad_evidence = [co_stable sample_evidence], ad_reports = [], ad_role = ''c''\<rparr>,
      ds_minority = [], ds_id = ''mr1:discussion_session:a'', ds_state_hash = sample_state_hash, ds_model = ''m'',
      ds_inference = ''i'', ds_packets = [done_packet ''a'', done_packet ''b''],
      ds_schema = ''max-research-discussion/v1''\<rparr>"

definition done_report :: report_projection where
  "done_report = sample_report_on done_state done_claim"

definition open_packet :: cold_packet where
  "open_packet =
     \<lparr>cw_project = ''p'', cw_run = ''r'', cw_state_hash = sample_state_hash, cw_charter = done_charter_hash,
      cw_claims = [done_claim], cw_evidence = [co_stable sample_evidence], cw_links = rp_links done_report,
      cw_report = ''mr1:report:a'', cw_excluded = required_exclusions, cw_id = ''mr1:cold_review:'' @ sample_digits,
      cw_schema = ''max-research-cold-review/v1'', cw_hash = []\<rparr>"

definition review_packet :: cold_packet where
  "review_packet = open_packet\<lparr>cw_hash := hash_json split_prims (packet_payload open_packet)\<rparr>"

definition done_review :: cold_result where
  "done_review =
     \<lparr>cr_packet_id = cw_id review_packet, cr_packet_hash = cw_hash review_packet, cr_res_project = ''p'', cr_run = ''r'',
      cr_charter = done_charter_hash, cr_state_hash = sample_state_hash, cr_report = ''mr1:report:a'', cr_model = ''m'',
      cr_inference = ''i'', cr_passed = True, cr_blocking = [], cr_claim_audit = [(''passed'', JBool True)],
      cr_evidence_audit = [(''passed'', JBool True)], cr_citation_audit = [(''passed'', JBool True)], cr_evaluated = Stamp 0,
      cr_result_id = ''mr1:cold_review_result:'' @ sample_digits, cr_res_schema = ''max-research-cold-review-result/v1''\<rparr>"

definition done_formal :: formal_evidence where
  "done_formal =
     \<lparr>fe_project = ''p'', fe_run = ''r'', fe_state_hash = sample_state_hash, fe_report = rp_id done_report,
      fe_claims = rp_claims done_report, fe_evidence = rp_evidence done_report, fe_links = rp_links done_report,
      fe_eligibility = hash_json split_prims (JObj [(''claim_ids'', strings_json (rp_claims done_report)),
         (''evidence_ids'', strings_json (rp_evidence done_report)), (''source_links'', JList (rp_links done_report))]),
      fe_id = ''mr1:formal_completion_evidence:a'', fe_schema = ''max-research-formal-completion-evidence/v1''\<rparr>"

definition snapshot_digest :: "canonical_object \<Rightarrow> string \<Rightarrow> string" where
  "snapshot_digest x s = hash_json split_prims (JObj
     [(''stable_id'', JStr (co_stable x)), (''version_id'', JStr (co_version_id x)), (''status'', JStr s),
      (''payload'', JObj (co_payload x))])"

definition done_claim_snapshot :: claim_snapshot where
  "done_claim_snapshot =
     \<lparr>sn_claim = co_stable sample_claim, sn_version = co_version_id sample_claim, sn_status = ''final'',
      sn_hash = snapshot_digest sample_claim ''final'', sn_schema = ''max-research-claim-snapshot/v1''\<rparr>"

definition done_evidence_snapshot :: evidence_snapshot where
  "done_evidence_snapshot =
     \<lparr>es_evidence = co_stable sample_evidence, es_version = co_version_id sample_evidence, es_status = ''verified'',
      es_hash = snapshot_digest sample_evidence ''verified'', es_schema = ''max-research-evidence-snapshot/v1''\<rparr>"

definition open_input :: completion_input where
  "open_input =
     \<lparr>ci_project = ''p'', ci_run = ''r'', ci_charter_hash = done_charter_hash, ci_state_hash = sample_state_hash,
      ci_charter = done_charter, ci_run_state = done_run, ci_state = done_state, ci_ledger = done_ledger,
      ci_attacks = [done_attack], ci_sessions = [done_session],
      ci_rehydration = \<lparr>ro_accepted = True, ro_state = Some done_state, ro_flags = [], ro_issues = [], ro_ids = []\<rparr>,
      ci_packet = review_packet, ci_review = done_review, ci_report = done_report, ci_formal = done_formal,
      ci_claims = replicate 3 done_claim_snapshot, ci_evidence = replicate 3 done_evidence_snapshot,
      ci_counter = replicate 3 done_evidence_snapshot, ci_budget = ch_budget done_charter, ci_policy = ch_policy done_charter,
      ci_model = ''m'', ci_evaluated = Stamp 0, ci_checkpoint = None, ci_allow_empty = False,
      ci_schema = ''max-research-completion-evaluation-input/v1'', ci_hash = []\<rparr>"

definition done_input :: completion_input where
  "done_input = open_input\<lparr>ci_hash := hash_json split_prims (completion_input_json split_prims open_input)\<rparr>"

end
