(* ===== verification/Completion_Passes.thy ===== *)
theory Completion_Passes
  imports Completion_Samples
begin

text \<open>The sample input passes the gate, part by part, and the properties of completion at it.\<close>

section \<open>The parts pass\<close>

lemma done_evidence_id: "is_stable_id (JStr (co_stable sample_evidence)) (Some ''evidence'')"
  using sample_ids(1) [of "''evidence''"] by (simp add: sample_kinds_def sample_evidence_def sample_kind_of)

lemma done_ids:
  "is_stable_id (JStr done_claim) (Some ''claim'')" "is_stable_id (JStr done_claim) None"
  "is_stable_id (JStr (co_version_id sample_claim)) None" "is_stable_id (JStr (co_stable sample_evidence)) None"
  using sample_claim_id sample_claim_id [THEN any_stable_id] done_evidence_id [THEN any_stable_id]
    sample_ids(2) [of "''claim''", THEN any_stable_id]
  by (simp_all add: done_claim_def) (simp add: sample_kinds_def sample_claim_def sample_kind_of)

lemma done_literals:
  "is_project_id (JStr ''p'')" "is_stable_id (JStr ''mr1:attack:a'') (Some ''attack'')"
  "is_stable_id (JStr ''mr1:iteration:a'') (Some ''iteration'')" "is_stable_id (JStr ''mr1:report:a'') (Some ''report'')"
  "is_stable_id (JStr ''mr1:formal_completion_evidence:a'') (Some ''formal_completion_evidence'')"
  "nonblank ''r''" "nonblank ''m''" "nonblank ''i''" "nonblank ''a''" "nonblank ''b''" "nonblank ''x''" "nonblank ''y''"
  "nonblank ''w''" "nonblank ''c''" "nonblank ''o''"
  by code_simp+

lemma done_charter_valid: "charter_digest split_prims done_charter = Inr done_charter_hash"
proof -
  have "validate_charter done_charter = []" by code_simp
  moreover have "wf_json (charter_json done_charter)" by (simp add: done_charter_def)
  ultimately show ?thesis
    by (simp add: charter_digest_def require_valid_charter_def raise_if_invalid_def result_ok_def canonical_sha256_of_json
        done_charter_hash_def)
qed

lemma done_latest: "map_of (rs_latest done_state) done_claim = Some sample_claim"
  using done_on_sample by (simp add: on_sample_def done_claim_def)

lemma latest_at_sample:
  assumes "x \<in> set sample_objects"
  shows "map_of (rs_latest done_state) (co_stable x) = Some x"
proof -
  have "co_version y = 1" if "y \<in> set sample_objects" for y
    using that by (auto simp: sample_objects_def sample_defs sample_object_def)
  then have "by_identity sample_objects (co_stable x) = Some x"
    unfolding by_identity_unique [OF chains_inj(2) [OF sample_chains]] using assms by auto
  then show ?thesis using latest_is_identity [OF sample_chains] by (simp add: done_fields sample_state_def)
qed

lemma done_latest_key: "x \<in> set sample_objects \<Longrightarrow> co_stable x \<in> fst ` set (rs_latest done_state)"
  using latest_at_sample [of x] map_of_SomeD [of "rs_latest done_state" "co_stable x" x] by (metis fst_conv image_eqI)

lemma done_known: "known_ref done_state done_claim" "known_ref done_state (co_stable sample_evidence)"
  "done_claim \<in> fst ` set (rs_latest done_state)"
  using done_latest_key [of sample_claim] done_latest_key [of sample_evidence] sample_members
  by (auto simp: known_ref_def done_claim_def)

lemma done_session_valid: "validate_discussion_session done_session (Some done_state) = []"
proof -
  have h: "nonblank sample_state_hash" using split_nonblank by (simp add: sample_state_hash_def)
  have "session_issues done_session = []"
    using h done_ids done_evidence_id done_literals
    by (simp add: session_issues_def Let_def done_session_def done_position_def done_packet_def text_issues_def indexed_def
        required_text_def packet_issues_def position_issues_def examination_issues_def audit_issues_def audit_dimensions_def
        adjudication_issues_def id_sequence_def adjudication_values_def ex_bool_eq)
  moreover have "state_issues done_session done_state = []"
    using done_known
    by (simp add: state_issues_def done_session_def done_position_def done_packet_def indexed_def check_ids_def done_fields)
  ultimately show ?thesis by (simp add: validate_discussion_session_def)
qed

lemma done_attack_valid: "attack_issues done_input path done_attack = []"
proof -
  have "by_version (rs_objects done_state) (co_version_id sample_claim) = Some sample_claim"
    unfolding by_version_unique [OF on_sample_graph(2) [OF done_on_sample]]
    using sample_members by (auto simp: done_fields)
  moreover have "co_kind sample_claim \<in> {''claim'', ''hypothesis''}" by (simp add: sample_kinds_of)
  ultimately show ?thesis
    using done_ids done_literals
    by (simp add: attack_issues_def attack_state_issues_def Let_def done_attack_def done_input_def open_input_def required_text_def
        id_sequence_def done_claim_def)
qed

lemma done_report_valid: "validate_report_projection P done_report done_state = Inr []"
  unfolding done_report_def done_claim_def by (rule sample_report_at [OF done_on_sample sample_statuses(1) sample_claim_id])

lemma done_links: "wf_json (JList (rp_links done_report))"
  "rp_links done_report = map link_json (expected_source_links done_state [done_claim])"
  "sl_evidence ` set (expected_source_links done_state [done_claim]) = {co_stable sample_evidence}"
  using sample_links [OF done_on_sample] by (simp_all add: done_report_def sample_report_on_def done_claim_def)

lemma done_packet_valid: "validate_cold_review_packet split_prims review_packet done_state (Some done_charter_hash) = Inr []"
proof -
  have "review_claim_issues done_state done_claim = []"
    using done_on_sample done_latest by (auto simp: review_claim_issues_def trace_meaning on_sample_def)
  moreover have "packet_payload review_packet = packet_payload open_packet" by (simp add: packet_payload_def review_packet_def)
  moreover have payload: "wf_json (packet_payload open_packet)" using done_links(1) by (simp add: open_packet_def)
  moreover have "kind_key ''cold_review'' = ''cold_review''" "is_kind ''cold_review''" by code_simp+
  note split_event_id [OF payload this, simplified]
  moreover have "distinct required_exclusions" by (simp add: required_exclusions_def)
  moreover note canonical_sha256_of_json [OF payload] canonical_sha256_of_json [OF done_links(1)]
  ultimately show ?thesis
    using done_ids done_evidence_id done_literals done_links
    by (simp add: validate_cold_review_packet_def Let_def packet_event_id_def review_packet_def open_packet_def done_fields
        id_sequence_def binds_def)
qed

lemma done_review_valid:
  "validate_cold_review_result split_prims done_review review_packet done_state (Some done_report) (Some ''m'') None = Inr []"
proof -
  have "kind_key ''cold_review_result'' = ''cold_review_result''" "is_kind ''cold_review_result''" by code_simp+
  then have "result_event_id split_prims done_review = Inr (cr_result_id done_review)"
    unfolding result_event_id_def by (subst split_event_id) (simp_all add: done_review_def)
  then show ?thesis
    using done_packet_valid done_report_valid [of split_prims] done_literals
    by (simp add: validate_cold_review_result_def result_binding_issues_def result_audits_def audit_ok_def binds_def required_text_def
        done_fields done_review_def review_packet_def open_packet_def)
qed

lemma done_formal_valid: "formal_issues split_prims done_formal done_state done_report = []"
  using done_literals by (simp add: formal_issues_def done_formal_def done_fields)

lemma done_payload_wf: "x \<in> set sample_objects \<Longrightarrow> wf_json (JObj (co_payload x))"
  using sample_payloads_wf(1) by blast

lemma done_snapshots:
  "make_claim_snapshot split_prims sample_claim = Inr done_claim_snapshot"
  "make_evidence_snapshot split_prims sample_evidence = Inr done_evidence_snapshot"
proof -
  have digest: "snapshot_hash split_prims x s = Inr (snapshot_digest x s)" if "x \<in> set sample_objects" for x s
    unfolding snapshot_hash_def snapshot_digest_def using done_payload_wf [OF that]
    by (intro canonical_sha256_of_json) simp
  have texts: "nonblank ''final''" "nonblank ''verified''" "lower ''final'' = ''final''" "lower ''verified'' = ''verified''"
    by code_simp+
  have "snapshot_status what sample_claim = Inr ''final''" for what
    unfolding snapshot_status_def sample_claim_def sample_kind_of using texts by simp
  moreover have "snapshot_status what sample_evidence = Inr ''verified''" for what
    unfolding snapshot_status_def sample_evidence_def sample_kind_of using texts by simp
  moreover have "sample_claim \<in> set sample_objects" "sample_evidence \<in> set sample_objects" by (simp_all add: sample_objects_def)
  ultimately show "make_claim_snapshot split_prims sample_claim = Inr done_claim_snapshot"
    "make_evidence_snapshot split_prims sample_evidence = Inr done_evidence_snapshot"
    using digest by (simp_all add: make_claim_snapshot_def make_evidence_snapshot_def sample_kinds_of done_claim_snapshot_def
        done_evidence_snapshot_def)
qed

lemma done_input_fields:
  "ci_report done_input = done_report" "ci_state done_input = done_state" "ci_charter done_input = done_charter"
  "ci_ledger done_input = done_ledger" "ci_run_state done_input = done_run" "ci_packet done_input = review_packet"
  "ci_review done_input = done_review" "ci_formal done_input = done_formal" "ci_attacks done_input = [done_attack]"
  "ci_sessions done_input = [done_session]" "ci_charter_hash done_input = done_charter_hash"
  "ci_state_hash done_input = sample_state_hash" "ci_model done_input = ''m''" "ci_project done_input = ''p''"
  "ci_run done_input = ''r''" "ci_evaluated done_input = Stamp 0" "ci_checkpoint done_input = None"
  "ci_claims done_input = replicate 3 done_claim_snapshot" "ci_evidence done_input = replicate 3 done_evidence_snapshot"
  "ci_counter done_input = replicate 3 done_evidence_snapshot"
  by (simp_all add: done_input_def open_input_def)

lemma done_expected:
  "expected_claims split_prims done_input = Inr [done_claim_snapshot]"
  "expected_evidence split_prims done_input = Inr [done_evidence_snapshot]"
proof -
  have "rp_claims done_report = [co_stable sample_claim]" "rp_evidence done_report = [co_stable sample_evidence]"
    by (simp_all add: done_report_def sample_report_on_def done_claim_def)
  moreover have "map_of (rs_latest done_state) (co_stable sample_claim) = Some sample_claim"
      "map_of (rs_latest done_state) (co_stable sample_evidence) = Some sample_evidence"
    using latest_at_sample [of sample_claim] latest_at_sample [of sample_evidence] by (simp_all add: sample_objects_def)
  ultimately show "expected_claims split_prims done_input = Inr [done_claim_snapshot]"
    "expected_evidence split_prims done_input = Inr [done_evidence_snapshot]"
    using done_snapshots by (simp_all add: expected_claims_def expected_evidence_def done_input_fields)
qed

definition done_saturation :: saturation_status where
  "done_saturation = \<lparr>sat_evidence = True, sat_strategy = True, sat_claim = True, sat_counter = True,
     sat_covered = [''counter''], sat_duplicates = [], sat_reasons = []\<rparr>"

lemma done_saturated:
  "evaluate_saturation split_prims done_ledger (replicate 3 done_claim_snapshot) (replicate 3 done_evidence_snapshot) 2 2
     (replicate 3 done_evidence_snapshot) = Inr done_saturation"
proof -
  have texts: "casefold (strip ''counter'') = ''counter''" "casefold ''counter'' = ''counter''" "casefold (strip ''a'') = ''a''"
      "casefold (strip ''b'') = ''b''"
    by code_simp+
  have f: "strategy_fingerprint split_prims (done_search q) = Inr (hash_json split_prims (search_json q))"
    if "casefold (strip q) = q" for q
    unfolding strategy_fingerprint_def using texts that
    by (subst canonical_sha256_of_json) (simp_all add: done_search_def search_json_def strings_json_def)
  have "fold_result (note_strategy split_prims) (cl_strategies done_ledger) ([], [], [])
      = Inr ([hash_json split_prims (search_json ''b''), hash_json split_prims (search_json ''a'')],
          [done_search ''a'', done_search ''b''], [])"
    using f texts searches_differ by (simp add: note_strategy_def done_ledger_def)
  moreover have "casefold (st_family (done_search q)) = ''counter''" for q using texts by (simp add: done_search_def)
  moreover have "sorted_set [''counter'', ''counter''] = [''counter'']" by code_simp
  moreover have three: "replicate 3 x = [x, x, x]" for x :: 'a by (simp add: eval_nat_numeral)
  ultimately show ?thesis unfolding three
    by (simp add: evaluate_saturation_def Let_def done_ledger_def done_saturation_def counter_families_def nothing_new_def last_n_def
        claims_stable_def saturation_reasons_def) (simp add: done_search_def)
qed

lemma done_state_wf: "state_wf done_state"
proof -
  have "distinct (map fst (fst (latest_objects sample_objects)))"
    by (simp add: latest_objects_def comp_def)
  moreover have "wf_json (JObj (co_payload x))" if "x \<in> snd ` set (rs_latest done_state)" for x
  proof -
    have "x \<in> set (latest_values sample_objects)"
      using that set_latest_objects(1) [of sample_objects] by (simp add: done_fields sample_state_def)
    then show ?thesis by (rule done_payload_wf [OF latest_values_members])
  qed
  ultimately show ?thesis
    using sample_payloads_wf by (auto simp: state_wf_def done_fields sample_state_def simp del: wf_json.simps)
qed

lemma done_input_hash: "completion_input_hash split_prims done_input = Inr (ci_hash done_input)"
proof -
  have "wf_json (completion_input_json split_prims open_input)"
  proof (rule completion_input_json_wf)
    show "wf_json (rehydration_json (ci_rehydration open_input))"
      by (rule rehydration_json_wf) (simp_all add: open_input_def done_state_wf)
  qed (use done_links(1) done_state_wf in \<open>simp_all add: open_input_def done_charter_def done_run_def sample_run_def done_ledger_def
        done_search_def review_packet_def open_packet_def done_review_def done_formal_def\<close>)
  moreover have "done_input\<lparr>ci_hash := []\<rparr> = open_input" by (simp add: done_input_def open_input_def)
  ultimately show ?thesis
    by (simp add: completion_input_hash_def canonical_sha256_of_json) (simp add: done_input_def)
qed

lemma done_input_valid: "validate_completion_input split_prims done_input = Inr (True, [], done_saturation)"
proof -
  have "context_issues done_input done_charter_hash = []"
    by (simp add: context_issues_def Let_def done_input_fields done_fields done_run_def sample_run_def)
  moreover have "checkpoint_issues done_input = []" by (simp add: checkpoint_issues_def done_input_fields)
  moreover have "binding_issues split_prims done_input = []"
    by (simp add: binding_issues_def Let_def done_input_fields)
      (simp add: done_input_def open_input_def done_charter_def done_run_def sample_run_def)
  moreover have "attack_records_issues done_input = []"
    using done_attack_valid by (simp add: attack_records_issues_def indexed_def done_input_fields)
  moreover have "rehydration_ok done_input"
    by (simp add: rehydration_ok_def done_input_def open_input_def done_fields)
  moreover have "snapshot_issues done_input [done_claim_snapshot] [done_evidence_snapshot] = []"
    by (simp add: snapshot_issues_def done_input_fields)
  moreover have "charter_families done_charter = Inr [JStr ''counter'']" "family_issues done_input [JStr ''counter''] = []"
    by (simp_all add: charter_families_def done_charter_def family_issues_def done_input_fields done_ledger_def)
  moreover have "cw_report review_packet = rp_id done_report"
    by (simp add: review_packet_def open_packet_def done_report_def sample_report_on_def)
  ultimately show ?thesis
    using done_charter_valid done_recomputes done_input_hash done_report_valid [of split_prims] done_packet_valid done_review_valid
      done_formal_valid done_session_valid done_expected done_saturated
    unfolding validate_completion_input_def done_input_fields by simp
qed

definition done_gate :: gate_result where
  "done_gate = (case evaluate_completion_gate split_prims done_input of Inr g \<Rightarrow> g
     | Inl e \<Rightarrow> \<lparr>gr_passed = False, gr_reasons = [], gr_checks = [], gr_project = [], gr_run = [], gr_charter = [],
         gr_state_hash = [], gr_hash = [], gr_input_hash = [], gr_evaluated = []\<rparr>)"

lemma done_gate_passes: "evaluate_completion_gate split_prims done_input = Inr done_gate" "gr_passed done_gate"
proof -
  let ?checks = "gate_checks done_input True [] [] done_saturation"
  have "wf_json (gate_payload split_prims done_input ?checks [])"
    by (rule gate_payload_wf) (simp add: gate_checks_def)
  note canonical_sha256_of_json [OF this, of split_prims]
  moreover have "saturated done_saturation" by (simp add: saturated_def done_saturation_def)
  moreover have "ro_accepted (ci_rehydration done_input)" "ro_flags (ci_rehydration done_input) = []"
      "cr_passed done_review" "cr_blocking done_review = []"
    by (simp_all add: done_input_def open_input_def done_review_def)
  ultimately have "\<exists>g. evaluate_completion_gate split_prims done_input = Inr g \<and> gr_passed g"
    unfolding gate_meaning using done_input_valid done_report_valid [of split_prims] done_packet_valid
    by (simp add: done_input_fields)
  then show "evaluate_completion_gate split_prims done_input = Inr done_gate" "gr_passed done_gate"
    by (auto simp: done_gate_def)
qed

section \<open>The properties at the sample\<close>

lemma done_run_valid: "validate_run_state split_prims done_run = []"
proof -
  have "nonblank sample_state_hash" "nonblank done_charter_hash"
    by (simp_all add: sample_state_hash_def done_charter_hash_def split_nonblank)
  moreover have "is_stable_id (JStr ''mr1:start_approval:a'') (Some ''start_approval'')"
      "is_stable_id (JStr ''mr1:approval_consumption:a'') (Some ''approval_consumption'')" by code_simp+
  ultimately show ?thesis using done_literals split_nonblank
    by (simp add: validate_run_state_def done_run_def sample_run_def required_text_def required_mapping_def stable_of_kind_def)
qed

lemma done_run_running: "status done_run = Running" "ci_run_state done_input = done_run"
  by (simp_all add: done_run_def done_input_fields)

lemma passed_gate_was_reviewed_witness:
  "cr_passed done_review \<and> cr_model done_review = model_identity done_run"
  using passed_gate_was_reviewed [OF done_gate_passes] by (simp add: done_input_fields)

lemma passing_gate_completes_witness:
  "\<exists>t. transition_to_completed split_prims done_run (Some done_input) None = Inr t \<and> status (new_state t) = Completed"
  using passing_gate_completes [OF split_ok done_run_valid done_run_running done_gate_passes] by blast

definition done_transition :: run_transition where
  "done_transition = (case transition_to_completed split_prims done_run (Some done_input) None of Inr t \<Rightarrow> t
     | Inl e \<Rightarrow> \<lparr>new_state = done_run, new_consumption = None\<rparr>)"

lemma done_completes: "transition_to_completed split_prims done_run (Some done_input) None = Inr done_transition"
proof -
  have cur: "current_state_hash done_run = Some (ci_state_hash done_input)" by (simp add: done_run_def done_input_fields)
  obtain r where r: "evaluate_completion_result split_prims done_input = Inr r" "result_checks r unbound (Some done_run) = []"
      "is_stable_id (JStr (cx_id r)) (Some ''completion_result'')" "cx_state_hash r = ci_state_hash done_input"
    using passed_result [OF split_ok done_gate_passes cur] by blast
  have "validate_run_state split_prims ((completed_fields done_run r None)\<lparr>status := Completed, state_version := state_version done_run + 1\<rparr>) = []"
    using completed_valid [OF done_run_valid done_run_running(1), of r None] cur r by simp
  moreover have "fresh_input done_run done_input"
    using cur by (simp add: fresh_input_def done_input_fields done_fields)
  ultimately have "transition_to_completed split_prims done_run (Some done_input) None = Inr \<lparr>new_state =
      (completed_fields done_run r None)\<lparr>status := Completed, state_version := state_version done_run + 1\<rparr>, new_consumption = None\<rparr>"
    using done_run_valid done_run_running r by (simp add: completed_meaning same_result_def done_input_fields)
  then show ?thesis by (simp add: done_transition_def)
qed

lemma completed_run_is_grounded_witness:
  "status (new_state done_transition) = Completed \<and> report_grounded done_state done_report"
  using completed_run_is_grounded [OF done_completes] by (simp add: done_input_fields)

lemma completion_ignores_charter_of_run_witness:
  "\<exists>t. transition_to_completed split_prims (done_run\<lparr>charter_hash := ''x'', model_identity := ''y''\<rparr>) (Some done_input) None = Inr t
     \<and> charter_hash (new_state t) = ''x''"
  using completion_ignores_charter_of_run [OF done_completes, of "''x''" "''y''"] done_literals by blast

end
