(* ===== verification/Completion_Promises.thy ===== *)
theory Completion_Promises
  imports Control_Correct Completion_Correct
begin

text \<open>
  What the repository promises about completion: the persistence of a completion is the only way
  a run becomes \<open>COMPLETED\<close>, it judges what the database holds, and a run that has ended stays as
  it is.
\<close>

section \<open>Runs keep their names\<close>

text \<open>Every stored state is a state of the run it is stored for; every step keeps that.\<close>

definition all_bound :: "control_db \<Rightarrow> bool" where
  "all_bound db \<longleftrightarrow> (\<forall>r. bound_run db r)"

lemma bound_step:
  assumes "all_bound db" "control_step P R db db'"
  shows "all_bound db'"
proof -
  have "control_effect P R db db'" using step_has_effect [OF assms(2)] assms(1) by (simp add: all_bound_def)
  then show ?thesis
  proof cases
    case (effect_proposed r es p limits column now)
    then show ?thesis using assms(1)
      by (auto simp: all_bound_def bound_run_def state_of_def initial_row_def initial_state_def split: if_splits)
  next
    case (effect_advanced r s t)
    then show ?thesis using assms(1)
      by (auto simp: all_bound_def bound_run_def state_of_def advance_def written_row_def split: if_splits)
  next
    case (effect_quiet r)
    then show ?thesis using assms(1) by (simp add: all_bound_def bound_run_def state_of_def)
  qed
qed

interpretation named: invariant_system fresh_db "control_step P R" all_bound for P R
proof
  show "all_bound db" if "fresh_db db" for db
    using that by (auto simp: fresh_db_def empty_db_def all_bound_def bound_run_def state_of_def)
qed (rule bound_step)

section \<open>The judgement\<close>















section \<open>The only way to be completed\<close>

lemma advance_state: "advance P r s t db db' \<Longrightarrow> state_of db' q = (if q = r then Some (new_state t) else state_of db q)"
  by (auto simp: advance_def state_of_def written_row_def)

lemma transition_state:
  assumes "advance P r s t db db'" "transition_run_state P s target approval now completion research ledger = Inr t"
  shows "map_option status (state_of db' q) = (if q = r then Some target else map_option status (state_of db q))"
  using advance_state [OF assms(1), of q] transition_edge(2) [OF assms(2)] by simp

lemma same_runs_state: "db_runs db' = db_runs db \<Longrightarrow> state_of db' q = state_of db q"
  by (simp add: state_of_def)

text \<open>A lifecycle operation other than the persistence of a completion completes no run.\<close>

definition completes :: "string \<Rightarrow> control_db \<Rightarrow> control_db \<Rightarrow> bool" where
  "completes r db db' \<longleftrightarrow> map_option status (state_of db' r) = Some Completed
     \<and> map_option status (state_of db r) \<noteq> Some Completed"

lemma move_completes_none:
  assumes "advance P q s t db db'" "transition_run_state P s target approval now None None ledger = Inr t" "target \<noteq> Completed"
  shows "\<not> completes r db db'"
  using transition_state [OF assms(1,2)] assms(3) by (simp add: completes_def)

lemma work_completes_none:
  assumes "advance P q s \<lparr>new_state = s', new_consumption = None\<rparr> db db'" "counted P s s'"
  shows "\<not> completes r db db'"
  using advance_state [OF assms(1), of r] assms(2) by (auto simp: completes_def counted_def)

lemma quiet_completes_none: "db_runs db' = db_runs db \<Longrightarrow> \<not> completes r db db'"
  using same_runs_state [of db' db r] by (auto simp: completes_def)

lemma lease_completes_none:
  "acquire_lease P q actor ttl clk db = Inr (lg, db') \<Longrightarrow> \<not> completes r db db'"
  "renew_lease P q actor token ttl clk db = Inr (lg, db') \<Longrightarrow> \<not> completes r db db'"
  "release_lease P q actor token clk db = Inr db' \<Longrightarrow> \<not> completes r db db'"
  by (rule quiet_completes_none, erule acquire_lease_effect renew_lease_effect release_lease_effect, simp)+

lemma propose_completes_none:
  assumes "propose P p actor clk nonce db = Inr (s, db')"
  shows "\<not> completes r db db'"
  using assms by (rule propose_effect)
    (auto simp: completes_def state_of_def initial_row_def initial_state_def split: if_splits)

lemma transition_completes_none:
  assumes "control_transition P q target actor token ttl clk db = Inr ((s', tr, g), db')" "bound_run db q" "target \<noteq> Completed"
  shows "\<not> completes r db db'"
  by (rule transition_effect [OF assms(1,2)], rule move_completes_none [OF _ _ assms(3)])

lemma approve_completes_none:
  assumes "approve P q charter reason actor ttl clk nonce db = Inr ((c, tr, s'), db')" "bound_run db q"
  shows "\<not> completes r db db'"
  by (rule approve_effect [OF assms], rule move_completes_none [of P q _ _ db db' Approved]) simp_all

lemma resume_completes_none:
  assumes "resume P q actor ttl ex clk db = Inr ((s', tr, g), db')" "bound_run db q"
  shows "\<not> completes r db db'"
  by (rule resume_effect [OF assms], rule move_completes_none [of P q _ _ db db' Running]) simp_all

lemma budget_completes_none:
  assumes "budget_write P R auth q b actor token clk db = Inr (ans, db')"
  shows "\<not> completes r db db'"
  using budget_has_effect [OF assms] assms
  by (elim budget_write_effect) (auto simp: retry_answer_eq intro!: quiet_completes_none elim!: append_entry_effect)

text \<open>
  C5. The persistence of a completion is the only way to be completed: when a step of the control
  plane takes a run to \<open>COMPLETED\<close>, it is a call of \<open>persist_completion\<close> for that run.
\<close>

theorem completed_only_by_persistence:
  assumes "control_step P R db db'" "\<forall>q. bound_run db q" "completes r db db'"
  shows "\<exists>D T input result h actor token clk out. persist_completion P R D T r input result h actor token clk db = Inr (out, db')"
  using assms(1)
proof cases
  case (step_complete D T q input result h actor token clk s tr res c)
  have "q = r"
  proof (rule ccontr)
    assume "q \<noteq> r"
    from step_complete assms(2) have "\<exists>s t. advance P q s t db db'" by (elim persist_completion_effect) blast+
    then show False using assms(3) \<open>q \<noteq> r\<close> by (auto simp: completes_def advance_state)
  qed
  then show ?thesis using step_complete by blast
next
  case (step_finish typed q iid f actor token clk out s)
  then have False using assms(2,3) by (elim finish_iteration_effect) (use work_completes_none in blast)+
  then show ?thesis ..
next
  case (step_begin q b actor token clk it s)
  then have False using assms(2,3) by (elim begin_iteration_effect) (use work_completes_none in blast)+
  then show ?thesis ..
next
  case (step_propose p actor clk nonce s)
  then have False using assms(3) propose_completes_none by blast
  then show ?thesis ..
next
  case (step_approve q charter reason actor ttl clk nonce c tr s)
  then have False using assms(2,3) approve_completes_none by blast
  then show ?thesis ..
next
  case (step_start q actor ttl clk s tr g)
  then have False unfolding start_def using assms(2,3) transition_completes_none by blast
  then show ?thesis ..
next
  case (step_pause q actor token clk s tr g)
  then have False unfolding pause_def using assms(2,3) transition_completes_none by blast
  then show ?thesis ..
next
  case (step_cancel q actor tok clk s tr g)
  then have False unfolding cancel_def using assms(2,3) transition_completes_none by blast
  then show ?thesis ..
next
  case (step_resume q actor ttl ex clk s tr lg)
  then have False using assms(2,3) resume_completes_none by blast
  then show ?thesis ..
next
  case (step_budget auth q b actor token clk ans)
  then have False using assms(3) budget_completes_none by blast
  then show ?thesis ..
next
  case (step_handoff h)
  then have False using assms(3) quiet_completes_none [of db' db r] by simp
  then show ?thesis ..
next
  case (step_acquire q actor ttl clk lg)
  then have False using assms(3) lease_completes_none(1) by blast
  then show ?thesis ..
next
  case (step_renew q actor token ttl clk lg)
  then have False using assms(3) lease_completes_none(2) by blast
  then show ?thesis ..
next
  case (step_release q actor token clk)
  then have False using assms(3) lease_completes_none(3) by blast
  then show ?thesis ..
qed

section \<open>Evaluation and persistence\<close>

lemma persist_evaluates:
  assumes "persist_completion P R D T r input result h actor token clk db = Inr ((s', tr, res, c), db')"
  shows "\<exists>hist b. assemble_completion_input P R D T db r = Inr (c, hist, b) \<and> evaluate_completion_result P c = Inr res
    \<and> gr_passed (cx_gate res) \<and> (h = None \<or> h = Some (ci_hash c))"
proof -
  from assms obtain s hist b t where "assemble_completion_input P R D T db r = Inr (c, hist, b)"
      "evaluate_completion_result P c = Inr res" "h = None \<or> h = Some (ci_hash c)"
      "transition_to_completed P s (Some c) (Some res) = Inr t"
    unfolding persist_completion_def Let_def public_eq_Inr andthen_eq_Inr current_run_eq split_paired_Ex
      prod.case require_eq_Inr raising_eq_Inr sum.inject prod.inject by blast
  then show ?thesis by (auto simp: completed_meaning result_checks_empty)
qed

text \<open>
  C15. Persisting repeats the evaluation: on the same database, whoever persists and whenever, the
  input and the result are those \<open>evaluate_completion\<close> answered; with any other input hash, or when
  the gate did not pass, nothing is persisted.
\<close>

theorem persistence_repeats_evaluation:
  assumes "evaluate_completion P R D T r actor token clk db = Inr (c, res, hist, b)"
  shows "(\<forall>out. persist_completion P R D T r input result h actor' token' clk' db = Inr out \<longrightarrow> snd (snd (fst out)) = (res, c))
    \<and> (\<not> gr_passed (cx_gate res) \<or> h \<noteq> None \<and> h \<noteq> Some (ci_hash c)
        \<longrightarrow> isl (persist_completion P R D T r input result h actor' token' clk' db))"
proof -
  have e: "assemble_completion_input P R D T db r = Inr (c, hist, b)" "evaluate_completion_result P c = Inr res"
    using assms unfolding evaluate_completion_def by (auto simp: result_simps)
  have same: "c' = c \<and> res' = res \<and> gr_passed (cx_gate res) \<and> (h = None \<or> h = Some (ci_hash c))"
    if "persist_completion P R D T r input result h actor' token' clk' db = Inr ((s', tr, res', c'), db')" for s' tr res' c' db'
    using persist_evaluates [OF that] e by auto
  then show ?thesis
    by (cases "persist_completion P R D T r input result h actor' token' clk' db") (auto dest!: same)
qed

section \<open>A run that has ended\<close>

definition run_trace :: "control_db \<Rightarrow> string \<Rightarrow> run_row option \<times> transition_row list \<times> approval_consumption list \<times> iteration_row list" where
  "run_trace db r = (db_runs db r, filter (\<lambda>x. tr_run x = r) (db_transitions db), consumptions_of db r, iterations_of db r)"

lemma ended_step:
  assumes "all_bound db" "control_step P R db db'" "state_of db r = Some s" "allowed_run_transitions (status s) = []"
  shows "run_trace db' r = run_trace db r"
proof -
  have "control_effect P R db db'" using step_has_effect [OF assms(2)] assms(1) by (simp add: all_bound_def)
  then show ?thesis
  proof cases
    case (effect_proposed q es p limits column now)
    then show ?thesis using assms(3) by (auto simp: run_trace_def state_of_def consumptions_of_def iterations_of_def)
  next
    case (effect_advanced q s0 t)
    have "q \<noteq> r"
    proof
      assume "q = r"
      then have "s0 = s" using effect_advanced(1) assms(3) by (auto simp: advance_def state_of_def)
      with effect_advanced(2) assms(4) show False by (cases rule: legal_machine) auto
    qed
    then show ?thesis
      using advance_other [OF effect_advanced(1)] consumption_moves_other [OF effect_advanced(6)] effect_advanced(7)
      by (auto simp: run_trace_def same_iterations_def begun_iteration_def finished_iteration_def iterations_of_def)
  next
    case (effect_quiet q)
    then show ?thesis by (simp add: run_trace_def same_iterations_def consumptions_of_def iterations_of_def)
  qed
qed

text \<open>
  C8. A run that has ended stays as it is: once it is completed, failed or cancelled, no sequence of
  the operations of \<open>control_step\<close>, by anyone, changes its row, its transition ledger, its approval
  consumptions or its iterations. (\<open>create_checkpoint\<close>, which asks for the fence but not for the
  status, is not one of these operations.)
\<close>

theorem ended_run_is_frozen:
  assumes "\<forall>q. bound_run db q" "state_of db r = Some s" "status s \<in> {Completed, Failed, Cancelled}"
    and "(control_step P R)\<^sup>*\<^sup>* db db'"
  shows "run_trace db' r = run_trace db r"
proof -
  have "allowed_run_transitions (status s) = []" using assms(3) by auto
  from assms(4) show ?thesis
  proof (induction rule: rtranclp_induct)
    case (step y z)
    have "all_bound y" using named.steps_inv [OF step.hyps(1)] assms(1) by (simp add: all_bound_def)
    moreover have "state_of y r = Some s" using step.IH assms(2) by (simp add: run_trace_def state_of_def)
    ultimately show ?case
      using ended_step [OF _ step.hyps(2)] step.IH \<open>allowed_run_transitions (status s) = []\<close> by simp
  qed simp
qed

end
