(* ===== verification/Completion_Run.thy ===== *)
theory Completion_Run
  imports Completion_Passes Completion_Promises Control_Samples
begin

text \<open>
  A run that completes: a database whose history has an attack, an adjudication and a rehydration
  round, all in the research state of the sample, with the artifacts of \<open>Completion_Samples\<close>. The
  evaluation input assembled from it is the sample input, and its completion is persisted.
\<close>

section \<open>The database\<close>

definition done_iteration :: "int \<Rightarrow> string \<Rightarrow> iteration_row" where
  "done_iteration n kind =
     \<lparr>it_id = kind, it_run = ''r'', it_project = ''p'', it_seq = n, it_round = kind, it_status = ''started'',
      it_input = sample_state_hash, it_json = [], it_token = 2, it_started = Stamp 0, it_actor = ''u''\<rparr>"

definition done_outcome :: "string \<Rightarrow> outcome_row" where
  "done_outcome kind =
     \<lparr>oc_id = kind, oc_iteration = kind, oc_run = ''r'', oc_status = ''completed'', oc_input = sample_state_hash,
      oc_output = Some sample_state_hash, oc_delta = [], oc_json = [], oc_claims = [], oc_evidence = [], oc_counter = [],
      oc_strategy = [], oc_summary = [], oc_token = 2, oc_finished = Stamp 0\<rparr>"

text \<open>Every text of the sample reads as the same list of one text.\<close>

definition any_json :: json where
  "any_json = JList [JStr []]"

definition done_link :: "string \<times> string \<Rightarrow> artifact_row" where
  "done_link p = (case p of (kind, type) \<Rightarrow>
     \<lparr>al_id = type, al_iteration = kind, al_run = ''r'', al_type = type, al_artifact = type, al_json = [],
      al_hash = hash_json split_prims any_json\<rparr>)"

definition done_row :: run_row where
  "done_row = initial_row split_prims done_run (json_column split_prims (run_state_json split_prims done_run) done_run) (Stamp 0)"

definition completion_db :: control_db where
  "completion_db = (empty_db sample_tables)
     \<lparr>db_runs := [''r'' \<mapsto> done_row], db_leases := [''r'' \<mapsto> running_lease],
      db_iterations := [done_iteration 1 ''attack'', done_iteration 2 ''adjudication'', done_iteration 3 ''rehydration''],
      db_outcomes := map done_outcome [''attack'', ''adjudication'', ''rehydration''],
      db_artifacts := map done_link
        [(''attack'', ''attack_record''), (''adjudication'', ''discussion_session''),
         (''rehydration'', ''cold_review_packet''), (''rehydration'', ''cold_review_result''), (''rehydration'', ''final_report''),
         (''rehydration'', ''formal_completion_evidence''), (''rehydration'', ''rehydration_output'')]\<rparr>"

definition done_readers :: completion_readers where
  "done_readers =
     \<lparr>rd_loads = (\<lambda>_. Some any_json), rd_charter = (\<lambda>_. Inr done_charter), rd_research = (\<lambda>_. Inr done_state),
      rd_ledger = (\<lambda>_. Inr done_ledger), rd_claim = (\<lambda>_. Inr done_claim_snapshot),
      rd_evidence = (\<lambda>_. Inr done_evidence_snapshot), rd_attack = (\<lambda>_. Inr done_attack),
      rd_session = (\<lambda>_. Inr done_session), rd_rehydration = (\<lambda>_. Inr (ci_rehydration open_input)),
      rd_packet = (\<lambda>_. Inr review_packet), rd_review = (\<lambda>_. Inr done_review), rd_report = (\<lambda>_. Inr done_report),
      rd_formal = (\<lambda>_. Inr done_formal), rd_input = (\<lambda>_. Inr done_input), rd_result = (\<lambda>_. Inl (ValueError []))\<rparr>"

definition done_tables :: completion_tables where
  "done_tables = \<lparr>ct_charters = (\<lambda>_. []), ct_states = (\<lambda>_. Some [])\<rparr>"

section \<open>The assembly\<close>

lemma done_reads:
  "load_json done_readers t = Inr any_json" "snapshot_column done_readers t = Inr ()"
proof -
  have "json_truthy (Some any_json)" unfolding any_json_def by code_simp
  then show "load_json done_readers t = Inr any_json" "snapshot_column done_readers t = Inr ()"
    by (simp_all add: load_json_def snapshot_column_def done_readers_def)
qed

lemma any_digest: "canonical_sha256 split_prims (of_json any_json) = Inr (hash_json split_prims any_json)"
  by (rule canonical_sha256_of_json) (simp add: any_json_def)

lemma done_link_reads: "read_link split_prims done_readers (done_link (kind, type)) arts = Inr (arts @ [(type, any_json)])"
  by (simp add: read_link_def done_reads done_link_def any_digest recovering_def)

lemma done_rows:
  "iterations_of completion_db ''r'' =
     [done_iteration 1 ''attack'', done_iteration 2 ''adjudication'', done_iteration 3 ''rehydration'']"
  "history_rows completion_db ''r'' =
     [(done_iteration 1 ''attack'', done_outcome ''attack''), (done_iteration 2 ''adjudication'', done_outcome ''adjudication''),
      (done_iteration 3 ''rehydration'', done_outcome ''rehydration'')]"
proof -
  show it: "iterations_of completion_db ''r'' =
     [done_iteration 1 ''attack'', done_iteration 2 ''adjudication'', done_iteration 3 ''rehydration'']"
    by (simp add: iterations_of_def completion_db_def done_iteration_def)
  show "history_rows completion_db ''r'' =
     [(done_iteration 1 ''attack'', done_outcome ''attack''), (done_iteration 2 ''adjudication'', done_outcome ''adjudication''),
      (done_iteration 3 ''rehydration'', done_outcome ''rehydration'')]"
    unfolding history_rows_def it by (simp add: completion_db_def done_iteration_def done_outcome_def)
qed

lemma done_hash_nonempty: "sample_state_hash \<noteq> []"
proof -
  have "nonblank sample_state_hash" unfolding sample_state_hash_def by (rule split_nonblank)
  moreover have "\<not> nonblank []" by code_simp
  ultimately show ?thesis by auto
qed

lemma done_completed: "completed_rows (history_rows completion_db ''r'') = history_rows completion_db ''r''"
  using done_hash_nonempty by (simp add: completed_rows_def done_rows done_outcome_def)

lemma done_links_of:
  "links_of completion_db ''r'' ''attack'' = [done_link (''attack'', ''attack_record'')]"
  "links_of completion_db ''r'' ''adjudication'' = [done_link (''adjudication'', ''discussion_session'')]"
  "links_of completion_db ''r'' ''rehydration'' = map (\<lambda>type. done_link (''rehydration'', type))
     [''cold_review_packet'', ''cold_review_result'', ''final_report'', ''formal_completion_evidence'', ''rehydration_output'']"
  by (simp_all add: links_of_def completion_db_def done_link_def)

definition done_log :: artifact_log where
  "done_log = map (\<lambda>type. (type, any_json)) [''attack_record'', ''discussion_session'', ''cold_review_packet'',
     ''cold_review_result'', ''final_report'', ''formal_completion_evidence'', ''rehydration_output'']"

lemma done_round:
  assumes "cl_strategies done_ledger \<noteq> []" "cl_required done_ledger \<noteq> []"
    and "links_of completion_db ''r'' kind = map (\<lambda>type. done_link (kind, type)) types"
  shows "completed_round split_prims done_readers completion_db ''r'' (done_iteration n kind, done_outcome kind) arts
    = andthen (round_artifacts kind (arts @ map (\<lambda>type. (type, any_json)) types)) (\<lambda>_. Inr (arts @ map (\<lambda>type. (type, any_json)) types))"
proof -
  have fold: "fold_result (read_link split_prims done_readers) (map (\<lambda>type. done_link (kind, type)) types) arts
      = Inr (arts @ map (\<lambda>type. (type, any_json)) types)" for arts
    by (induction types arbitrary: arts) (simp_all add: done_link_reads)
  have "load_model done_readers (rd_ledger done_readers) t = Inr done_ledger" for t
    by (simp add: load_model_def done_reads) (simp add: done_readers_def)
  then show ?thesis
    unfolding completed_round_def using assms fold
    by (simp add: done_reads recovering_def) (simp add: done_iteration_def)
qed

definition done_history_record :: completion_history where
  "done_history_record = \<lparr>hi_count = 3, hi_completed = 3, hi_rounds = sorted_set [''attack'', ''adjudication'', ''rehydration''],
     hi_rows = history_rows completion_db ''r'', hi_log = done_log\<rparr>"

lemma done_history_fields: "hi_log done_history_record = done_log" "hi_rows done_history_record = history_rows completion_db ''r''"
  by (simp_all add: done_history_record_def)

lemma done_history:
  "history_for_completion split_prims done_readers completion_db ''r'' sample_state_hash
   = Inr done_history_record"
proof -
  have ledger: "cl_strategies done_ledger \<noteq> []" "cl_required done_ledger \<noteq> []" by (simp_all add: done_ledger_def)
  have seq: "map it_seq (sort_key it_seq (iterations_of completion_db ''r'')) = [1, 2, 3]"
    by (simp add: done_rows done_iteration_def)
  have upto: "[1..3] = [1, 2, 3 :: int]" by (simp add: upto.simps)
  have stable: "stable_rounds sample_state_hash (history_rows completion_db ''r'')"
    by (simp add: stable_rounds_def done_rows done_outcome_def nth_Cons')
  have rounds: "map (\<lambda>p. it_round (fst p)) (history_rows completion_db ''r'') = [''attack'', ''adjudication'', ''rehydration'']"
    by (simp add: done_rows done_iteration_def)
  have "fold_result (completed_round split_prims done_readers completion_db ''r'') (history_rows completion_db ''r'') [] = Inr done_log"
    using done_round [OF ledger, of "''attack''" "[''attack_record'']"]
      done_round [OF ledger, of "''adjudication''" "[''discussion_session'']"]
      done_round [OF ledger, of "''rehydration''" "[''cold_review_packet'', ''cold_review_result'', ''final_report'',
        ''formal_completion_evidence'', ''rehydration_output'']"]
    by (simp add: done_rows done_links_of round_artifacts_def logged_def done_log_def)
  moreover have "fold_result (\<lambda>type _. require (logged [type] done_log)
      (Max_control (''completion history lacks a persisted typed '' @ type))) required_artifacts () = Inr ()"
    by (simp add: required_artifacts_def logged_def done_log_def)
  ultimately show ?thesis
    unfolding history_for_completion_def Let_def done_completed seq rounds using stable upto
    by (simp add: done_rows done_history_record_def)
qed

text \<open>The budget of the run reconstructs: nothing has been charged to it.\<close>

lemma done_budget: "\<exists>b. budget_reconstruct split_prims (\<lambda>x. x) completion_db ''r'' = Inr b"
proof -
  have limits: "normalize_budget_limits (rr_budget_policy done_row) = Inr [(''iteration_count'', Whole 3)]"
    using stored_limits_read [of "[(''iteration_count'', Whole 3)]"]
    by (simp add: done_row_def initial_row_def done_run_def sample_run_def amount_json_def canonical_limits_def budget_aliases_def
        read_quantity_def int_to_float_overflows_def)
  have row: "run_row completion_db ''r'' = Inr done_row" by (simp add: run_row_def completion_db_def)
  have "ledger_of completion_db ''r'' = []" by (simp add: ledger_of_def completion_db_def empty_db_def)
  then show ?thesis
    unfolding budget_reconstruct_def
    by (simp add: row limits starting_balance_def quantity_at_def available_def)
qed

lemma done_current: "current_run ''r'' completion_db = Inr (done_row, done_run)"
  by (simp add: current_run_eq completion_db_def done_row_def initial_row_def json_column_def)

lemma done_reader_fields:
  "rd_charter done_readers j = Inr done_charter" "rd_research done_readers j = Inr done_state"
  "rd_ledger done_readers j = Inr done_ledger" "rd_claim done_readers j = Inr done_claim_snapshot"
  "rd_evidence done_readers j = Inr done_evidence_snapshot" "rd_attack done_readers j = Inr done_attack"
  "rd_session done_readers j = Inr done_session" "rd_rehydration done_readers j = Inr (ci_rehydration open_input)"
  "rd_packet done_readers j = Inr review_packet" "rd_review done_readers j = Inr done_review"
  "rd_report done_readers j = Inr done_report" "rd_formal done_readers j = Inr done_formal"
  by (simp_all add: done_readers_def)

lemma done_snapshots_read:
  "collect_snapshots done_readers (history_rows completion_db ''r'') = Inr \<lparr>ss_claims = replicate 3 done_claim_snapshot,
     ss_evidence = replicate 3 done_evidence_snapshot, ss_counter = replicate 3 done_evidence_snapshot, ss_ledger = done_ledger\<rparr>"
proof -
  have one: "load_snapshots done_readers read t = Inr [x]" if "\<And>j. read j = Inr x" for read t and x :: 'a
    using that by (simp add: load_snapshots_def done_reads any_json_def)
  have ledger: "load_model done_readers (rd_ledger done_readers) t = Inr done_ledger" for t
    by (simp add: load_model_def done_reads done_reader_fields)
  have three: "replicate 3 x = [x, x, x]" for x :: 'a by (simp add: eval_nat_numeral)
  have "collect_row done_readers (done_iteration n kind, done_outcome kind) acc = Inr
     \<lparr>ss_claims = ss_claims acc @ [done_claim_snapshot], ss_evidence = ss_evidence acc @ [done_evidence_snapshot],
      ss_counter = ss_counter acc @ [done_evidence_snapshot], ss_ledger = done_ledger\<rparr>" for n kind acc
    unfolding collect_row_def prod.case
    by (simp add: one [OF done_reader_fields(4)] one [OF done_reader_fields(5)] ledger)
      (simp add: done_outcome_def done_ledger_def)
  then show ?thesis unfolding three by (simp add: collect_snapshots_def done_rows)
qed

lemma done_artifacts:
  "artifacts_of done_log ''attack_record'' = [any_json]" "artifacts_of done_log ''discussion_session'' = [any_json]"
  "artifacts_of done_log ''rehydration_output'' = [any_json]" "artifacts_of done_log ''cold_review_packet'' = [any_json]"
  "artifacts_of done_log ''cold_review_result'' = [any_json]" "artifacts_of done_log ''final_report'' = [any_json]"
  "artifacts_of done_log ''formal_completion_evidence'' = [any_json]"
  by (simp_all add: artifacts_of_def done_log_def)

lemma done_input_made: "make_completion_input split_prims open_input = Inr done_input"
proof -
  have "done_input\<lparr>ci_hash := []\<rparr> = open_input" "open_input\<lparr>ci_hash := []\<rparr> = open_input"
    by (simp_all add: done_input_def open_input_def)
  then have "completion_input_hash split_prims open_input = Inr (ci_hash done_input)"
    using done_input_hash by (simp only: completion_input_hash_def)
  moreover have "open_input\<lparr>ci_hash := ci_hash done_input\<rparr> = done_input" by (simp add: done_input_def)
  ultimately show ?thesis by (simp add: make_completion_input_def)
qed

lemma done_assembles:
  "\<exists>b. assemble_completion_input split_prims (\<lambda>x. x) done_readers done_tables completion_db ''r''
     = Inr (done_input, done_history_record, b)"
proof -
  obtain b where b: "budget_reconstruct split_prims (\<lambda>x. x) completion_db ''r'' = Inr b" using done_budget by blast
  have run: "current_state_hash done_run = Some sample_state_hash" "project_id done_run = ''p''" "charter_hash done_run = done_charter_hash"
      "model_identity done_run = ''m''" "current_checkpoint_id done_run = None" "state_hash_of done_run = sample_state_hash"
    by (simp_all add: done_run_def sample_run_def state_hash_of_def)
  have "rr_updated done_row = Stamp 0" by (simp add: done_row_def initial_row_def)
  moreover have "ct_states done_tables ''r'' = Some []" by (simp add: done_tables_def)
  ultimately have "assemble_completion_input split_prims (\<lambda>x. x) done_readers done_tables completion_db ''r''
     = andthen (raising (make_completion_input split_prims open_input)) (\<lambda>c. Inr (c, done_history_record, b))"
    unfolding assemble_completion_input_def Let_def done_current andthen_simps prod.case saved_state_def
    by (simp add: load_model_def done_reads done_reader_fields recovering_def done_history run b one_artifact_def
        first_artifacts_def done_history_fields done_artifacts done_snapshots_read done_fields)
      (simp add: open_input_def)
  then show ?thesis by (simp add: done_input_made)
qed

section \<open>The persistence\<close>

lemma split_hex: "is_hex64 (hash_json split_prims j)"
  using split_ok by (simp add: digest_ok_def hash_json_def)

lemma split_events: "toy_events split_prims"
proof -
  have "is_kind ''event''" by code_simp
  then have "event_text (event_id_text split_prims project e)" for project e
    by (simp add: event_id_text_def event_text_kind)
  then show ?thesis using split_ok by (simp add: toy_events_def) (simp add: split_prims_def)
qed

definition done_result :: completion_result where
  "done_result = projr (evaluate_completion_result split_prims done_input)"

lemma done_result:
  "evaluate_completion_result split_prims done_input = Inr done_result" "cx_gate done_result = done_gate"
  "cx_id done_result = ''mr1:completion_result:'' @ sample_digits" "cx_state_hash done_result = sample_state_hash"
proof -
  have k: "kind_key ''completion_result'' = ''completion_result''" "is_kind ''completion_result''" "''completion_result'' \<noteq> ''event''"
    by code_simp+
  let ?j = "JObj [(''run_id'', JStr (ci_run done_input)), (''charter_hash'', JStr (ci_charter_hash done_input)),
     (''state_hash'', JStr (ci_state_hash done_input)), (''gate_hash'', JStr (gr_hash done_gate)),
     (''gate_input_hash'', JStr (gr_input_hash done_gate)), (''evaluated_at'', JStr (stamp_text split_prims (ci_evaluated done_input)))]"
  have "make_event_id split_prims (VStr ''completion_result'') (VStr (ci_project done_input)) (of_json ?j)
      = Inr (''mr1:completion_result:'' @ sample_digits)"
    using split_event_id [OF _ k, of ?j] by simp
  then have e: "evaluate_completion_result split_prims done_input = Inr
     \<lparr>cx_project = ci_project done_input, cx_run = ci_run done_input, cx_charter = ci_charter_hash done_input,
      cx_state_hash = ci_state_hash done_input, cx_gate = done_gate, cx_evaluated = ci_evaluated done_input,
      cx_id = ''mr1:completion_result:'' @ sample_digits, cx_schema = ''max-research-completion-result/v1''\<rparr>"
    using done_gate_passes by (simp add: evaluated_result)
  then show "evaluate_completion_result split_prims done_input = Inr done_result" "cx_gate done_result = done_gate"
    "cx_id done_result = ''mr1:completion_result:'' @ sample_digits" "cx_state_hash done_result = sample_state_hash"
    by (simp_all add: done_result_def done_input_fields)
qed

lemma done_transition_submitted:
  "transition_to_completed split_prims done_run (Some done_input) (Some done_result) = Inr done_transition"
proof -
  have "complete_with split_prims done_run (Some done_input) (Some done_result)
      = complete_with split_prims done_run (Some done_input) None"
    by (simp add: complete_with_def done_result(1) same_result_def)
  then show ?thesis using done_completes by (simp add: transition_to_completed_def)
qed

lemma done_new_state:
  "new_state done_transition = (completed_fields done_run done_result None)\<lparr>status := Completed, state_version := 4\<rparr>"
  "new_consumption done_transition = None"
proof -
  have "state_version done_run = 3" by (simp add: done_run_def)
  then show "new_state done_transition = (completed_fields done_run done_result None)\<lparr>status := Completed, state_version := 4\<rparr>"
    "new_consumption done_transition = None"
    using done_completes done_result(1) by (auto simp: completed_meaning done_input_fields)
qed

lemma done_validated:
  "validate_completion_result split_prims done_result (Some done_input) unbound (Some done_run) = Inr []"
proof -
  have "result_checks done_result unbound (Some done_run) = []"
    using done_transition_submitted done_result(1) by (auto simp: completed_meaning)
  then show ?thesis by (simp add: validate_own_result [OF done_result(1)])
qed

definition done_events :: "string \<Rightarrow> (string \<times> json) list" where
  "done_events hh = (''lease_released'', JObj [(''reason'', JStr ''run_completed''), (''fencing_token'', JInt 2)])
     # persisted_events done_result done_input hh 2 done_run (new_state done_transition)"

lemma flat_payload_accepted:
  assumes "length kvs \<le> 10000" "list_all (\<lambda>p. \<not> forbidden_key (fst p)) kvs"
    and "list_all (\<lambda>p. harmless (snd p) \<and> json_depth (snd p) = 0 \<and> subvalues (snd p) = [snd p]) kvs"
  shows "reject_untrusted_payload (JObj kvs) = Inr ()"
proof -
  have "set (map (\<lambda>p. json_depth (snd p)) kvs) \<subseteq> {0}" using assms(3) by (auto simp: list_all_iff)
  then have "kvs \<noteq> [] \<Longrightarrow> Max (set (map (\<lambda>p. json_depth (snd p)) kvs)) = 0"
    by (metis Max_singleton subset_singletonD set_empty map_is_Nil_conv)
  then have "json_depth (JObj kvs) \<le> 32" by simp
  moreover have "list_all harmless (subvalues (JObj kvs))"
    using assms by (auto simp: list_all_iff)
  ultimately show ?thesis by (simp add: reject_payload_accepts)
qed

lemma done_events_ok:
  assumes "is_hex64 hh"
  shows "list_all toy_event (done_events hh)" "distinct (map (\<lambda>tp. toy_id (fst tp)) (done_events hh))"
proof -
  have "check_text ''run_completed'' = Inr ()" "check_text (''mr1:completion_result:'' @ sample_digits) = Inr ()"
      "check_text ''RUNNING'' = Inr ()" "check_text ''COMPLETED'' = Inr ()"
    by code_simp+
  then have texts: "harmless (JStr ''run_completed'')" "harmless (JStr (''mr1:completion_result:'' @ sample_digits))"
      "harmless (JStr ''RUNNING'')" "harmless (JStr ''COMPLETED'')"
    unfolding check_text_accepts .
  have keys: "list_all (\<lambda>k. \<not> forbidden_key k) [''reason'', ''fencing_token'', ''result_id'', ''state_hash'', ''input_hash'',
      ''history_hash'', ''from'', ''to'', ''state_version'']"
    by code_simp
  have hashes: "harmless (JStr sample_state_hash)" "harmless (JStr (ci_hash done_input))" "harmless (JStr hh)"
    using hex_harmless split_hex assms by (auto simp: sample_state_hash_def done_input_def)
  have names: "status_value (status done_run) = ''RUNNING''" "status_value (status (new_state done_transition)) = ''COMPLETED''"
    by (simp_all add: done_run_def done_new_state)
  have long: "list_all (\<lambda>t. 14 \<le> length (quote t)) [''lease_released'', ''completion_persisted'', ''run_transition'']"
    by code_simp
  show "list_all toy_event (done_events hh)"
    using texts keys hashes long
    by (simp add: done_events_def persisted_events_def toy_event_def transition_payload_def flat_payload_accepted done_result
        names del: harmless.simps(3))
  have "distinct (map toy_id [''lease_released'', ''completion_persisted'', ''run_transition''])" by code_simp
  then show "distinct (map (\<lambda>tp. toy_id (fst tp)) (done_events hh))"
    by (simp add: done_events_def persisted_events_def)
qed

lemma done_result_wf: "wf_json (completion_result_json split_prims done_result)"
proof -
  have "\<exists>sat. gr_checks done_gate = gate_checks done_input True [] [] sat"
    using done_gate_passes unfolding evaluate_completion_gate_def
    by (auto simp: result_simps Let_def done_input_valid done_report_valid done_packet_valid done_input_fields
        dest!: arg_cong [where f = gr_checks]) metis
  then obtain sat where "gr_checks done_gate = gate_checks done_input True [] [] sat" ..
  moreover have "distinct (map fst (gate_checks done_input True [] [] sat))" by (simp add: gate_checks_def)
  ultimately have "wf_json (checks_json (gr_checks done_gate))"
    by (auto simp: checks_json_def list_all_iff comp_def case_prod_beta)
  then show ?thesis by (simp add: completion_result_json_def gate_json_def done_result)
qed

lemma done_history_wf: "wf_json (history_json split_prims done_history_record)"
proof -
  have "wf_json (history_row_json split_prims row)" for row
    by (cases row) (simp add: history_row_json_def)
  moreover have "list_all wf_json (artifacts_of done_log type)" for type
    by (auto simp: artifacts_of_def done_log_def any_json_def list_all_iff)
  ultimately show ?thesis
    by (simp add: history_json_def done_history_fields comp_def list_all_iff)
qed

lemma done_written:
  "\<exists>tr row trs. write_result split_prims completion done_run done_transition sample_actor now completion_db
     = Inr (tr, completion_db\<lparr>db_runs := [''r'' \<mapsto> row], db_transitions := trs\<rparr>) \<and> rr_project row = ''p''"
proof -
  have new: "run_id (new_state done_transition) = ''r''" "budget (new_state done_transition) = [(''iteration_count'', JInt 3)]"
      "state_version (new_state done_transition) = 4" "iteration_index (new_state done_transition) = 0"
    by (simp_all add: done_new_state completed_fields_def done_run_def sample_run_def)
  have old: "run_id done_run = ''r''" "state_version done_run = 3" "project_id done_run = ''p''"
    by (simp_all add: done_run_def sample_run_def)
  have column: "state_column split_prims (new_state done_transition) = Inr (json_column split_prims
      (run_state_json split_prims (new_state done_transition)) (new_state done_transition))"
    by (simp add: state_column_def stored_json_ok new)
  have json: "stored_json split_prims (transition_json split_prims done_transition) = Inr (transition_json split_prims done_transition)"
    by (rule stored_json_ok, rule transition_json_wf) (simp add: new)
  have k: "kind_key ''run_transition_result'' = ''run_transition_result''" "is_kind ''run_transition_result''"
      "''run_transition_result'' \<noteq> ''event''"
    by code_simp+
  have tid: "make_event_id split_prims (VStr ''run_transition_result'') (VStr ''p'') (VDict
       [(KStr ''run_id'', VStr ''r''), (KStr ''prior_state_version'', VInt 3), (KStr ''resulting_state_version'', VInt 4),
        (KStr ''transition_hash'', VStr h)]) = Inr (''mr1:run_transition_result:'' @ sample_digits)" for h
    using split_event_id [OF _ k, of "JObj [(''run_id'', JStr ''r''), (''prior_state_version'', JInt 3),
       (''resulting_state_version'', JInt 4), (''transition_hash'', JStr h)]" "''p''"] by simp
  have db: "db_runs completion_db = [''r'' \<mapsto> done_row]" "db_transitions completion_db = []"
    by (simp_all add: completion_db_def empty_db_def)
  let ?row = "written_row split_prims (new_state done_transition) (json_column split_prims
      (run_state_json split_prims (new_state done_transition)) (new_state done_transition)) now completion done_row"
  let ?tr = "transition_row_of split_prims (''mr1:run_transition_result:'' @ sample_digits)
      (transition_json split_prims done_transition) done_run done_transition sample_actor now"
  have "write_result split_prims completion done_run done_transition sample_actor now completion_db
     = Inr (?tr, completion_db\<lparr>db_runs := [''r'' \<mapsto> ?row], db_transitions := [?tr]\<rparr>)"
    unfolding write_result_def update_run_def record_transition_def column json andthen_simps Let_def
    by (simp add: new old db tid) (simp add: transition_row_of_def new old)
  moreover have "rr_project ?row = ''p''" by (simp add: written_row_def done_row_def initial_row_def old)
  ultimately show ?thesis by blast
qed

lemma done_persists:
  "\<exists>out. persist_completion split_prims (\<lambda>x. x) done_readers done_tables ''r'' None None (Some (ci_hash done_input))
     sample_actor 2 sample_clock completion_db = Inr out"
proof -
  let ?now = "timestamp (now_stamp sample_clock)"
  let ?j = "completion_result_json split_prims done_result" and ?hh = "hash_json split_prims (history_json split_prims done_history_record)"
  obtain b where a: "assemble_completion_input split_prims (\<lambda>x. x) done_readers done_tables completion_db ''r''
     = Inr (done_input, done_history_record, b)" using done_assembles by blast
  have fence: "assert_fence completion_db ''r'' sample_actor (Some 2) (now_check sample_clock) = Inr ()"
    by (simp add: assert_fence_def completion_db_def running_lease_def sample_actor_def sample_clock_def parse_timestamp_def)
  obtain tr row trs where w: "write_result split_prims (Some ?j) done_run done_transition sample_actor ?now completion_db
     = Inr (tr, completion_db\<lparr>db_runs := [''r'' \<mapsto> row], db_transitions := trs\<rparr>)" using done_written by blast
  let ?db = "expire_lease ''r'' ?now (completion_db\<lparr>db_runs := [''r'' \<mapsto> row], db_transitions := trs\<rparr>)"
  have db: "db_events ?db = []" "db_runs ?db ''r'' = Some row"
    by (simp_all add: expire_lease_def set_lease_def completion_db_def empty_db_def)
  have chained: "\<forall>r. chained split_prims (db_events ?db) r" unfolding db by (simp add: chained_def run_log_def)
  have fresh: "distinct (map ev_id (db_events ?db) @ map (\<lambda>tp. toy_id (fst tp)) (done_events ?hh))"
    unfolding db using done_events_ok(2) [OF split_hex] by simp
  obtain es where "append_events split_prims ''r'' (done_events ?hh) sample_actor ?now ?db = Inr (?db\<lparr>db_events := es\<rparr>)"
    using append_events_toy [OF split_events chained db(2) done_events_ok(1) [OF split_hex] fresh] by blast
  then obtain db2 where e: "append_event split_prims ''r'' ''lease_released'' (JObj [(''reason'', JStr ''run_completed''),
       (''fencing_token'', JInt 2)]) sample_actor ?now ?db = Inr db2"
      "append_events split_prims ''r'' (persisted_events done_result done_input ?hh 2 done_run (new_state done_transition))
        sample_actor ?now db2 = Inr (?db\<lparr>db_events := es\<rparr>)"
    by (auto simp: append_events_def done_events_def result_simps)
  have "status done_run = Running" by (simp add: done_run_def)
  then show ?thesis
    unfolding persist_completion_def Let_def done_current andthen_simps prod.case
    by (simp add: fence a check_submitted_def done_result(1) done_validated raise_if_invalid_def result_ok_def
        done_transition_submitted stored_json_ok done_result_wf w e done_history_wf)
qed

definition done_output :: "(max_run_state \<times> transition_row \<times> completion_result \<times> completion_input) \<times> control_db" where
  "done_output = projr (persist_completion split_prims (\<lambda>x. x) done_readers done_tables ''r'' None None (Some (ci_hash done_input))
     sample_actor 2 sample_clock completion_db)"

definition completed_db :: control_db where
  "completed_db = snd done_output"

lemma done_output:
  "persist_completion split_prims (\<lambda>x. x) done_readers done_tables ''r'' None None (Some (ci_hash done_input))
     sample_actor 2 sample_clock completion_db
   = Inr ((fst (fst done_output), fst (snd (fst done_output)), done_result, done_input), completed_db)"
proof -
  have out: "persist_completion split_prims (\<lambda>x. x) done_readers done_tables ''r'' None None (Some (ci_hash done_input))
     sample_actor 2 sample_clock completion_db = Inr done_output"
    using done_persists by (auto simp: done_output_def)
  obtain s tr res c db where o: "done_output = ((s, tr, res, c), db)" by (metis prod.exhaust)
  obtain hist b where "assemble_completion_input split_prims (\<lambda>x. x) done_readers done_tables completion_db ''r'' = Inr (c, hist, b)"
      "evaluate_completion_result split_prims c = Inr res"
    using persist_evaluates [OF out [unfolded o]] by blast
  then have "c = done_input" "res = done_result" using done_assembles done_result(1) by auto
  then show ?thesis using out by (simp add: o completed_db_def)
qed

section \<open>The promises at the database\<close>

lemma completion_bound: "bound_run completion_db q"
  using done_current by (auto simp: bound_run_def state_of_def completion_db_def done_row_def initial_row_def json_column_def
      done_run_def sample_run_def)


lemma done_completion_step: "control_step split_prims (\<lambda>x. x) completion_db completed_db"
  using done_output by (rule step_complete)

lemma done_run_completes: "completes ''r'' completion_db completed_db"
proof -
  have "state_of completion_db ''r'' = Some done_run" using done_current by (simp add: state_of_def current_run_eq)
  moreover have "\<exists>s. state_of completed_db ''r'' = Some s \<and> status s = Completed"
    by (rule persist_completion_effect [OF done_output completion_bound])
      (auto simp: advance_state dest: completed_moves(2))
  ultimately show ?thesis by (auto simp: completes_def done_run_def)
qed

theorem completed_only_by_persistence_witness:
  "completes ''r'' completion_db completed_db
   \<and> (\<exists>D T input result h actor token clk out. persist_completion split_prims (\<lambda>x. x) D T ''r'' input result h actor token clk completion_db
        = Inr (out, completed_db))"
  using completed_only_by_persistence [OF done_completion_step _ done_run_completes] completion_bound done_run_completes by blast

theorem persistence_repeats_evaluation_witness:
  "isl (persist_completion split_prims (\<lambda>x. x) done_readers done_tables ''r'' None None (Some ''stale'') sample_actor 2 sample_clock completion_db)"
proof -
  obtain b where a: "assemble_completion_input split_prims (\<lambda>x. x) done_readers done_tables completion_db ''r''
     = Inr (done_input, done_history_record, b)" using done_assembles by blast
  have fence: "assert_fence completion_db ''r'' sample_actor (Some 2) (now_check sample_clock) = Inr ()"
    by (simp add: assert_fence_def completion_db_def running_lease_def sample_actor_def sample_clock_def parse_timestamp_def)
  have "status done_run = Running" by (simp add: done_run_def)
  then have e: "evaluate_completion split_prims (\<lambda>x. x) done_readers done_tables ''r'' sample_actor 2 sample_clock completion_db
     = Inr (done_input, done_result, done_history_record, b)"
    by (simp add: evaluate_completion_def done_current fence a done_result(1))
  have "length (ci_hash done_input) = 64" using split_hex by (simp add: done_input_def is_hex64_def)
  then have "ci_hash done_input \<noteq> ''stale''" by auto
  then show ?thesis using persistence_repeats_evaluation [OF e] by simp
qed

theorem ended_run_is_frozen_witness:
  "map_option status (state_of completed_db ''r'') = Some Completed
   \<and> run_trace (completed_db\<lparr>db_handoff := sample_tables\<rparr>) ''r'' = run_trace completed_db ''r''"
proof -
  have bound: "\<forall>q. bound_run completed_db q"
    using bound_step [OF _ done_completion_step] completion_bound by (simp add: all_bound_def)
  obtain s where s: "state_of completed_db ''r'' = Some s" "status s = Completed"
    using done_run_completes by (auto simp: completes_def)
  have "control_step split_prims (\<lambda>x. x) completed_db (completed_db\<lparr>db_handoff := sample_tables\<rparr>)"
    by (rule step_handoff) simp
  then show ?thesis
    using ended_run_is_frozen [OF bound s(1) _ r_into_rtranclp] s by simp
qed

end
