(* ===== verification/Lineage_Witness.thy ===== *)
theory Lineage_Witness
  imports Graph_Samples
begin

text \<open>
  A checkpoint lineage: three checkpoints of a run, the second of which does not carry the figure
  \<open>usd\<close> of the budget.
\<close>

definition sample_working :: "int \<Rightarrow> (string \<times> json) list \<Rightarrow> working_state" where
  "sample_working n figures =
     \<lparr>ws_project = ''p'', ws_run = ''r'', ws_iteration = n, ws_budget = figures, ws_objects = [''mr1:claim:a''],
      ws_claims = [''mr1:claim:a''], ws_evidence = [], ws_leading = None, ws_strategies = [], ws_pending = [],
      ws_issues = [], ws_summary = [], ws_schema = ''max-research-working-state/v1''\<rparr>"

definition sample_checkpoint :: "int \<Rightarrow> string \<Rightarrow> string option \<Rightarrow> (string \<times> json) list \<Rightarrow> checkpoint" where
  "sample_checkpoint n cid prior figures =
     \<lparr>ck_project = ''p'', ck_run = ''r'', ck_working = sample_working n figures, ck_budget = figures,
      ck_iteration = n, ck_ids = [''mr1:claim:a''], ck_id = cid, ck_supersedes = prior, ck_created = None,
      ck_version = 1, ck_extension = [], ck_schema = ''max-research-checkpoint/v1''\<rparr>"

definition sample_lineage :: "checkpoint list" where
  "sample_lineage =
     [sample_checkpoint 0 ''mr1:checkpoint:a'' None [(''usd'', JInt 5)],
      sample_checkpoint 1 ''mr1:checkpoint:b'' (Some ''mr1:checkpoint:a'') [(''tokens'', JInt 1)],
      sample_checkpoint 2 ''mr1:checkpoint:c'' (Some ''mr1:checkpoint:b'') [(''usd'', JInt 9)]]"

lemma opt_json_plain: "wf_json (opt_json m)" "scan_formal path (opt_json m) = []" "embeds (opt_json m) = False"
  by (cases m; simp add: opt_json_def)+

lemma checkpoint_keys_informal:
  "list_all (\<lambda>k. lower k \<notin> set formal_content_keys)
     [''project_id'', ''run_id'', ''working_state'', ''budget'', ''iteration_pointer'', ''canonical_ids'',
      ''checkpoint_id'', ''supersedes_item_id'', ''created_at'', ''checkpoint_version'', ''frontier_extension_ids'',
      ''schema'', ''iteration_index'', ''budget_remaining'', ''canonical_object_ids'', ''claim_ids'', ''evidence_ids'',
      ''active_leading_hypothesis_id'', ''search_strategy_ids'', ''pending_questions'', ''unresolved_issue_ids'',
      ''summary'', ''usd'', ''tokens'']"
  by code_simp

lemma sample_checkpoints_valid:
  assumes "is_stable_id (JStr cid) (Some ''checkpoint'')" "0 \<le> n" "k \<in> {''usd'', ''tokens''}"
  shows "validate_checkpoint P (sample_checkpoint n cid prior [(k, JInt m)]) None None None = Inr []"
proof -
  have ids: "is_project_id (JStr ''p'')" "is_stable_id (JStr ''mr1:claim:a'') None" "is_stable_id (JStr ''mr1:claim:a'') (Some ''claim'')"
    by code_simp+
  note defs = checkpoint_json_def working_json_def sample_checkpoint_def sample_working_def strings_json_def opt_json_plain
  have wf: "wf_json (checkpoint_json (sample_checkpoint n cid prior [(k, JInt m)]))"
    by (simp add: defs)
  have "lower k \<notin> set formal_content_keys" using checkpoint_keys_informal assms(3) by auto
  then have "scan_formal ''$.checkpoint'' (checkpoint_json (sample_checkpoint n cid prior [(k, JInt m)])) = []"
    using checkpoint_keys_informal by (simp add: defs del: set_simps)
  then show ?thesis
    using ids assms(1,2) wf
    by (simp add: validate_checkpoint_def model_to_dict_of_json sample_checkpoint_def sample_working_def working_issues_def
      Let_def id_sequence_def working_ids_issues_def required_mapping_def binds_def)
qed

lemma sample_lineage_accepted: "validate_checkpoint_lineage P sample_lineage = Inr []"
proof -
  have ids: "is_stable_id (JStr ''mr1:checkpoint:a'') (Some ''checkpoint'')"
      "is_stable_id (JStr ''mr1:checkpoint:b'') (Some ''checkpoint'')"
      "is_stable_id (JStr ''mr1:checkpoint:c'') (Some ''checkpoint'')"
    by code_simp+
  have "lineage_issues sample_lineage = []" by code_simp
  moreover have "lineage_rows P sample_lineage 0 [] sample_lineage = Inr []"
    using sample_checkpoints_valid [OF ids(1), of 0 "''usd''"] sample_checkpoints_valid [OF ids(2), of 1 "''tokens''"]
      sample_checkpoints_valid [OF ids(3), of 2 "''usd''"]
    by (simp add: sample_lineage_def) (simp add: sample_checkpoint_def predecessor_def)
  ultimately show ?thesis by (simp add: validate_checkpoint_lineage_def result_simps)
qed

lemma sample_lineage_ordered: "sort_key ck_iteration sample_lineage = sample_lineage"
  by (simp add: sample_lineage_def sample_checkpoint_def)

lemma accepted_lineage_is_a_chain_witness: "lineage_chain sample_lineage"
  using accepted_lineage_is_a_chain [OF sample_lineage_accepted [of graph_prims] sample_lineage_ordered [symmetric]] by blast

text \<open>
  A budget figure can grow along an accepted lineage: neighbours are compared on the keys both
  have, so a figure that one checkpoint leaves out may come back larger in the next.
\<close>

theorem dropped_figure_may_grow:
  "\<exists>cs. validate_checkpoint_lineage P cs = Inr [] \<and> map_of (ck_budget (hd cs)) ''usd'' = Some (JInt 5)
     \<and> map_of (ck_budget (last cs)) ''usd'' = Some (JInt 9) \<and> ck_iteration (hd cs) < ck_iteration (last cs)"
  using sample_lineage_accepted [of P]
  by (intro exI [of _ sample_lineage]) (simp add: sample_lineage_def sample_checkpoint_def)

end
