(* ===== verification/Rehydration_Correct.thy ===== *)
theory Rehydration_Correct
  imports Research_Rehydration Research_Proposals Research_Strategy Graph_Witness Lineage_Witness
begin

text \<open>
  What an accepted rehydration has compared, what a speculative history may be, and what the
  stability of claims measures.
\<close>

section \<open>Rehydration\<close>

lemma joined_silent:
  assumes "\<forall>d\<in>set ds. snd d = [] \<longrightarrow> fst d = []" "snd (joined ds) = []"
  shows "fst (joined ds) = [] \<and> (\<forall>d\<in>set ds. snd d = [])"
  using assms by (auto simp: joined_def)

lemma joined_snd: "snd (joined ds) = [] \<longleftrightarrow> (\<forall>d\<in>set ds. snd d = [])"
  by (auto simp: joined_def)

lemma drift_check_snd [simp]: "snd (drift_check b flags code path message) = [] \<longleftrightarrow> b"
  by (simp add: drift_check_def)

lemma drift_check_fst [simp]: "b \<Longrightarrow> fst (drift_check b flags code path message) = []"
  by (simp add: drift_check_def)

lemma scan_fields_informal:
  "scan_fields path kvs = [] \<Longrightarrow> \<not> list_ex (\<lambda>(k, j). lower k \<in> set formal_content_keys \<and> embeds j) kvs"
proof (induction kvs)
  case (Cons p kvs)
  then show ?case by (cases p) simp
qed simp

lemma summary_ids_silent:
  assumes "summary_ids_drift q kvs = Inr d" "snd d = []"
  shows "fst d = []"
proof -
  have "d = no_drift \<or> (\<exists>same. d = drift_check same [''summary_meaning_drift''] ''rehydration.summary_ids''
      ''$.working_summary.canonical_object_ids'' ''working summary cannot redefine canonical membership'')"
    using assms(1) by (auto simp: summary_ids_drift_def result_simps split: option.splits json.splits)
  then show ?thesis using assms(2) by (auto simp: no_drift_def)
qed

lemma summary_leading_silent: "snd (summary_leading_drift st kvs) = [] \<Longrightarrow> fst (summary_leading_drift st kvs) = []"
  by (simp add: summary_leading_drift_def no_drift_def split: option.splits json.splits)

lemma summary_silent:
  assumes "summary_drift q (Some st) = Inr d" "snd d = []"
  shows "fst d = []"
proof (cases "ri_summary q")
  case (Some kvs)
  let ?scan = "(if list_ex (\<lambda>(k, j). lower k \<in> set formal_content_keys \<and> embeds j) kvs
        then [''summary_only_inheritance''] else [], scan_formal ''$.working_summary'' (JObj kvs))"
  obtain e where e: "summary_ids_drift q kvs = Inr e" and d: "d = joined [?scan, e, summary_leading_drift st kvs]"
    using assms(1) unfolding summary_drift_def Some option.case by (auto simp: result_simps)
  have "snd ?scan = [] \<longrightarrow> fst ?scan = []" using scan_fields_informal [of "''$.working_summary''" kvs] by simp
  then have "\<forall>x\<in>set [?scan, e, summary_leading_drift st kvs]. snd x = [] \<longrightarrow> fst x = []"
    using summary_ids_silent [OF e] summary_leading_silent [of st kvs] unfolding list.set by blast
  from joined_silent [OF this] show ?thesis using assms(2) unfolding d by blast
qed (use assms in \<open>auto simp: summary_drift_def no_drift_def\<close>)

lemma object_silent:
  assumes "object_drift P xs x = Inr d" "snd d = []"
  shows "fst d = [] \<and> (\<exists>y h. same_version xs x = Some y \<and> canonical_sha256 P (of_json (JObj (co_payload x))) = Inr h
    \<and> canonical_sha256 P (of_json (JObj (co_payload y))) = Inr h)"
  using assms by (auto simp: object_drift_def result_simps split: option.splits)

lemma set_dict_of: "set (dict_of kvs) \<subseteq> set kvs"
proof -
  have "set (fold (\<lambda>(k, v) d. dict_put k v d) kvs acc) \<subseteq> set kvs \<union> set acc" for acc
    by (induction kvs arbitrary: acc) (use set_dict_put in fastforce)+
  then show ?thesis by (metis dict_of_def sup_bot_right set_empty)
qed

lemma same_version_Some:
  assumes "same_version xs x = Some y"
  shows "y \<in> set xs \<and> co_stable y = co_stable x \<and> co_version_id y = co_version_id x"
  using assms set_dict_of [of "map (\<lambda>y. ((co_stable y, co_version_id y), y)) xs"]
  by (auto simp: same_version_def dest!: map_of_SomeD)

lemma prior_values_distinct: "distinct (map co_version_id xs) \<Longrightarrow> prior_values xs = xs"
proof -
  assume "distinct (map co_version_id xs)"
  then have "distinct (map (\<lambda>x. (co_stable x, co_version_id x)) xs)"
    by (simp add: distinct_map inj_on_def)
  then show ?thesis by (simp add: prior_values_def dict_of_distinct comp_def)
qed

lemma prior_silent:
  assumes "prior_drift P q (Some st) = Inr d" "snd d = []" "ri_prior q = Some prior"
  shows "fst d = [] \<and> (\<forall>x\<in>set (prior_values (rs_objects prior)). \<exists>y\<in>set (rs_objects st). \<exists>h. co_stable y = co_stable x
      \<and> co_version_id y = co_version_id x \<and> canonical_sha256 P (of_json (JObj (co_payload x))) = Inr h
      \<and> canonical_sha256 P (of_json (JObj (co_payload y))) = Inr h)
    \<and> cr_id ` set (rs_relations prior) \<subseteq> cr_id ` set (rs_relations st)"
proof -
  let ?stale = "\<lambda>i. drift_check False [''stale_relation''] ''rehydration.stale_relation'' ''$.relations''
                (''prior relation '' @ i @ '' is missing or no longer version-bound'')"
  let ?lost = "filter (\<lambda>i. i \<notin> cr_id ` set (rs_relations st)) (prior_relation_ids q)"
  obtain ds where ds: "traverse (object_drift P (rs_objects st)) (prior_values (rs_objects prior)) = Inr ds"
    and d: "d = joined (ds @ map ?stale ?lost @ [chain_drift (rs_objects prior) (rs_objects st)])"
    using assms(1) unfolding prior_drift_def assms(3) by (auto simp: result_simps)
  have all: "\<forall>e\<in>set ds \<union> ?stale ` set ?lost \<union> {chain_drift (rs_objects prior) (rs_objects st)}. snd e = []"
    using assms(2) unfolding d joined_snd set_append set_map list.set by blast
  then have "\<forall>i\<in>set ?lost. snd (?stale i) = []" by blast
  then have "set ?lost = {}" unfolding drift_check_snd by (metis all_not_in_conv)
  then have silent: "\<forall>e\<in>set ds. snd e = []" "?lost = []" "snd (chain_drift (rs_objects prior) (rs_objects st)) = []"
    using all unfolding set_empty by blast+
  have kept: "\<exists>e\<in>set ds. object_drift P (rs_objects st) x = Inr e" if "x \<in> set (prior_values (rs_objects prior))" for x
    using ds that by (auto simp: traverse_eq_Inr list_all2_conv_all_nth in_set_conv_nth)
  have made: "\<exists>x. object_drift P (rs_objects st) x = Inr e" if "e \<in> set ds" for e
    using ds that by (auto simp: traverse_eq_Inr list_all2_conv_all_nth in_set_conv_nth)
  have objects: "\<exists>y\<in>set (rs_objects st). \<exists>h. co_stable y = co_stable x
      \<and> co_version_id y = co_version_id x \<and> canonical_sha256 P (of_json (JObj (co_payload x))) = Inr h
      \<and> canonical_sha256 P (of_json (JObj (co_payload y))) = Inr h" if x: "x \<in> set (prior_values (rs_objects prior))" for x
    using kept [OF x] silent(1) object_silent same_version_Some by blast
  have "prior_relation_ids q = remdups (map cr_id (rs_relations prior))" by (simp add: prior_relation_ids_def assms(3))
  then have relations: "cr_id ` set (rs_relations prior) \<subseteq> cr_id ` set (rs_relations st)"
    using silent(2) by (auto simp: filter_empty_conv)
  have "fst (chain_drift (rs_objects prior) (rs_objects st)) = []"
    using silent(3) unfolding chain_drift_def by simp
  moreover have "\<forall>e\<in>set ds. fst e = []" using made silent(1) object_silent by blast
  ultimately have "fst d = []" by (simp add: d joined_def silent(2))
  then show ?thesis using objects relations by blast
qed

lemma rebuilt_state:
  assumes "try_rebuild P q = Inr (Some st, d)"
  shows "rebuild_research_state P (ri_objects q) (ri_relations q) (ri_project q) (Some (ri_run q)) = Inr st \<and> d = no_drift"
  using assms by (auto simp: try_rebuild_def split: sum.splits py_exc.splits)

text \<open>
  C11. An accepted rehydration that yields a state has compared it with the past: the state is the
  rebuild of the given objects, no drift flag is raised, the stable identifiers present are exactly
  those of the checkpoint, and every object of the prior state is still there under the same
  version with a payload of the same hash, as is every prior relation.
\<close>

theorem accepted_rehydration_keeps_prior:
  assumes "rehydrate P q = Inr r" "ro_accepted r" "ro_state r = Some st"
  shows "rebuild_research_state P (ri_objects q) (ri_relations q) (ri_project q) (Some (ri_run q)) = Inr st
    \<and> ro_flags r = [] \<and> co_stable ` set (ri_objects q) = set (ck_ids (ri_checkpoint q))
    \<and> (\<forall>prior. ri_prior q = Some prior \<longrightarrow> distinct (map co_version_id (rs_objects prior)) \<longrightarrow>
         (\<forall>x\<in>set (rs_objects prior). \<exists>y\<in>set (rs_objects st). \<exists>h. co_stable y = co_stable x
            \<and> co_version_id y = co_version_id x \<and> canonical_sha256 P (of_json (JObj (co_payload x))) = Inr h
            \<and> canonical_sha256 P (of_json (JObj (co_payload y))) = Inr h)
         \<and> cr_id ` set (rs_relations prior) \<subseteq> cr_id ` set (rs_relations st))"
proof -
  obtain ck rebuilt summary prior where parts:
      "validate_checkpoint P (ri_checkpoint q) (Some (ri_project q)) (Some (ri_run q)) (Some (ri_objects q)) = Inr ck"
      "try_rebuild P q = Inr (Some st, rebuilt)" "summary_drift q (Some st) = Inr summary" "prior_drift P q (Some st) = Inr prior"
    and clean: "snd (joined [([], ck), frontier_drift q, rebuilt, summary, prior]) = []"
    and flags: "ro_flags r = sorted_set (fst (joined [([], ck), frontier_drift q, rebuilt, summary, prior]))"
    using assms by (auto simp: rehydrate_def result_simps Let_def)
  have silent: "ck = []" "snd (frontier_drift q) = []" "snd summary = []" "snd prior = []"
    using clean by (simp_all add: joined_def)
  have rebuilt: "rebuild_research_state P (ri_objects q) (ri_relations q) (ri_project q) (Some (ri_run q)) = Inr st"
      "rebuilt = no_drift"
    using rebuilt_state [OF parts(2)] by blast+
  have extension: "set (ck_extension (ri_checkpoint q)) \<subseteq> set (ck_ids (ri_checkpoint q))"
    using parts(1) silent(1) by (auto simp: validate_checkpoint_def result_simps)
  then have frontier: "co_stable ` set (ri_objects q) = set (ck_ids (ri_checkpoint q))" "fst (frontier_drift q) = []"
    using silent(2) by (auto simp: frontier_drift_def Let_def joined_def)
  have quiet: "fst prior = []"
  proof (cases "ri_prior q")
    case None
    then show ?thesis using parts(4) by (auto simp: prior_drift_def no_drift_def)
  qed (use prior_silent [OF parts(4) silent(4)] in blast)
  have "ro_flags r = []"
    using frontier(2) summary_silent [OF parts(3) silent(3)] quiet
    by (simp add: flags joined_def rebuilt(2) no_drift_def sorted_set_def)
  then show ?thesis using rebuilt(1) frontier(1) prior_silent [OF parts(4) silent(4)] prior_values_distinct by metis
qed

section \<open>Speculative ideas\<close>

text \<open>
  C32. A speculative idea with a history is never accepted: the validator checks the step from the
  status of the idea to that same status, and no status steps to itself.
\<close>

theorem speculative_history_never_accepted:
  "validate_speculative_idea P x (Some hs) \<noteq> []"
  by (simp add: validate_speculative_idea_def validate_speculative_transition_def speculation_step_def
      speculation_transitions_def)

section \<open>Saturation\<close>

text \<open>
  Claim stability compares the last two snapshots and nothing else: with the windows of the
  completion gate it holds exactly when there are at least two snapshots and the last two have the
  same hash. Two copies of one snapshot are stable, and snapshots of two claims in turn never are.
\<close>

lemma claim_stability_is_last_two:
  assumes "evaluate_saturation P ledger claims evidence 2 2 counters = Inr sat"
  shows "sat_claim sat \<longleftrightarrow> 2 \<le> length claims
    \<and> sn_hash (claims ! (length claims - 1)) = sn_hash (claims ! (length claims - 2))"
proof -
  have stable: "sat_claim sat \<longleftrightarrow> claims_stable 2 (map sn_hash claims)"
    using assms by (auto simp: evaluate_saturation_def result_simps Let_def)
  show ?thesis
  proof (cases claims rule: rev_cases)
    case (snoc ys y)
    then show ?thesis by (cases ys rule: rev_cases) (auto simp: stable claims_stable_def last_n_def nth_append)
  qed (simp add: stable claims_stable_def)
qed

definition fingerprints :: "prims \<Rightarrow> search_strategy list \<Rightarrow> (py_exc + string) list" where
  "fingerprints P ss = map (strategy_fingerprint P) ss"

lemma fold_note:
  assumes "fold_result (note_strategy P) ss (seen, uniq, dups) = Inr (seen', uniq', dups')"
    and "distinct (fingerprints P uniq)" "set (fingerprints P uniq) = Inr ` set seen"
  shows "distinct (fingerprints P uniq') \<and> set (fingerprints P uniq') = Inr ` set seen' \<and> set uniq' \<subseteq> set uniq \<union> set ss"
  using assms
proof (induction ss arbitrary: seen uniq dups)
  case (Cons s ss)
  obtain f where f: "strategy_fingerprint P s = Inr f"
    using Cons.prems(1) by (auto simp: note_strategy_def result_simps)
  show ?case
  proof (cases "f \<in> set seen")
    case True
    then show ?thesis using Cons.prems Cons.IH [of seen uniq "dups @ [st_id s]"] f by (auto simp: note_strategy_def)
  next
    case False
    then have "distinct (fingerprints P (uniq @ [s]))" "set (fingerprints P (uniq @ [s])) = Inr ` set (f # seen)"
      using Cons.prems(2,3) f by (auto simp: fingerprints_def)
    then show ?thesis using Cons.prems(1) Cons.IH [of "f # seen" "uniq @ [s]" dups] f False by (auto simp: note_strategy_def)
  qed
qed simp

text \<open>
  Strategy saturation counts distinct searches only: the covered families are those of
  strategies no two of which have the same fingerprint, every required family is among them, and
  the last two of them found no new evidence.
\<close>

theorem saturation_counts_distinct_searches:
  assumes "evaluate_saturation P ledger claims evidence 2 2 counters = Inr sat" "sat_strategy sat" "sat_evidence sat"
  shows "\<exists>uniq. set uniq \<subseteq> set (cl_strategies ledger) \<and> distinct (map (strategy_fingerprint P) uniq)
    \<and> set (sat_covered sat) = st_family ` set uniq \<and> set (cl_required ledger) \<subseteq> st_family ` set uniq
    \<and> 2 \<le> length uniq \<and> st_new_evidence (uniq ! (length uniq - 1)) = [] \<and> st_new_evidence (uniq ! (length uniq - 2)) = []"
proof -
  obtain seen uniq dups where u: "fold_result (note_strategy P) (cl_strategies ledger) ([], [], []) = Inr (seen, uniq, dups)"
      "set (sat_covered sat) = st_family ` set uniq"
      "set (cl_required ledger) \<subseteq> st_family ` set uniq" "2 \<le> length uniq" "nothing_new (last_n 2 uniq)"
    using assms by (auto simp: evaluate_saturation_def result_simps Let_def)
  have "distinct (fingerprints P uniq) \<and> set uniq \<subseteq> set (cl_strategies ledger)"
    using fold_note [OF u(1)] by (simp add: fingerprints_def)
  moreover obtain ys a b where "uniq = ys @ [a, b]"
    using u(4) by (metis append.assoc append_Cons append_Nil append_butlast_last_id length_0_conv
        length_append_singleton not_less_eq_eq numeral_2_eq_2 Suc_le_length_iff list.size(3) not_numeral_le_zero rev_exhaust)
  ultimately show ?thesis
    using u by (intro exI [of _ uniq]) (simp add: fingerprints_def nothing_new_def last_n_def nth_append)
qed

end
