(* ===== verification/Contract_Instances.thy ===== *)
theory Contract_Instances
  imports Completion_Passes Rehydration_Correct
begin

text \<open>
  The properties of rehydration and saturation at the samples, and a report on a claim that is not
  among the hashed objects.
\<close>

section \<open>Saturation\<close>

lemma claim_stability_is_last_two_witness:
  "sat_claim done_saturation \<longleftrightarrow> sn_hash done_claim_snapshot = sn_hash done_claim_snapshot"
  using claim_stability_is_last_two [OF done_saturated] by simp

lemma saturation_counts_distinct_searches_witness:
  "\<exists>uniq. set uniq \<subseteq> {done_search ''a'', done_search ''b''} \<and> 2 \<le> length uniq
     \<and> distinct (map (strategy_fingerprint split_prims) uniq)"
  using saturation_counts_distinct_searches [OF done_saturated] by (auto simp: done_saturation_def done_ledger_def)

section \<open>Rehydration\<close>

definition prior_working :: working_state where
  "prior_working =
     \<lparr>ws_project = ''p'', ws_run = ''r'', ws_iteration = 0, ws_budget = [(''usd'', JInt 5)],
      ws_objects = map co_stable sample_objects, ws_claims = [], ws_evidence = [], ws_leading = None, ws_strategies = [],
      ws_pending = [], ws_issues = [], ws_summary = [], ws_schema = ''max-research-working-state/v1''\<rparr>"

definition prior_checkpoint :: checkpoint where
  "prior_checkpoint =
     \<lparr>ck_project = ''p'', ck_run = ''r'', ck_working = prior_working, ck_budget = [(''usd'', JInt 5)], ck_iteration = 0,
      ck_ids = map co_stable sample_objects, ck_id = ''mr1:checkpoint:a'', ck_supersedes = None, ck_created = None,
      ck_version = 1, ck_extension = [], ck_schema = ''max-research-checkpoint/v1''\<rparr>"

definition prior_input :: rehydration_input where
  "prior_input =
     \<lparr>ri_project = ''p'', ri_run = ''r'', ri_checkpoint = prior_checkpoint, ri_objects = sample_objects,
      ri_relations = sample_relations, ri_summary = None, ri_prior = Some sample_state\<rparr>"

lemma all_ids_valid: "\<forall>x\<in>set sample_objects. is_stable_id (JStr (co_stable x)) None"
proof
  fix x assume "x \<in> set sample_objects"
  then obtain k payload where "k \<in> set sample_kinds" "x = sample_object k payload"
    by (auto simp: sample_objects_def sample_defs sample_kinds_def)
  then show "is_stable_id (JStr (co_stable x)) None"
    using sample_ids(1) [THEN any_stable_id, of k] by (simp add: sample_kind_of)
qed

lemma id_issues_valid:
  assumes "\<forall>v\<in>set vs. is_stable_id v kind" "distinct vs" "set vs \<inter> set seen = {}"
  shows "id_issues path kind n seen vs = []"
  using assms by (induction vs arbitrary: n seen) auto

lemma prior_checkpoint_valid:
  "validate_checkpoint P prior_checkpoint (Some ''p'') (Some ''r'') (Some sample_objects) = Inr []"
proof -
  have stable: "distinct (map co_stable sample_objects)" by (simp add: sample_objects_def sample_defs sample_kind_of)
  have ids: "id_sequence (map JStr (map co_stable sample_objects)) path None True = []" for path
  proof -
    have "id_issues path None 0 [] (map JStr (map co_stable sample_objects)) = []"
      using all_ids_valid stable by (intro id_issues_valid) (auto simp: distinct_map inj_on_def comp_def)
    moreover have "map JStr (map co_stable sample_objects) \<noteq> []" by (simp add: sample_objects_def)
    ultimately show ?thesis by (simp only: id_sequence_def check_def) simp
  qed
  have wf: "wf_json (checkpoint_json prior_checkpoint)"
    by (simp add: checkpoint_json_def working_json_def prior_checkpoint_def prior_working_def)
  have scan: "scan_formal ''$.checkpoint'' (checkpoint_json prior_checkpoint) = []"
  proof -
    have strings: "scan_formal path (strings_json ss) = []" "embeds (strings_json ss) = (ss \<noteq> [])" for path ss
    proof -
      have "scan_items path n (map JStr ss) = []" for n by (induction ss arbitrary: n) simp_all
      then show "scan_formal path (strings_json ss) = []" by (simp add: strings_json_def)
    qed (simp add: strings_json_def)
    show ?thesis
      using checkpoint_keys_informal
      by (simp add: checkpoint_json_def working_json_def prior_checkpoint_def prior_working_def strings opt_json_plain del: set_simps)
  qed
  have objects: "frontier_object_issues prior_checkpoint sample_objects ni = []" if known: "snd ni \<in> co_stable ` set sample_objects" for ni
  proof -
    obtain x where x: "by_identity sample_objects (snd ni) = Some x"
      using known by_identity_None [of sample_objects "snd ni"] by auto
    moreover have "co_project x = ''p''"
      using by_identity_Some [OF x] sample_objects_valid [OF graph_short] by blast
    ultimately show ?thesis by (simp add: frontier_object_issues_def Let_def prior_checkpoint_def)
  qed
  then have "concat (map (frontier_object_issues prior_checkpoint sample_objects) (enumerate 0 (map co_stable sample_objects))) = []"
    unfolding concat_empty by (auto dest!: enumerate_snd)
  then have frontier: "frontier_issues prior_checkpoint sample_objects = []"
    by (simp add: frontier_issues_def Let_def) (simp add: prior_checkpoint_def)
  have literals: "is_stable_id (JStr ''mr1:checkpoint:a'') (Some ''checkpoint'')" "is_project_id (JStr ''p'')"
    by code_simp+
  have working: "working_issues prior_checkpoint = []"
    by (simp add: working_issues_def Let_def working_ids_issues_def id_sequence_def prior_checkpoint_def prior_working_def)
  show ?thesis
    using ids [of "''$.canonical_ids''"] wf scan frontier literals working stable
    by (simp add: validate_checkpoint_def model_to_dict_of_json binds_def)
      (simp add: prior_checkpoint_def id_sequence_def required_mapping_def)
qed

lemma prior_rebuilds:
  "rebuild_research_state graph_prims sample_objects sample_relations ''p'' (Some ''r'')
     = Inr (sample_state\<lparr>rs_run := Some ''r''\<rparr>)"
proof -
  have "wf_json (state_json ''p'' (Some ''r'') (sort_objects sample_objects) (sort_key cr_id sample_relations))"
    using sample_payloads_wf by (intro graph_json_wf) simp_all
  from graph_digest [OF this] show ?thesis
    using sample_graph_ok [OF graph_short] unfolding rebuild_meaning by (simp add: sample_state_def)
qed

lemma same_version_itself:
  assumes "distinct (map co_version_id xs)" "x \<in> set xs"
  shows "same_version xs x = Some x"
proof -
  have "distinct (map (\<lambda>y. (co_stable y, co_version_id y)) xs)"
    using assms(1) by (simp add: distinct_map inj_on_def)
  then have "distinct (map fst (map (\<lambda>y. ((co_stable y, co_version_id y), y)) xs))" by (simp add: comp_def)
  then show ?thesis using assms(2) unfolding same_version_def dict_of_distinct [OF \<open>distinct (map fst _)\<close>]
    by (intro map_of_is_SomeI) auto
qed

lemma sample_versions_distinct: "distinct (map co_version_id (rs_objects sample_state))"
  using sample_state_ok(1) by (simp add: graph_ok_def version_chains_def)

lemma prior_accepted:
  "\<exists>r. rehydrate graph_prims prior_input = Inr r \<and> ro_accepted r \<and> ro_state r = Some (sample_state\<lparr>rs_run := Some ''r''\<rparr>)"
proof -
  let ?st = "sample_state\<lparr>rs_run := Some ''r''\<rparr>"
  have "object_drift graph_prims (rs_objects ?st) x = Inr no_drift" if x: "x \<in> set (rs_objects sample_state)" for x
  proof -
    have "wf_json (JObj (co_payload x))" using sample_payloads_wf(1) x by (simp only: sample_state_sets)
    from graph_digest [OF this] show ?thesis
      using same_version_itself [OF sample_versions_distinct x] by (simp add: object_drift_def drift_check_def no_drift_def)
  qed
  then have objects: "traverse (object_drift graph_prims (rs_objects ?st)) (prior_values (rs_objects sample_state))
      = Inr (map (\<lambda>_. no_drift) (rs_objects sample_state))"
    unfolding prior_values_distinct [OF sample_versions_distinct] by (rule traverse_total)
  have "prior_relation_ids prior_input = remdups (map cr_id (rs_relations sample_state))"
    by (simp add: prior_relation_ids_def prior_input_def)
  then have relations: "filter (\<lambda>i. i \<notin> cr_id ` set (rs_relations ?st)) (prior_relation_ids prior_input) = []"
    by (auto simp: filter_empty_conv)
  have "chain_drift (rs_objects sample_state) (rs_objects ?st) = no_drift"
    by (simp add: chain_drift_def drift_check_def no_drift_def list_all_iff Let_def)
  then have prior: "\<exists>d. prior_drift graph_prims prior_input (Some ?st) = Inr d \<and> snd d = []"
    using objects relations by (simp add: prior_drift_def prior_input_def joined_def no_drift_def)
  have "try_rebuild graph_prims prior_input = Inr (Some ?st, no_drift)"
    using prior_rebuilds by (simp add: try_rebuild_def prior_input_def)
  moreover have "summary_drift prior_input (Some ?st) = Inr no_drift" by (simp add: summary_drift_def prior_input_def)
  moreover have "snd (frontier_drift prior_input) = []"
    by (auto simp: frontier_drift_def Let_def joined_def prior_input_def prior_checkpoint_def)
  ultimately show ?thesis
    using prior prior_checkpoint_valid [of graph_prims]
    by (auto simp: rehydrate_def prior_input_def joined_def no_drift_def Let_def)
qed

lemma accepted_rehydration_keeps_prior_witness:
  "\<exists>r. rehydrate graph_prims prior_input = Inr r \<and> ro_flags r = []
     \<and> co_stable ` set sample_objects = set (ck_ids prior_checkpoint)"
proof -
  obtain r where r: "rehydrate graph_prims prior_input = Inr r" "ro_accepted r"
      "ro_state r = Some (sample_state\<lparr>rs_run := Some ''r''\<rparr>)"
    using prior_accepted by blast
  then show ?thesis using accepted_rehydration_keeps_prior [OF r] by (auto simp: prior_input_def)
qed

section \<open>A report on a claim outside the objects\<close>

text \<open>The sample state with one more entry in \<open>latest_by_id\<close>, which no hash covers.\<close>

definition stray_claim :: canonical_object where
  "stray_claim = (sample_object ''claim''
     [(''status'', JStr ''final''), (''evidence_link_id'', JStr (co_stable sample_link))])\<lparr>co_stable := ''mr1:claim:b''\<rparr>"

definition stray_state :: research_state where
  "stray_state = sample_state\<lparr>rs_latest := (''mr1:claim:b'', stray_claim) # rs_latest sample_state\<rparr>"

lemma stray_fields: "co_kind stray_claim = ''claim''" "co_stable stray_claim = ''mr1:claim:b''"
    "co_payload stray_claim = [(''status'', JStr ''final''), (''evidence_link_id'', JStr (co_stable sample_link))]"
  by (simp_all add: stray_claim_def sample_object_def)

lemma stray_grounded: "claim_grounded sample_objects (set sample_relations) stray_claim"
proof -
  have "out_relations (set sample_relations) stray_claim ''has_evidence_link'' = {}"
    by (auto simp: out_relations_def sample_relations_def sample_relation_def leads_def stray_fields sample_claim_def sample_kind_of)
  moreover have "is_stable_id (JStr (co_stable sample_link)) None"
    using all_ids_valid by (simp add: sample_objects_def)
  then have "payload_ids (co_payload stray_claim) link_keys = [co_stable sample_link]"
    by (simp add: payload_ids_def link_keys_def stray_fields)
  ultimately have refs: "link_refs (set sample_relations) stray_claim = {co_stable sample_link}"
    by (simp add: link_refs_def)
  have "evidence_grounded sample_objects (set sample_relations) stray_claim sample_evidence"
    using sample_evidence_grounded sample_statuses by (simp add: evidence_grounded_def)
  moreover have "relation_target sample_objects (sample_relation ''links_evidence'' sample_link sample_evidence) = Some sample_evidence"
    by (rule sample_targets) (simp add: sample_objects_def)
  moreover have "\<not> has_direct_key sample_link" "\<not> has_direct_key stray_claim"
    unfolding sample_defs has_direct_key_def sample_kind_of stray_fields by (simp_all add: direct_evidence_keys_def dict_has_def)
  moreover have "\<not> json_truthy (map_of (co_payload stray_claim) ''inherited_from_summary'')"
      "\<not> json_truthy (map_of (co_payload stray_claim) ''summary_only'')"
    unfolding stray_fields by (simp_all add: json_truthy_def)
  ultimately show ?thesis unfolding claim_grounded_def refs link_grounded_def
    using sample_resolves by (simp add: sample_kinds_of sample_out stray_fields)
qed

text \<open>
  The research state is checked by rebuilding its objects and relations, and its hash covers
  only these; reports read \<open>latest_by_id\<close>, which the state carries and nothing recomputes. So there
  is a state that passes the recomputation, and an accepted report on it, whose claim is not among
  the objects of the state.
\<close>

lemma recompute_ignores_latest: "recompute_issues P (st\<lparr>rs_latest := latest\<rparr>) = recompute_issues P st"
  by (simp add: recompute_issues_def split: sum.split)

lemma report_may_cite_unhashed_claim:
  "\<exists>st rp cid. recompute_issues graph_prims st = Inr [] \<and> validate_report_projection graph_prims rp st = Inr []
     \<and> cid \<in> set (rp_claims rp) \<and> cid \<notin> co_stable ` set (rs_objects st)"
proof (intro exI conjI)
  have fields: "rs_objects stray_state = rs_objects sample_state" "rs_relations stray_state = rs_relations sample_state"
      "rs_project stray_state = rs_project sample_state" "rs_run stray_state = None" "rs_hash stray_state = rs_hash sample_state"
    by (simp_all add: stray_state_def) (simp add: sample_state_def)
  have "wf_json (state_json ''p'' None (sort_objects (rs_objects sample_state)) (sort_key cr_id (rs_relations sample_state)))"
    using sample_payloads_wf by (intro graph_json_wf) (simp_all add: sample_state_sets)
  from graph_digest [OF this] show "recompute_issues graph_prims stray_state = Inr []"
    using sample_state_ok(1) unfolding recompute_clean fields rebuild_meaning by (simp add: sample_state_def)
  have "on_sample stray_state ''mr1:claim:b'' stray_claim"
    using sample_state_grounds [OF stray_grounded] sample_on_itself by (simp add: on_sample_def stray_state_def)
  moreover have "is_final_claim stray_claim" by code_simp
  moreover have "is_stable_id (JStr ''mr1:claim:b'') (Some ''claim'')" by code_simp
  ultimately show "validate_report_projection graph_prims (sample_report_on stray_state ''mr1:claim:b'') stray_state = Inr []"
    by (rule sample_report_at)
  show "''mr1:claim:b'' \<in> set (rp_claims (sample_report_on stray_state ''mr1:claim:b''))"
    by (simp add: sample_report_on_def)
  show "''mr1:claim:b'' \<notin> co_stable ` set (rs_objects stray_state)"
    by (simp add: fields sample_state_sets) (simp add: sample_objects_def sample_defs sample_kind_of)
qed

end
