(* ===== verification/Iteration_Correct.thy ===== *)
theory Iteration_Correct
  imports Control_Correct
begin

text \<open>
  The iterations of a run: numbered 1, 2, 3, ... without a gap, at most one of them open, and every
  other one closed by exactly one outcome.
\<close>

definition numbered :: "control_db \<Rightarrow> bool" where
  "numbered db \<longleftrightarrow> distinct (map it_id (db_iterations db))
     \<and> (\<forall>r. map it_seq (iterations_of db r) = map (\<lambda>k. int k + 1) [0..<length (iterations_of db r)])"

definition closed_once :: "control_db \<Rightarrow> bool" where
  "closed_once db \<longleftrightarrow> distinct (map oc_iteration (db_outcomes db))
     \<and> (\<forall>out \<in> set (db_outcomes db). \<exists>i \<in> set (db_iterations db). it_id i = oc_iteration out \<and> it_run i = oc_run out)
     \<and> (\<forall>i \<in> set (db_iterations db).
          (it_id i \<in> set (map oc_iteration (db_outcomes db))) = (db_open db (it_run i) \<noteq> Some (it_id i)))"

definition open_known :: "control_db \<Rightarrow> bool" where
  "open_known db \<longleftrightarrow>
     (\<forall>r iid. db_open db r = Some iid \<longrightarrow> (\<exists>i \<in> set (db_iterations db). it_id i = iid \<and> it_run i = r))"

definition iterations_sound :: "control_db \<Rightarrow> bool" where
  "iterations_sound db \<longleftrightarrow> numbered db \<and> closed_once db \<and> open_known db"

lemma max_sequence_le: "ns \<noteq> [] \<Longrightarrow> max_sequence ns = Max (set ns)"
proof -
  assume "ns \<noteq> []"
  then obtain n ms where ns: "ns = n # ms" by (cases ns) auto
  have "foldr max ms n = Max (set (n # ms))"
  proof (induction ms)
    case (Cons m ms)
    then show ?case by (cases "ms = []") (simp_all add: max.left_commute max.commute)
  qed simp
  then show ?thesis by (simp add: max_sequence_def ns)
qed

lemma max_sequence_numbered: "max_sequence (map (\<lambda>k. int k + 1) [0..<n]) = int n"
proof (cases "n = 0")
  case False
  then have "Max ((\<lambda>k. int k + 1) ` set [0..<n]) = int n"
    by (intro Max_eqI) (auto intro: image_eqI [of _ _ "n - 1"])
  then show ?thesis using False by (simp add: max_sequence_le)
qed (simp add: max_sequence_def)

lemma iterations_sound_begun:
  assumes "iterations_sound db" "begun_iteration r db db'"
  shows "iterations_sound db'"
proof -
  from assms(2) obtain row where row: "db_iterations db' = db_iterations db @ [row]"
      "db_open db' = (db_open db)(r \<mapsto> it_id row)" "db_outcomes db' = db_outcomes db" "db_open db r = None"
      "it_run row = r" "it_seq row = max_sequence (map it_seq (iterations_of db r)) + 1"
      "it_id row \<notin> set (map it_id (db_iterations db))"
    by (auto simp: begun_iteration_def)
  have inv: "numbered db" "closed_once db" "open_known db" using assms(1) by (simp_all add: iterations_sound_def)
  have "numbered db'"
    unfolding numbered_def
  proof (intro conjI allI)
    show "distinct (map it_id (db_iterations db'))" using inv(1) row by (simp add: numbered_def)
    fix q
    have q: "map it_seq (iterations_of db q) = map (\<lambda>k. int k + 1) [0..<length (iterations_of db q)]"
      using inv(1) by (simp add: numbered_def)
    show "map it_seq (iterations_of db' q) = map (\<lambda>k. int k + 1) [0..<length (iterations_of db' q)]"
    proof (cases "q = r")
      case True
      then show ?thesis using q row(1,5,6) max_sequence_numbered by (simp add: iterations_of_def)
    next
      case False
      then show ?thesis using q row(1,5) by (simp add: iterations_of_def)
    qed
  qed
  moreover have "closed_once db'"
  proof -
    have fresh: "it_id row \<notin> set (map oc_iteration (db_outcomes db))"
    proof
      assume "it_id row \<in> set (map oc_iteration (db_outcomes db))"
      then obtain out where "out \<in> set (db_outcomes db)" "oc_iteration out = it_id row" by auto
      then obtain i where "i \<in> set (db_iterations db)" "it_id i = it_id row" using inv(2) by (auto simp: closed_once_def)
      then show False using row(7) by (metis image_eqI set_map)
    qed
    have "(it_id i \<in> set (map oc_iteration (db_outcomes db'))) = (db_open db' (it_run i) \<noteq> Some (it_id i))"
      if "i \<in> set (db_iterations db')" for i
    proof (cases "i = row")
      case True
      then show ?thesis using fresh row(2,3,5) by simp
    next
      case False
      then have i: "i \<in> set (db_iterations db)" using that row(1) by simp
      have "it_id i \<noteq> it_id row" using i row(7) by (metis image_eqI set_map)
      then show ?thesis using inv(2) i row(2,3,4) by (auto simp: closed_once_def)
    qed
    then show ?thesis using inv(2) row(1,3) by (auto simp: closed_once_def)
  qed
  moreover have "open_known db'" using inv(3) row(1,2,5) by (auto simp: open_known_def)
  ultimately show ?thesis by (simp add: iterations_sound_def)
qed

lemma open_iteration_row:
  assumes "open_iteration db r = Inr begun"
  shows "begun \<in> set (db_iterations db)" "it_run begun = r" "db_open db r = Some (it_id begun)"
    "it_id begun \<notin> set (map oc_iteration (db_outcomes db))"
  using assms unfolding open_iteration_def by (auto simp: result_simps find_Some_iff)

lemma iterations_sound_finished:
  assumes "iterations_sound db" "finished_iteration r db db'"
  shows "iterations_sound db'"
proof -
  from assms(2) obtain out begun where row: "db_outcomes db' = db_outcomes db @ [out]"
      "db_open db' = (db_open db)(r := None)" "db_iterations db' = db_iterations db"
      "oc_iteration out = it_id begun" "oc_run out = r" and op: "open_iteration db r = Inr begun"
    by (auto simp: finished_iteration_def)
  note b = open_iteration_row [OF op]
  have inv: "numbered db" "closed_once db" "open_known db" using assms(1) by (simp_all add: iterations_sound_def)
  have "numbered db'" using inv(1) row(3) by (simp add: numbered_def iterations_of_def)
  moreover have "closed_once db'"
  proof -
    have "(it_id i \<in> set (map oc_iteration (db_outcomes db'))) = (db_open db' (it_run i) \<noteq> Some (it_id i))"
      if i: "i \<in> set (db_iterations db)" for i
    proof (cases "it_id i = it_id begun")
      case True
      have "distinct (map it_id (db_iterations db))" using inv(1) by (simp add: numbered_def)
      then have "i = begun" using True i b(1) by (simp add: distinct_map inj_on_def)
      then show ?thesis using row(1,2,4) b(2) by simp
    next
      case False
      then show ?thesis using inv(2) i row(1,2,4) b(3) by (auto simp: closed_once_def)
    qed
    then show ?thesis using inv(2) row b by (auto simp: closed_once_def)
  qed
  moreover have "open_known db'" using inv(3) row(2,3) by (auto simp: open_known_def)
  ultimately show ?thesis by (simp add: iterations_sound_def)
qed

lemma iterations_sound_same: "same_iterations db db' \<Longrightarrow> iterations_sound db \<Longrightarrow> iterations_sound db'"
  by (simp add: iterations_sound_def same_iterations_def numbered_def closed_once_def open_known_def iterations_of_def)

lemma iterations_sound_effect:
  assumes "control_effect P R db db'" "iterations_sound db"
  shows "iterations_sound db'"
  using assms(1)
proof cases
  case effect_proposed
  then show ?thesis by (intro iterations_sound_same [OF _ assms(2)]) (simp add: same_iterations_def)
next
  case effect_advanced
  then show ?thesis
    using iterations_sound_same iterations_sound_begun iterations_sound_finished assms(2) by blast
next
  case effect_quiet
  then show ?thesis using iterations_sound_same assms(2) by blast
qed

interpretation iterations: invariant_system fresh_db "live_step P R" iterations_sound for P R
proof
  fix db :: control_db assume "fresh_db db"
  then show "iterations_sound db"
    by (auto simp: fresh_db_def empty_db_def iterations_sound_def numbered_def closed_once_def open_known_def
        iterations_of_def)
qed (use iterations_sound_effect live_effect in blast)

lemma reachable_live:
  assumes "sane_rounding R" "reachable P R db"
  obtains db0 where "fresh_db db0" "(live_step P R)\<^sup>*\<^sup>* db0 db"
  using assms live_steps [OF assms(1)] coherent_fresh unfolding reachable_def by blast

text \<open>
  C16. In every reachable database the iterations of each run are numbered 1, 2, 3, ... in the
  order they were begun; an iteration without an outcome is the one open iteration of its run, and
  no iteration has two outcomes.
\<close>

theorem iterations_contiguous_and_closed:
  assumes "sane_rounding R" "reachable P R db"
  shows "map it_seq (iterations_of db r) = map (\<lambda>k. int k + 1) [0..<length (iterations_of db r)]
    \<and> distinct (map oc_iteration (db_outcomes db))
    \<and> filter (\<lambda>i. it_id i \<notin> set (map oc_iteration (db_outcomes db))) (iterations_of db r)
        = filter (\<lambda>i. db_open db r = Some (it_id i)) (iterations_of db r)
    \<and> length (filter (\<lambda>i. it_id i \<notin> set (map oc_iteration (db_outcomes db))) (iterations_of db r)) \<le> 1"
proof -
  obtain db0 where "fresh_db db0" "(live_step P R)\<^sup>*\<^sup>* db0 db" using reachable_live [OF assms] .
  then have "iterations_sound db" using iterations.reachable_inv by blast
  then have inv: "numbered db" "closed_once db" by (simp_all add: iterations_sound_def)
  have same: "filter (\<lambda>i. it_id i \<notin> set (map oc_iteration (db_outcomes db))) (iterations_of db r)
      = filter (\<lambda>i. db_open db r = Some (it_id i)) (iterations_of db r)"
    using inv(2) by (intro filter_cong) (auto simp: closed_once_def iterations_of_def)
  have "distinct (map it_id (iterations_of db r))"
    using inv(1) by (simp add: numbered_def iterations_of_def distinct_map_filter)
  then have "distinct (map it_id (filter (\<lambda>i. db_open db r = Some (it_id i)) (iterations_of db r)))"
    by (rule distinct_map_filter)
  moreover have "set (map it_id (filter (\<lambda>i. db_open db r = Some (it_id i)) (iterations_of db r))) \<subseteq> {the (db_open db r)}"
    by auto
  ultimately have "length (filter (\<lambda>i. db_open db r = Some (it_id i)) (iterations_of db r)) \<le> 1"
    using card_mono [of "{the (db_open db r)}"] distinct_card
    by (metis card.empty card_insert_disjoint empty_iff finite.emptyI finite.insertI length_map One_nat_def)
  then show ?thesis using inv same by (simp add: numbered_def closed_once_def)
qed

end
