(* ===== verification/Control_Instances.thy ===== *)
theory Control_Instances
  imports Control_Samples Iteration_Correct
begin

text \<open>
  The promises of \<open>Control_Promises\<close> and \<open>Iteration_Correct\<close> at concrete databases: the proposed
  run and the running run of \<open>Control_Samples\<close>.
\<close>

theorem reachable_database_verifies_witness:
  "ch_ok (verify_event_chain toy_prims proposed_db sample_id)
   \<and> vr_ok (verify_transition_results toy_prims proposed_db sample_id)
   \<and> \<not> isl (budget_reconstruct toy_prims (\<lambda>x. x) proposed_db sample_id)"
  using reachable_database_verifies [OF exact_rounding proposed_reachable, of sample_id]
  by (simp add: proposed_db)

theorem operations_refine_run_machine_witness:
  "machine_step (machine_of (empty_db sample_tables)) (machine_of proposed_db)"
proof -
  have "machine_of proposed_db \<noteq> machine_of (empty_db sample_tables)"
    using proposed_state by (auto simp: machine_of_def empty_db_def state_of_def fun_eq_iff split: option.splits)
  then show ?thesis
    using operations_refine_run_machine [OF exact_rounding empty_reachable proposed_step] by metis
qed

theorem stored_run_has_its_approval_witness:
  "state_of proposed_db sample_id = Some sample_initial \<and> consumptions_of proposed_db sample_id = []"
  using stored_run_has_its_approval [OF exact_rounding proposed_reachable proposed_state] proposed_state
  by (simp add: sample_initial_def initial_state_def)

theorem audit_tables_append_only_witness:
  "\<exists>db'. (control_step zero_prims (\<lambda>x. x))\<^sup>*\<^sup>* running_db db' \<and> length (db_ledger running_db) = 2
     \<and> take (length (db_ledger running_db)) (db_ledger db') = db_ledger running_db"
  using audit_tables_append_only [OF exact_rounding running_coherent rtranclp.rtrancl_refl]
  by (intro exI [of _ running_db]) (simp add: running_db_def)


definition next_actor :: actor where
  "next_actor = sample_actor\<lparr>session_id := ''t''\<rparr>"

definition late_clock :: readings where
  "late_clock = sample_clock\<lparr>now_check := 9000000, now_grant := 9000000\<rparr>"

text \<open>The lease of \<open>running_db\<close> has expired at the later time, and another session takes it over.\<close>

theorem granted_lease_excludes_others_witness:
  "\<exists>g db'. acquire_lease_connection ''r'' next_actor 60 late_clock [] running_db = Inr (g, db')
     \<and> lr_token g = 3 \<and> isl (acquire_lease_connection ''r'' sample_actor 60 late_clock [] db')"
proof -
  have parse: "parse_status ''RUNNING'' = Inr Running" by code_simp
  have free: "\<not> held_by_other running_lease next_actor 9000000"
    by (simp add: held_by_other_def running_lease_def parse_timestamp_def)
  have "\<exists>g db'. acquire_lease_connection ''r'' next_actor 60 late_clock [] running_db = Inr (g, db')"
    by (simp add: acquire_lease_connection_def run_row_def running_db_def running_row_def initial_row_def running_states
        parse free late_clock_def sample_clock_def add_seconds_def Let_def)
  then obtain g db' where g: "acquire_lease_connection ''r'' next_actor 60 late_clock [] running_db = Inr (g, db')"
    by blast
  have "token_of ''r'' running_db = Some 2" by (simp add: token_of_def running_db_def running_lease_def)
  moreover have "(actor_id sample_actor, session_id sample_actor) \<noteq> (actor_id next_actor, session_id next_actor)"
      "actor_id next_actor \<noteq> []" "now_check late_clock < stamp_floor (now_grant late_clock + 60 * 1000000)"
    by (simp_all add: next_actor_def sample_actor_def late_clock_def sample_clock_def stamp_floor_def)
  ultimately show ?thesis
    using granted_lease_excludes_others [OF g _ refl, where b = sample_actor and clk' = late_clock] g by auto
qed

theorem iterations_contiguous_and_closed_witness:
  "distinct (map oc_iteration (db_outcomes proposed_db))
   \<and> map it_seq (iterations_of proposed_db sample_id) = map (\<lambda>k. int k + 1) [0..<length (iterations_of proposed_db sample_id)]"
  using iterations_contiguous_and_closed [OF exact_rounding proposed_reachable, of sample_id] by blast

end
