(* ===== verification/Log_Promises.thy ===== *)
theory Log_Promises
  imports Control_Samples
begin

text \<open>
  What the event log of a run promises its readers: a verified log is determined by its last
  hash, and reading it page by page neither skips nor repeats an event.
\<close>

section \<open>The last hash\<close>

text \<open>Everything an event records besides its own hash; the payload by its stored text.\<close>

definition event_facts :: "prims \<Rightarrow> event_row \<Rightarrow> json" where
  "event_facts P e = JObj ((''event_id'', JStr (ev_id e)) # event_identity e @
     [(''payload_json'', JStr (col_text (ev_payload e))), (''actor_id'', JStr (ev_actor e)),
      (''actor_kind'', JStr (ev_kind e)), (''session_id'', JStr (ev_session e)),
      (''created_at'', JStr (stamp_text P (ev_created e)))])"

lemma event_digest_facts: "event_digest P e = sha256 P (json_text P (event_facts P e))"
  by (simp add: event_digest_def event_facts_def hash_json_def)

lemma event_facts_inject:
  assumes "json_text P (event_facts P e) = json_text P (event_facts P d)"
  shows "event_facts P e = event_facts P d \<and> ev_previous e = ev_previous d \<and> ev_seq e = ev_seq d"
proof -
  have "plain (event_facts P x)" for x by (simp add: event_facts_def event_identity_def)
  then have "sort_keys (event_facts P e) = sort_keys (event_facts P d)" using assms by (intro json_text_inject)
  then show ?thesis by (simp add: event_facts_def event_identity_def)
qed

definition last_hash :: "event_row list \<Rightarrow> string" where
  "last_hash es = (if es = [] then [] else ev_hash (last es))"

lemma chain_snoc:
  "chain_issues P (xs @ [e]) 1 [] = [] \<longleftrightarrow> chain_issues P xs 1 [] = []
     \<and> ev_seq e = int (length xs) + 1 \<and> ev_previous e = last_hash xs \<and> ev_hash e = event_digest P e
     \<and> (\<exists>v. col_value (ev_payload e) = Some v \<and> canonical_sha256 P (of_json v) = Inr (ev_payload_hash e))"
  by (auto simp: chain_issues_append chain_row_clean last_hash_def)

lemma digest_nonempty: "digest_ok P \<Longrightarrow> event_digest P e \<noteq> []"
  unfolding event_digest_facts digest_ok_def is_hex64_def by (metis length_0_conv zero_neq_numeral)

lemma chain_determined:
  assumes "digest_ok P" "chain_issues P xs 1 [] = []" "chain_issues P ys 1 [] = []" "last_hash xs = last_hash ys"
    and "inj_on (sha256 P) ((\<lambda>e. json_text P (event_facts P e)) ` (set xs \<union> set ys))"
  shows "map (event_facts P) xs = map (event_facts P) ys"
  using assms(2-)
proof (induction xs arbitrary: ys rule: rev_induct)
  case Nil
  have "False" if "ys = zs @ [d]" for zs d
    using Nil digest_nonempty [OF assms(1), of d] that by (auto simp: chain_snoc last_hash_def)
  then show ?case by (cases ys rule: rev_cases) auto
next
  case (snoc e xs)
  note e = snoc.prems(1) [unfolded chain_snoc]
  obtain zs d where ys: "ys = zs @ [d]"
    using snoc.prems(3) e digest_nonempty [OF assms(1), of e]
    by (cases ys rule: rev_cases) (auto simp: last_hash_def)
  note d = snoc.prems(2) [unfolded ys chain_snoc]
  have "sha256 P (json_text P (event_facts P e)) = sha256 P (json_text P (event_facts P d))"
    using snoc.prems(3) e d by (simp add: ys last_hash_def event_digest_facts)
  then have "json_text P (event_facts P e) = json_text P (event_facts P d)"
    by (rule inj_onD [OF snoc.prems(4)]) (simp_all add: ys)
  note same = event_facts_inject [OF this]
  have "inj_on (sha256 P) ((\<lambda>e. json_text P (event_facts P e)) ` (set xs \<union> set zs))"
    using snoc.prems(4) by (rule inj_on_subset) (auto simp: ys)
  then have "map (event_facts P) xs = map (event_facts P) zs"
    using snoc.IH [of zs] e d same by simp
  then show ?case using same by (simp add: ys)
qed

text \<open>
  Tamper evidence: two event logs of a run that both verify and end in the same hash record
  the same events (identifier, number, type, stored payload, actor, session and time of each, in
  order), unless the digest collides on the records of the two logs.
\<close>

theorem event_log_determined_by_last_hash:
  assumes "digest_ok P" "ch_ok (verify_event_chain P db r)" "ch_ok (verify_event_chain P db' r)"
    and "ch_last (verify_event_chain P db r) = ch_last (verify_event_chain P db' r)"
    and "inj_on (sha256 P) ((\<lambda>e. json_text P (event_facts P e)) ` (set (events_of db r) \<union> set (events_of db' r)))"
  shows "map (event_facts P) (events_of db r) = map (event_facts P) (events_of db' r)"
  using assms by (intro chain_determined) (simp_all add: verify_event_chain_def Let_def last_hash_def)

section \<open>Pages\<close>

lemma filter_above:
  assumes "sorted (map ev_seq es)" "distinct (map ev_seq es)" "n < length es"
  shows "filter (\<lambda>e. ev_seq (es ! n) < ev_seq e) es = drop (Suc n) es"
proof -
  have "filter (\<lambda>e. ev_seq (es ! n) < ev_seq e) (take (Suc n) es) = []"
    using sorted_nth_mono [OF assms(1)] assms(3)
    by (auto simp: filter_empty_conv in_set_conv_nth not_less)
  moreover have "ev_seq (es ! n) < ev_seq (es ! k)" if "Suc n \<le> k" "k < length es" for k
    using that sorted_nth_mono [OF assms(1), of n k] nth_eq_iff_index_eq [OF assms(2), of n k]
    by (simp add: less_le)
  then have "filter (\<lambda>e. ev_seq (es ! n) < ev_seq e) (drop (Suc n) es) = drop (Suc n) es"
    by (auto simp: filter_id_conv in_set_conv_nth)
  ultimately show ?thesis
    using filter_append [of "\<lambda>e. ev_seq (es ! n) < ev_seq e" "take (Suc n) es" "drop (Suc n) es"] by simp
qed

lemma chained_increasing:
  assumes "chained P (db_events db) r"
  shows "sorted (map ev_seq (events_of db r))" "distinct (map ev_seq (events_of db r))"
proof -
  have issues: "chain_issues P (events_of db r) 1 [] = []"
    using assms events_of_chained [OF assms] by (simp add: chained_def)
  show "sorted (map ev_seq (events_of db r))" by (simp add: events_of_def)
  show "distinct (map ev_seq (events_of db r))"
    by (auto simp: distinct_conv_nth chain_numbers [OF issues])
qed

text \<open>
  C28. Paging: the events after a cursor are those of the page it returns followed, when there is a
  next cursor, by exactly the events after that one; without a next cursor the page was the last.
\<close>

theorem event_pages_lose_nothing:
  assumes "chained P (db_events db) r" "list_events db r cursor limit = Inr page"
  shows "filter (\<lambda>e. cursor < ev_seq e) (events_of db r)
      = pg_events page @ (case pg_next page of None \<Rightarrow> []
          | Some next \<Rightarrow> filter (\<lambda>e. next < ev_seq e) (events_of db r))
    \<and> length (pg_events page) \<le> 200"
proof -
  define es where "es = filter (\<lambda>e. cursor < ev_seq e) (events_of db r)"
  have page: "page = \<lparr>pg_events = take (nat limit) es,
      pg_next = (if int (length (take (nat limit) es)) = limit then Some (ev_seq (last (take (nat limit) es))) else None)\<rparr>"
    and lim: "1 \<le> limit" "limit \<le> 200"
    using assms(2) unfolding list_events_def Let_def es_def by (auto simp: result_simps)
  show ?thesis
  proof (cases "int (length (take (nat limit) es)) = limit")
    case False
    then have "length es < nat limit" using lim by auto
    then show ?thesis using False page lim by (simp add: es_def)
  next
    case True
    then have n: "nat limit \<le> length es" "0 < nat limit" using lim by auto
    define m where "m = nat limit - 1"
    have m: "m < length es" "nat limit = Suc m" using n by (simp_all add: m_def)
    have incr: "sorted (map ev_seq es)" "distinct (map ev_seq es)"
      unfolding es_def using chained_increasing [OF assms(1)]
      by (simp_all add: sorted_filter distinct_map_filter)
    have next': "ev_seq (last (take (nat limit) es)) = ev_seq (es ! m)"
      using m by (simp add: take_Suc_conv_app_nth)
    have "es ! m \<in> set es" using m(1) by simp
    then have "cursor < ev_seq (es ! m)" by (simp add: es_def)
    then have "filter (\<lambda>e. ev_seq (es ! m) < ev_seq e) (events_of db r) = filter (\<lambda>e. ev_seq (es ! m) < ev_seq e) es"
      unfolding es_def filter_filter by (intro filter_cong) auto
    also have "\<dots> = drop (nat limit) es" using filter_above [OF incr m(1)] m(2) by simp
    finally show ?thesis using page True next' lim by (simp add: es_def [symmetric])
  qed
qed

section \<open>Instances\<close>

text \<open>A log of one event of the proposed run.\<close>

definition logged_db :: control_db where
  "logged_db = (empty_db sample_tables)\<lparr>db_runs := [sample_id \<mapsto> sample_row]\<rparr>"

definition logged_event :: event_row where
  "logged_event = next_event toy_prims logged_db (rr_project sample_row) sample_id ''note'' (JObj []) sample_actor (Stamp 0)"

definition one_event_db :: control_db where
  "one_event_db = logged_db\<lparr>db_events := [logged_event]\<rparr>"

lemma one_event_chained: "chained toy_prims (db_events one_event_db) r"
proof -
  have none: "db_events logged_db = []" by (simp add: logged_db_def empty_db_def)
  have "append_event toy_prims sample_id ''note'' (JObj []) sample_actor (Stamp 0) logged_db
      = Inr (logged_db\<lparr>db_events := db_events logged_db @ [logged_event]\<rparr>)"
    unfolding logged_event_def
  proof (rule append_event_succeeds [OF toy_digest_ok])
    show "chained toy_prims (db_events logged_db) sample_id" by (simp add: none chained_def run_log_def)
    show "reject_untrusted_payload (JObj []) = Inr ()" by code_simp
    show "db_runs logged_db sample_id = Some sample_row" by (simp add: logged_db_def)
  qed (simp_all add: none)
  from append_event_log [OF this] none
  obtain es where "logged_db\<lparr>db_events := [logged_event]\<rparr> = logged_db\<lparr>db_events := es\<rparr>" "log_extends toy_prims [] es"
    by auto
  then have "log_extends toy_prims [] (db_events one_event_db)"
    using arg_cong [of _ _ db_events] by (fastforce simp: one_event_db_def)
  from chained_extends [OF this] show ?thesis by (simp add: chained_def run_log_def)
qed

lemma one_event_of: "events_of one_event_db sample_id = [logged_event]"
  by (simp add: events_of_def one_event_db_def logged_event_def next_event_def Let_def new_event_def)

theorem event_log_determined_by_last_hash_witness:
  "map (event_facts toy_prims) (events_of one_event_db sample_id) = [event_facts toy_prims logged_event]
   \<and> ch_last (verify_event_chain toy_prims one_event_db sample_id) \<noteq> []"
proof -
  note ok = chained_verifies [OF one_event_chained, of sample_id]
  have "inj_on (sha256 toy_prims) ((\<lambda>e. json_text toy_prims (event_facts toy_prims e)) `
      (set (events_of one_event_db sample_id) \<union> set (events_of one_event_db sample_id)))"
    by (simp add: one_event_of)
  from event_log_determined_by_last_hash [OF toy_digest_ok ok ok refl this]
  have "map (event_facts toy_prims) (events_of one_event_db sample_id)
      = map (event_facts toy_prims) (events_of one_event_db sample_id)" .
  moreover have "ev_hash logged_event \<noteq> []"
    using digest_nonempty [OF toy_digest_ok] by (simp add: logged_event_def next_event_def Let_def)
  ultimately show ?thesis by (simp add: one_event_of verify_event_chain_def Let_def)
qed

theorem event_pages_lose_nothing_witness:
  "\<exists>page. list_events one_event_db sample_id 0 1 = Inr page
     \<and> filter (\<lambda>e. 0 < ev_seq e) (events_of one_event_db sample_id) = pg_events page \<and> pg_next page = Some 1"
proof -
  have seq: "ev_seq logged_event = 1"
    by (simp add: logged_event_def next_event_def Let_def new_event_def run_log_def logged_db_def empty_db_def)
  have page: "list_events one_event_db sample_id 0 1 = Inr \<lparr>pg_events = [logged_event], pg_next = Some 1\<rparr>"
    by (simp add: list_events_def one_event_of seq Let_def run_row_def)
      (simp add: one_event_db_def logged_db_def)
  from event_pages_lose_nothing [OF one_event_chained this] show ?thesis
    using page by (simp add: one_event_of seq)
qed

end
