(* ===== verification/Risk_Document.thy ===== *)
theory Risk_Document
  imports Json_Unique
begin

text \<open>
  \<open>research_risk.py\<close>, first part: the vocabulary of a research-risk document and the
  structural validation of the design and of its two sidecars.

  A document is a \<open>json\<close> value. \<open>jget\<close> is \<open>d.get(k)\<close> and \<open>jget_or\<close> is \<open>d.get(k, default)\<close>;
  they are applied where the code has checked that the receiver is a dictionary (on another
  receiver the model's value is null). Iterating a value that is not iterable raises: \<open>py_iter\<close> is
  \<open>for x in (v or [])\<close>, and so validation itself is a fallible function. A problem is the pair of
  its path and its message.
\<close>

section \<open>Vocabulary\<close>

definition SCHEMA_VERSION :: string where "SCHEMA_VERSION = ''1.1''"
definition POLICY_VERSION :: string where "POLICY_VERSION = ''1.1.0''"

definition POLICY_LEVELS :: "string list" where
  "POLICY_LEVELS = [''none'', ''interpretive'', ''comparative'', ''genealogical'', ''causal'']"

definition EVIDENCE_ROLES :: "string list" where
  "EVIDENCE_ROLES =
    [''discovery'', ''design_evidence'', ''holdout'', ''negative_control'', ''validation'', ''background'']"

definition HYPOTHESIS_KINDS :: "string list" where
  "HYPOTHESIS_KINDS =
    [''shared_source'', ''template_too_broad'', ''retrospective_reconstruction'',
     ''alternative_mechanism'', ''other'']"

definition CONTRIBUTION_TYPES :: "string list" where
  "CONTRIBUTION_TYPES =
    [''textual_discovery'', ''source_discovery'', ''genealogical_explanation'',
     ''causal_explanation'', ''conceptual_reconstruction'', ''dispute_adjudication'',
     ''methodological_framework'', ''negative_result'']"

definition CONTROL_RESULTS :: "string list" where
  "CONTROL_RESULTS = [''pending'', ''passes'', ''fails'', ''indeterminate'']"

definition DESIGN_STATUSES :: "string list" where
  "DESIGN_STATUSES = [''draft'', ''locked'']"

definition REVIEW_STATUSES :: "string list" where
  "REVIEW_STATUSES = [''pending'', ''completed'']"

definition BRIDGE_STRENGTHS :: "string list" where
  "BRIDGE_STRENGTHS = [''high'', ''medium'', ''low'', ''unresolved'', ''unproven'']"

definition CONNECTION_TYPES :: "string list" where
  "CONNECTION_TYPES =
    [''self_citation'', ''explicit_redefinition'', ''intermediate_recurrence'',
     ''source_transmission'', ''problem_reactivation'', ''chronology_only'']"

definition HYPOTHESIS_STATUSES :: "string list" where
  "HYPOTHESIS_STATUSES =
    [''supported'', ''partially_supported'', ''not_falsified'', ''unresolved'', ''weakened'',
     ''falsified'', ''unadjudicated'']"

definition RESULT_KEYS :: "string list" where
  "RESULT_KEYS = [''hypothesis_statuses'', ''positive_discriminating_evidence'', ''observations'']"

definition ADJUDICATION_KEYS :: "string list" where
  "ADJUDICATION_KEYS = [''adjudication_version'', ''verdicts'']"

section \<open>Reading JSON values\<close>

definition jget_or :: "string \<Rightarrow> json \<Rightarrow> json \<Rightarrow> json" where
  "jget_or k d j = (case j of JObj kvs \<Rightarrow> dict_get k d kvs | _ \<Rightarrow> JNull)"

definition jget :: "string \<Rightarrow> json \<Rightarrow> json" where
  "jget k j = jget_or k JNull j"

definition jhas :: "string \<Rightarrow> json \<Rightarrow> bool" where
  "jhas k j = (case j of JObj kvs \<Rightarrow> dict_has k kvs | _ \<Rightarrow> False)"

definition is_dict :: "json \<Rightarrow> bool" where
  "is_dict j = (case j of JObj _ \<Rightarrow> True | _ \<Rightarrow> False)"

definition is_list :: "json \<Rightarrow> bool" where
  "is_list j = (case j of JList _ \<Rightarrow> True | _ \<Rightarrow> False)"

definition is_bool :: "json \<Rightarrow> bool" where
  "is_bool j = (case j of JBool _ \<Rightarrow> True | _ \<Rightarrow> False)"

definition is_str :: "json \<Rightarrow> bool" where
  "is_str j = (case j of JStr _ \<Rightarrow> True | _ \<Rightarrow> False)"

text \<open>\<open>_s\<close>, and an integer (not a boolean) that is at least 1.\<close>

definition s_ok :: "json \<Rightarrow> bool" where
  "s_ok j = (case j of JStr s \<Rightarrow> nonblank s | _ \<Rightarrow> False)"

definition positive_int :: "json \<Rightarrow> bool" where
  "positive_int j = (case j of JInt n \<Rightarrow> 1 \<le> n | _ \<Rightarrow> False)"

definition one_of :: "json \<Rightarrow> string list \<Rightarrow> bool" where
  "one_of j names = (case j of JStr s \<Rightarrow> s \<in> set names | _ \<Rightarrow> False)"

definition none_or :: "(json \<Rightarrow> bool) \<Rightarrow> json \<Rightarrow> bool" where
  "none_or p j \<longleftrightarrow> j = JNull \<or> p j"

definition truthy :: "json \<Rightarrow> bool" where
  "truthy j = (case j of JNull \<Rightarrow> False | JBool b \<Rightarrow> b | JInt i \<Rightarrow> i \<noteq> 0 | JFloat r \<Rightarrow> r \<noteq> 0
     | JNonFinite _ \<Rightarrow> True | JStr s \<Rightarrow> s \<noteq> [] | JList js \<Rightarrow> js \<noteq> [] | JObj kvs \<Rightarrow> kvs \<noteq> [])"

definition elems :: "json \<Rightarrow> json list" where
  "elems j = (case j of JList js \<Rightarrow> js | _ \<Rightarrow> [])"

definition entries :: "json \<Rightarrow> (string \<times> json) list" where
  "entries j = (case j of JObj kvs \<Rightarrow> kvs | _ \<Rightarrow> [])"

definition py_iter :: "json \<Rightarrow> py_exc + json list" where
  "py_iter v =
     (if \<not> truthy v then Inr []
      else case v of
        JList js \<Rightarrow> Inr js
      | JStr s \<Rightarrow> Inr (map (\<lambda>c. JStr [c]) s)
      | JObj kvs \<Rightarrow> Inr (map (\<lambda>p. JStr (fst p)) kvs)
      | _ \<Rightarrow> Inl (TypeError ''object is not iterable''))"

section \<open>Problems\<close>

type_synonym problem = "string \<times> string"

definition flag :: "bool \<Rightarrow> string \<Rightarrow> string \<Rightarrow> problem list" where
  "flag bad path message = (if bad then [(path, message)] else [])"

text \<open>\<open>for index, item in enumerate(items): problems.extend(f index item)\<close>\<close>

definition indexed :: "(nat \<Rightarrow> 'a \<Rightarrow> 'b list) \<Rightarrow> 'a list \<Rightarrow> 'b list" where
  "indexed f items = concat (map (\<lambda>(i, x). f i x) (enumerate 0 items))"

definition at_index :: "string \<Rightarrow> nat \<Rightarrow> string" where
  "at_index path i = path @ ''['' @ str_of_nat i @ '']''"

definition tuple_repr :: "string list \<Rightarrow> string" where
  "tuple_repr names = ''('' @ join '', '' (map (\<lambda>s. CHR 0x27 # s @ [CHR 0x27]) names) @ '')''"

definition must_be_one_of :: "string \<Rightarrow> string list \<Rightarrow> string" where
  "must_be_one_of key names = key @ '' must be one of '' @ tuple_repr names"

definition effective_policy :: "json \<Rightarrow> bool \<times> json" where
  "effective_policy doc =
     (let wrapper = jget ''research_risk_policy'' doc
      in if is_dict wrapper
         then (truthy (jget_or ''enabled'' (jget_or ''enabled'' (JBool True) doc) wrapper),
               jget_or ''level'' (jget_or ''policy_level'' (JStr ''none'') doc) wrapper)
         else (truthy (jget_or ''enabled'' (JBool True) doc),
               jget_or ''policy_level'' (JStr ''none'') doc))"

section \<open>Structure of the design\<close>

definition header_problems :: "json \<Rightarrow> problem list" where
  "header_problems doc =
     flag (jget ''schema_version'' doc \<noteq> JStr SCHEMA_VERSION) ''schema_version''
       (''schema_version must be '' @ [CHR 0x27] @ SCHEMA_VERSION @ [CHR 0x27])
   @ flag (\<not> is_bool (jget_or ''enabled'' (JBool True) doc)) ''enabled'' ''enabled must be a boolean''
   @ flag (\<not> one_of (jget ''policy_level'' doc) POLICY_LEVELS) ''policy_level''
       (must_be_one_of ''policy_level'' POLICY_LEVELS)
   @ flag (\<not> positive_int (jget_or ''design_version'' (JInt 1) doc)) ''design_version''
       ''design_version must be a positive integer''
   @ flag (\<not> one_of (jget ''design_status'' doc) DESIGN_STATUSES) ''design_status''
       (must_be_one_of ''design_status'' DESIGN_STATUSES)"

definition wrapper_problems :: "json \<Rightarrow> problem list" where
  "wrapper_problems doc =
     (let wrapper = jget ''research_risk_policy'' doc
      in if wrapper = JNull then []
         else if \<not> is_dict wrapper
         then [(''research_risk_policy'', ''research_risk_policy must be an object'')]
         else flag (\<not> is_bool (jget_or ''enabled'' (JBool True) wrapper))
                ''research_risk_policy.enabled'' ''enabled must be a boolean''
            @ flag (\<not> one_of (jget ''level'' wrapper) POLICY_LEVELS)
                ''research_risk_policy.level'' (must_be_one_of ''level'' POLICY_LEVELS))"

definition prediction_problems :: "json \<Rightarrow> string \<Rightarrow> problem list" where
  "prediction_problems hypothesis path =
     (let predictions = jget ''predictions'' hypothesis
      in if \<not> is_list predictions then [(path @ ''.predictions'', ''predictions must be a list'')]
         else indexed (\<lambda>index prediction.
           let pred_path = at_index (path @ ''.predictions'') index
           in if \<not> is_dict prediction then [(pred_path, ''prediction must be an object'')]
              else flag (\<not> s_ok (jget ''evidence_class'' prediction))
                     (pred_path @ ''.evidence_class'') ''evidence_class is required''
                 @ flag (\<not> s_ok (jget ''expected_observation'' prediction))
                     (pred_path @ ''.expected_observation'') ''expected_observation is required''
                 @ flag (\<not> none_or is_bool (jget ''counterfactual'' prediction))
                     (pred_path @ ''.counterfactual'') ''counterfactual must be a boolean'')
           (elems predictions))"

definition primary_problems :: "json \<Rightarrow> problem list" where
  "primary_problems doc =
     (let primary = jget ''primary_hypothesis'' doc
      in if \<not> is_dict primary
         then [(''$.primary_hypothesis'', ''primary_hypothesis must be an object'')]
         else flag (\<not> s_ok (jget ''id'' primary)) ''$.primary_hypothesis.id'' ''id is required''
            @ flag (\<not> s_ok (jget ''statement'' primary)) ''$.primary_hypothesis.statement''
                ''statement is required''
            @ flag (\<not> is_bool (jget ''risk_bearing'' primary)) ''$.primary_hypothesis.risk_bearing''
                ''risk_bearing must be a boolean''
            @ prediction_problems primary ''$.primary_hypothesis'')"

definition rival_problems :: "json \<Rightarrow> problem list" where
  "rival_problems doc =
     (let rivals = jget ''rival_hypotheses'' doc
      in if \<not> is_list rivals then [(''rival_hypotheses'', ''rival_hypotheses must be a list'')]
         else indexed (\<lambda>index rival.
           let path = at_index ''$.rival_hypotheses'' index
           in if \<not> is_dict rival then [(path, ''rival hypothesis must be an object'')]
              else flag (\<not> s_ok (jget ''id'' rival)) (path @ ''.id'') ''id is required''
                 @ flag (\<not> s_ok (jget ''statement'' rival)) (path @ ''.statement'') ''statement is required''
                 @ flag (\<not> none_or (\<lambda>k. one_of k HYPOTHESIS_KINDS) (jget ''hypothesis_kind'' rival))
                     (path @ ''.hypothesis_kind'') (must_be_one_of ''hypothesis_kind'' HYPOTHESIS_KINDS)
                 @ flag (\<not> none_or is_str (jget ''simplicity_note'' rival))
                     (path @ ''.simplicity_note'') ''simplicity_note must be a string''
                 @ prediction_problems rival path)
           (elems rivals))"

definition falsification_problems :: "json \<Rightarrow> problem list" where
  "falsification_problems doc =
     (let falsifications = jget ''falsification_conditions'' doc
      in if \<not> is_list falsifications
         then [(''falsification_conditions'', ''falsification_conditions must be a list'')]
         else indexed (\<lambda>index item.
           let path = at_index ''$.falsification_conditions'' index
           in if \<not> is_dict item \<or> \<not> s_ok (jget ''id'' item) \<or> \<not> s_ok (jget ''statement'' item)
              then [(path, ''each falsification condition requires id and statement'')]
              else flag (\<not> none_or (\<lambda>v. one_of v [''known_before_lock'', ''genuinely_open''])
                            (jget ''status_at_lock'' item))
                     (path @ ''.status_at_lock'')
                     ''status_at_lock must be known_before_lock or genuinely_open'')
           (elems falsifications))"

definition criteria_problems :: "json \<Rightarrow> problem list" where
  "criteria_problems doc =
     (let criteria = jget ''operational_criteria'' doc
      in if \<not> is_list criteria then [(''operational_criteria'', ''operational_criteria must be a list'')]
         else indexed (\<lambda>index item.
           let path = at_index ''$.operational_criteria'' index
           in if \<not> is_dict item then [(path, ''criterion must be an object'')]
              else flag (\<not> s_ok (jget ''id'' item) \<or> \<not> s_ok (jget ''statement'' item))
                     path ''each criterion requires id and statement''
                 @ concat (map (\<lambda>key. flag (\<not> none_or is_str (jget key item))
                     (path @ ''.'' @ key) (key @ '' must be a string''))
                     [''inclusion_test'', ''exclusion_test'']))
           (elems criteria))"

definition diachronic_problems :: "json \<Rightarrow> py_exc + problem list" where
  "diachronic_problems doc =
     andthen (py_iter (jget ''diachronic_connection_evidence'' doc)) (\<lambda>items. Inr
       (concat (map (\<lambda>key. flag (\<not> is_list (jget key doc)) key (key @ '' must be a list''))
          [''diachronic_connection_evidence'', ''mechanism_chain'', ''mechanism_failure_conditions''])
        @ indexed (\<lambda>index item.
            let path = at_index ''$.diachronic_connection_evidence'' index
            in if \<not> is_dict item then [(path, ''diachronic evidence must be an object'')]
               else flag (\<not> none_or (\<lambda>v. one_of v CONNECTION_TYPES) (jget ''connection_type'' item))
                      (path @ ''.connection_type'') (must_be_one_of ''connection_type'' CONNECTION_TYPES))
            items))"

definition material_problems :: "json \<Rightarrow> problem list" where
  "material_problems doc =
     (let materials = jget ''materials'' doc
      in if \<not> is_list materials then [(''materials'', ''materials must be a list'')]
         else indexed (\<lambda>index item.
           let path = at_index ''$.materials'' index
           in if \<not> is_dict item then [(path, ''material must be an object'')]
              else flag (\<not> s_ok (jget ''id'' item) \<or> \<not> s_ok (jget ''source_ref'' item))
                     path ''each material requires id and source_ref''
                 @ flag (\<not> one_of (jget ''evidence_role'' item) EVIDENCE_ROLES)
                     (path @ ''.evidence_role'') (must_be_one_of ''evidence_role'' EVIDENCE_ROLES)
                 @ flag (\<not> is_bool (jget_or ''seen_before_lock'' (JBool False) item))
                     (path @ ''.seen_before_lock'') ''seen_before_lock must be a boolean''
                 @ flag (\<not> none_or is_bool (jget ''design_impacted'' item))
                     (path @ ''.design_impacted'') ''design_impacted must be a boolean'')
           (elems materials))"

definition holdout_problems :: "json \<Rightarrow> problem list" where
  "holdout_problems doc =
     (let holdout_sources = jget ''holdout_sources'' doc
      in if \<not> is_list holdout_sources then [(''holdout_sources'', ''holdout_sources must be a list'')]
         else indexed (\<lambda>index item.
           let path = at_index ''$.holdout_sources'' index
           in if \<not> is_dict item then [(path, ''holdout source must be an object'')]
              else flag (\<not> s_ok (jget ''id'' item) \<or> \<not> s_ok (jget ''source_ref'' item))
                     path ''each holdout source requires id and source_ref''
                 @ flag (\<not> is_bool (jget_or ''seen_before_lock'' (JBool False) item))
                     (path @ ''.seen_before_lock'') ''seen_before_lock must be a boolean'')
           (elems holdout_sources))"

definition control_problems :: "json \<Rightarrow> problem list" where
  "control_problems doc =
     (let controls = jget ''negative_controls'' doc
      in if \<not> is_list controls then [(''negative_controls'', ''negative_controls must be a list'')]
         else indexed (\<lambda>index item.
           let path = at_index ''$.negative_controls'' index
           in if \<not> is_dict item then [(path, ''negative control must be an object'')]
              else concat (map (\<lambda>key. flag (\<not> s_ok (jget key item))
                       (path @ ''.'' @ key) (key @ '' is required''))
                     [''id'', ''source_ref'', ''reason_for_control'', ''expected_result''])
                 @ flag (\<not> is_bool (jget_or ''same_standard_as_primary'' (JBool True) item))
                     (path @ ''.same_standard_as_primary'') ''same_standard_as_primary must be a boolean''
                 @ flag (\<not> none_or (\<lambda>v. one_of v CONTROL_RESULTS) (jget ''actual_result'' item))
                     (path @ ''.actual_result'')
                     (must_be_one_of ''actual_result'' CONTROL_RESULTS @ '' or null'')
                 @ flag (\<not> none_or (\<lambda>v. is_list v \<and> list_all s_ok (elems v)) (jget ''tests_hypotheses'' item))
                     (path @ ''.tests_hypotheses'') ''tests_hypotheses must be a list of hypothesis ids'')
           (elems controls))"

definition branch_problems :: "json \<Rightarrow> problem list" where
  "branch_problems doc =
     (let branches = jget ''outcome_branches'' doc
      in if \<not> is_dict branches then [(''outcome_branches'', ''outcome_branches must be an object'')]
         else concat (map (\<lambda>(name, branch).
           let path = ''$.outcome_branches.'' @ name
           in if \<not> is_dict branch then [(path, ''outcome branch must be an object'')]
              else flag (\<not> s_ok (jget ''conclusion_effect'' branch))
                     (path @ ''.conclusion_effect'') ''conclusion_effect is required''
                 @ concat (map (\<lambda>key. flag (\<not> none_or is_bool (jget key branch))
                       (path @ ''.'' @ key) (key @ '' must be a boolean''))
                     [''retracts_primary'', ''changes_contribution'', ''changes_center_conclusion'']))
           (entries branches)))"

definition contribution_problems :: "json \<Rightarrow> problem list" where
  "contribution_problems doc =
     (let contribution = jget ''contribution_type'' doc
      in if \<not> is_dict contribution then [(''contribution_type'', ''contribution_type must be an object'')]
         else flag (\<not> one_of (jget ''primary'' contribution) CONTRIBUTION_TYPES)
                ''contribution_type.primary'' (must_be_one_of ''primary'' CONTRIBUTION_TYPES)
            @ (let secondary = jget ''secondary'' contribution
               in flag (\<not> is_list secondary
                        \<or> \<not> list_all (\<lambda>v. one_of v CONTRIBUTION_TYPES) (elems secondary))
                    ''contribution_type.secondary'' ''secondary must be a list of contribution types''))"

definition bridge_problems :: "json \<Rightarrow> problem list" where
  "bridge_problems doc =
     (let bridges = jget ''bridge_assessments'' doc
      in if \<not> is_list bridges then [(''bridge_assessments'', ''bridge_assessments must be a list'')]
         else indexed (\<lambda>index item.
           let path = at_index ''$.bridge_assessments'' index
           in if \<not> is_dict item \<or> \<not> s_ok (jget ''bridge_id'' item)
              then [(path, ''each bridge assessment requires bridge_id'')]
              else flag (\<not> none_or (\<lambda>v. one_of v BRIDGE_STRENGTHS) (jget ''overall_strength'' item))
                     (path @ ''.overall_strength'') (must_be_one_of ''overall_strength'' BRIDGE_STRENGTHS)
                 @ flag (\<not> none_or is_dict (jget ''dimensions'' item))
                     (path @ ''.dimensions'') ''dimensions must be an object'')
           (elems bridges))"

definition review_problems :: "json \<Rightarrow> problem list" where
  "review_problems doc =
     (let adversarial = jget ''adversarial_review'' doc
      in if \<not> is_dict adversarial then [(''adversarial_review'', ''adversarial_review must be an object'')]
         else flag (\<not> one_of (jget ''status'' adversarial) REVIEW_STATUSES)
                ''adversarial_review.status'' ''status must be pending or completed'')
   @ (let validation_status = jget ''validation_status'' doc
      in if \<not> is_dict validation_status
         then [(''validation_status'', ''validation_status must be an object'')]
         else flag (\<not> is_bool (jget_or ''required'' (JBool False) validation_status))
                ''validation_status.required'' ''required must be a boolean''
            @ flag (\<not> is_bool (jget_or ''completed'' (JBool False) validation_status))
                ''validation_status.completed'' ''completed must be a boolean'')"

definition history_problems :: "json \<Rightarrow> problem list" where
  "history_problems doc =
     (let history = jget ''design_history'' doc
      in if \<not> is_list history then [(''design_history'', ''design_history must be a list'')]
         else indexed (\<lambda>index item.
           let path = at_index ''$.design_history'' index
           in if \<not> is_dict item then [(path, ''design history entry must be an object'')]
              else concat (map (\<lambda>key. flag (\<not> positive_int (jget key item))
                       (path @ ''.'' @ key) (key @ '' must be a positive integer''))
                     [''from_version'', ''to_version''])
                 @ flag (\<not> is_str (jget_or ''reason'' (JStr []) item))
                     (path @ ''.reason'') ''reason must be a string''
                 @ concat (map (\<lambda>key. flag (\<not> is_list (jget_or key (JList []) item))
                       (path @ ''.'' @ key) (key @ '' must be a list''))
                     [''evidence_seen_before_change'', ''changed_fields''])
                 @ flag (\<not> none_or is_bool (jget ''makes_primary_easier'' item))
                     (path @ ''.makes_primary_easier'') ''makes_primary_easier must be a boolean or null''
                 @ flag (\<not> none_or is_str (jget ''old_design_result'' item))
                     (path @ ''.old_design_result'') ''old_design_result must be a string'')
           (elems history))"

definition validate_structure :: "json \<Rightarrow> py_exc + problem list" where
  "validate_structure doc =
     (if \<not> is_dict doc then Inr [(''$'', ''document must be a JSON object'')]
      else
        let problems = header_problems doc @ wrapper_problems doc;
            (enabled, level) = effective_policy doc
        in if \<not> enabled \<or> level = JStr ''none'' then Inr problems
           else andthen (diachronic_problems doc) (\<lambda>diachronic. Inr
             (problems
              @ flag (\<not> s_ok (jget ''research_question'' doc)) ''research_question''
                  ''research_question must be a non-empty string''
              @ primary_problems doc
              @ rival_problems doc
              @ falsification_problems doc
              @ criteria_problems doc
              @ diachronic
              @ material_problems doc
              @ holdout_problems doc
              @ control_problems doc
              @ branch_problems doc
              @ contribution_problems doc
              @ bridge_problems doc
              @ review_problems doc
              @ history_problems doc)))"

section \<open>Structure of the sidecars\<close>

definition is_sha256 :: "json \<Rightarrow> bool" where
  "is_sha256 j = (case j of JStr s \<Rightarrow> is_hex64 s | _ \<Rightarrow> False)"

definition hypothesis_status_problems :: "json list \<Rightarrow> problem list" where
  "hypothesis_status_problems statuses = indexed (\<lambda>index status.
     flag (\<not> is_dict status \<or> \<not> s_ok (jget ''hypothesis_id'' status)
           \<or> \<not> one_of (jget ''status'' status) HYPOTHESIS_STATUSES)
       (at_index ''$.hypothesis_statuses'' index)
       ''hypothesis status requires hypothesis_id and a valid status'') statuses"

definition positive_evidence_problems :: "json list \<Rightarrow> problem list" where
  "positive_evidence_problems items = indexed (\<lambda>index item.
     let path = at_index ''$.positive_discriminating_evidence'' index
     in if \<not> is_dict item \<or> \<not> s_ok (jget ''id'' item) \<or> \<not> s_ok (jget ''evidence_class'' item)
        then [(path, ''positive discriminating evidence requires id and evidence_class'')]
        else concat (map (\<lambda>key. flag (\<not> is_bool (jget key item))
                (path @ ''.'' @ key) (key @ '' must be a boolean''))
               [''observed_after_lock'', ''outcome_unknown_at_lock'', ''supports_primary_prediction''])
           @ (let discriminated = jget ''discriminates_against'' item
              in flag (\<not> is_list discriminated \<or> \<not> list_ex s_ok (elems discriminated))
                   (path @ ''.discriminates_against'') ''at least one rival hypothesis id is required''))
     items"

definition observation_problems :: "json list \<Rightarrow> problem list" where
  "observation_problems observations = indexed (\<lambda>index observation.
     let path = at_index ''$.observations'' index
     in if \<not> is_dict observation \<or> \<not> s_ok (jget ''id'' observation)
        then [(path, ''observation requires id'')]
        else concat (map (\<lambda>key. flag (\<not> s_ok (jget key observation))
                (path @ ''.'' @ key) (key @ '' is required''))
               [''evidence_class'', ''outcome'', ''observed_at''])
           @ flag (\<not> is_bool (jget ''known_before_lock'' observation))
               (path @ ''.known_before_lock'') ''known_before_lock must be a boolean'')
     observations"

definition verdict_problems :: "json \<Rightarrow> problem list" where
  "verdict_problems doc =
     flag (\<not> positive_int (jget_or ''adjudication_version'' (JInt 1) doc)) ''adjudication_version''
       ''adjudication_version must be a positive integer''
   @ (let verdicts = jget ''verdicts'' doc
      in if \<not> is_list verdicts then [(''verdicts'', ''verdicts must be a list'')]
         else indexed (\<lambda>index verdict.
           flag (\<not> is_dict verdict \<or> \<not> s_ok (jget ''hypothesis_id'' verdict)
                 \<or> \<not> one_of (jget ''status'' verdict) HYPOTHESIS_STATUSES
                 \<or> \<not> s_ok (jget ''reasoning'' verdict))
             (at_index ''$.verdicts'' index)
             ''verdict requires hypothesis_id, a valid status, and reasoning'')
           (elems verdicts))"

definition validate_sidecar_structure :: "json \<Rightarrow> string \<Rightarrow> py_exc + problem list" where
  "validate_sidecar_structure doc kind =
     (if \<not> is_dict doc then Inr [(''$'', kind @ '' must be a JSON object'')]
      else
        let header =
              flag (jget ''schema_version'' doc \<noteq> JStr SCHEMA_VERSION) ''schema_version''
                (''schema_version must be '' @ [CHR 0x27] @ SCHEMA_VERSION @ [CHR 0x27])
            @ flag (\<not> positive_int (jget_or ''design_version'' (JInt 1) doc)) ''design_version''
                ''design_version must be a positive integer''
            @ flag (\<not> is_sha256 (jget ''design_sha256'' doc)) ''design_sha256''
                ''design_sha256 must be a 64-character hex digest''
        in if kind = ''results'' then
             andthen (py_iter (jget ''hypothesis_statuses'' doc)) (\<lambda>statuses.
             andthen (py_iter (jget ''positive_discriminating_evidence'' doc)) (\<lambda>items.
             andthen (py_iter (jget ''observations'' doc)) (\<lambda>observations. Inr
               (header
                @ concat (map (\<lambda>key. flag (\<not> is_list (jget key doc)) key (key @ '' must be a list''))
                    [''hypothesis_statuses'', ''positive_discriminating_evidence'', ''observations''])
                @ hypothesis_status_problems statuses
                @ positive_evidence_problems items
                @ observation_problems observations))))
           else Inr (header @ verdict_problems doc))"

end
