(* ===== verification/Risk_Rules.thy ===== *)
theory Risk_Rules
  imports Risk_Document
begin

text \<open>
  \<open>research_risk.py\<close>, second part: the rules a structurally valid design is audited by
  (\<open>_run_rules\<close>, \<open>_semantic_rules_1_1\<close> and their helpers). Each group of rules of the
  source is one definition returning the findings it appends, in the order of the source;
  \<open>run_rules\<close> concatenates them.

  The rules run on documents the validation accepted, so the receivers of \<open>get\<close> are
  dictionaries, the iterated values lists, and identifiers non-blank strings
  (\<open>Risk_Laws\<close> proves what acceptance gives). \<open>text_or d v\<close> is \<open>str(v or d)\<close> for a string \<open>v\<close>.
\<close>

section \<open>Findings\<close>

record risk_finding =
  rule_id :: string
  bucket :: string
  finding_message :: string
  finding_path :: "string option"

definition severity :: "risk_finding \<Rightarrow> string" where
  "severity f =
     (if bucket f \<in> {''errors'', ''approval_blockers''} then ''error''
      else if bucket f = ''warnings'' then ''warning'' else ''review'')"

definition opt_str :: "string option \<Rightarrow> json" where
  "opt_str m = (case m of None \<Rightarrow> JNull | Some s \<Rightarrow> JStr s)"

definition finding_to_dict :: "risk_finding \<Rightarrow> json" where
  "finding_to_dict f = JObj
     [(''rule_id'', JStr (rule_id f)), (''severity'', JStr (severity f)),
      (''bucket'', JStr (bucket f)), (''message'', JStr (finding_message f)),
      (''path'', opt_str (finding_path f)), (''snippet'', JNull)]"

definition append_to :: "string list \<Rightarrow> string \<Rightarrow> string \<Rightarrow> string \<Rightarrow> risk_finding list" where
  "append_to buckets rule message path =
     map (\<lambda>b. \<lparr>rule_id = rule, bucket = b, finding_message = message, finding_path = Some path\<rparr>) buckets"

definition report :: "bool \<Rightarrow> string list \<Rightarrow> string \<Rightarrow> string \<Rightarrow> string \<Rightarrow> risk_finding list" where
  "report b buckets rule message path = (if b then append_to buckets rule message path else [])"

abbreviation blocking :: "string list" where
  "blocking \<equiv> [''errors'', ''approval_blockers'']"

section \<open>Parts of a document\<close>

definition text_or :: "string \<Rightarrow> json \<Rightarrow> string" where
  "text_or d j = (case j of JStr s \<Rightarrow> if s = [] then d else s | _ \<Rightarrow> d)"

definition rivals_of :: "json \<Rightarrow> json list" where
  "rivals_of doc = elems (jget ''rival_hypotheses'' doc)"

definition controls_of :: "json \<Rightarrow> json list" where
  "controls_of doc = elems (jget ''negative_controls'' doc)"

definition branches_of :: "json \<Rightarrow> json list" where
  "branches_of doc = map snd (entries (jget ''outcome_branches'' doc))"

definition is_locked :: "json \<Rightarrow> bool" where
  "is_locked doc \<longleftrightarrow> jget ''design_status'' doc = JStr ''locked''"

definition hypotheses_of :: "json \<Rightarrow> json list" where
  "hypotheses_of doc =
     (if is_dict (jget ''primary_hypothesis'' doc) then [jget ''primary_hypothesis'' doc] else [])
     @ rivals_of doc"

definition effective_materials :: "json \<Rightarrow> json list" where
  "effective_materials doc =
     elems (jget ''materials'' doc)
     @ map (\<lambda>item. JObj
         [(''id'', jget ''id'' item), (''source_ref'', jget ''source_ref'' item),
          (''evidence_role'', JStr ''holdout''),
          (''seen_before_lock'', jget_or ''seen_before_lock'' (JBool False) item)])
       (filter is_dict (elems (jget ''holdout_sources'' doc)))"

definition hypothesis_predictions :: "json \<Rightarrow> json list" where
  "hypothesis_predictions hypothesis =
     filter (\<lambda>p. is_dict p \<and> s_ok (jget ''evidence_class'' p)) (elems (jget ''predictions'' hypothesis))"

section \<open>Discrimination between hypotheses\<close>

definition observations_of :: "json \<Rightarrow> (string \<times> string list) list" where
  "observations_of hypothesis =
     fold (\<lambda>p result.
        let evidence_class = strip (text_or [] (jget ''evidence_class'' p));
            observation = lower (strip (text_or [] (jget ''expected_observation'' p)))
        in dict_put evidence_class (observation # dict_get evidence_class [] result) result)
       (hypothesis_predictions hypothesis) []"

definition pair_discriminates :: "json \<Rightarrow> json \<Rightarrow> bool" where
  "pair_discriminates first second =
     (let second_observations = observations_of second
      in list_ex (\<lambda>(evidence_class, values).
           case map_of second_observations evidence_class of
             None \<Rightarrow> False
           | Some other_values \<Rightarrow> set values \<noteq> set other_values)
         (observations_of first))"

definition hypothesis_pairs :: "json list \<Rightarrow> (nat \<times> json \<times> json) list" where
  "hypothesis_pairs hypotheses =
     concat (map (\<lambda>(index, first). map (\<lambda>second. (index, first, second)) (drop (index + 1) hypotheses))
       (enumerate 0 hypotheses))"

definition nondiscrimination_step ::
    "nat \<times> json \<times> json \<Rightarrow> (string \<times> string) list \<times> risk_finding list
     \<Rightarrow> (string \<times> string) list \<times> risk_finding list" where
  "nondiscrimination_step = (\<lambda>(index, first, second) (seen_pairs, findings).
     let first_id = text_or (str_of_nat index) (jget ''id'' first);
         second_id = text_or (str_of_nat (index + 1)) (jget ''id'' second);
         pair = (min first_id second_id, max first_id second_id)
     in if pair \<in> set seen_pairs then (seen_pairs, findings)
        else (pair # seen_pairs,
              findings @ report (\<not> pair_discriminates first second) [''warnings'']
                ''RIVAL_HYPOTHESIS_NOT_DISCRIMINATING''
                (''hypotheses '' @ first_id @ '' and '' @ second_id @ '' share no discriminating evidence'')
                ''$.rival_hypotheses''))"

definition nondiscrimination_findings :: "json list \<Rightarrow> risk_finding list" where
  "nondiscrimination_findings hypotheses =
     snd (fold nondiscrimination_step (hypothesis_pairs hypotheses) ([], []))"

section \<open>Rules on hypotheses and branches\<close>

definition control_levels :: "string list" where
  "control_levels = [''comparative'', ''genealogical'', ''causal'']"

definition primary_rules :: "json \<Rightarrow> risk_finding list" where
  "primary_rules doc =
     (let primary = jget ''primary_hypothesis'' doc
      in if \<not> is_dict primary
         then append_to [''errors''] ''PRIMARY_HYPOTHESIS_MISSING''
                ''primary_hypothesis is required'' ''$.primary_hypothesis''
         else report (jget ''risk_bearing'' primary \<noteq> JBool True) blocking ''RISK_BEARING_MISSING''
                ''primary hypothesis must declare risk_bearing=true'' ''$.primary_hypothesis.risk_bearing''
            @ report (\<not> s_ok (jget ''failure_effect'' primary)) [''errors''] ''FAILURE_EFFECT_MISSING''
                ''primary hypothesis must declare a failure_effect'' ''$.primary_hypothesis.failure_effect'')"

definition hypothesis_rules :: "json \<Rightarrow> json \<Rightarrow> risk_finding list" where
  "hypothesis_rules doc level =
     (let rivals = rivals_of doc;
          required_rivals = (if level = JStr ''genealogical'' then 2 else 1 :: nat)
      in report (length rivals < required_rivals) blocking ''RIVAL_HYPOTHESIS_MISSING''
           (''at least '' @ str_of_nat required_rivals @ '' rival hypothesis(es) are required'')
           ''$.rival_hypotheses''
       @ report (\<not> truthy (jget ''falsification_conditions'' doc)) [''errors'']
           ''FALSIFICATION_CONDITIONS_MISSING'' ''falsification_conditions must be declared''
           ''$.falsification_conditions''
       @ concat (map (\<lambda>hypothesis.
           report (hypothesis_predictions hypothesis = []) [''warnings'']
             ''HYPOTHESIS_PREDICTIONS_MISSING''
             (''hypothesis '' @ text_or ''?'' (jget ''id'' hypothesis) @ '' has no usable predictions'')
             ''$.primary_hypothesis.predictions'')
           (hypotheses_of doc))
       @ (if one_of level control_levels then nondiscrimination_findings (hypotheses_of doc) else []))"

definition branch_rules :: "json \<Rightarrow> risk_finding list" where
  "branch_rules doc =
     (let branches = branches_of doc
      in if branches = []
         then append_to blocking ''OUTCOME_BRANCHES_MISSING''
                ''outcome_branches must declare at least one branch'' ''$.outcome_branches''
         else report
                (\<not> list_ex (\<lambda>branch. is_dict branch \<and>
                    (truthy (jget ''retracts_primary'' branch)
                     \<or> truthy (jget ''changes_contribution'' branch)
                     \<or> truthy (jget ''changes_center_conclusion'' branch))) branches)
                blocking ''ALL_OUTCOMES_PRESERVE_PRIMARY_HYPOTHESIS''
                ''every outcome branch preserves the primary hypothesis'' ''$.outcome_branches'')"

definition control_rules :: "json \<Rightarrow> json \<Rightarrow> risk_finding list" where
  "control_rules doc level =
     (let controls = controls_of doc; locked = is_locked doc
      in if \<not> one_of level control_levels then []
         else report (controls = []) (if locked then blocking else [''errors''])
                ''NEGATIVE_CONTROL_MISSING'' ''negative_controls are required at this policy level''
                ''$.negative_controls''
            @ indexed (\<lambda>index control.
                let path = at_index ''$.negative_controls'' index;
                    actual = jget ''actual_result'' control
                in report (\<not> s_ok (jget ''reason_for_control'' control)
                           \<or> \<not> s_ok (jget ''expected_result'' control)) [''warnings'']
                     ''NEGATIVE_CONTROL_NOT_COMPARABLE''
                     ''negative control must state its rationale and expected result'' path
                 @ report (jget ''same_standard_as_primary'' control \<noteq> JBool True) [''warnings'']
                     ''NEGATIVE_CONTROL_NOT_COMPARABLE''
                     ''negative control must use the same standard as primary materials''
                     (path @ ''.same_standard_as_primary'')
                 @ (if actual = JNull
                    then append_to (if locked then [''warnings'', ''approval_blockers''] else [''warnings''])
                           ''NEGATIVE_CONTROL_NOT_COMPLETED''
                           ''negative control has not reported an actual_result''
                           (path @ ''.actual_result'')
                    else report (actual = JStr ''passes'') [''errors'']
                           ''NEGATIVE_CONTROL_PASSES_PRIMARY_CRITERIA''
                           ''negative control satisfies the primary criteria''
                           (path @ ''.actual_result'')))
                controls)"

section \<open>Rules of the genealogical and causal levels\<close>

definition role_in :: "string list \<Rightarrow> json \<Rightarrow> bool" where
  "role_in roles item = one_of (jget ''evidence_role'' item) roles"

definition genealogical_rules :: "json \<Rightarrow> json \<Rightarrow> risk_finding list" where
  "genealogical_rules doc level =
     (let materials = effective_materials doc
      in if level \<noteq> JStr ''genealogical'' then []
         else (if materials = []
               then append_to [''errors''] ''MATERIALS_MISSING''
                      ''materials must be registered for genealogical policy'' ''$.materials''
               else report (\<not> list_ex (role_in [''validation'', ''holdout'']) materials) blocking
                      ''VALIDATION_OR_HOLDOUT_MISSING''
                      ''at least one validation or holdout material is required'' ''$.materials''
                  @ concat (map (\<lambda>item.
                      report (jget ''evidence_role'' item = JStr ''holdout''
                              \<and> truthy (jget ''seen_before_lock'' item)) blocking ''HOLDOUT_CONTAMINATED''
                        ''holdout material was already seen before the design lock'' ''$.materials'')
                      materials))
            @ report (\<not> list_ex (\<lambda>rival. is_dict rival
                        \<and> jget ''hypothesis_kind'' rival = JStr ''shared_source'') (rivals_of doc))
                [''errors''] ''SHARED_SOURCE_RIVAL_MISSING''
                ''genealogical policy requires a shared-source rival hypothesis'' ''$.rival_hypotheses''
            @ report (\<not> truthy (jget ''diachronic_connection_evidence'' doc)) [''errors'']
                ''DIACHRONIC_EVIDENCE_MISSING''
                ''genealogical policy requires diachronic_connection_evidence''
                ''$.diachronic_connection_evidence''
            @ (if is_locked doc
               then report (truthy (jget ''required'' (jget ''validation_status'' doc))
                            \<and> \<not> truthy (jget ''completed'' (jget ''validation_status'' doc)))
                      [''approval_blockers''] ''VALIDATION_INCOMPLETE''
                      ''post-lock validation is not completed'' ''$.validation_status''
                  @ report (jget ''status'' (jget ''adversarial_review'' doc) \<noteq> JStr ''completed'')
                      [''approval_blockers''] ''ADVERSARIAL_REVIEW_INCOMPLETE''
                      ''adversarial review is not completed'' ''$.adversarial_review''
               else []))"

definition causal_rules :: "json \<Rightarrow> json \<Rightarrow> risk_finding list" where
  "causal_rules doc level =
     (if level \<noteq> JStr ''causal'' then []
      else report (\<not> truthy (jget ''mechanism_chain'' doc)) [''errors''] ''MECHANISM_CHAIN_MISSING''
             ''causal policy requires a mechanism_chain'' ''$.mechanism_chain''
         @ report (\<not> list_ex (\<lambda>rival. is_dict rival
                     \<and> jget ''hypothesis_kind'' rival = JStr ''alternative_mechanism'') (rivals_of doc))
             [''errors''] ''ALTERNATIVE_MECHANISM_MISSING''
             ''causal policy requires an alternative-mechanism rival'' ''$.rival_hypotheses''
         @ report (\<not> truthy (jget ''mechanism_failure_conditions'' doc)) [''errors'']
             ''MECHANISM_FAILURE_CONDITIONS_MISSING''
             ''causal policy requires mechanism_failure_conditions'' ''$.mechanism_failure_conditions''
         @ report (\<not> list_ex (\<lambda>hypothesis. list_ex
                     (\<lambda>prediction. is_dict prediction \<and> jget ''counterfactual'' prediction = JBool True)
                     (elems (jget ''predictions'' hypothesis))) (hypotheses_of doc))
             [''warnings''] ''COUNTERFACTUAL_EVIDENCE_MISSING''
             ''causal policy expects counterfactual or discriminating evidence''
             ''$.primary_hypothesis.predictions'')"

section \<open>Rules on the lock and the history of the design\<close>

definition change_review :: "json \<Rightarrow> risk_finding list" where
  "change_review entry =
     report (\<not> s_ok (jget ''old_design_result'' entry)) [''review_items''] ''DESIGN_CHANGE_REVIEW''
       ''design change does not record the result under the old design'' ''$.design_history''"

definition version_gt_one :: "json \<Rightarrow> bool" where
  "version_gt_one j = (case j of JInt n \<Rightarrow> n > 1 | _ \<Rightarrow> False)"

definition history_rules :: "json \<Rightarrow> risk_finding list" where
  "history_rules doc =
     (let design_version = jget_or ''design_version'' (JInt 1) doc;
          history = elems (jget ''design_history'' doc)
      in if is_locked doc
         then report (\<not> s_ok (jget ''locked_at'' doc)) [''errors''] ''LOCKED_AT_MISSING''
                ''locked designs require locked_at'' ''$.locked_at''
            @ report (version_gt_one design_version
                      \<and> \<not> list_ex (\<lambda>entry. is_dict entry \<and> jget ''to_version'' entry = design_version) history)
                blocking ''DESIGN_DRIFT_UNDISCLOSED''
                ''design version changed without a matching design_history entry'' ''$.design_history''
            @ concat (map (\<lambda>entry.
                if \<not> is_dict entry then []
                else report (truthy (jget ''evidence_seen_before_change'' entry)
                             \<and> (jget ''makes_primary_easier'' entry = JNull
                                \<or> \<not> s_ok (jget ''old_design_result'' entry)))
                       [''warnings''] ''POST_HOC_CRITERIA_RELAXATION''
                       ''criteria changed after evidence was seen without a full record'' ''$.design_history''
                   @ change_review entry) history)
         else concat (map (\<lambda>entry. if is_dict entry then change_review entry else []) history))"

section \<open>Rules on the contribution and the remaining lists\<close>

definition contribution_rules :: "json \<Rightarrow> risk_finding list" where
  "contribution_rules doc =
     (let primary_contribution = jget ''primary'' (jget ''contribution_type'' doc);
          materials = effective_materials doc;
          mismatch = (\<lambda>b message. report b [''errors''] ''CONTRIBUTION_TYPE_MISMATCH'' message
                        ''$.contribution_type.primary'')
      in mismatch (primary_contribution = JStr ''negative_result''
                   \<and> \<not> list_ex (\<lambda>branch. is_dict branch \<and> truthy (jget ''retracts_primary'' branch))
                         (branches_of doc))
           ''negative_result contribution requires a retracting outcome branch''
       @ mismatch (primary_contribution = JStr ''genealogical_explanation''
                   \<and> (\<not> truthy (jget ''diachronic_connection_evidence'' doc)
                      \<or> \<not> list_ex (role_in [''validation'', ''holdout'']) materials))
           ''genealogical_explanation requires diachronic evidence and validation material''
       @ mismatch (one_of primary_contribution [''textual_discovery'', ''source_discovery'']
                   \<and> \<not> list_ex (role_in [''discovery'', ''validation'']) materials)
           ''discovery contributions require discovery or validation materials''
       @ mismatch (primary_contribution = JStr ''dispute_adjudication'' \<and> length (rivals_of doc) < 2)
           ''dispute_adjudication expects at least two rival hypotheses'')"

definition list_rules :: "json \<Rightarrow> risk_finding list" where
  "list_rules doc =
     indexed (\<lambda>index bridge.
       report (is_dict bridge \<and> one_of (jget ''overall_strength'' bridge) [''high'', ''medium'']
               \<and> \<not> truthy (jget ''dimensions'' bridge))
         [''warnings''] ''BRIDGE_STRENGTH_AGGREGATED''
         ''bridge strength is aggregated without a dimension breakdown''
         (at_index ''$.bridge_assessments'' index))
       (elems (jget ''bridge_assessments'' doc))
   @ indexed (\<lambda>index criterion.
       report (is_dict criterion \<and> \<not> s_ok (jget ''exclusion_test'' criterion))
         [''review_items''] ''CRITERIA_EXCLUSION_MISSING''
         ''operational criterion lacks an exclusion_test''
         (at_index ''$.operational_criteria'' index))
       (elems (jget ''operational_criteria'' doc))
   @ indexed (\<lambda>index rival.
       report (is_dict rival \<and> \<not> s_ok (jget ''simplicity_note'' rival))
         [''review_items''] ''RIVAL_SIMPLICITY_REVIEW'' ''rival hypothesis lacks a simplicity_note''
         (at_index ''$.rival_hypotheses'' index @ ''.simplicity_note''))
       (rivals_of doc)"

section \<open>Semantic rules of schema 1.1\<close>

definition is_positive_discriminating_evidence :: "json \<Rightarrow> bool" where
  "is_positive_discriminating_evidence item \<longleftrightarrow>
     is_dict item
     \<and> jget ''observed_after_lock'' item = JBool True
     \<and> jget ''outcome_unknown_at_lock'' item = JBool True
     \<and> jget ''supports_primary_prediction'' item = JBool True
     \<and> is_list (jget ''discriminates_against'' item)
     \<and> list_ex s_ok (elems (jget ''discriminates_against'' item))"

text \<open>\<open>results_doc or {}\<close>; a sidecar that is not given is null.\<close>

definition status_of :: "json \<Rightarrow> json \<Rightarrow> json" where
  "status_of results hypothesis_id =
     dict_get hypothesis_id JNull
       (dict_of (map (\<lambda>status. (jget ''hypothesis_id'' status, jget ''status'' status))
          (filter is_dict (elems (jget ''hypothesis_statuses'' results)))))"

definition traced_level :: "json \<Rightarrow> bool" where
  "traced_level level = one_of level [''genealogical'', ''causal'']"

definition validation_rules :: "json \<Rightarrow> json \<Rightarrow> json \<Rightarrow> risk_finding list" where
  "validation_rules doc level results =
     (let locked = is_locked doc;
          pde_items = elems (jget ''positive_discriminating_evidence'' results);
          observations = elems (jget ''observations'' results);
          validation_status = jget ''validation_status'' doc;
          primary = jget ''primary_hypothesis'' doc
      in report (locked \<and> traced_level level \<and> jget ''completed'' validation_status = JBool True
                 \<and> filter (\<lambda>item. is_dict item \<and> jget ''known_before_lock'' item = JBool True) observations \<noteq> [])
           blocking ''VALIDATION_EVIDENCE_CONTAMINATED''
           ''completed validation includes observations that were known before lock'' ''$.observations''
       @ report (locked \<and> \<not> list_ex (\<lambda>item. is_dict item
                   \<and> jget ''status_at_lock'' item = JStr ''genuinely_open'')
                   (elems (jget ''falsification_conditions'' doc)))
           blocking ''NO_OPEN_FALSIFICATION_CONDITION''
           ''locked design has no genuinely-open falsification condition'' ''$.falsification_conditions''
       @ report (primary \<noteq> JNull
                 \<and> one_of (status_of results (jget ''id'' primary)) [''supported'', ''partially_supported'']
                 \<and> \<not> list_ex is_positive_discriminating_evidence pde_items)
           blocking ''PRIMARY_SUPPORTED_BY_RIVAL_FAILURE_ONLY''
           ''supported/partially_supported requires positive discriminating evidence''
           ''$.positive_discriminating_evidence''
       @ report (locked \<and> traced_level level \<and> jget ''required'' validation_status = JBool True
                 \<and> jget ''completed'' validation_status = JBool True
                 \<and> filter (\<lambda>item. is_dict item \<and> jget ''known_before_lock'' item = JBool False
                            \<and> s_ok (jget ''observed_at'' item)) observations = [])
           blocking ''POST_LOCK_VALIDATION_MISSING''
           ''completed validation has no post-lock observation'' ''$.observations'')"

definition bridge_dimensions :: "json \<Rightarrow> (string \<times> json) list" where
  "bridge_dimensions doc =
     dict_of (concat (map (\<lambda>bridge. entries (jget ''dimensions'' bridge))
       (filter (\<lambda>bridge. is_dict bridge \<and> is_dict (jget ''dimensions'' bridge))
          (elems (jget ''bridge_assessments'' doc)))))"

definition claim_rules :: "json \<Rightarrow> json \<Rightarrow> risk_finding list" where
  "claim_rules doc level =
     (let contribution = jget ''contribution_type'' doc;
          claimed = jget ''primary'' contribution # elems (jget ''secondary'' contribution);
          evidence = elems (jget ''diachronic_connection_evidence'' doc);
          dimensions = bridge_dimensions doc;
          weak = [''unproven'', ''low'', ''unresolved'']
      in report (traced_level level \<and> evidence \<noteq> []
                 \<and> list_all (\<lambda>item. is_dict item
                      \<and> jget ''connection_type'' item = JStr ''chronology_only'') evidence
                 \<and> list_ex (\<lambda>c. one_of c [''genealogical_explanation'', ''causal_explanation'']) claimed)
           blocking ''CHRONOLOGY_USED_AS_CONNECTION_EVIDENCE''
           ''chronology-only evidence cannot support a genealogical/causal contribution''
           ''$.diachronic_connection_evidence''
       @ report (JStr ''genealogical_explanation'' \<in> set claimed
                 \<and> one_of (dict_get ''genealogical_continuity'' JNull dimensions) weak)
           [''errors''] ''CONTRIBUTION_EXCEEDS_BRIDGE_STATUS''
           ''genealogical_explanation exceeds bridge genealogical_continuity status'' ''$.contribution_type''
       @ report (JStr ''causal_explanation'' \<in> set claimed
                 \<and> one_of (dict_get ''mechanism_continuity'' JNull dimensions) weak)
           [''errors''] ''CONTRIBUTION_EXCEEDS_BRIDGE_STATUS''
           ''causal_explanation exceeds bridge mechanism_continuity status'' ''$.contribution_type'')"

definition separation_rules :: "json \<Rightarrow> risk_finding list" where
  "separation_rules doc =
     indexed (\<lambda>index control.
       let tests = jget ''tests_hypotheses'' control
       in report (\<not> is_list tests \<or> elems tests = [] \<or> \<not> list_all s_ok (elems tests))
            (if is_locked doc then blocking else [''errors'']) ''NEGATIVE_CONTROL_OVERGENERALIZED''
            ''negative control must declare the hypotheses it tests''
            (at_index ''$.negative_controls'' index @ ''.tests_hypotheses''))
       (controls_of doc)
   @ report (list_ex (\<lambda>key. jhas key doc) RESULT_KEYS \<or> list_ex (\<lambda>key. jhas key doc) ADJUDICATION_KEYS)
       [''errors''] ''DESIGN_RESULT_MIXED''
       ''results and adjudication data must be stored in separate files'' ''$''
   @ indexed (\<lambda>index item.
       report (jget ''design_impacted'' item = JBool True
               \<and> jget ''evidence_role'' item \<noteq> JStr ''design_evidence'')
         [''errors''] ''EVIDENCE_ROLE_STALE''
         ''design-impacted material must be registered as design_evidence'' (at_index ''$.materials'' index)
       @ report (jget ''evidence_role'' item = JStr ''design_evidence''
                 \<and> jget ''design_impacted'' item \<noteq> JBool True)
         [''errors''] ''EVIDENCE_ROLE_STALE''
         ''design_evidence material must declare design_impacted=true'' (at_index ''$.materials'' index))
       (effective_materials doc)"

definition sidecar_mismatch :: "json \<Rightarrow> string \<Rightarrow> bool" where
  "sidecar_mismatch sidecar design_sha256 \<longleftrightarrow>
     sidecar \<noteq> JNull \<and> jget ''design_sha256'' sidecar \<noteq> JStr design_sha256"

definition hash_rules :: "json \<Rightarrow> json \<Rightarrow> json \<Rightarrow> string \<Rightarrow> risk_finding list" where
  "hash_rules doc results_doc adjudication_doc design_sha256 =
     (if is_locked doc
      then concat (map (\<lambda>(sidecar, label).
             report (sidecar_mismatch sidecar design_sha256) blocking ''LOCKED_DESIGN_HASH_MISMATCH''
               (label @ '' design_sha256 does not match the current design'')
               (''$.'' @ label @ ''.design_sha256''))
           [(results_doc, ''results''), (adjudication_doc, ''adjudication'')])
      else [])"

definition semantic_rules_1_1 :: "json \<Rightarrow> json \<Rightarrow> json \<Rightarrow> json \<Rightarrow> string \<Rightarrow> risk_finding list" where
  "semantic_rules_1_1 doc level results_doc adjudication_doc design_sha256 =
     validation_rules doc level results_doc
   @ claim_rules doc level
   @ separation_rules doc
   @ hash_rules doc results_doc adjudication_doc design_sha256"

definition run_rules :: "json \<Rightarrow> json \<Rightarrow> json \<Rightarrow> json \<Rightarrow> string \<Rightarrow> risk_finding list" where
  "run_rules doc level results_doc adjudication_doc design_sha256 =
     primary_rules doc
   @ hypothesis_rules doc level
   @ branch_rules doc
   @ control_rules doc level
   @ genealogical_rules doc level
   @ causal_rules doc level
   @ history_rules doc
   @ contribution_rules doc
   @ list_rules doc
   @ semantic_rules_1_1 doc level results_doc adjudication_doc design_sha256"

end
