(* ===== verification/Risk_Audit.thy ===== *)
theory Risk_Audit
  imports Risk_Rules
begin

text \<open>
  \<open>research_risk.py\<close>, last part: the hash of a design, \<open>audit_research_risk\<close> with its result and
  the rendering of the result, and the exit status of the command line.

  The exceptions of \<open>audit_research_risk\<close> are modelled: the validators may raise a \<open>TypeError\<close>
  and reading the design status of a document that is not an object, or the hash of a
  sidecar that is not one, an \<open>AttributeError\<close>. The raw input is given as the text whose
  UTF-8 encoding it is.
\<close>

fun fix_newlines :: "string \<Rightarrow> string" where
  "fix_newlines [] = []"
| "fix_newlines (c # cs) =
     (if code_of c = 13
      then CHR 0x0A # (case cs of d # ds \<Rightarrow> if code_of d = 10 then fix_newlines ds else fix_newlines cs
                       | [] \<Rightarrow> [])
      else c # fix_newlines cs)"

text \<open>\<open>json.dumps(doc, sort_keys=True, ensure_ascii=False)\<close> with its default separators.\<close>

definition dumps_sorted :: "prims \<Rightarrow> json \<Rightarrow> string" where
  "dumps_sorted P doc = dumps P '', '' '': '' (sort_keys doc)"

definition canonical_design_hash :: "prims \<Rightarrow> json \<Rightarrow> string" where
  "canonical_design_hash P doc = sha256 P (fix_newlines (dumps_sorted P doc))"

record risk_audit_result =
  document :: json
  findings :: "risk_finding list"
  input_sha256 :: string
  source_path :: "string option"
  design_sha256 :: "string option"
  design_hash_status :: "string option"

definition schema_findings :: "problem list \<Rightarrow> risk_finding list" where
  "schema_findings problems =
     concat (map (\<lambda>(path, message). append_to [''errors''] ''SCHEMA_INVALID'' message path) problems)"

text \<open>\<open>if doc is not None: problems.extend(_validate_sidecar_structure(doc, kind))\<close>\<close>

definition sidecar_problems :: "json \<Rightarrow> string \<Rightarrow> py_exc + problem list" where
  "sidecar_problems sidecar kind =
     (if sidecar = JNull then Inr [] else validate_sidecar_structure sidecar kind)"

definition audit_problems :: "json \<Rightarrow> json \<Rightarrow> json \<Rightarrow> py_exc + problem list" where
  "audit_problems doc results_doc adjudication_doc =
     andthen (validate_structure doc) (\<lambda>ps.
     andthen (sidecar_problems results_doc ''results'') (\<lambda>rs.
     andthen (sidecar_problems adjudication_doc ''adjudication'') (\<lambda>as. Inr (ps @ rs @ as))))"

definition hash_status :: "json \<Rightarrow> json \<Rightarrow> json \<Rightarrow> string \<Rightarrow> py_exc + string option" where
  "hash_status doc results_doc adjudication_doc design_hash =
     andthen (require (is_dict doc) (AttributeError ''get'')) (\<lambda>_.
       if is_locked doc \<and> (results_doc \<noteq> JNull \<or> adjudication_doc \<noteq> JNull)
       then andthen (traverse (\<lambda>sidecar.
              if sidecar = JNull then Inr False
              else andthen (require (is_dict sidecar) (AttributeError ''get''))
                     (\<lambda>_. Inr (sidecar_mismatch sidecar design_hash)))
              [results_doc, adjudication_doc])
              (\<lambda>bs. Inr (Some (if list_ex id bs then ''mismatch'' else ''matched'')))
       else Inr None)"

definition audit_research_risk ::
    "prims \<Rightarrow> json \<Rightarrow> string option \<Rightarrow> string option \<Rightarrow> json \<Rightarrow> json \<Rightarrow> py_exc + risk_audit_result" where
  "audit_research_risk P doc path input_text results_doc adjudication_doc =
     (let digest = sha256 P (case input_text of None \<Rightarrow> dumps_sorted P doc | Some t \<Rightarrow> t);
          design_hash = canonical_design_hash P doc
      in andthen (audit_problems doc results_doc adjudication_doc) (\<lambda>problems.
           let (enabled, level) = effective_policy doc;
               found = (if problems \<noteq> [] then schema_findings problems
                        else if enabled \<and> level \<noteq> JStr ''none''
                        then run_rules doc level results_doc adjudication_doc design_hash
                        else [])
           in andthen (hash_status doc results_doc adjudication_doc design_hash) (\<lambda>status. Inr
                \<lparr>document = doc, findings = found, input_sha256 = digest, source_path = path,
                 design_sha256 = Some design_hash, design_hash_status = status\<rparr>)))"

section \<open>The rendered result\<close>

definition BUCKETS :: "string list" where
  "BUCKETS = [''errors'', ''warnings'', ''review_items'', ''approval_blockers'']"

definition in_bucket :: "string \<Rightarrow> risk_audit_result \<Rightarrow> risk_finding list" where
  "in_bucket name r = filter (\<lambda>f. bucket f = name) (findings r)"

definition value_or :: "json \<Rightarrow> json \<Rightarrow> json" where
  "value_or d v = (if truthy v then v else d)"

definition py_str :: "prims \<Rightarrow> json \<Rightarrow> string" where
  "py_str P v = (case v of JStr s \<Rightarrow> s | _ \<Rightarrow> py_repr P v)"

definition as_dict :: "prims \<Rightarrow> risk_audit_result \<Rightarrow> json" where
  "as_dict P r =
     (let doc = document r; (enabled, level) = effective_policy doc;
          listed = (\<lambda>name. JList (map finding_to_dict (in_bucket name r)))
      in JObj
        ([(''schema_version'', JStr (py_str P (value_or (JStr SCHEMA_VERSION) (jget ''schema_version'' doc)))),
          (''policy_version'', JStr POLICY_VERSION),
          (''enabled'', JBool enabled),
          (''policy_level'', level),
          (''design_version'', value_or (JInt 1) (jget ''design_version'' doc)),
          (''design_status'', value_or (JStr ''draft'') (jget ''design_status'' doc)),
          (''errors'', listed ''errors''),
          (''warnings'', listed ''warnings''),
          (''review_items'', listed ''review_items''),
          (''approval_blockers'', listed ''approval_blockers''),
          (''summary'', JObj (map (\<lambda>name. (name, JInt (int (length (in_bucket name r))))) BUCKETS)),
          (''input_sha256'', JStr (input_sha256 r)),
          (''source_path'', opt_str (source_path r))]
         @ (case design_sha256 r of None \<Rightarrow> []
            | Some h \<Rightarrow> [(''design_sha256'', JStr h),
                         (''design_hash_status'', opt_str (design_hash_status r))])))"

text \<open>\<open>if args.strict and (data["errors"] or data["approval_blockers"]): return 1\<close>\<close>

definition exit_status :: "bool \<Rightarrow> json \<Rightarrow> nat" where
  "exit_status strict data =
     (if strict \<and> (truthy (jget ''errors'' data) \<or> truthy (jget ''approval_blockers'' data)) then 1 else 0)"

end
