(* ===== verification/Risk_Laws.thy ===== *)
theory Risk_Laws
  imports Risk_Audit
begin

text \<open>
  Laws of the research-risk audit. \<open>silent b fs\<close> says that no finding of \<open>fs\<close> is in bucket
  \<open>b\<close>; the collection \<open>silent_simps\<close> turns the silence of a group of rules into the
  conditions the group checks, which gives the soundness of a clean audit. \<open>problem_simps\<close>
  does the same for the problem lists of the validators.
\<close>

named_theorems silent_simps \<open>silence of a list of findings\<close>
named_theorems problem_simps \<open>emptiness of a list of problems\<close>

section \<open>Problems\<close>

lemma flag_eq_Nil [problem_simps]: "flag b p m = [] \<longleftrightarrow> \<not> b"
  by (simp add: flag_def)

lemma set_enumerate: "set (enumerate 0 xs) = (\<lambda>i. (i, xs ! i)) ` {..<length xs}"
proof (rule set_eqI)
  fix p :: "nat \<times> 'a"
  show "p \<in> set (enumerate 0 xs) \<longleftrightarrow> p \<in> (\<lambda>i. (i, xs ! i)) ` {..<length xs}"
    by (cases p) (auto simp: in_set_enumerate_eq)
qed

lemma indexed_eq_Nil: "indexed f xs = [] \<longleftrightarrow> (\<forall>i<length xs. f i (xs ! i) = [])"
  by (auto simp: indexed_def set_enumerate)

lemma set_indexed: "set (indexed f xs) = (\<Union>i<length xs. set (f i (xs ! i)))"
  by (simp add: indexed_def set_enumerate)

lemma indexedD:
  assumes "indexed f xs = []" "x \<in> set xs"
  obtains i where "f i x = []"
  using assms unfolding indexed_eq_Nil by (metis in_set_conv_nth)

lemma concat_map_eq_Nil [problem_simps]:
  "concat (map f xs) = [] \<longleftrightarrow> (\<forall>x\<in>set xs. f x = [])"
  by (induction xs) auto

lemma py_iter_list: "is_list v \<Longrightarrow> py_iter v = Inr (elems v)"
  by (cases v) (auto simp: is_list_def py_iter_def truthy_def elems_def)

definition iterable :: "json \<Rightarrow> bool" where
  "iterable v \<longleftrightarrow> \<not> truthy v \<or> is_list v \<or> is_str v \<or> is_dict v"

lemma py_iter_raises: "(\<exists>xs. py_iter v = Inr xs) \<longleftrightarrow> iterable v"
  by (cases v) (auto simp: iterable_def py_iter_def is_list_def is_str_def is_dict_def)

lemma andthen_total: "(\<exists>y. andthen r (\<lambda>x. Inr (f x)) = Inr y) \<longleftrightarrow> (\<exists>x. r = Inr x)"
  by (cases r) auto

definition rules_apply :: "json \<Rightarrow> bool" where
  "rules_apply doc \<longleftrightarrow> fst (effective_policy doc) \<and> snd (effective_policy doc) \<noteq> JStr ''none''"

lemma validate_structure_raises:
  "(\<exists>ps. validate_structure doc = Inr ps) \<longleftrightarrow>
     \<not> (is_dict doc \<and> rules_apply doc \<and> \<not> iterable (jget ''diachronic_connection_evidence'' doc))"
proof -
  have "(\<exists>ps. diachronic_problems doc = Inr ps)
      \<longleftrightarrow> iterable (jget ''diachronic_connection_evidence'' doc)"
    unfolding diachronic_problems_def andthen_total by (rule py_iter_raises)
  then show ?thesis
    by (auto simp: validate_structure_def rules_apply_def andthen_total Let_def split: prod.splits)
qed

lemma validate_structure_dict: "validate_structure doc = Inr [] \<Longrightarrow> is_dict doc"
  by (auto simp: validate_structure_def split: if_splits)

text \<open>What acceptance of a design under a policy gives, part by part.\<close>

lemma validate_structure_parts:
  assumes "validate_structure doc = Inr []" "rules_apply doc"
  shows "header_problems doc = []" "primary_problems doc = []" "rival_problems doc = []"
    "falsification_problems doc = []" "criteria_problems doc = []" "diachronic_problems doc = Inr []"
    "material_problems doc = []" "holdout_problems doc = []" "control_problems doc = []"
    "branch_problems doc = []" "contribution_problems doc = []" "bridge_problems doc = []"
    "review_problems doc = []" "history_problems doc = []"
proof -
  have d: "is_dict doc" using assms(1) by (rule validate_structure_dict)
  obtain dp where dp: "diachronic_problems doc = Inr dp"
    using assms d unfolding validate_structure_def rules_apply_def Let_def
    by (auto simp: result_simps split: prod.splits)
  note h = assms [unfolded validate_structure_def rules_apply_def Let_def]
  have all: "dp = [] \<and> header_problems doc = [] \<and> primary_problems doc = [] \<and> rival_problems doc = []
    \<and> falsification_problems doc = [] \<and> criteria_problems doc = []
    \<and> material_problems doc = [] \<and> holdout_problems doc = [] \<and> control_problems doc = []
    \<and> branch_problems doc = [] \<and> contribution_problems doc = [] \<and> bridge_problems doc = []
    \<and> review_problems doc = [] \<and> history_problems doc = []"
    using h d dp by (simp split: prod.splits)
  then show "header_problems doc = []" "primary_problems doc = []" "rival_problems doc = []"
    "falsification_problems doc = []" "criteria_problems doc = []" "diachronic_problems doc = Inr []"
    "material_problems doc = []" "holdout_problems doc = []" "control_problems doc = []"
    "branch_problems doc = []" "contribution_problems doc = []" "bridge_problems doc = []"
    "review_problems doc = []" "history_problems doc = []"
    using dp by simp_all
qed

definition keyed :: "json \<Rightarrow> bool" where
  "keyed h \<longleftrightarrow> is_dict h \<and> s_ok (jget ''id'' h)"

lemma predictions_shape:
  assumes "prediction_problems h path = []"
  shows "is_list (jget ''predictions'' h) \<and> list_all (\<lambda>p. is_dict p \<and> s_ok (jget ''evidence_class'' p)
    \<and> s_ok (jget ''expected_observation'' p)) (elems (jget ''predictions'' h))"
proof -
  from assms have l: "is_list (jget ''predictions'' h)"
    by (auto simp: prediction_problems_def Let_def split: if_splits)
  have "is_dict p \<and> s_ok (jget ''evidence_class'' p) \<and> s_ok (jget ''expected_observation'' p)"
    if "p \<in> set (elems (jget ''predictions'' h))" for p
    using assms l that unfolding prediction_problems_def Let_def
    by (auto elim!: indexedD [where x = p] simp: problem_simps split: if_splits)
  with l show ?thesis by (simp add: list_all_iff)
qed

definition predicted :: "json \<Rightarrow> bool" where
  "predicted h \<longleftrightarrow> is_list (jget ''predictions'' h) \<and> list_all (\<lambda>p. is_dict p
     \<and> s_ok (jget ''evidence_class'' p) \<and> s_ok (jget ''expected_observation'' p))
     (elems (jget ''predictions'' h))"

lemma primary_shape:
  assumes "primary_problems doc = []"
  shows "keyed (jget ''primary_hypothesis'' doc) \<and> predicted (jget ''primary_hypothesis'' doc)"
  using assms predictions_shape [of "jget ''primary_hypothesis'' doc" "''$.primary_hypothesis''"]
  unfolding primary_problems_def Let_def keyed_def predicted_def
  by (simp add: problem_simps split: if_splits)

lemma rivals_shape:
  assumes "rival_problems doc = []"
  shows "is_list (jget ''rival_hypotheses'' doc) \<and> list_all (\<lambda>r. keyed r \<and> predicted r) (rivals_of doc)"
proof -
  from assms have l: "is_list (jget ''rival_hypotheses'' doc)"
    by (auto simp: rival_problems_def Let_def split: if_splits)
  have "keyed r \<and> predicted r" if "r \<in> set (rivals_of doc)" for r
  proof -
    from assms l that obtain i where i: "is_dict r" "s_ok (jget ''id'' r)"
        "prediction_problems r (at_index ''$.rival_hypotheses'' i) = []"
      unfolding rival_problems_def Let_def rivals_of_def
      by (auto elim!: indexedD [where x = r] simp: problem_simps split: if_splits)
    then show ?thesis using predictions_shape [OF i(3)] by (simp add: keyed_def predicted_def)
  qed
  with l show ?thesis by (simp add: list_all_iff)
qed

lemma materials_shape:
  assumes "material_problems doc = []" "holdout_problems doc = []"
  shows "is_list (jget ''materials'' doc) \<and> is_list (jget ''holdout_sources'' doc)
    \<and> list_all (\<lambda>m. is_dict m \<and> one_of (jget ''evidence_role'' m) EVIDENCE_ROLES) (effective_materials doc)"
proof -
  from assms have l: "is_list (jget ''materials'' doc)" "is_list (jget ''holdout_sources'' doc)"
    by (auto simp: material_problems_def holdout_problems_def Let_def split: if_splits)
  have "is_dict m \<and> one_of (jget ''evidence_role'' m) EVIDENCE_ROLES"
    if "m \<in> set (elems (jget ''materials'' doc))" for m
    using assms(1) l that unfolding material_problems_def Let_def
    by (auto elim!: indexedD [where x = m] simp: problem_simps split: if_splits)
  moreover have "is_dict (JObj (p # q # (''evidence_role'', JStr ''holdout'') # ps))
      \<and> one_of (jget ''evidence_role'' (JObj (p # q # (''evidence_role'', JStr ''holdout'') # ps))) EVIDENCE_ROLES"
    if "fst p = ''id''" "fst q = ''source_ref''" for p q ps
    using that
    by (cases p; cases q)
      (simp add: is_dict_def jget_def jget_or_def dict_get_def one_of_def EVIDENCE_ROLES_def)
  ultimately show ?thesis using l by (auto simp: list_all_iff effective_materials_def)
qed

lemma controls_shape:
  assumes "control_problems doc = []"
  shows "is_list (jget ''negative_controls'' doc)
    \<and> list_all (\<lambda>c. is_dict c \<and> s_ok (jget ''id'' c) \<and> s_ok (jget ''reason_for_control'' c)
        \<and> s_ok (jget ''expected_result'' c)) (controls_of doc)"
proof -
  from assms have l: "is_list (jget ''negative_controls'' doc)"
    by (auto simp: control_problems_def Let_def split: if_splits)
  have "is_dict c \<and> s_ok (jget ''id'' c) \<and> s_ok (jget ''reason_for_control'' c)
      \<and> s_ok (jget ''expected_result'' c)" if "c \<in> set (controls_of doc)" for c
    using assms l that unfolding control_problems_def Let_def controls_of_def
    by (auto elim!: indexedD [where x = c] simp: problem_simps split: if_splits)
  with l show ?thesis by (simp add: list_all_iff)
qed

lemma records_shape:
  assumes "branch_problems doc = []" "contribution_problems doc = []" "review_problems doc = []"
    "history_problems doc = []"
  shows "is_dict (jget ''outcome_branches'' doc)" "is_dict (jget ''contribution_type'' doc)"
    "is_list (jget ''secondary'' (jget ''contribution_type'' doc))"
    "is_dict (jget ''validation_status'' doc)" "is_dict (jget ''adversarial_review'' doc)"
    "is_list (jget ''design_history'' doc)"
  using assms
  by (auto simp: branch_problems_def contribution_problems_def review_problems_def history_problems_def
      Let_def problem_simps split: if_splits)

lemma diachronic_shape:
  "diachronic_problems doc = Inr [] \<Longrightarrow> is_list (jget ''diachronic_connection_evidence'' doc)"
  by (auto simp: diachronic_problems_def result_simps problem_simps)

section \<open>Silence\<close>

definition silent :: "string \<Rightarrow> risk_finding list \<Rightarrow> bool" where
  "silent b fs \<longleftrightarrow> filter (\<lambda>f. bucket f = b) fs = []"

lemma silent_Nil [silent_simps]: "silent b []"
  by (simp add: silent_def)

lemma silent_append [silent_simps]: "silent b (xs @ ys) \<longleftrightarrow> silent b xs \<and> silent b ys"
  by (simp add: silent_def)

lemma silent_append_to [silent_simps]: "silent b (append_to bs r m p) \<longleftrightarrow> b \<notin> set bs"
  by (auto simp: silent_def append_to_def filter_empty_conv)

lemma silent_report [silent_simps]: "silent b (report c bs r m p) \<longleftrightarrow> \<not> c \<or> b \<notin> set bs"
  by (simp add: report_def silent_append_to silent_Nil)

lemma silent_concat [silent_simps]: "silent b (concat (map f xs)) \<longleftrightarrow> (\<forall>x\<in>set xs. silent b (f x))"
  by (induction xs) (auto simp: silent_simps)

lemma silent_if [silent_simps]: "silent b (if c then xs else ys) \<longleftrightarrow> (if c then silent b xs else silent b ys)"
  by simp

lemma silent_indexed: "silent b (indexed f xs) \<longleftrightarrow> (\<forall>i<length xs. silent b (f i (xs ! i)))"
  by (auto simp: indexed_def silent_concat set_enumerate)

lemma silent_indexedD:
  assumes "silent b (indexed f xs)" "x \<in> set xs"
  obtains i where "silent b (f i x)"
  using assms unfolding silent_indexed by (metis in_set_conv_nth)

lemma run_rules_silent:
  "silent b (run_rules doc level r a h) \<longleftrightarrow>
     silent b (primary_rules doc) \<and> silent b (hypothesis_rules doc level) \<and> silent b (branch_rules doc)
     \<and> silent b (control_rules doc level) \<and> silent b (genealogical_rules doc level)
     \<and> silent b (causal_rules doc level) \<and> silent b (history_rules doc)
     \<and> silent b (contribution_rules doc) \<and> silent b (list_rules doc)
     \<and> silent b (validation_rules doc level r) \<and> silent b (claim_rules doc level)
     \<and> silent b (separation_rules doc) \<and> silent b (hash_rules doc r a h)"
  by (auto simp: run_rules_def semantic_rules_1_1_def silent_append)

lemma primary_silent:
  "silent ''errors'' (primary_rules doc) \<longleftrightarrow>
     is_dict (jget ''primary_hypothesis'' doc)
     \<and> jget ''risk_bearing'' (jget ''primary_hypothesis'' doc) = JBool True
     \<and> s_ok (jget ''failure_effect'' (jget ''primary_hypothesis'' doc))"
  by (simp add: primary_rules_def Let_def silent_simps)

lemma hypothesis_silent:
  "silent ''errors'' (hypothesis_rules doc level) \<Longrightarrow>
     (if level = JStr ''genealogical'' then 2 else 1) \<le> length (rivals_of doc)
     \<and> truthy (jget ''falsification_conditions'' doc)"
  by (simp add: hypothesis_rules_def Let_def silent_simps split: if_splits)

definition revising :: "json \<Rightarrow> bool" where
  "revising branch \<longleftrightarrow> is_dict branch \<and>
     (truthy (jget ''retracts_primary'' branch) \<or> truthy (jget ''changes_contribution'' branch)
      \<or> truthy (jget ''changes_center_conclusion'' branch))"

lemma branch_silent:
  "silent ''errors'' (branch_rules doc) \<longleftrightarrow> (\<exists>branch\<in>set (branches_of doc). revising branch)"
  by (auto simp: branch_rules_def Let_def silent_simps list_ex_iff revising_def)

lemma control_silent:
  assumes "one_of level control_levels" "is_locked doc"
    and "silent ''errors'' (control_rules doc level)" "silent ''approval_blockers'' (control_rules doc level)"
  shows "controls_of doc \<noteq> []"
    and "c \<in> set (controls_of doc) \<Longrightarrow> jget ''actual_result'' c \<notin> {JNull, JStr ''passes''}"
proof -
  show "controls_of doc \<noteq> []"
    using assms by (auto simp: control_rules_def Let_def silent_simps)
  show "jget ''actual_result'' c \<notin> {JNull, JStr ''passes''}" if c: "c \<in> set (controls_of doc)"
  proof -
    note h = assms(3,4) [unfolded control_rules_def Let_def silent_simps]
    have "jget ''actual_result'' c \<noteq> JStr ''passes''"
      using h(1) assms(1) c by (auto elim!: silent_indexedD [where x = c] simp: silent_simps)
    moreover have "jget ''actual_result'' c \<noteq> JNull"
      using h(2) assms(1,2) c by (auto elim!: silent_indexedD [where x = c] simp: silent_simps)
    ultimately show ?thesis by simp
  qed
qed

lemma genealogical_silent:
  assumes "silent ''errors'' (genealogical_rules doc (JStr ''genealogical''))"
    and "silent ''approval_blockers'' (genealogical_rules doc (JStr ''genealogical''))" "is_locked doc"
  shows "\<exists>m\<in>set (effective_materials doc). role_in [''validation'', ''holdout''] m"
    and "\<forall>m\<in>set (effective_materials doc). jget ''evidence_role'' m = JStr ''holdout''
           \<longrightarrow> \<not> truthy (jget ''seen_before_lock'' m)"
    and "\<exists>r\<in>set (rivals_of doc). jget ''hypothesis_kind'' r = JStr ''shared_source''"
    and "truthy (jget ''diachronic_connection_evidence'' doc)"
    and "truthy (jget ''required'' (jget ''validation_status'' doc))
           \<longrightarrow> truthy (jget ''completed'' (jget ''validation_status'' doc))"
    and "jget ''status'' (jget ''adversarial_review'' doc) = JStr ''completed''"
  using assms
  by (auto simp: genealogical_rules_def Let_def silent_simps list_ex_iff split: if_splits)

lemma causal_silent:
  assumes "silent ''errors'' (causal_rules doc (JStr ''causal''))"
  shows "truthy (jget ''mechanism_chain'' doc)" "truthy (jget ''mechanism_failure_conditions'' doc)"
    "\<exists>r\<in>set (rivals_of doc). jget ''hypothesis_kind'' r = JStr ''alternative_mechanism''"
  using assms by (auto simp: causal_rules_def Let_def silent_simps list_ex_iff)

lemma history_silent:
  assumes "is_locked doc" "silent ''errors'' (history_rules doc)"
  shows "s_ok (jget ''locked_at'' doc)"
    and "version_gt_one (jget_or ''design_version'' (JInt 1) doc) \<Longrightarrow>
      \<exists>e\<in>set (elems (jget ''design_history'' doc)).
        jget ''to_version'' e = jget_or ''design_version'' (JInt 1) doc"
  using assms by (auto simp: history_rules_def Let_def silent_simps list_ex_iff)

lemma validation_silent:
  assumes "is_locked doc" "silent ''errors'' (validation_rules doc level results)"
  shows "\<exists>c\<in>set (elems (jget ''falsification_conditions'' doc)).
           jget ''status_at_lock'' c = JStr ''genuinely_open''"
    and "traced_level level \<Longrightarrow> jget ''completed'' (jget ''validation_status'' doc) = JBool True \<Longrightarrow>
      jget ''required'' (jget ''validation_status'' doc) = JBool True \<Longrightarrow>
      (\<exists>ob\<in>set (elems (jget ''observations'' results)).
         jget ''known_before_lock'' ob = JBool False \<and> s_ok (jget ''observed_at'' ob))
      \<and> (\<forall>ob\<in>set (elems (jget ''observations'' results)).
         is_dict ob \<longrightarrow> jget ''known_before_lock'' ob \<noteq> JBool True)"
  using assms by (auto simp: validation_rules_def Let_def silent_simps list_ex_iff filter_empty_conv)

lemma support_silent:
  assumes "silent ''errors'' (validation_rules doc level results)" "jget ''primary_hypothesis'' doc \<noteq> JNull"
    and "one_of (status_of results (jget ''id'' (jget ''primary_hypothesis'' doc)))
           [''supported'', ''partially_supported'']"
  shows "\<exists>item\<in>set (elems (jget ''positive_discriminating_evidence'' results)).
    is_positive_discriminating_evidence item"
  using assms by (auto simp: validation_rules_def Let_def silent_simps list_ex_iff)

lemma separation_silent:
  assumes "silent ''errors'' (separation_rules doc)" "c \<in> set (controls_of doc)"
  shows "\<exists>ts. jget ''tests_hypotheses'' c = JList ts \<and> ts \<noteq> [] \<and> list_all s_ok ts"
proof -
  note h = assms(1) [unfolded separation_rules_def Let_def silent_simps]
  have "is_list (jget ''tests_hypotheses'' c)" "elems (jget ''tests_hypotheses'' c) \<noteq> []"
      "list_all s_ok (elems (jget ''tests_hypotheses'' c))"
    using h assms(2)
    by (auto elim!: silent_indexedD [where x = c] simp: silent_simps split: if_splits)
  then show ?thesis by (cases "jget ''tests_hypotheses'' c") (auto simp: is_list_def elems_def)
qed

lemma hash_silent:
  assumes "is_locked doc" "silent ''errors'' (hash_rules doc r a h)"
  shows "\<not> sidecar_mismatch r h" "\<not> sidecar_mismatch a h"
  using assms by (auto simp: hash_rules_def silent_simps)

end
