(* ===== verification/Risk_Pairs.thy ===== *)
theory Risk_Pairs
  imports Risk_Laws
begin

text \<open>
  The discrimination check between hypotheses. \<open>observed h c\<close> is the set of (normalised)
  observations a hypothesis predicts for an evidence class; two hypotheses discriminate when
  they predict different observations for a class both name. The loop over pairs keeps a set
  of the pairs of identifiers it has seen; on hypotheses with distinct identifiers it
  skips none.
\<close>

section \<open>One pair\<close>

definition class_of :: "json \<Rightarrow> string" where
  "class_of p = strip (text_or [] (jget ''evidence_class'' p))"

definition observation_of :: "json \<Rightarrow> string" where
  "observation_of p = lower (strip (text_or [] (jget ''expected_observation'' p)))"

definition observed :: "json \<Rightarrow> string \<Rightarrow> string set" where
  "observed h c = set (map observation_of (filter (\<lambda>p. class_of p = c) (hypothesis_predictions h)))"

lemma observed_eq:
  "observed h c = {observation_of p | p. p \<in> set (hypothesis_predictions h) \<and> class_of p = c}"
  by (auto simp: observed_def)

lemma observations_fold:
  defines "step \<equiv> \<lambda>p result. dict_put (class_of p) (observation_of p # dict_get (class_of p) [] result) result"
  shows "map_option set (map_of (fold step ps acc) c) =
    (if c \<in> set (map class_of ps) \<or> map_of acc c \<noteq> None
     then Some ({observation_of p | p. p \<in> set ps \<and> class_of p = c} \<union> set (dict_get c [] acc)) else None)"
proof (induction ps arbitrary: acc)
  case Nil
  then show ?case by (auto simp: dict_get_def)
next
  case (Cons p ps)
  have "map_option set (map_of (fold step (p # ps) acc) c) = map_option set (map_of (fold step ps (step p acc)) c)"
    by simp
  also have "\<dots> = (if c \<in> set (map class_of (p # ps)) \<or> map_of acc c \<noteq> None
     then Some ({observation_of q | q. q \<in> set (p # ps) \<and> class_of q = c} \<union> set (dict_get c [] acc)) else None)"
    unfolding Cons.IH by (auto simp: step_def dict_get_def)
  finally show ?case .
qed

lemma map_of_observations:
  "map_option set (map_of (observations_of h) c) =
     (if c \<in> class_of ` set (hypothesis_predictions h) then Some (observed h c) else None)"
  using observations_fold [where ps = "hypothesis_predictions h" and acc = "[]" and c = c]
  by (simp add: observations_of_def class_of_def observation_of_def observed_eq Let_def dict_get_def)

lemma distinct_observations: "distinct (map fst (observations_of h))"
proof -
  have "distinct (map fst (fold (\<lambda>p result. dict_put (f p) (g p result) result) ps acc))"
    if "distinct (map fst acc)" for f g ps and acc :: "(string \<times> string list) list"
    using that by (induction ps arbitrary: acc) (auto simp: distinct_dict_put)
  from this [of "[]" class_of "\<lambda>p result. observation_of p # dict_get (class_of p) [] result"] show ?thesis
    by (simp add: observations_of_def class_of_def observation_of_def Let_def)
qed

lemma pair_discriminates_observed:
  "pair_discriminates a b \<longleftrightarrow>
     (\<exists>c \<in> class_of ` set (hypothesis_predictions a) \<inter> class_of ` set (hypothesis_predictions b).
        observed a c \<noteq> observed b c)"
proof -
  have mem: "(c, vs) \<in> set (observations_of h) \<longleftrightarrow> map_of (observations_of h) c = Some vs" for c vs h
    using distinct_observations by (simp add: map_of_eq_Some_iff)
  have val: "map_of (observations_of h) c = Some vs \<Longrightarrow>
      c \<in> class_of ` set (hypothesis_predictions h) \<and> set vs = observed h c" for h c vs
    using map_of_observations [of h c] by (auto split: if_splits)
  have ex: "c \<in> class_of ` set (hypothesis_predictions h) \<Longrightarrow> \<exists>vs. map_of (observations_of h) c = Some vs"
    for h c using map_of_observations [of h c] by auto
  have "pair_discriminates a b \<longleftrightarrow> (\<exists>c vs ws. map_of (observations_of a) c = Some vs
      \<and> map_of (observations_of b) c = Some ws \<and> set vs \<noteq> set ws)"
    (is "_ \<longleftrightarrow> ?found")
  proof -
    have "pair_discriminates a b \<longleftrightarrow> (\<exists>p\<in>set (observations_of a).
        \<exists>ws. map_of (observations_of b) (fst p) = Some ws \<and> set (snd p) \<noteq> set ws)"
      unfolding pair_discriminates_def list_ex_iff case_prod_beta Let_def
      by (intro bex_cong refl) (auto split: option.splits)
    also have "\<dots> \<longleftrightarrow> ?found" using mem by (metis prod.collapse fst_conv snd_conv)
    finally show ?thesis .
  qed
  also have "\<dots> \<longleftrightarrow> (\<exists>c \<in> class_of ` set (hypothesis_predictions a) \<inter> class_of ` set (hypothesis_predictions b).
        observed a c \<noteq> observed b c)"
  proof
    assume "\<exists>c vs ws. map_of (observations_of a) c = Some vs
      \<and> map_of (observations_of b) c = Some ws \<and> set vs \<noteq> set ws"
    then obtain c vs ws where "map_of (observations_of a) c = Some vs"
      "map_of (observations_of b) c = Some ws" "set vs \<noteq> set ws" by blast
    then show "\<exists>c \<in> class_of ` set (hypothesis_predictions a) \<inter> class_of ` set (hypothesis_predictions b).
        observed a c \<noteq> observed b c"
      using val by (intro bexI [of _ c]) auto
  next
    assume "\<exists>c \<in> class_of ` set (hypothesis_predictions a) \<inter> class_of ` set (hypothesis_predictions b).
        observed a c \<noteq> observed b c"
    then obtain c where c: "c \<in> class_of ` set (hypothesis_predictions a)"
      "c \<in> class_of ` set (hypothesis_predictions b)" "observed a c \<noteq> observed b c" by blast
    obtain vs ws where "map_of (observations_of a) c = Some vs" "map_of (observations_of b) c = Some ws"
      using ex [OF c(1)] ex [OF c(2)] by blast
    then show "\<exists>c vs ws. map_of (observations_of a) c = Some vs
      \<and> map_of (observations_of b) c = Some ws \<and> set vs \<noteq> set ws"
      using val c(3) by blast
  qed
  finally show ?thesis .
qed

section \<open>All pairs\<close>

fun pairs_from :: "nat \<Rightarrow> json list \<Rightarrow> (nat \<times> json \<times> json) list" where
  "pairs_from n [] = []"
| "pairs_from n (h # hs) = map (\<lambda>s. (n, h, s)) hs @ pairs_from (Suc n) hs"

lemma hypothesis_pairs_from:
  "concat (map (\<lambda>(i, f). map (\<lambda>s. (i, f, s)) (drop (i + 1 - n) hs)) (enumerate n hs)) = pairs_from n hs"
proof (induction hs arbitrary: n)
  case (Cons h hs)
  have "map (\<lambda>(i, f). map (\<lambda>s. (i, f, s)) (drop (i + 1 - n) (h # hs))) (enumerate (Suc n) hs)
      = map (\<lambda>(i, f). map (\<lambda>s. (i, f, s)) (drop (i + 1 - Suc n) hs)) (enumerate (Suc n) hs)"
    by (rule map_cong) (auto simp: in_set_enumerate_eq Suc_diff_le)
  note tail = this
  have "concat (map (\<lambda>(i, f). map (\<lambda>s. (i, f, s)) (drop (i + 1 - n) (h # hs))) (enumerate n (h # hs)))
      = map (\<lambda>s. (n, h, s)) hs
        @ concat (map (\<lambda>(i, f). map (\<lambda>s. (i, f, s)) (drop (i + 1 - n) (h # hs))) (enumerate (Suc n) hs))"
    by simp
  also have "\<dots> = pairs_from n (h # hs)" unfolding tail Cons.IH by simp
  finally show ?case .
qed simp

lemma hypothesis_pairs_eq: "hypothesis_pairs hs = pairs_from 0 hs"
  using hypothesis_pairs_from [of 0 hs] by (simp add: hypothesis_pairs_def)

definition hid :: "json \<Rightarrow> string" where
  "hid h = text_or [] (jget ''id'' h)"

definition pair_key :: "nat \<times> json \<times> json \<Rightarrow> string \<times> string" where
  "pair_key p = (min (hid (fst (snd p))) (hid (snd (snd p))), max (hid (fst (snd p))) (hid (snd (snd p))))"

lemma text_or_named: "s_ok j \<Longrightarrow> text_or d j = text_or [] j"
  by (cases j) (auto simp: s_ok_def text_or_def nonblank_def)

lemma pairs_members: "(i, a, b) \<in> set (pairs_from n hs) \<Longrightarrow> a \<in> set hs \<and> b \<in> set hs"
  by (induction n hs rule: pairs_from.induct) auto

lemma distinct_pair_keys:
  "distinct (map hid hs) \<Longrightarrow> distinct (map pair_key (pairs_from n hs))"
proof (induction n hs rule: pairs_from.induct)
  case (2 n h hs)
  have "distinct (map (\<lambda>s. pair_key (n, h, s)) hs)"
  proof (rule distinct_map [THEN iffD2], intro conjI inj_onI)
    show "distinct hs" using "2.prems" by (simp add: distinct_map)
    fix x y assume xy: "x \<in> set hs" "y \<in> set hs" "pair_key (n, h, x) = pair_key (n, h, y)"
    then have "hid x = hid y" by (auto simp: pair_key_def min_def max_def split: if_splits)
    then show "x = y" using xy(1,2) "2.prems" by (simp add: distinct_map inj_on_def)
  qed
  moreover have fresh: "pair_key (n, h, x) \<notin> set (map pair_key (pairs_from (Suc n) hs))" for x
  proof
    assume "pair_key (n, h, x) \<in> set (map pair_key (pairs_from (Suc n) hs))"
    then obtain i a b where ab: "(i, a, b) \<in> set (pairs_from (Suc n) hs)"
      "pair_key (n, h, x) = pair_key (i, a, b)" by auto
    then have "hid h = hid a \<or> hid h = hid b"
      by (auto simp: pair_key_def min_def max_def split: if_splits)
    then have "hid h \<in> set (map hid hs)" using pairs_members [OF ab(1)] by auto
    then show False using "2.prems" by simp
  qed
  have "set (map (\<lambda>s. pair_key (n, h, s)) hs) \<inter> set (map pair_key (pairs_from (Suc n) hs)) = {}"
  proof (rule equals0I)
    fix k assume "k \<in> set (map (\<lambda>s. pair_key (n, h, s)) hs) \<inter> set (map pair_key (pairs_from (Suc n) hs))"
    then show False using fresh by (metis (no_types, lifting) IntD1 IntD2 in_set_conv_nth length_map nth_map)
  qed
  ultimately show ?case using "2.IH" "2.prems" by (simp add: comp_def)
qed simp

definition pair_warning :: "nat \<times> json \<times> json \<Rightarrow> risk_finding list" where
  "pair_warning = (\<lambda>(i, first, second).
     report (\<not> pair_discriminates first second) [''warnings''] ''RIVAL_HYPOTHESIS_NOT_DISCRIMINATING''
       (''hypotheses '' @ hid first @ '' and '' @ hid second @ '' share no discriminating evidence'')
       ''$.rival_hypotheses'')"

lemma nondiscrimination_step_fresh:
  assumes "s_ok (jget ''id'' a)" "s_ok (jget ''id'' b)" "pair_key (i, a, b) \<notin> set seen"
  shows "nondiscrimination_step (i, a, b) (seen, fs) = (pair_key (i, a, b) # seen, fs @ pair_warning (i, a, b))"
  using assms(3)
  by (simp add: nondiscrimination_step_def pair_key_def pair_warning_def hid_def Let_def
      text_or_named [OF assms(1), of "str_of_nat i"] text_or_named [OF assms(2), of "str_of_nat (Suc i)"])

lemma nondiscrimination_fold:
  assumes "\<forall>(i, a, b) \<in> set ps. s_ok (jget ''id'' a) \<and> s_ok (jget ''id'' b)"
    and "distinct (map pair_key ps)" "set (map pair_key ps) \<inter> set seen = {}"
  shows "snd (fold nondiscrimination_step ps (seen, fs)) = fs @ concat (map pair_warning ps)"
  using assms
proof (induction ps arbitrary: seen fs)
  case (Cons p ps)
  obtain i a b where p: "p = (i, a, b)" by (cases p)
  then have "nondiscrimination_step p (seen, fs) = (pair_key p # seen, fs @ pair_warning p)"
    using Cons.prems nondiscrimination_step_fresh [of a b i seen fs] by auto
  then show ?case using Cons.IH [of "pair_key p # seen" "fs @ pair_warning p"] Cons.prems by auto
qed simp

lemma nondiscrimination_all_pairs:
  assumes "list_all (\<lambda>h. s_ok (jget ''id'' h)) hs" "distinct (map hid hs)"
  shows "nondiscrimination_findings hs = concat (map pair_warning (pairs_from 0 hs))"
proof -
  have "\<forall>(i, a, b) \<in> set (pairs_from 0 hs). s_ok (jget ''id'' a) \<and> s_ok (jget ''id'' b)"
    using assms(1) pairs_members by (fastforce simp: list_all_iff)
  then show ?thesis
    using nondiscrimination_fold [of "pairs_from 0 hs" "[]" "[]"] distinct_pair_keys [OF assms(2)]
    by (simp add: nondiscrimination_findings_def hypothesis_pairs_eq)
qed

end
