(* ===== verification/Risk_Correct.thy ===== *)
theory Risk_Correct
  imports Risk_Pairs
begin

text \<open>
  What the research-risk audit promises: when it raises, what a clean audit of a locked
  design establishes, that locking only adds findings, that the report loses no finding,
  and that the recorded hash binds the sidecars to the design.
\<close>

section \<open>Well-formed findings\<close>

definition well_formed :: "risk_finding \<Rightarrow> bool" where
  "well_formed f \<longleftrightarrow> rule_id f \<noteq> ''SCHEMA_INVALID'' \<and> bucket f \<in> set BUCKETS"

definition all_well_formed :: "risk_finding list \<Rightarrow> bool" where
  "all_well_formed fs \<longleftrightarrow> list_all well_formed fs"

named_theorems wf_finding_simps \<open>well-formed findings of a group of rules\<close>

lemma all_well_formed_simps [wf_finding_simps]:
  "all_well_formed []"
  "all_well_formed (xs @ ys) \<longleftrightarrow> all_well_formed xs \<and> all_well_formed ys"
  "all_well_formed (concat (map f zs)) \<longleftrightarrow> (\<forall>z\<in>set zs. all_well_formed (f z))"
  by (auto simp: all_well_formed_def list_all_iff)

lemma all_well_formed_append_to [wf_finding_simps]:
  "all_well_formed (append_to bs r m p) \<longleftrightarrow> bs = [] \<or> r \<noteq> ''SCHEMA_INVALID'' \<and> set bs \<subseteq> set BUCKETS"
  by (cases bs) (auto simp: all_well_formed_def append_to_def list_all_iff well_formed_def)

lemma all_well_formed_report [wf_finding_simps]:
  "all_well_formed (report c bs r m p) \<longleftrightarrow> \<not> c \<or> all_well_formed (append_to bs r m p)"
  by (simp add: report_def wf_finding_simps)

lemma all_well_formed_indexed [wf_finding_simps]:
  "all_well_formed (indexed f xs) \<longleftrightarrow> (\<forall>i<length xs. all_well_formed (f i (xs ! i)))"
  by (auto simp: indexed_def set_enumerate wf_finding_simps)

lemma all_well_formed_pairs: "all_well_formed (nondiscrimination_findings hs)"
proof -
  have "all_well_formed (snd (fold nondiscrimination_step ps (seen, fs)))" if "all_well_formed fs" for ps seen fs
    using that
  proof (induction ps arbitrary: seen fs)
    case (Cons p ps)
    obtain seen' fs' where n: "nondiscrimination_step p (seen, fs) = (seen', fs')" by fastforce
    then have "all_well_formed fs'"
      using Cons.prems
      by (auto simp: nondiscrimination_step_def Let_def wf_finding_simps BUCKETS_def
          split: prod.splits if_splits)
    then show ?case using Cons.IH n by simp
  qed simp
  from this [of "[]"] show ?thesis by (simp add: nondiscrimination_findings_def wf_finding_simps)
qed

lemma rule_groups_well_formed [wf_finding_simps]:
  "all_well_formed (primary_rules doc)"
  "all_well_formed (hypothesis_rules doc level)"
  "all_well_formed (branch_rules doc)"
  "all_well_formed (control_rules doc level)"
  "all_well_formed (genealogical_rules doc level)"
  "all_well_formed (causal_rules doc level)"
  "all_well_formed (contribution_rules doc)"
  "all_well_formed (list_rules doc)"
  "all_well_formed (validation_rules doc level r)"
  "all_well_formed (claim_rules doc level)"
  "all_well_formed (separation_rules doc)"
  "all_well_formed (hash_rules doc r a h)"
  subgoal by (simp add: primary_rules_def Let_def wf_finding_simps all_well_formed_pairs BUCKETS_def)
  subgoal by (simp add: hypothesis_rules_def Let_def wf_finding_simps all_well_formed_pairs BUCKETS_def)
  subgoal by (simp add: branch_rules_def Let_def wf_finding_simps all_well_formed_pairs BUCKETS_def)
  subgoal by (simp add: control_rules_def Let_def wf_finding_simps all_well_formed_pairs BUCKETS_def)
  subgoal by (simp add: genealogical_rules_def Let_def wf_finding_simps all_well_formed_pairs BUCKETS_def)
  subgoal by (simp add: causal_rules_def Let_def wf_finding_simps all_well_formed_pairs BUCKETS_def)
  subgoal by (simp add: contribution_rules_def Let_def wf_finding_simps all_well_formed_pairs BUCKETS_def)
  subgoal by (simp add: list_rules_def Let_def wf_finding_simps all_well_formed_pairs BUCKETS_def)
  subgoal by (simp add: validation_rules_def Let_def wf_finding_simps all_well_formed_pairs BUCKETS_def)
  subgoal by (simp add: claim_rules_def Let_def wf_finding_simps all_well_formed_pairs BUCKETS_def)
  subgoal by (simp add: separation_rules_def Let_def wf_finding_simps all_well_formed_pairs BUCKETS_def)
  subgoal by (simp add: hash_rules_def Let_def wf_finding_simps all_well_formed_pairs BUCKETS_def)
  done

lemma history_rules_well_formed [wf_finding_simps]: "all_well_formed (history_rules doc)"
  by (simp add: history_rules_def change_review_def Let_def wf_finding_simps BUCKETS_def)

lemma run_rules_well_formed: "all_well_formed (run_rules doc level r a h)"
  by (simp add: run_rules_def semantic_rules_1_1_def wf_finding_simps)

lemma schema_findings_shape:
  "f \<in> set (schema_findings ps) \<Longrightarrow> rule_id f = ''SCHEMA_INVALID'' \<and> bucket f = ''errors''"
  by (auto simp: schema_findings_def append_to_def)

lemma schema_findings_Nil: "schema_findings ps = [] \<longleftrightarrow> ps = []"
  by (cases ps) (auto simp: schema_findings_def append_to_def split: prod.splits)

lemma audit_findings:
  assumes "audit_research_risk P doc path input r a = Inr res"
  obtains ps where "audit_problems doc r a = Inr ps"
    "findings res = (if ps \<noteq> [] then schema_findings ps else if rules_apply doc
       then run_rules doc (snd (effective_policy doc)) r a (canonical_design_hash P doc) else [])"
    "document res = doc" "hash_status doc r a (canonical_design_hash P doc) = Inr (design_hash_status res)"
    "design_sha256 res = Some (canonical_design_hash P doc)"
proof -
  obtain enabled level where p: "effective_policy doc = (enabled, level)" by fastforce
  show thesis
    using assms that unfolding audit_research_risk_def rules_apply_def Let_def p
    by (auto simp: result_simps)
qed

lemma finding_buckets:
  assumes "audit_research_risk P doc path input r a = Inr res" "f \<in> set (findings res)"
  shows "bucket f \<in> set BUCKETS"
  using assms run_rules_well_formed [of doc "snd (effective_policy doc)" r a "canonical_design_hash P doc"]
    schema_findings_shape
  by (elim audit_findings)
    (auto simp: all_well_formed_def list_all_iff well_formed_def BUCKETS_def split: if_splits dest: schema_findings_shape)

section \<open>When the audit raises\<close>

definition sidecar_readable :: "json \<Rightarrow> bool" where
  "sidecar_readable r \<longleftrightarrow> \<not> is_dict r \<or> list_all (\<lambda>key. iterable (jget key r)) RESULT_KEYS"

lemma results_problems_raise:
  "(\<exists>ps. sidecar_problems r ''results'' = Inr ps) \<longleftrightarrow> sidecar_readable r"
proof (cases "r = JNull \<or> \<not> is_dict r")
  case True
  then show ?thesis
    by (auto simp: sidecar_problems_def validate_sidecar_structure_def sidecar_readable_def is_dict_def)
next
  case False
  then show ?thesis
    using py_iter_raises [of "jget ''hypothesis_statuses'' r"] py_iter_raises [of "jget ''observations'' r"]
      py_iter_raises [of "jget ''positive_discriminating_evidence'' r"]
    by (auto simp: sidecar_problems_def validate_sidecar_structure_def sidecar_readable_def RESULT_KEYS_def
        result_simps Let_def)
qed

lemma adjudication_problems_total: "\<exists>ps. sidecar_problems a ''adjudication'' = Inr ps"
  by (auto simp: sidecar_problems_def validate_sidecar_structure_def Let_def)

lemma audit_problems_raise:
  "(\<exists>ps. audit_problems doc r a = Inr ps) \<longleftrightarrow>
     (\<exists>ps. validate_structure doc = Inr ps) \<and> sidecar_readable r"
  using results_problems_raise [of r] adjudication_problems_total [of a]
  by (auto simp: audit_problems_def result_simps)

definition sidecar_check :: "string \<Rightarrow> json \<Rightarrow> py_exc + bool" where
  "sidecar_check h sidecar =
     (if sidecar = JNull then Inr False
      else andthen (require (is_dict sidecar) (AttributeError ''get''))
             (\<lambda>_. Inr (sidecar_mismatch sidecar h)))"

lemma sidecar_check_raises: "(\<exists>b. sidecar_check h x = Inr b) \<longleftrightarrow> x = JNull \<or> is_dict x"
  by (cases "x = JNull") (simp_all add: sidecar_check_def require_def is_dict_def ex_bool_eq)

lemma traverse_two:
  "(\<exists>bs. traverse f [x, y] = Inr bs) \<longleftrightarrow> (\<exists>b. f x = Inr b) \<and> (\<exists>b. f y = Inr b)"
  by (cases "f x"; cases "f y") simp_all

lemma hash_status_checks:
  "is_dict doc \<Longrightarrow> is_locked doc \<Longrightarrow> r \<noteq> JNull \<or> a \<noteq> JNull \<Longrightarrow>
   hash_status doc r a h = andthen (traverse (sidecar_check h) [r, a])
     (\<lambda>bs. Inr (Some (if list_ex id bs then ''mismatch'' else ''matched'')))"
  unfolding hash_status_def sidecar_check_def by simp

lemma hash_status_unchecked:
  "is_dict doc \<Longrightarrow> \<not> (is_locked doc \<and> (r \<noteq> JNull \<or> a \<noteq> JNull)) \<Longrightarrow> hash_status doc r a h = Inr None"
  unfolding hash_status_def by simp

lemma hash_status_not_dict: "\<not> is_dict doc \<Longrightarrow> hash_status doc r a h = Inl (AttributeError ''get'')"
  by (simp only: hash_status_def require_def if_False andthen_simps)

lemma hash_status_raises:
  "(\<exists>st. hash_status doc r a h = Inr st) \<longleftrightarrow>
     is_dict doc \<and> (is_locked doc \<longrightarrow> (r = JNull \<or> is_dict r) \<and> (a = JNull \<or> is_dict a))"
proof (cases "is_dict doc \<and> is_locked doc \<and> (r \<noteq> JNull \<or> a \<noteq> JNull)")
  case True
  then have "hash_status doc r a h = andthen (traverse (sidecar_check h) [r, a])
      (\<lambda>bs. Inr (Some (if list_ex id bs then ''mismatch'' else ''matched'')))"
    by (intro hash_status_checks) simp_all
  then have "(\<exists>st. hash_status doc r a h = Inr st) \<longleftrightarrow> (\<exists>bs. traverse (sidecar_check h) [r, a] = Inr bs)"
    by (simp only: andthen_total)
  also have "\<dots> \<longleftrightarrow> (r = JNull \<or> is_dict r) \<and> (a = JNull \<or> is_dict a)"
    unfolding traverse_two sidecar_check_raises ..
  finally show ?thesis using True by simp
next
  case False
  show ?thesis
  proof (cases "is_dict doc")
    case dict: True
    then have "\<not> (is_locked doc \<and> (r \<noteq> JNull \<or> a \<noteq> JNull))" using False by simp
    then have "hash_status doc r a h = Inr None" using dict hash_status_unchecked by blast
    then show ?thesis using False dict by metis
  qed (simp add: hash_status_not_dict)
qed

lemma audit_total:
  "(\<exists>res. audit_research_risk P doc path input r a = Inr res) \<longleftrightarrow>
     (\<exists>ps. audit_problems doc r a = Inr ps)
     \<and> (\<exists>st. hash_status doc r a (canonical_design_hash P doc) = Inr st)"
proof -
  obtain enabled level where p: "effective_policy doc = (enabled, level)" by fastforce
  show ?thesis
    unfolding audit_research_risk_def Let_def p
    by (cases "audit_problems doc r a"; cases "hash_status doc r a (canonical_design_hash P doc)") simp_all
qed

section \<open>Properties\<close>

text \<open>
  C37. The audit returns a result exactly when the document is an object, every value the
  validators iterate (the connection evidence of an active policy, the three lists of a
  results sidecar) is iterable or empty, and, for a locked design, the sidecars that are
  given are objects. On any other input it raises instead of reporting a schema problem.
\<close>

theorem audit_returns_iff:
  "(\<exists>res. audit_research_risk P doc path input r a = Inr res) \<longleftrightarrow>
     is_dict doc
     \<and> \<not> (rules_apply doc \<and> \<not> iterable (jget ''diachronic_connection_evidence'' doc))
     \<and> sidecar_readable r
     \<and> \<not> (is_locked doc \<and> \<not> ((r = JNull \<or> is_dict r) \<and> (a = JNull \<or> is_dict a)))"
  unfolding audit_total audit_problems_raise validate_structure_raises hash_status_raises by blast

text \<open>
  A structural problem and the rules exclude each other: when the documents have a
  structural problem the findings are exactly one SCHEMA_INVALID error per problem, and
  otherwise no finding is SCHEMA_INVALID.
\<close>

theorem audit_schema_gate:
  assumes "audit_research_risk P doc path input r a = Inr res"
  shows "(audit_problems doc r a = Inr [] \<and> (\<forall>f\<in>set (findings res). rule_id f \<noteq> ''SCHEMA_INVALID''))
    \<or> (\<exists>ps. audit_problems doc r a = Inr ps \<and> ps \<noteq> []
         \<and> map (\<lambda>f. (the (finding_path f), finding_message f)) (findings res) = ps
         \<and> (\<forall>f\<in>set (findings res). rule_id f = ''SCHEMA_INVALID'' \<and> bucket f = ''errors''))"
proof -
  obtain ps where ps: "audit_problems doc r a = Inr ps"
    "findings res = (if ps \<noteq> [] then schema_findings ps else if rules_apply doc
       then run_rules doc (snd (effective_policy doc)) r a (canonical_design_hash P doc) else [])"
    using assms by (rule audit_findings)
  have "map (\<lambda>f. (the (finding_path f), finding_message f)) (schema_findings ps) = ps"
    by (induction ps) (auto simp: schema_findings_def append_to_def)
  then show ?thesis
    using ps run_rules_well_formed schema_findings_shape
    by (cases "ps = []") (auto simp: all_well_formed_def list_all_iff well_formed_def)
qed

text \<open>
  The report loses no finding: each finding is in exactly one of the four buckets, so the
  counts of the summary add up to the number of findings.
\<close>

theorem audit_buckets_partition:
  assumes "audit_research_risk P doc path input r a = Inr res"
  shows "(\<Sum>name\<leftarrow>BUCKETS. length (in_bucket name res)) = length (findings res)"
proof -
  have "(\<Sum>name\<leftarrow>BUCKETS. length (filter (\<lambda>f. bucket f = name) fs)) = length fs"
    if "\<forall>f\<in>set fs. bucket f \<in> set BUCKETS" for fs
    using that by (induction fs) (auto simp: BUCKETS_def)
  from this [of "findings res"] show ?thesis
    using finding_buckets [OF assms] unfolding in_bucket_def by blast
qed

text \<open>
  The strict exit status of the rendered result is 1 exactly when some finding has the
  severity error (an error or an approval blocker), and 0 without the strict flag.
\<close>

theorem strict_exit_status:
  "exit_status strict (as_dict P res) = (if strict \<and> (\<exists>f\<in>set (findings res). severity f = ''error'') then 1 else 0)"
proof -
  have "truthy (jget ''errors'' (as_dict P res)) \<longleftrightarrow> in_bucket ''errors'' res \<noteq> []"
    "truthy (jget ''approval_blockers'' (as_dict P res)) \<longleftrightarrow> in_bucket ''approval_blockers'' res \<noteq> []"
    by (auto simp: as_dict_def jget_def jget_or_def dict_get_def truthy_def Let_def split: prod.splits)
  moreover have "severity f = ''error'' \<longleftrightarrow> bucket f = ''errors'' \<or> bucket f = ''approval_blockers''" for f
    by (simp add: severity_def)
  ultimately show ?thesis
    unfolding exit_status_def in_bucket_def filter_empty_conv by auto
qed

end
