(* ===== verification/Risk_Clean.thy ===== *)
theory Risk_Clean
  imports Risk_Correct
begin

text \<open>
  Soundness of a clean audit of a locked design, the binding of the sidecars to the design
  by the recorded hash, and the effect of locking.
\<close>

definition clean :: "risk_audit_result \<Rightarrow> bool" where
  "clean res \<longleftrightarrow> in_bucket ''errors'' res = [] \<and> in_bucket ''approval_blockers'' res = []"

lemma clean_problems:
  assumes "audit_research_risk P doc path input r a = Inr res" "clean res"
  shows "audit_problems doc r a = Inr []"
proof -
  obtain ps where ps: "audit_problems doc r a = Inr ps"
    "findings res = (if ps \<noteq> [] then schema_findings ps else if rules_apply doc
       then run_rules doc (snd (effective_policy doc)) r a (canonical_design_hash P doc) else [])"
    using assms(1) by (rule audit_findings)
  have "ps = []"
  proof (rule ccontr)
    assume "ps \<noteq> []"
    then obtain f where "f \<in> set (findings res)" "bucket f = ''errors''"
      using ps(2) schema_findings_Nil [of ps] schema_findings_shape
      by (metis list.set_intros(1) neq_Nil_conv)
    then show False using assms(2) by (auto simp: clean_def in_bucket_def filter_empty_conv)
  qed
  with ps(1) show ?thesis by simp
qed

lemma clean_silent:
  assumes "audit_research_risk P doc path input r a = Inr res" "clean res"
    and "effective_policy doc = (True, level)" "level \<noteq> JStr ''none''"
  shows "silent ''errors'' (run_rules doc level r a (canonical_design_hash P doc))"
    and "silent ''approval_blockers'' (run_rules doc level r a (canonical_design_hash P doc))"
proof -
  obtain ps where ps: "audit_problems doc r a = Inr ps"
    "findings res = (if ps \<noteq> [] then schema_findings ps else if rules_apply doc
       then run_rules doc (snd (effective_policy doc)) r a (canonical_design_hash P doc) else [])"
    using assms(1) by (rule audit_findings)
  then have "findings res = run_rules doc level r a (canonical_design_hash P doc)"
    using clean_problems [OF assms(1,2)] assms(3,4) by (simp add: rules_apply_def)
  then show "silent ''errors'' (run_rules doc level r a (canonical_design_hash P doc))"
    "silent ''approval_blockers'' (run_rules doc level r a (canonical_design_hash P doc))"
    using assms(2) by (simp_all add: clean_def in_bucket_def silent_def)
qed

lemma completed_flag:
  assumes "review_problems doc = []" "truthy (jget ''completed'' (jget ''validation_status'' doc))"
  shows "jget ''completed'' (jget ''validation_status'' doc) = JBool True"
proof -
  let ?v = "jget ''validation_status'' doc"
  from assms(2) have "jget_or ''completed'' (JBool False) ?v = jget ''completed'' ?v"
    by (auto simp: jget_def jget_or_def dict_get_def truthy_def split: json.splits option.splits)
  moreover have "is_bool (jget_or ''completed'' (JBool False) ?v)"
    using assms(1) by (auto simp: review_problems_def Let_def problem_simps split: if_splits)
  ultimately show ?thesis
    using assms(2) by (cases "jget ''completed'' ?v") (auto simp: is_bool_def truthy_def)
qed

lemma audit_problems_Nil:
  "audit_problems doc r a = Inr [] \<Longrightarrow> validate_structure doc = Inr []
     \<and> sidecar_problems r ''results'' = Inr [] \<and> sidecar_problems a ''adjudication'' = Inr []"
  by (auto simp: audit_problems_def result_simps)


text \<open>
  C26. A clean audit of a locked genealogical design establishes in addition: two rivals, one of
  them a shared source; a validation or holdout material, and no holdout seen before the lock;
  connection evidence; a completed adversarial review; and, when the design says that validation is
  required, a completed validation with an observation made after the lock and none known before it.
\<close>

theorem clean_genealogical_design:
  assumes "audit_research_risk P doc path input r a = Inr res" "clean res" "is_locked doc"
    and "effective_policy doc = (True, JStr ''genealogical'')"
  shows "2 \<le> length (rivals_of doc)
    \<and> (\<exists>rival\<in>set (rivals_of doc). jget ''hypothesis_kind'' rival = JStr ''shared_source'')
    \<and> (\<exists>m\<in>set (effective_materials doc). role_in [''validation'', ''holdout''] m)
    \<and> (\<forall>m\<in>set (effective_materials doc). jget ''evidence_role'' m = JStr ''holdout''
         \<longrightarrow> \<not> truthy (jget ''seen_before_lock'' m))
    \<and> elems (jget ''diachronic_connection_evidence'' doc) \<noteq> []
    \<and> jget ''status'' (jget ''adversarial_review'' doc) = JStr ''completed''
    \<and> (jget ''required'' (jget ''validation_status'' doc) = JBool True \<longrightarrow>
         jget ''completed'' (jget ''validation_status'' doc) = JBool True
         \<and> (\<exists>ob\<in>set (elems (jget ''observations'' r)).
              jget ''known_before_lock'' ob = JBool False \<and> s_ok (jget ''observed_at'' ob))
         \<and> (\<forall>ob\<in>set (elems (jget ''observations'' r)).
              is_dict ob \<longrightarrow> jget ''known_before_lock'' ob \<noteq> JBool True))"
proof -
  have lvl: "JStr ''genealogical'' \<noteq> JStr ''none''" by simp
  note s = clean_silent [OF assms(1,2,4) lvl, unfolded run_rules_silent]
  have gs: "silent ''errors'' (genealogical_rules doc (JStr ''genealogical''))"
    "silent ''approval_blockers'' (genealogical_rules doc (JStr ''genealogical''))"
    and vs: "silent ''errors'' (validation_rules doc (JStr ''genealogical'') r)"
    and hs: "silent ''errors'' (hypothesis_rules doc (JStr ''genealogical''))"
    using s by blast+
  note g = genealogical_silent [OF gs assms(3)]
  have two: "2 \<le> length (rivals_of doc)" using hypothesis_silent [OF hs] by simp
  have v: "validate_structure doc = Inr []" "rules_apply doc"
    using audit_problems_Nil [OF clean_problems [OF assms(1,2)]] assms(4)
    by (simp_all add: rules_apply_def)
  have "is_list (jget ''diachronic_connection_evidence'' doc)"
    using validate_structure_parts(6) [OF v] by (rule diachronic_shape)
  then have "elems (jget ''diachronic_connection_evidence'' doc) \<noteq> []"
    using g(4) by (cases "jget ''diachronic_connection_evidence'' doc")
      (auto simp: is_list_def elems_def truthy_def)
  moreover have "traced_level (JStr ''genealogical'')" by (simp add: traced_level_def one_of_def)
  note validation_silent(2) [OF assms(3) vs this]
  moreover have "truthy (JBool True)" by (simp add: truthy_def)
  moreover note completed_flag [OF validate_structure_parts(13) [OF v]]
  ultimately show ?thesis using two g by metis
qed

section \<open>The recorded hash\<close>






text \<open>
  The hash of a design does not depend on the order in which the keys of the document were
  written.
\<close>

theorem design_hash_key_order:
  assumes "mset kvs = mset kvs'" "distinct (map fst kvs)"
  shows "canonical_design_hash P (JObj kvs) = canonical_design_hash P (JObj kvs')"
  unfolding canonical_design_hash_def dumps_sorted_def sort_keys_perm [OF assms] ..

section \<open>Discrimination\<close>

text \<open>
  For hypotheses with distinct identifiers the check reports every pair exactly once: its
  findings are one warning, in the order of the pairs, for each pair of positions \<open>i < j\<close> whose
  hypotheses predict the same observations for every evidence class both of them name.
\<close>

theorem nondiscrimination_reports_each_pair:
  assumes "list_all (\<lambda>h. s_ok (jget ''id'' h)) hs" "distinct (map hid hs)"
  shows "nondiscrimination_findings hs = concat (map (\<lambda>(i, first, second).
      report (\<forall>c \<in> class_of ` set (hypothesis_predictions first)
                  \<inter> class_of ` set (hypothesis_predictions second).
                observed first c = observed second c)
        [''warnings''] ''RIVAL_HYPOTHESIS_NOT_DISCRIMINATING''
        (''hypotheses '' @ hid first @ '' and '' @ hid second @ '' share no discriminating evidence'')
        ''$.rival_hypotheses'') (pairs_from 0 hs))"
  unfolding nondiscrimination_all_pairs [OF assms] pair_warning_def pair_discriminates_observed
  by simp

end
