(* ===== verification/Risk_Lock.thy ===== *)
theory Risk_Lock
  imports Risk_Clean
begin

text \<open>
  Locking a design: what changes between the audit of a draft and the audit of the same design
  once its status says locked. Every rule a draft is held to, the locked design is held to.
\<close>

definition lock :: "json \<Rightarrow> json" where
  "lock doc = (case doc of JObj kvs \<Rightarrow> JObj (dict_put ''design_status'' (JStr ''locked'') kvs) | _ \<Rightarrow> doc)"

named_theorems lock_simps \<open>parts of a document that locking keeps\<close>

lemma jget_or_lock [lock_simps]: "k \<noteq> ''design_status'' \<Longrightarrow> jget_or k d (lock doc) = jget_or k d doc"
  by (cases doc) (simp_all add: lock_def jget_or_def dict_get_def)

lemma jget_lock [lock_simps]: "k \<noteq> ''design_status'' \<Longrightarrow> jget k (lock doc) = jget k doc"
  by (simp add: jget_def lock_simps)

lemma jhas_lock [lock_simps]: "k \<noteq> ''design_status'' \<Longrightarrow> jhas k (lock doc) \<longleftrightarrow> jhas k doc"
  by (cases doc) (simp_all add: lock_def jhas_def dict_has_def keys_dict_put del: set_map)

lemma is_locked_lock [lock_simps]: "is_dict doc \<Longrightarrow> is_locked (lock doc)"
  by (cases doc) (simp_all add: lock_def is_locked_def is_dict_def jget_def jget_or_def dict_get_def)

lemma parts_lock [lock_simps]:
  "rivals_of (lock doc) = rivals_of doc" "controls_of (lock doc) = controls_of doc"
  "branches_of (lock doc) = branches_of doc" "effective_materials (lock doc) = effective_materials doc"
  "hypotheses_of (lock doc) = hypotheses_of doc" "bridge_dimensions (lock doc) = bridge_dimensions doc"
  "effective_policy (lock doc) = effective_policy doc"
  by (simp_all add: rivals_of_def controls_of_def branches_of_def effective_materials_def hypotheses_of_def
      bridge_dimensions_def effective_policy_def lock_simps cong: if_cong)

lemma groups_lock [lock_simps]:
  "primary_rules (lock doc) = primary_rules doc"
  "hypothesis_rules (lock doc) level = hypothesis_rules doc level"
  "branch_rules (lock doc) = branch_rules doc"
  "causal_rules (lock doc) level = causal_rules doc level"
  "contribution_rules (lock doc) = contribution_rules doc"
  "list_rules (lock doc) = list_rules doc"
  "claim_rules (lock doc) level = claim_rules doc level"
  by (simp_all add: primary_rules_def hypothesis_rules_def branch_rules_def causal_rules_def
      contribution_rules_def list_rules_def claim_rules_def lock_simps)

lemma set_report: "set (report c bs r m p) = (if c then set (append_to bs r m p) else {})"
  by (simp add: report_def)

lemma append_to_mono: "set bs \<subseteq> set bs' \<Longrightarrow> set (append_to bs r m p) \<subseteq> set (append_to bs' r m p)"
  by (auto simp: append_to_def)

lemma report_mono: "(c \<Longrightarrow> c') \<Longrightarrow> set bs \<subseteq> set bs' \<Longrightarrow> set (report c bs r m p) \<subseteq> set (report c' bs' r m p)"
  using append_to_mono [of bs bs' r m p] by (auto simp: set_report)

lemma indexed_mono:
  "(\<And>i x. x \<in> set xs \<Longrightarrow> set (f i x) \<subseteq> set (g i x)) \<Longrightarrow> set (indexed f xs) \<subseteq> set (indexed g xs)"
  unfolding set_indexed using nth_mem by (intro UN_mono) auto

lemma concat_mono:
  "(\<And>x. x \<in> set xs \<Longrightarrow> set (f x) \<subseteq> set (g x)) \<Longrightarrow> set (concat (map f xs)) \<subseteq> set (concat (map g xs))"
  by auto

lemma append_mono: "set a \<subseteq> set a' \<Longrightarrow> set b \<subseteq> set b' \<Longrightarrow> set (a @ b) \<subseteq> set (a' @ b')"
  by auto

lemmas finding_mono = append_mono indexed_mono concat_mono report_mono append_to_mono

lemma control_rules_lock:
  assumes "is_dict doc" "\<not> is_locked doc"
  shows "set (control_rules doc level) \<subseteq> set (control_rules (lock doc) level)"
proof (cases "one_of level control_levels")
  case True
  show ?thesis
    using True assms(2) is_locked_lock [OF assms(1)]
    unfolding control_rules_def Let_def parts_lock
    by (simp only: if_True if_False not_True_eq_False)
      (intro append_mono indexed_mono report_mono; (intro subset_refl)?; auto simp: append_to_def)
qed (simp add: control_rules_def)

lemma genealogical_rules_lock:
  assumes "is_dict doc" "\<not> is_locked doc"
  shows "set (genealogical_rules doc level) \<subseteq> set (genealogical_rules (lock doc) level)"
  using assms is_locked_lock [OF assms(1)]
  by (auto simp: genealogical_rules_def Let_def lock_simps)

lemma history_rules_lock:
  assumes "is_dict doc" "\<not> is_locked doc"
  shows "set (history_rules doc) \<subseteq> set (history_rules (lock doc))"
  using assms is_locked_lock [OF assms(1)]
  by (auto simp: history_rules_def Let_def lock_simps split: if_splits)

lemma validation_rules_lock:
  assumes "is_dict doc" "\<not> is_locked doc"
  shows "set (validation_rules doc level r) \<subseteq> set (validation_rules (lock doc) level r)"
  using assms by (auto simp: validation_rules_def Let_def lock_simps set_report)

lemma separation_rules_lock:
  assumes "is_dict doc" "\<not> is_locked doc"
  shows "set (separation_rules doc) \<subseteq> set (separation_rules (lock doc))"
proof -
  have keys: "list_ex (\<lambda>key. jhas key (lock doc)) RESULT_KEYS = list_ex (\<lambda>key. jhas key doc) RESULT_KEYS"
    "list_ex (\<lambda>key. jhas key (lock doc)) ADJUDICATION_KEYS = list_ex (\<lambda>key. jhas key doc) ADJUDICATION_KEYS"
    by (simp_all add: RESULT_KEYS_def ADJUDICATION_KEYS_def lock_simps)
  show ?thesis
    unfolding separation_rules_def Let_def parts_lock keys
    using assms is_locked_lock [OF assms(1)]
    by (intro append_mono indexed_mono report_mono) (auto simp: lock_simps)
qed

text \<open>
  Locking a design only adds findings: every finding the rules report for a draft, in
  whichever bucket, they report for the same design once it is locked.
\<close>

theorem locking_only_adds_findings:
  assumes "is_dict doc" "\<not> is_locked doc"
  shows "set (run_rules doc level r a h) \<subseteq> set (run_rules (lock doc) level r a h')"
proof -
  have "hash_rules doc r a h = []" using assms(2) by (simp add: hash_rules_def)
  then have none: "set (hash_rules doc r a h) \<subseteq> set (hash_rules (lock doc) r a h')" by simp
  show ?thesis
    unfolding run_rules_def semantic_rules_1_1_def groups_lock
    by (intro append_mono subset_refl none control_rules_lock [OF assms] genealogical_rules_lock [OF assms]
        history_rules_lock [OF assms] validation_rules_lock [OF assms] separation_rules_lock [OF assms])
qed

end
