(* ===== verification/Risk_Samples.thy ===== *)
theory Risk_Samples
  imports Risk_Lock
begin

text \<open>
  A concrete locked genealogical design with its results sidecar, its audit, and the instances
  of the properties of the audit at these documents.
\<close>

definition zero_digest :: string where
  "zero_digest = replicate 64 (CHR ''0'')"

definition sample_prims :: prims where
  "sample_prims = \<lparr>sha256 = (\<lambda>_. zero_digest), float_repr = (\<lambda>_. []), iso_stamp = (\<lambda>_. []),
     isoformat = (\<lambda>_. []), py_repr = (\<lambda>_. [])\<rparr>"

definition sample_primary :: json where
  "sample_primary = JObj
     [(''id'', JStr ''h0''), (''statement'', JStr ''s''), (''risk_bearing'', JBool True),
      (''failure_effect'', JStr ''f''),
      (''predictions'', JList [JObj [(''evidence_class'', JStr ''e''), (''expected_observation'', JStr ''A'')]])]"

definition sample_rivals :: "json list" where
  "sample_rivals =
     [JObj [(''id'', JStr ''h1''), (''statement'', JStr ''s''), (''hypothesis_kind'', JStr ''shared_source''),
        (''predictions'', JList [JObj [(''evidence_class'', JStr ''e''), (''expected_observation'', JStr ''B'')]])],
      JObj [(''id'', JStr ''h2''), (''statement'', JStr ''s''),
        (''predictions'', JList [JObj [(''evidence_class'', JStr '' e''), (''expected_observation'', JStr ''a '')]])]]"

definition sample_design :: json where
  "sample_design = JObj
     [(''schema_version'', JStr ''1.1''), (''enabled'', JBool True), (''policy_level'', JStr ''genealogical''),
      (''design_version'', JInt 1), (''design_status'', JStr ''locked''), (''locked_at'', JStr ''t''),
      (''research_question'', JStr ''q''), (''primary_hypothesis'', sample_primary),
      (''rival_hypotheses'', JList sample_rivals),
      (''falsification_conditions'', JList [JObj [(''id'', JStr ''f1''), (''statement'', JStr ''s''),
         (''status_at_lock'', JStr ''genuinely_open'')]]),
      (''operational_criteria'', JList []),
      (''diachronic_connection_evidence'', JList [JObj [(''connection_type'', JStr ''self_citation'')]]),
      (''mechanism_chain'', JList []), (''mechanism_failure_conditions'', JList []),
      (''materials'', JList []),
      (''holdout_sources'', JList [JObj [(''id'', JStr ''m1''), (''source_ref'', JStr ''r'')]]),
      (''negative_controls'', JList [JObj [(''id'', JStr ''c1''), (''source_ref'', JStr ''r''),
         (''reason_for_control'', JStr ''w''), (''expected_result'', JStr ''x''),
         (''actual_result'', JStr ''fails''), (''tests_hypotheses'', JList [JStr ''h1''])]]),
      (''outcome_branches'', JObj [(''b'', JObj [(''conclusion_effect'', JStr ''x''),
         (''retracts_primary'', JBool True)])]),
      (''contribution_type'', JObj [(''primary'', JStr ''methodological_framework''), (''secondary'', JList [])]),
      (''bridge_assessments'', JList []),
      (''adversarial_review'', JObj [(''status'', JStr ''completed'')]),
      (''validation_status'', JObj [(''required'', JBool True), (''completed'', JBool True)]),
      (''design_history'', JList [])]"

definition sample_results :: json where
  "sample_results = JObj
     [(''schema_version'', JStr ''1.1''), (''design_version'', JInt 1), (''design_sha256'', JStr zero_digest),
      (''hypothesis_statuses'', JList []), (''positive_discriminating_evidence'', JList []),
      (''observations'', JList [JObj [(''id'', JStr ''o1''), (''evidence_class'', JStr ''e''),
         (''outcome'', JStr ''A''), (''observed_at'', JStr ''t''), (''known_before_lock'', JBool False)]])]"

lemma sample_problems: "audit_problems sample_design sample_results JNull = Inr []"
  by code_simp

lemma sample_policy: "effective_policy sample_design = (True, JStr ''genealogical'')"
  by code_simp

lemma sample_rules:
  "list_all (\<lambda>f. bucket f \<noteq> ''errors'' \<and> bucket f \<noteq> ''approval_blockers'')
     (run_rules sample_design (JStr ''genealogical'') sample_results JNull zero_digest)"
  by code_simp

lemma sample_hash: "canonical_design_hash sample_prims d = zero_digest"
  by (simp add: canonical_design_hash_def sample_prims_def)

lemma sample_status: "hash_status sample_design sample_results JNull zero_digest = Inr (Some ''matched'')"
  by code_simp

definition sample_result :: risk_audit_result where
  "sample_result =
     \<lparr>document = sample_design,
      findings = run_rules sample_design (JStr ''genealogical'') sample_results JNull zero_digest,
      input_sha256 = zero_digest, source_path = None,
      design_sha256 = Some zero_digest, design_hash_status = Some ''matched''\<rparr>"

lemma sample_audit:
  "audit_research_risk sample_prims sample_design None (Some []) sample_results JNull = Inr sample_result"
  unfolding audit_research_risk_def Let_def sample_hash sample_problems sample_policy
  by (simp add: sample_status sample_result_def) (simp add: sample_prims_def)

lemma sample_clean: "clean sample_result"
  using sample_rules by (simp add: clean_def in_bucket_def sample_result_def filter_empty_conv list_all_iff)

lemma sample_locked: "is_locked sample_design"
  by code_simp


section \<open>Instances\<close>

lemma audit_schema_gate_witness:
  "list_all (\<lambda>f. rule_id f \<noteq> ''SCHEMA_INVALID'') (findings sample_result)"
  using audit_schema_gate [OF sample_audit] sample_problems by (auto simp: list_all_iff)

lemma audit_buckets_partition_witness:
  "(\<Sum>name\<leftarrow>BUCKETS. length (in_bucket name sample_result)) = length (findings sample_result)"
  using audit_buckets_partition [OF sample_audit] .


lemma clean_genealogical_design_witness:
  "2 \<le> length (rivals_of sample_design)
   \<and> jget ''status'' (jget ''adversarial_review'' sample_design) = JStr ''completed''"
  using clean_genealogical_design [OF sample_audit sample_clean sample_locked sample_policy] by simp


lemma design_hash_key_order_witness:
  "canonical_design_hash sample_prims (JObj [(''a'', JNull), (''b'', JInt 1)])
     = canonical_design_hash sample_prims (JObj [(''b'', JInt 1), (''a'', JNull)])"
  by (rule design_hash_key_order) simp_all

lemma nondiscrimination_reports_each_pair_witness:
  "map finding_message (nondiscrimination_findings (sample_primary # sample_rivals))
     = [''hypotheses h0 and h2 share no discriminating evidence'']"
proof -
  let ?hs = "sample_primary # sample_rivals"
  have "list_all (\<lambda>h. s_ok (jget ''id'' h)) ?hs" "distinct (map hid ?hs)" by code_simp+
  note each = nondiscrimination_reports_each_pair [OF this]
  show ?thesis
    unfolding each by code_simp
qed

lemma locking_only_adds_findings_witness:
  "set (run_rules (JObj []) (JStr ''causal'') JNull JNull [])
     \<subseteq> set (run_rules (lock (JObj [])) (JStr ''causal'') JNull JNull zero_digest)"
  by (rule locking_only_adds_findings) (code_simp, code_simp)

end
