(* ===== verification/Spec2Isabelle.thy ===== *)
theory Spec2Isabelle
  imports Budget_Amounts Budget_Correct Budget_Ledger Budget_Promises Checkpoint_Correct Completion_Correct
    Completion_Effect Completion_Gate Completion_History Completion_Input Completion_Json
    Completion_Laws Completion_Passes Completion_Promises Completion_Result Completion_Run
    Completion_Samples Contract_Correct Contract_Instances Control_Coherent Control_Correct
    Control_Db Control_Effects Control_Frames Control_Instances Control_Iteration Control_Lease
    Control_Log Control_Ops Control_Promises Control_Samples Control_Step Control_Verify
    Control_Work Graph_Correct Graph_Laws Graph_Samples Graph_Witness Ids Iteration_Correct Json
    Json_Laws Json_Unique Lineage_Witness Log_Promises Payload_Guard Prelude Rehydration_Correct
    Report_Correct Research_Checkpoint Research_Discussion Research_Graph Research_Objects
    Research_Proposals Research_Rehydration Research_Report Research_Review Research_Strategy
    Risk_Audit Risk_Clean Risk_Correct Risk_Document Risk_Laws Risk_Lock Risk_Pairs Risk_Rules
    Risk_Samples Run_Correct Run_Laws Run_Machine Run_State Sample_Digest System
begin

text \<open>
  A model of the parts of \<open>research_kb\<close> that decide what a long research run may do and what a
  report may say, translated from \<open>src/src/research_kb\<close>. Definitions keep the names of the source.

  \<^bold>\<open>The program.\<close> A Max run is proposed, approved by a human, and worked on in iterations by one
  holder of a lease; every change is written to a control database together with an event, a
  state transition and, for money and tokens, a ledger entry. What the run produces is a graph of
  versioned objects and relations, from which a research state, a report and checkpoints are
  derived. Apart from this, a research-risk audit checks the design document of a study. All of it
  rests on canonical JSON, its digest, and identifiers computed from the digest.

  \<^bold>\<open>Foundations.\<close>
  \<^item> \<open>Prelude\<close>: lists, options, association lists read as dictionaries, and the result type
    \<open>error + 'a\<close> with \<open>andthen\<close>, \<open>traverse\<close>, \<open>fold_result\<close> and the collection \<open>result_simps\<close>,
    which takes a chain of guarded steps apart.
  \<^item> \<open>Json\<close>, \<open>Json_Laws\<close>, \<open>Json_Unique\<close> (\<open>max_research/contract/base.py\<close>): Python values,
    \<open>model_to_dict\<close>, \<open>canonical_json\<close>, \<open>canonical_sha256\<close>, \<open>deep_freeze\<close>, the issue collector and
    the mapping boundary; the text is independent of the order of keys and determines the value.
  \<^item> \<open>Ids\<close>, \<open>Contract_Correct\<close> (\<open>contract/ids.py\<close>): stable, version, relation and event
    identifiers, their grammar, round trips, totality and distinctness.

  \<^bold>\<open>The run contract.\<close> \<open>Run_State\<close>, \<open>Run_Laws\<close>, \<open>Run_Correct\<close> (\<open>contract/models.py\<close>,
  \<open>contract/validator.py\<close>): start approvals, run states, approval consumptions and the pure
  transition \<open>transition_run_state\<close>. \<open>Run_Correct\<close> shows that a transition follows the table, raises
  the version and keeps the bindings, and that no history passes approval without exactly one
  human decision bound to the run.

  \<^bold>\<open>The control database.\<close> (\<open>max_research/persistence/repository.py\<close>, \<open>control_models.py\<close>,
  \<open>policy.py\<close>)
  \<^item> \<open>Payload_Guard\<close>: \<open>_reject_untrusted_payload\<close>; \<open>Control_Db\<close>: the tables as a record, rows,
    events, fences; \<open>Control_Lease\<close>: leases; \<open>Control_Ops\<close>: propose, approve, start, pause, cancel,
    resume; \<open>Control_Iteration\<close>: iterations; \<open>Budget_Amounts\<close>, \<open>Budget_Ledger\<close>: quantities, the
    ledger, receipts and the budget operations; \<open>Control_Verify\<close>: the verifiers and the event pages.
  \<^item> \<open>Control_Frames\<close>, \<open>Control_Effects\<close>, \<open>Control_Work\<close>, \<open>Control_Log\<close>: for each operation which
    tables it leaves alone, what it appends and what it keeps, collected into one effect relation.
  \<^item> \<open>System\<close> states the locales: a transition system with an invariant, append-only logs, numbered
    holders. \<open>Control_Step\<close> defines the step relation (any operation, any actor, any clock readings),
    reachability, and interprets the locales; \<open>Control_Coherent\<close> proves the invariant \<open>coherent\<close>;
    \<open>Run_Machine\<close> is the abstract machine, with the refinement in \<open>Control_Correct\<close>.
  \<^item> \<open>Control_Promises\<close>, \<open>Iteration_Correct\<close>, \<open>Budget_Correct\<close>, \<open>Budget_Promises\<close>,
    \<open>Log_Promises\<close> hold the properties; \<open>Control_Samples\<close> and \<open>Control_Instances\<close> concrete
    databases (an empty one, one with a proposed run, one with a running run, a lease, an iteration
    and a ledger) on which they are applied.

  Reachability ranges over the operations modelled here, each a transaction: it either returns a
  new database or fails and leaves the old one, as the connection does. The readings of the clock
  are an argument of every operation, one per call of the source, and are not assumed to grow.
  Floating-point sums take a rounding function; theorems about amounts assume whole numbers, on
  which rounding is exact. The SHA-256 function, the rendering of floats and of time stamps are
  fields of the record \<open>prims\<close>; where a theorem needs it, that the digest is 64 hexadecimal digits
  or separates two given texts is a hypothesis.

  \<^bold>\<open>The research graph.\<close> (\<open>contract/models.py\<close>, \<open>contract/validator.py\<close>)
  \<^item> \<open>Research_Objects\<close>, \<open>Research_Graph\<close>: canonical objects and relations, their validators, the
    look-up tables, version chains, the evidence trace of a claim and \<open>rebuild_research_state\<close>.
  \<^item> \<open>Graph_Laws\<close>, \<open>Graph_Correct\<close>: the validators mean a condition on the sets of objects and
    relations (\<open>trace_meaning\<close>, \<open>rebuild_meaning\<close>), from which the properties of a rebuilt state
    follow.
  \<^item> \<open>Research_Report\<close>, \<open>Report_Correct\<close>: source links, \<open>validate_report_projection\<close> and
    \<open>project_report\<close>; an accepted report is grounded in the evidence chains of its claims.
  \<^item> \<open>Research_Checkpoint\<close>, \<open>Checkpoint_Correct\<close>: checkpoints, their lineage and the rehydration
    policy. \<open>Graph_Samples\<close>, \<open>Graph_Witness\<close> and \<open>Lineage_Witness\<close> hold the instances.

  \<^bold>\<open>Completion.\<close> (\<open>contract/models.py\<close>, \<open>contract/validator.py\<close>) A run is completed on an
  input that carries the charter, the run and research states, the final report and everything
  that has reviewed them.
  \<^item> \<open>Research_Strategy\<close>: searches, fingerprints, snapshots and \<open>evaluate_saturation\<close>;
    \<open>Research_Discussion\<close>: discussion sessions; \<open>Research_Review\<close>: cold reviews;
    \<open>Research_Rehydration\<close>: \<open>rehydrate\<close>; \<open>Research_Proposals\<close>: speculative ideas, acquisition
    requests and epistemic conflicts.
  \<^item> \<open>Completion_Gate\<close>, \<open>Completion_Input\<close>, \<open>Completion_Result\<close>: the charter, the input and its
    checks, \<open>evaluate_completion_gate\<close>, \<open>evaluate_completion_result\<close>, \<open>validate_completion_result\<close>
    and the completing transition.
  \<^item> \<open>Completion_Laws\<close>, \<open>Completion_Correct\<close>: what a passed gate has checked, that a run is
    completed only on a grounded report, that the transition is the one \<open>Run_State\<close> takes on the
    verdict of the evaluator, and that a passing gate suffices. \<open>Rehydration_Correct\<close>: an accepted
    rehydration keeps the prior state; the speculative history and the stability of claims.
  \<^item> \<open>Completion_Json\<close>, \<open>Completion_Samples\<close>, \<open>Completion_Passes\<close>, \<open>Contract_Instances\<close>: an input
    that passes the gate and completes a run, part by part, and the other instances.
  \<^item> \<open>Completion_History\<close> (\<open>persistence/repository.py\<close>): the completion history read from the stored
    rounds, the assembly of an input, \<open>evaluate_completion\<close> and \<open>persist_completion\<close>. The readers
    \<open>json.loads\<close> and \<open>from_mapping\<close> are the fields of \<open>completion_readers\<close>, and the stored charters
    and research states those of \<open>completion_tables\<close>. \<open>Completion_Effect\<close> makes it a step of the
    control database: rule \<open>step_complete\<close> of \<open>Control_Step\<close>.
  \<^item> \<open>Completion_Promises\<close>: no reachable run is completed by anything but a persisted completion,
    which had two stable last rounds, a round of each kind and a passing gate behind it; completion is
    decided again at persistence; a run that has ended keeps its row. \<open>Sample_Digest\<close> and
    \<open>Completion_Run\<close> give a database on which a run is completed.

  \<^bold>\<open>The audit.\<close> (\<open>research_risk.py\<close>) \<open>Risk_Document\<close>: the structure validator; \<open>Risk_Rules\<close>: the
  semantic rules; \<open>Risk_Audit\<close>: sidecars, the design hash and \<open>audit_research_risk\<close>; \<open>Risk_Laws\<close>,
  \<open>Risk_Pairs\<close>, \<open>Risk_Correct\<close>, \<open>Risk_Clean\<close>, \<open>Risk_Lock\<close>: when the audit returns, what a clean
  audit of a locked design establishes, and that locking only adds findings; \<open>Risk_Samples\<close> the
  instances.

  \<^bold>\<open>Bounds.\<close> Recursions are structural or have a measure, so no fuel is used. Strings hold the code
  points U+0000 to U+00FF. On these NFC normalisation is the identity, and \<open>canonical_json\<close> is used
  in this form; \<open>canonical_json_nfc\<close> is the function for any NFC, of which the theorem on the canonical
  text speaks. Theorems that compare stored values by their hash (\<open>event_log_determined_by_last_hash\<close>)
  speak of values within this range only. Fields of constructed records have their declared types, so
  the branches that report a field of another type, and the \<open>from_mapping\<close> parsers, are not modelled,
  except at the JSON boundary of the audit.

  \<^bold>\<open>Not modelled.\<close> Of the repository: change sets and the append of canonical rows, the writing of
  research states and checkpoints, rehydration packets (the resume check reads them as stored),
  backups and migrations. Of the contract: the \<open>from_mapping\<close> parsers (the repository reads through
  \<open>completion_readers\<close>) and the old \<open>CompletionGate\<close> record, which the evaluator refuses unread.
  The acquisition, catalogue, search, command-line, server and delivery modules and the providers,
  schedulers and executors of Max runs are input and output around these parts; SQL, files, the
  network and processes are outside the model.
\<close>

end
